(* ===== verification/Faults.thy ===== *)
theory Faults
  imports Main
begin

text \<open>
  The error values of the API: the Fault codes of \<^verbatim>\<open>common/faults.ts\<close>, the exceptions the
  services throw (a Nest \<^verbatim>\<open>HttpException\<close> with its status and response body, a plain
  \<^verbatim>\<open>Error\<close>, a Prisma error with its code, an error of a remote service with its HTTP
  status and its name or reason), and the global exception filter of
  \<^verbatim>\<open>common/fault.filter.ts\<close> that turns any of them into the one error envelope the
  client sees. The human-readable message texts are not modelled: no code branches on them.
\<close>

section \<open>Fault codes\<close>

datatype fault_code =
    SESSION_EXPIRED | INTERNAL | VALIDATION | UPSTREAM_UNAVAILABLE
  | NOT_HOST | NOT_PARTICIPANT | ROOM_NOT_FOUND | KNOCK_NOT_FOUND | NAME_REQUIRED
  | DIRECT_REJOIN_NOT_ALLOWED | RECORDING_IN_PROGRESS | NOT_RECORDING_OWNER
  | RECORDING_NOT_READY | RECORDING_NOT_FOUND | RECORDING_EXPIRED
  | RECORDING_SHARE_UNAVAILABLE | RECORDING_SHARE_NOT_ALLOWED
  | REMOTE_CONTROL_IN_PROGRESS | REMOTE_CONTROL_NOT_FOUND | REMOTE_CONTROL_NOT_ALLOWED
  | REMOTE_CONTROL_PRESENT_ACTIVE | REMOTE_CONTROL_RENEWAL_REQUIRED
  | REMOTE_CONTROL_HELPER_NOT_CONNECTED | REMOTE_CONTROL_BOOTSTRAP_INVALID
  | REMOTE_CONTROL_PROTOCOL_UNSUPPORTED | DOWNLOAD_TOKEN_INVALID | WEBHOOK_UNVERIFIED

text \<open>
  The response body an exception carries. \<open>Coded\<close> is \<^verbatim>\<open>faultBody(code, ..)\<close>;
  \<open>MaintenanceBody\<close> is the one body whose code \<^verbatim>\<open>MAINTENANCE\<close> is written as a literal
  (\<^verbatim>\<open>maintenance.service.ts\<close>); \<open>TextBody\<close> is an exception built from a message
  only; \<open>ValidationBody\<close> is the payload of the validation pipe, whose \<^verbatim>\<open>message\<close> is an
  array; \<open>CustomBody\<close> is any other object, with whether it has a \<^verbatim>\<open>message\<close> or a
  \<^verbatim>\<open>statusCode\<close> key.
\<close>

datatype response_body =
    Coded fault_code
  | MaintenanceBody
  | TextBody
  | ValidationBody
  | CustomBody bool

datatype exn =
    HttpExn nat response_body
  | JsError string
  | PrismaError string
  | ServiceError nat string

definition faultBody :: "fault_code \<Rightarrow> response_body" where
  "faultBody code = Coded code"

abbreviation "BadRequestException b \<equiv> HttpExn 400 b"
abbreviation "UnauthorizedException b \<equiv> HttpExn 401 b"
abbreviation "ForbiddenException b \<equiv> HttpExn 403 b"
abbreviation "NotFoundException b \<equiv> HttpExn 404 b"
abbreviation "ConflictException b \<equiv> HttpExn 409 b"
abbreviation "GoneException b \<equiv> HttpExn 410 b"
abbreviation "InternalServerErrorException b \<equiv> HttpExn 500 b"
abbreviation "BadGatewayException b \<equiv> HttpExn 502 b"
abbreviation "ServiceUnavailableException b \<equiv> HttpExn 503 b"

text \<open>\<^verbatim>\<open>instanceof\<close> tests of a caught exception.\<close>

fun hasStatus :: "nat list \<Rightarrow> exn \<Rightarrow> bool" where
  "hasStatus codes (HttpExn s _) = (s \<in> set codes)"
| "hasStatus codes _ = False"

definition isUniqueViolation :: "exn \<Rightarrow> bool" where
  "isUniqueViolation e = (e = PrismaError ''P2002'')"

section \<open>The exception filter\<close>

datatype envelope_code = FaultEnvelope fault_code | MaintenanceEnvelope | ErrorEnvelope

datatype normalized =
    Passthrough nat
  | Envelope nat envelope_code

definition defaultCode :: "nat \<Rightarrow> envelope_code" where
  "defaultCode status = (if status \<ge> 500 then FaultEnvelope INTERNAL else ErrorEnvelope)"

text \<open>
  The branch order of \<^verbatim>\<open>normalize\<close>: not an \<^verbatim>\<open>HttpException\<close>, a string response, an
  explicit code, a 400 with a message array, a custom payload, anything else.
\<close>

fun normalize :: "exn \<Rightarrow> normalized" where
  "normalize (HttpExn status TextBody) = Envelope status (defaultCode status)"
| "normalize (HttpExn status (Coded code)) = Envelope status (FaultEnvelope code)"
| "normalize (HttpExn status MaintenanceBody) = Envelope status MaintenanceEnvelope"
| "normalize (HttpExn status ValidationBody) =
     (if status = 400 then Envelope status (FaultEnvelope VALIDATION)
      else Envelope status (defaultCode status))"
| "normalize (HttpExn status (CustomBody hasMessageOrStatus)) =
     (if \<not> hasMessageOrStatus then Passthrough status
      else Envelope status (defaultCode status))"
| "normalize _ = Envelope 500 (FaultEnvelope INTERNAL)"

fun normalized_status :: "normalized \<Rightarrow> nat" where
  "normalized_status (Passthrough s) = s"
| "normalized_status (Envelope s _) = s"

text \<open>What the filter does with a normalized error: report and log loudly, or log quietly.\<close>

definition reportsToSentry :: "exn \<Rightarrow> bool" where
  "reportsToSentry e =
     (case normalize e of
        Passthrough s \<Rightarrow> s \<ge> 500
      | Envelope s c \<Rightarrow> s \<ge> 500 \<and> c \<noteq> MaintenanceEnvelope)"

lemma normalize_not_http: "(\<And>s b. e \<noteq> HttpExn s b) \<Longrightarrow> normalize e = Envelope 500 (FaultEnvelope INTERNAL)"
  by (cases e) auto

lemma normalized_status_http [simp]: "normalized_status (normalize (HttpExn s b)) = s"
  by (cases b) auto

end
