(* ===== verification/Prelude.thy ===== *)
theory Prelude
  imports Main Faults
begin

text \<open>
  What every component shares: the type of an effectful operation (it reads and writes a
  world and returns a value or throws), its combinators (sequencing, \<^verbatim>\<open>try/catch\<close>,
  \<^verbatim>\<open>finally\<close>, loops, \<^verbatim>\<open>Promise.all\<close>), the rules to reason about them, JavaScript
  truthiness and dates, and a few lemmas on lists.
\<close>

named_theorems run "equations that run an operation on a world"
named_theorems keeps_rules "introduction rules for invariants of operations"

section \<open>Operations that may throw\<close>

type_synonym ('w, 'a) act = "'w \<Rightarrow> (exn + 'a) \<times> 'w"

definition ret :: "'a \<Rightarrow> ('w, 'a) act" where
  "ret x w = (Inr x, w)"

definition raise :: "exn \<Rightarrow> ('w, 'a) act" where
  "raise e w = (Inl e, w)"

definition andThen :: "('w, 'a) act \<Rightarrow> ('a \<Rightarrow> ('w, 'b) act) \<Rightarrow> ('w, 'b) act" where
  "andThen m k w = (case m w of (Inl e, w') \<Rightarrow> (Inl e, w') | (Inr x, w') \<Rightarrow> k x w')"

definition seqE :: "('w, 'a) act \<Rightarrow> ('w, 'b) act \<Rightarrow> ('w, 'b) act" where
  "seqE m n = andThen m (\<lambda>_. n)"

definition catchE :: "('w, 'a) act \<Rightarrow> (exn \<Rightarrow> ('w, 'a) act) \<Rightarrow> ('w, 'a) act" where
  "catchE m h w = (case m w of (Inl e, w') \<Rightarrow> h e w' | (Inr x, w') \<Rightarrow> (Inr x, w'))"

text \<open>The outcome of \<open>m\<close> as a value, for a \<^verbatim>\<open>try\<close> block whose handler depends on how far it got.\<close>

definition tryE :: "('w, 'a) act \<Rightarrow> ('w, exn + 'a) act" where
  "tryE m w = (case m w of (r, w') \<Rightarrow> (Inr r, w'))"

text \<open>\<^verbatim>\<open>try { m } finally { f }\<close>: an exception of the finalizer replaces the outcome.\<close>

definition finallyE :: "('w, 'a) act \<Rightarrow> ('w, 'b) act \<Rightarrow> ('w, 'a) act" where
  "finallyE m f w =
     (case m w of (r, w') \<Rightarrow> (case f w' of (Inl e, w'') \<Rightarrow> (Inl e, w'') | (Inr _, w'') \<Rightarrow> (r, w'')))"

definition gets :: "('w \<Rightarrow> 'a) \<Rightarrow> ('w, 'a) act" where
  "gets f w = (Inr (f w), w)"

text \<open>Pure steps that may throw, in sequence.\<close>

definition bindR :: "exn + 'a \<Rightarrow> ('a \<Rightarrow> exn + 'b) \<Rightarrow> exn + 'b" where
  "bindR r f = (case r of Inl e \<Rightarrow> Inl e | Inr x \<Rightarrow> f x)"

fun filterR :: "('a \<Rightarrow> exn + bool) \<Rightarrow> 'a list \<Rightarrow> exn + 'a list" where
  "filterR p [] = Inr []"
| "filterR p (x # xs) =
     bindR (p x) (\<lambda>b. bindR (filterR p xs) (\<lambda>ys. Inr (if b then x # ys else ys)))"

fun mapR :: "('a \<Rightarrow> exn + 'b) \<Rightarrow> 'a list \<Rightarrow> exn + 'b list" where
  "mapR f [] = Inr []"
| "mapR f (x # xs) = bindR (f x) (\<lambda>y. bindR (mapR f xs) (\<lambda>ys. Inr (y # ys)))"

definition whenE :: "bool \<Rightarrow> ('w, unit) act \<Rightarrow> ('w, unit) act" where
  "whenE b m = (if b then m else ret ())"

text \<open>\<^verbatim>\<open>for (const x of xs) await f(x)\<close>.\<close>

fun forE :: "('a \<Rightarrow> ('w, unit) act) \<Rightarrow> 'a list \<Rightarrow> ('w, unit) act" where
  "forE f [] = ret ()"
| "forE f (x # xs) = andThen (f x) (\<lambda>_. forE f xs)"

fun mapE :: "('a \<Rightarrow> ('w, 'b) act) \<Rightarrow> 'a list \<Rightarrow> ('w, 'b list) act" where
  "mapE f [] = ret []"
| "mapE f (x # xs) = andThen (f x) (\<lambda>y. andThen (mapE f xs) (\<lambda>ys. ret (y # ys)))"

text \<open>
  \<^verbatim>\<open>Promise.all([a, b])\<close>: every operation is started, so all of them take effect; the
  result is an error when one of them failed. \<^verbatim>\<open>Promise.allSettled\<close> never fails.
\<close>

definition all2 :: "('w, 'a) act \<Rightarrow> ('w, 'b) act \<Rightarrow> ('w, 'a \<times> 'b) act" where
  "all2 a b w =
     (case a w of (ra, w1) \<Rightarrow> (case b w1 of (rb, w2) \<Rightarrow>
        ((case ra of Inl e \<Rightarrow> Inl e
          | Inr x \<Rightarrow> (case rb of Inl e \<Rightarrow> Inl e | Inr y \<Rightarrow> Inr (x, y))), w2)))"

definition all3 :: "('w, 'a) act \<Rightarrow> ('w, 'b) act \<Rightarrow> ('w, 'c) act \<Rightarrow> ('w, 'a \<times> 'b \<times> 'c) act" where
  "all3 a b c = all2 a (all2 b c)"

fun allE :: "('w, 'a) act list \<Rightarrow> ('w, 'a list) act" where
  "allE [] = ret []"
| "allE (a # as) = andThen (all2 a (allE as)) (\<lambda>(x, xs). ret (x # xs))"

definition settle :: "('w, 'a) act \<Rightarrow> ('w, unit) act" where
  "settle m = catchE (seqE m (ret ())) (\<lambda>_. ret ())"

subsection \<open>Running operations\<close>

lemma run_basic [run, simp]:
  "ret x w = (Inr x, w)"
  "raise e w = (Inl e, w)"
  "gets f w = (Inr (f w), w)"
  by (simp_all add: ret_def raise_def gets_def)

lemma whenE_simps [run, simp]:
  "whenE True m = m"
  "whenE False m = ret ()"
  by (simp_all add: whenE_def)

lemma bindR_simps [simp]:
  "bindR (Inr x) f = f x"
  "bindR (Inl e) f = Inl e"
  by (simp_all add: bindR_def)

lemma bindR_InrE:
  assumes "bindR r f = Inr y"
  obtains x where "r = Inr x" and "f x = Inr y"
  using assms by (cases r) auto

lemma andThen_ret [simp]: "andThen (ret x) k = k x"
  by (simp add: andThen_def fun_eq_iff)

lemma andThen_raise [simp]: "andThen (raise e) k = raise e"
  by (simp add: andThen_def fun_eq_iff)

lemma andThen_gets: "andThen (gets f) k w = k (f w) w"
  by (simp add: andThen_def)

lemma andThen_assoc: "andThen (andThen m k) l = andThen m (\<lambda>x. andThen (k x) l)"
  by (auto simp: andThen_def fun_eq_iff split: prod.splits sum.splits)

lemma andThen_ret_right [simp]: "andThen m ret = m"
  by (auto simp: andThen_def fun_eq_iff split: prod.splits sum.splits)

lemma catchE_ret [simp]: "catchE (ret x) h = ret x"
  by (simp add: catchE_def fun_eq_iff)

lemma catchE_raise [simp]: "catchE (raise e) h = h e"
  by (simp add: catchE_def fun_eq_iff)

text \<open>Running one step of a sequence when its outcome is known.\<close>

lemma andThen_Inr: "m w = (Inr x, w') \<Longrightarrow> andThen m k w = k x w'"
  by (simp add: andThen_def)

lemma andThen_Inl: "m w = (Inl e, w') \<Longrightarrow> andThen m k w = (Inl e, w')"
  by (simp add: andThen_def)

lemma andThen_InrE:
  assumes "andThen m k w = (Inr y, w2)"
  obtains x w1 where "m w = (Inr x, w1)" and "k x w1 = (Inr y, w2)"
  using assms by (auto simp: andThen_def split: prod.splits sum.splits)

lemma andThen_cases:
  assumes "andThen m k w = (r, w2)"
  obtains (fails) e where "m w = (Inl e, w2)" and "r = Inl e"
    | (goes) x w1 where "m w = (Inr x, w1)" and "k x w1 = (r, w2)"
  using assms by (cases "m w"; cases "fst (m w)") (auto simp: andThen_def)

lemma seqE_InrE:
  assumes "seqE m n w = (Inr y, w2)"
  obtains x w1 where "m w = (Inr x, w1)" and "n w1 = (Inr y, w2)"
  using assms by (auto simp: seqE_def elim: andThen_InrE)

lemma settle_fst [simp]: "fst (settle m w) = Inr ()"
  by (auto simp: settle_def seqE_def catchE_def andThen_def split: prod.splits sum.splits)

lemma settle_snd [simp]: "snd (settle m w) = snd (m w)"
  by (auto simp: settle_def seqE_def catchE_def andThen_def split: prod.splits sum.splits)

lemma settle_run: "settle m w = (Inr (), snd (m w))"
  by (rule prod_eqI) simp_all

lemma tryE_run: "tryE m w = (Inr (fst (m w)), snd (m w))"
  by (simp add: tryE_def split_beta)

lemma tryE_InrD: "tryE m w = (Inr r, w') \<Longrightarrow> m w = (r, w')"
  by (auto simp: tryE_run prod_eq_iff)

lemma all2_Inr_iff:
  "all2 a b w = (Inr (x, y), w2) \<longleftrightarrow> (\<exists>w1. a w = (Inr x, w1) \<and> b w1 = (Inr y, w2))"
  by (auto simp: all2_def split: prod.splits sum.splits)

lemma all3_Inr_iff:
  "all3 a b c w = (Inr (x, y, z), w3) \<longleftrightarrow>
     (\<exists>w1 w2. a w = (Inr x, w1) \<and> b w1 = (Inr y, w2) \<and> c w2 = (Inr z, w3))"
  by (auto simp: all3_def all2_Inr_iff)

section \<open>Invariants of operations\<close>

text \<open>\<open>keeps I m\<close>: whatever \<open>m\<close> returns or throws, it leads from a world of \<open>I\<close> to one.\<close>

definition keeps :: "('w \<Rightarrow> bool) \<Rightarrow> ('w, 'a) act \<Rightarrow> bool" where
  "keeps I m \<longleftrightarrow> (\<forall>w. I w \<longrightarrow> I (snd (m w)))"

lemma keepsI: "(\<And>w. I w \<Longrightarrow> I (snd (m w))) \<Longrightarrow> keeps I m"
  by (simp add: keeps_def)

lemma keepsD: "keeps I m \<Longrightarrow> I w \<Longrightarrow> I (snd (m w))"
  by (simp add: keeps_def)

lemma keeps_ret [keeps_rules]: "keeps I (ret x)"
  and keeps_raise [keeps_rules]: "keeps I (raise e)"
  and keeps_gets [keeps_rules]: "keeps I (gets f)"
  and keeps_Pair [keeps_rules]: "keeps I (Pair r)"
  by (simp_all add: keeps_def)

lemma keeps_andThen [keeps_rules]:
  "keeps I m \<Longrightarrow> (\<And>x. keeps I (k x)) \<Longrightarrow> keeps I (andThen m k)"
  unfolding keeps_def andThen_def by (auto split: prod.splits sum.splits)

lemma keeps_seqE [keeps_rules]: "keeps I m \<Longrightarrow> keeps I n \<Longrightarrow> keeps I (seqE m n)"
  by (simp add: seqE_def keeps_andThen)

lemma keeps_catchE [keeps_rules]:
  "keeps I m \<Longrightarrow> (\<And>e. keeps I (h e)) \<Longrightarrow> keeps I (catchE m h)"
  unfolding keeps_def catchE_def by (auto split: prod.splits sum.splits)

lemma keeps_tryE [keeps_rules]: "keeps I m \<Longrightarrow> keeps I (tryE m)"
  by (simp add: keeps_def tryE_run)

lemma keeps_sum [keeps_rules]:
  "(\<And>e. r = Inl e \<Longrightarrow> keeps I (f e)) \<Longrightarrow> (\<And>x. r = Inr x \<Longrightarrow> keeps I (g x)) \<Longrightarrow>
   keeps I (case r of Inl e \<Rightarrow> f e | Inr x \<Rightarrow> g x)"
  by (cases r) auto

lemma keeps_finallyE [keeps_rules]: "keeps I m \<Longrightarrow> keeps I f \<Longrightarrow> keeps I (finallyE m f)"
  unfolding keeps_def finallyE_def by (auto split: prod.splits sum.splits)

lemma keeps_whenE [keeps_rules]: "(b \<Longrightarrow> keeps I m) \<Longrightarrow> keeps I (whenE b m)"
  by (cases b) (simp_all add: keeps_ret)

lemma keeps_if [keeps_rules]:
  "(b \<Longrightarrow> keeps I m) \<Longrightarrow> (\<not> b \<Longrightarrow> keeps I n) \<Longrightarrow> keeps I (if b then m else n)"
  by simp

lemma keeps_option [keeps_rules]:
  "(x = None \<Longrightarrow> keeps I m) \<Longrightarrow> (\<And>y. x = Some y \<Longrightarrow> keeps I (k y)) \<Longrightarrow>
   keeps I (case x of None \<Rightarrow> m | Some y \<Rightarrow> k y)"
  by (cases x) auto

lemma keeps_prod [keeps_rules]:
  "(\<And>a b. p = (a, b) \<Longrightarrow> keeps I (k a b)) \<Longrightarrow> keeps I (case p of (a, b) \<Rightarrow> k a b)"
  by (cases p) auto

lemma keeps_let [keeps_rules]: "keeps I (k x) \<Longrightarrow> keeps I (let y = x in k y)"
  by simp

lemma keeps_forE [keeps_rules]: "(\<And>x. x \<in> set xs \<Longrightarrow> keeps I (f x)) \<Longrightarrow> keeps I (forE f xs)"
  by (induction xs) (auto intro: keeps_rules)

lemma keeps_mapE [keeps_rules]: "(\<And>x. x \<in> set xs \<Longrightarrow> keeps I (f x)) \<Longrightarrow> keeps I (mapE f xs)"
  by (induction xs) (auto intro: keeps_rules)

lemma keeps_all2 [keeps_rules]: "keeps I a \<Longrightarrow> keeps I b \<Longrightarrow> keeps I (all2 a b)"
  unfolding keeps_def all2_def by (auto split: prod.splits)

lemma keeps_all3 [keeps_rules]: "keeps I a \<Longrightarrow> keeps I b \<Longrightarrow> keeps I c \<Longrightarrow> keeps I (all3 a b c)"
  by (simp add: all3_def keeps_all2)

lemma keeps_allE [keeps_rules]: "(\<And>a. a \<in> set as \<Longrightarrow> keeps I a) \<Longrightarrow> keeps I (allE as)"
  by (induction as) (auto intro!: keeps_rules)

lemma keeps_settle [keeps_rules]: "keeps I m \<Longrightarrow> keeps I (settle m)"
  by (simp add: keeps_def)

text \<open>Weakest preconditions, for operations whose steps each need a different assertion.\<close>

definition wp :: "('w, 'a) act \<Rightarrow> ('a \<Rightarrow> 'w \<Rightarrow> bool) \<Rightarrow> (exn \<Rightarrow> 'w \<Rightarrow> bool) \<Rightarrow> 'w \<Rightarrow> bool" where
  "wp m Q R w = (case m w of (Inr x, w') \<Rightarrow> Q x w' | (Inl e, w') \<Rightarrow> R e w')"

lemma wp_andThen: "wp (andThen m k) Q R = wp m (\<lambda>x. wp (k x) Q R) R"
  by (auto simp: wp_def andThen_def fun_eq_iff split: prod.splits sum.splits)

lemma wp_seqE: "wp (seqE m n) Q R = wp m (\<lambda>_. wp n Q R) R"
  by (simp add: seqE_def wp_andThen)

lemma wp_catchE: "wp (catchE m h) Q R = wp m Q (\<lambda>e. wp (h e) Q R)"
  by (auto simp: wp_def catchE_def fun_eq_iff split: prod.splits sum.splits)

lemma wp_basic:
  "wp (ret x) Q R w = Q x w"
  "wp (raise e) Q R w = R e w"
  "wp (gets f) Q R w = Q (f w) w"
  by (simp_all add: wp_def)

lemma wp_mono:
  "wp m Q R w \<Longrightarrow> (\<And>x w'. Q x w' \<Longrightarrow> Q' x w') \<Longrightarrow> (\<And>e w'. R e w' \<Longrightarrow> R' e w') \<Longrightarrow> wp m Q' R' w"
  by (auto simp: wp_def split: prod.splits sum.splits)

lemma wp_Inr: "m w = (Inr x, w') \<Longrightarrow> wp m Q R w = Q x w'"
  by (simp add: wp_def)

lemma keeps_wp: "keeps I m \<longleftrightarrow> (\<forall>w. I w \<longrightarrow> wp m (\<lambda>_. I) (\<lambda>_. I) w)"
  by (auto simp: keeps_def wp_def split: prod.splits sum.splits) (metis snd_conv sum.exhaust surj_pair)+

lemmas wp_rules = wp_andThen wp_seqE wp_catchE wp_basic

section \<open>JavaScript values\<close>

text \<open>\<^verbatim>\<open>undefined\<close>, \<^verbatim>\<open>null\<close> and the empty string are falsy.\<close>

fun truthy :: "string option \<Rightarrow> bool" where
  "truthy None = False"
| "truthy (Some s) = (s \<noteq> [])"

text \<open>
  A date string, by the instant it denotes in milliseconds; \<open>None\<close> is a string that is no
  date, whose \<^verbatim>\<open>getTime()\<close> is \<^verbatim>\<open>NaN\<close>.
\<close>

type_synonym iso = "int option"

abbreviation toISOString :: "int \<Rightarrow> iso" where
  "toISOString t \<equiv> Some t"

text \<open>\<^verbatim>\<open>Math.min(a, b)\<close> of two times, \<^verbatim>\<open>NaN\<close> when one of them is.\<close>

fun min_time :: "iso \<Rightarrow> iso \<Rightarrow> iso" where
  "min_time (Some a) (Some b) = Some (min a b)"
| "min_time _ _ = None"

text \<open>\<^verbatim>\<open>!Number.isFinite(deadline) || deadline <= now\<close>.\<close>

fun expired_at :: "iso \<Rightarrow> int \<Rightarrow> bool" where
  "expired_at None now = True"
| "expired_at (Some t) now = (t \<le> now)"

lemma expired_at_mono: "expired_at d now \<Longrightarrow> now \<le> now' \<Longrightarrow> expired_at d now'"
  by (cases d) auto

lemma not_expired_iff: "\<not> expired_at d now \<longleftrightarrow> (\<exists>t. d = Some t \<and> now < t)"
  by (cases d) auto

section \<open>Rows and lists\<close>

text \<open>\<^verbatim>\<open>updateMany({ where, data })\<close> on a table: the rows changed, and how many.\<close>

definition updateRows :: "('r \<Rightarrow> bool) \<Rightarrow> ('r \<Rightarrow> 'r) \<Rightarrow> 'r list \<Rightarrow> 'r list" where
  "updateRows P f rows = map (\<lambda>r. if P r then f r else r) rows"

definition countRows :: "('r \<Rightarrow> bool) \<Rightarrow> 'r list \<Rightarrow> nat" where
  "countRows P rows = length (filter P rows)"

lemma updateRows_Nil [simp]: "updateRows P f [] = []"
  and updateRows_Cons [simp]: "updateRows P f (r # rs) = (if P r then f r else r) # updateRows P f rs"
  by (simp_all add: updateRows_def)

lemma countRows_Nil [simp]: "countRows P [] = 0"
  and countRows_Cons [simp]: "countRows P (r # rs) = (if P r then Suc (countRows P rs) else countRows P rs)"
  by (simp_all add: countRows_def)

lemma updateRows_none: "(\<And>r. r \<in> set rs \<Longrightarrow> \<not> P r) \<Longrightarrow> updateRows P f rs = rs"
  by (induction rs) auto

lemma map_updateRows: "(\<And>r. g (f r) = g r) \<Longrightarrow> map g (updateRows P f rs) = map g rs"
  by (induction rs) auto

lemma set_updateRows: "r' \<in> set (updateRows P f rs) \<longleftrightarrow> (\<exists>r \<in> set rs. r' = (if P r then f r else r))"
  by (auto simp: updateRows_def)

lemma countRows_0: "countRows P rs = 0 \<longleftrightarrow> (\<forall>r \<in> set rs. \<not> P r)"
  by (induction rs) auto

lemma countRows_pos: "0 < countRows P rs \<longleftrightarrow> (\<exists>r \<in> set rs. P r)"
  by (induction rs) auto

lemma countRows_le_1:
  "distinct (map key rs) \<Longrightarrow> (\<And>r. P r \<Longrightarrow> key r = k) \<Longrightarrow> countRows P rs \<le> 1"
proof (induction rs)
  case (Cons r rs)
  then show ?case
    by (auto simp: countRows_0)
qed simp

lemma find_Some_mem: "find P xs = Some x \<Longrightarrow> x \<in> set xs \<and> P x"
  by (induction xs) (auto split: if_splits)

lemma find_None_all: "find P xs = None \<longleftrightarrow> (\<forall>x \<in> set xs. \<not> P x)"
  by (auto simp: find_None_iff)

lemma find_append: "find P (xs @ ys) = (case find P xs of None \<Rightarrow> find P ys | Some x \<Rightarrow> Some x)"
  by (induction xs) auto

lemma find_unique:
  "distinct (map key xs) \<Longrightarrow> x \<in> set xs \<Longrightarrow> find (\<lambda>y. key y = key x) xs = Some x"
  by (induction xs) (auto simp: image_iff)

text \<open>Looking a row up after an update that keeps its key.\<close>

lemma find_updateRows:
  assumes "\<And>r. key (f r) = key r"
  shows "find (\<lambda>r. key r = k) (updateRows P f rs) =
         map_option (\<lambda>r. if P r then f r else r) (find (\<lambda>r. key r = k) rs)"
  using assms by (induction rs) auto

end
