(* ===== verification/Redis.thy ===== *)
theory Redis
  imports Prelude "HOL-Library.List_Lexorder" "HOL-Library.Char_ord"
begin

text \<open>
  The Redis commands the services use, as the repository's in-memory stand-in implements
  them (\<^verbatim>\<open>redis/fake-redis.ts\<close>, which mirrors the semantics of the real client: TTL,
  \<^verbatim>\<open>NX\<close>/\<^verbatim>\<open>XX\<close>, atomic \<^verbatim>\<open>GETDEL\<close>, index sets). Every command takes the current
  time, because it first evicts the key it touches when its TTL has passed.
  The view \<open>ent\<close> forgets that lazy eviction: it gives the live entry of a key at a time.
  The locale \<open>expiring_store\<close> states the laws the services rely on; it is interpreted on
  the commands below.
\<close>

section \<open>State and commands\<close>

record 'v entry =
  val :: 'v
  expiresAt :: "int option"

record 'v redis =
  strings :: "string \<rightharpoonup> 'v entry"
  sets :: "string \<rightharpoonup> string list"
  setExpiresAt :: "string \<rightharpoonup> int"
  zsets :: "string \<rightharpoonup> (string \<times> int) list"

datatype set_mode = Always | NX | XX

definition emptyRedis :: "'v redis" where
  "emptyRedis = \<lparr>strings = Map.empty, sets = Map.empty, setExpiresAt = Map.empty, zsets = Map.empty\<rparr>"

definition cleanupString :: "int \<Rightarrow> string \<Rightarrow> 'v redis \<Rightarrow> 'v redis" where
  "cleanupString now key r =
     (case strings r key of
        None \<Rightarrow> r
      | Some e \<Rightarrow>
          (case expiresAt e of
             None \<Rightarrow> r
           | Some t \<Rightarrow> if t \<le> now then r\<lparr>strings := (strings r)(key := None)\<rparr> else r))"

definition cleanupSet :: "int \<Rightarrow> string \<Rightarrow> 'v redis \<Rightarrow> 'v redis" where
  "cleanupSet now key r =
     (case setExpiresAt r key of
        None \<Rightarrow> r
      | Some t \<Rightarrow>
          if t \<le> now
          then r\<lparr>sets := (sets r)(key := None), setExpiresAt := (setExpiresAt r)(key := None)\<rparr>
          else r)"

definition get :: "int \<Rightarrow> string \<Rightarrow> 'v redis \<Rightarrow> 'v option \<times> 'v redis" where
  "get now key r = (let r = cleanupString now key r in (map_option val (strings r key), r))"

text \<open>\<^verbatim>\<open>set(key, value, 'EX', seconds, 'NX' | 'XX')\<close>; the result is whether it answered \<^verbatim>\<open>OK\<close>.\<close>

definition rset :: "int \<Rightarrow> string \<Rightarrow> 'v \<Rightarrow> int option \<Rightarrow> set_mode \<Rightarrow> 'v redis \<Rightarrow> bool \<times> 'v redis" where
  "rset now key v ttlSeconds mode r =
     (let r = cleanupString now key r; exists = (strings r key \<noteq> None)
      in if mode = NX \<and> exists then (False, r)
         else if mode = XX \<and> \<not> exists then (False, r)
         else (True, r\<lparr>strings := (strings r)(key \<mapsto>
                 \<lparr>val = v, expiresAt = map_option (\<lambda>s. now + s * 1000) ttlSeconds\<rparr>)\<rparr>))"

fun mget :: "int \<Rightarrow> string list \<Rightarrow> 'v redis \<Rightarrow> 'v option list \<times> 'v redis" where
  "mget now [] r = ([], r)"
| "mget now (k # ks) r =
     (let (v, r1) = get now k r; (vs, r2) = mget now ks r1 in (v # vs, r2))"

definition getdel :: "int \<Rightarrow> string \<Rightarrow> 'v redis \<Rightarrow> 'v option \<times> 'v redis" where
  "getdel now key r =
     (let (v, r) = get now key r in (v, r\<lparr>strings := (strings r)(key := None)\<rparr>))"

definition sadd :: "int \<Rightarrow> string \<Rightarrow> string \<Rightarrow> 'v redis \<Rightarrow> 'v redis" where
  "sadd now key m r =
     (let r = cleanupSet now key r;
          s = (case sets r key of None \<Rightarrow> [] | Some s \<Rightarrow> s);
          s = (if m \<in> set s then s else s @ [m])
      in r\<lparr>sets := (sets r)(key \<mapsto> s)\<rparr>)"

definition srem :: "int \<Rightarrow> string \<Rightarrow> string list \<Rightarrow> 'v redis \<Rightarrow> 'v redis" where
  "srem now key members r =
     (let r = cleanupSet now key r
      in case sets r key of
           None \<Rightarrow> r
         | Some s \<Rightarrow> r\<lparr>sets := (sets r)(key \<mapsto> filter (\<lambda>m. m \<notin> set members) s)\<rparr>)"

definition smembers :: "int \<Rightarrow> string \<Rightarrow> 'v redis \<Rightarrow> string list \<times> 'v redis" where
  "smembers now key r =
     (let r = cleanupSet now key r
      in ((case sets r key of None \<Rightarrow> [] | Some s \<Rightarrow> s), r))"

definition del1 :: "string \<Rightarrow> 'v redis \<Rightarrow> 'v redis" where
  "del1 key r =
     r\<lparr>strings := (strings r)(key := None),
       setExpiresAt := (if sets r key \<noteq> None then (setExpiresAt r)(key := None) else setExpiresAt r),
       sets := (sets r)(key := None)\<rparr>"

definition del :: "string list \<Rightarrow> 'v redis \<Rightarrow> 'v redis" where
  "del keys r = fold del1 keys r"

definition expire :: "int \<Rightarrow> string \<Rightarrow> int \<Rightarrow> 'v redis \<Rightarrow> 'v redis" where
  "expire now key seconds r =
     (let r = cleanupSet now key (cleanupString now key r)
      in case strings r key of
           Some e \<Rightarrow> r\<lparr>strings := (strings r)(key \<mapsto> e\<lparr>expiresAt := Some (now + seconds * 1000)\<rparr>)\<rparr>
         | None \<Rightarrow>
             (if sets r key \<noteq> None
              then r\<lparr>setExpiresAt := (setExpiresAt r)(key \<mapsto> now + seconds * 1000)\<rparr> else r))"

text \<open>
  Sorted sets, which the stand-in does not have: \<^verbatim>\<open>ZADD\<close> sets the score of a member, \<^verbatim>\<open>ZREM\<close>
  removes it, \<^verbatim>\<open>ZRANGEBYSCORE key min max LIMIT offset count\<close> lists members by score and, among
  equal scores, by their bytes.
\<close>

definition zmembers :: "string \<Rightarrow> 'v redis \<Rightarrow> (string \<times> int) list" where
  "zmembers key r = (case zsets r key of None \<Rightarrow> [] | Some z \<Rightarrow> z)"

definition zrem :: "string \<Rightarrow> string \<Rightarrow> 'v redis \<Rightarrow> 'v redis" where
  "zrem key m r =
     r\<lparr>zsets := (zsets r)(key \<mapsto> filter (\<lambda>(m', _). m' \<noteq> m) (zmembers key r))\<rparr>"

definition zadd :: "string \<Rightarrow> int \<Rightarrow> string \<Rightarrow> 'v redis \<Rightarrow> 'v redis" where
  "zadd key score m r =
     r\<lparr>zsets := (zsets r)(key \<mapsto> (m, score) # filter (\<lambda>(m', _). m' \<noteq> m) (zmembers key r))\<rparr>"

definition zrangebyscore :: "string \<Rightarrow> int \<Rightarrow> int \<Rightarrow> nat \<Rightarrow> nat \<Rightarrow> 'v redis \<Rightarrow> string list" where
  "zrangebyscore key low high offset count r =
     map fst (take count (drop offset
       (sort_key snd (sort_key fst (filter (\<lambda>(_, s). low \<le> s \<and> s \<le> high) (zmembers key r))))))"

section \<open>The live view\<close>

definition live :: "int \<Rightarrow> 'v entry \<Rightarrow> bool" where
  "live now e = (case expiresAt e of None \<Rightarrow> True | Some t \<Rightarrow> now < t)"

definition ent :: "int \<Rightarrow> 'v redis \<Rightarrow> string \<Rightarrow> 'v entry option" where
  "ent now r key =
     (case strings r key of None \<Rightarrow> None | Some e \<Rightarrow> if live now e then Some e else None)"

definition look :: "int \<Rightarrow> 'v redis \<Rightarrow> string \<Rightarrow> 'v option" where
  "look now r key = map_option val (ent now r key)"

definition mem :: "int \<Rightarrow> 'v redis \<Rightarrow> string \<Rightarrow> string list" where
  "mem now r key =
     (if (case setExpiresAt r key of None \<Rightarrow> True | Some t \<Rightarrow> now < t)
      then (case sets r key of None \<Rightarrow> [] | Some s \<Rightarrow> s) else [])"

text \<open>Every command evicts lazily, and no later view sees it.\<close>

lemma ent_cleanupString [simp]: "now \<le> t \<Longrightarrow> ent t (cleanupString now k r) k' = ent t r k'"
  by (auto simp: cleanupString_def ent_def live_def split: option.splits)

lemma ent_cleanupSet [simp]: "ent t (cleanupSet now k r) k' = ent t r k'"
  by (auto simp: cleanupSet_def ent_def split: option.splits)

lemma mem_cleanupSet [simp]: "now \<le> t \<Longrightarrow> mem t (cleanupSet now k r) k' = mem t r k'"
  by (auto simp: cleanupSet_def mem_def split: option.splits)

lemma mem_cleanupString [simp]: "mem t (cleanupString now k r) k' = mem t r k'"
  by (auto simp: cleanupString_def mem_def split: option.splits)

lemma strings_cleanupString: "strings (cleanupString now k r) k = ent now r k"
  by (auto simp: cleanupString_def ent_def live_def split: option.splits)

lemma sets_cleanupSet: "(case sets (cleanupSet now k r) k of None \<Rightarrow> [] | Some s \<Rightarrow> s) = mem now r k"
  by (auto simp: cleanupSet_def mem_def split: option.splits)

subsection \<open>Commands on the view\<close>

lemma get_fst [simp]: "fst (get now k r) = look now r k"
  by (simp add: get_def Let_def strings_cleanupString look_def)

lemma get_ent [simp]: "now \<le> t \<Longrightarrow> ent t (snd (get now k r)) k' = ent t r k'"
  by (simp add: get_def Let_def)

lemma get_mem [simp]: "mem t (snd (get now k r)) k' = mem t r k'"
  by (simp add: get_def Let_def)

lemma mget_fst [simp]: "fst (mget now ks r) = map (look now r) ks"
proof (induction ks arbitrary: r)
  case (Cons k ks)
  have "look now (snd (get now k r)) = look now r"
    by (simp add: look_def fun_eq_iff)
  with Cons show ?case by (simp add: split_beta Let_def)
qed simp

lemma mget_ent [simp]: "now \<le> t \<Longrightarrow> ent t (snd (mget now ks r)) k' = ent t r k'"
  by (induction ks arbitrary: r) (simp_all add: split_beta Let_def)

lemma mget_mem [simp]: "mem t (snd (mget now ks r)) k' = mem t r k'"
  by (induction ks arbitrary: r) (simp_all add: split_beta Let_def)

definition set_ok :: "int \<Rightarrow> 'v redis \<Rightarrow> string \<Rightarrow> set_mode \<Rightarrow> bool" where
  "set_ok now r key mode =
     (case mode of Always \<Rightarrow> True | NX \<Rightarrow> ent now r key = None | XX \<Rightarrow> ent now r key \<noteq> None)"

lemma set_ok_simps [simp]:
  "set_ok now r k Always"
  "set_ok now r k NX \<longleftrightarrow> ent now r k = None"
  "set_ok now r k XX \<longleftrightarrow> ent now r k \<noteq> None"
  by (simp_all add: set_ok_def)

lemma set_fst [simp]: "fst (rset now k v ttl mode r) = set_ok now r k mode"
  by (cases mode) (simp_all add: rset_def Let_def strings_cleanupString)

lemma set_ent:
  assumes "now \<le> t"
  shows "ent t (snd (rset now k v ttl mode r)) k' =
    (if k' = k \<and> set_ok now r k mode
     then (let e = \<lparr>val = v, expiresAt = map_option (\<lambda>s. now + s * 1000) ttl\<rparr>
           in if live t e then Some e else None)
     else ent t r k')"
proof (cases "set_ok now r k mode")
  case True
  then have "snd (rset now k v ttl mode r) =
      (cleanupString now k r)\<lparr>strings := (strings (cleanupString now k r))(k \<mapsto>
         \<lparr>val = v, expiresAt = map_option (\<lambda>s. now + s * 1000) ttl\<rparr>)\<rparr>"
    by (cases mode) (auto simp: rset_def Let_def strings_cleanupString)
  moreover have "strings (cleanupString now k r) k' = strings r k'" if "k' \<noteq> k"
    using that by (auto simp: cleanupString_def split: option.splits)
  ultimately show ?thesis
    using True by (auto simp: ent_def Let_def)
next
  case False
  then have "snd (rset now k v ttl mode r) = cleanupString now k r"
    by (cases mode) (simp_all add: rset_def Let_def strings_cleanupString)
  with False assms show ?thesis by simp
qed

lemma set_mem [simp]: "mem t (snd (rset now k v ttl mode r)) k' = mem t r k'"
proof -
  have "mem t (r'\<lparr>strings := s\<rparr>) k' = mem t r' k'" for r' :: "'a redis" and s
    by (simp add: mem_def)
  then show ?thesis by (simp add: rset_def Let_def)
qed

lemma getdel_fst [simp]: "fst (getdel now k r) = look now r k"
  by (simp add: getdel_def split_beta Let_def)

lemma getdel_ent: "now \<le> t \<Longrightarrow> ent t (snd (getdel now k r)) k' = (if k' = k then None else ent t r k')"
proof -
  assume "now \<le> t"
  have "ent t (r'\<lparr>strings := (strings r')(k := None)\<rparr>) k' = (if k' = k then None else ent t r' k')"
    for r' :: "'a redis"
    by (simp add: ent_def)
  with \<open>now \<le> t\<close> show ?thesis by (simp add: getdel_def split_beta Let_def)
qed

lemma getdel_mem [simp]: "mem t (snd (getdel now k r)) k' = mem t r k'"
proof -
  have "mem t (r'\<lparr>strings := s\<rparr>) k' = mem t r' k'" for r' :: "'a redis" and s
    by (simp add: mem_def)
  then show ?thesis by (simp add: getdel_def split_beta Let_def)
qed

lemma del1_ent: "ent t (del1 k r) k' = (if k' = k then None else ent t r k')"
  by (simp add: del1_def ent_def)

lemma del_ent: "ent t (del ks r) k' = (if k' \<in> set ks then None else ent t r k')"
  unfolding del_def by (induction ks arbitrary: r) (auto simp: del1_ent)

lemma del1_mem: "mem t (del1 k r) k' = (if k' = k then [] else mem t r k')"
  by (auto simp: del1_def mem_def split: option.splits)

lemma del_mem: "mem t (del ks r) k' = (if k' \<in> set ks then [] else mem t r k')"
  unfolding del_def by (induction ks arbitrary: r) (auto simp: del1_mem)

lemma sadd_ent [simp]: "ent t (sadd now k m r) k' = ent t r k'"
proof -
  have "ent t (r'\<lparr>sets := s\<rparr>) k' = ent t r' k'" for r' :: "'a redis" and s
    by (simp add: ent_def)
  then show ?thesis by (simp add: sadd_def Let_def)
qed

lemma srem_ent [simp]: "ent t (srem now k ms r) k' = ent t r k'"
proof -
  have "ent t (r'\<lparr>sets := s\<rparr>) k' = ent t r' k'" for r' :: "'a redis" and s
    by (simp add: ent_def)
  then show ?thesis by (simp add: srem_def Let_def split: option.splits)
qed

lemma smembers_fst [simp]: "fst (smembers now k r) = mem now r k"
  by (simp add: smembers_def Let_def sets_cleanupSet)

lemma smembers_ent [simp]: "ent t (snd (smembers now k r)) k' = ent t r k'"
  by (simp add: smembers_def Let_def)

lemma smembers_mem [simp]: "now \<le> t \<Longrightarrow> mem t (snd (smembers now k r)) k' = mem t r k'"
  by (simp add: smembers_def Let_def)

text \<open>The live members of an index set after adding or removing some, at the time of the command.\<close>

lemma sadd_mem:
  "mem now (sadd now k m r) k' =
     (if k' = k then (if m \<in> set (mem now r k) then mem now r k else mem now r k @ [m])
      else mem now r k')"
proof -
  let ?r = "cleanupSet now k r"
  have exp: "(case setExpiresAt ?r k of None \<Rightarrow> True | Some t \<Rightarrow> now < t)"
    by (auto simp: cleanupSet_def split: option.splits)
  have "mem now (?r\<lparr>sets := (sets ?r)(k \<mapsto> s)\<rparr>) k' = (if k' = k then s else mem now ?r k')" for s
    using exp by (auto simp: mem_def)
  then show ?thesis
    unfolding sadd_def Let_def sets_cleanupSet by simp
qed

lemma srem_mem:
  "mem now (srem now k ms r) k' =
     (if k' = k then filter (\<lambda>m. m \<notin> set ms) (mem now r k) else mem now r k')"
proof -
  let ?r = "cleanupSet now k r"
  have exp: "(case setExpiresAt ?r k of None \<Rightarrow> True | Some t \<Rightarrow> now < t)"
    by (auto simp: cleanupSet_def split: option.splits)
  have m: "mem now (?r\<lparr>sets := (sets ?r)(k \<mapsto> s)\<rparr>) k' = (if k' = k then s else mem now ?r k')" for s k'
    using exp by (auto simp: mem_def)
  have "sets ?r k = None \<Longrightarrow> mem now r k = []"
    using sets_cleanupSet [of now k r] by simp
  then show ?thesis
    using sets_cleanupSet [of now k r]
    by (auto simp: srem_def Let_def m split: option.splits)
qed

lemma expire_mem: "0 < secs \<Longrightarrow> ent now r k = None \<Longrightarrow> mem now (expire now k secs r) k' = mem now r k'"
proof -
  assume "0 < secs" "ent now r k = None"
  let ?r = "cleanupSet now k (cleanupString now k r)"
  have exp: "(case setExpiresAt ?r k of None \<Rightarrow> True | Some t \<Rightarrow> now < t)"
    by (auto simp: cleanupSet_def split: option.splits)
  have "strings ?r k = None"
    using \<open>ent now r k = None\<close> strings_cleanupString [of now k r]
    by (auto simp: cleanupSet_def split: option.splits)
  moreover have "mem now (?r\<lparr>setExpiresAt := (setExpiresAt ?r)(k \<mapsto> now + secs * 1000)\<rparr>) k' = mem now ?r k'"
    using exp \<open>0 < secs\<close> by (auto simp: mem_def)
  ultimately show ?thesis by (simp add: expire_def Let_def)
qed

lemma expire_ent:
  "now \<le> t \<Longrightarrow> ent now r k = None \<Longrightarrow> ent t (expire now k secs r) k' = ent t r k'"
proof -
  assume a: "now \<le> t" "ent now r k = None"
  let ?r = "cleanupSet now k (cleanupString now k r)"
  have "strings ?r k = None"
    using a(2) strings_cleanupString [of now k r]
    by (auto simp: cleanupSet_def split: option.splits)
  moreover have "ent t (r'\<lparr>setExpiresAt := s\<rparr>) k' = ent t r' k'" for r' :: "'a redis" and s
    by (simp add: ent_def)
  ultimately show ?thesis using a(1) by (simp add: expire_def Let_def)
qed

lemmas redis_view = set_ent getdel_ent del_ent del_mem sadd_mem srem_mem

lemma look_None [simp]: "look now r k = None \<longleftrightarrow> ent now r k = None"
  by (simp add: look_def)

lemma look_Some: "look now r k = Some v \<longleftrightarrow> (\<exists>e. ent now r k = Some e \<and> val e = v)"
  by (auto simp: look_def)

text \<open>An entry that is live later was live, and the same, before.\<close>

lemma ent_later: "ent t r k = Some e \<Longrightarrow> now \<le> t \<Longrightarrow> ent now r k = Some e"
  by (auto simp: ent_def live_def split: option.splits if_splits)

lemma ent_live: "ent now r k = Some e \<Longrightarrow> live t e \<Longrightarrow> ent t r k = Some e"
  by (auto simp: ent_def split: option.splits if_splits)

section \<open>The interface the services rely on\<close>

text \<open>
  A store of entries with a time to live: what a read, a conditional write, an atomic
  read-and-delete and a deletion promise about the view at any later time.
\<close>

locale expiring_store =
  fixes read :: "int \<Rightarrow> 'k \<Rightarrow> 's \<Rightarrow> 'v option \<times> 's"
    and put :: "int \<Rightarrow> 'k \<Rightarrow> 'v \<Rightarrow> int option \<Rightarrow> set_mode \<Rightarrow> 's \<Rightarrow> bool \<times> 's"
    and take :: "int \<Rightarrow> 'k \<Rightarrow> 's \<Rightarrow> 'v option \<times> 's"
    and drop :: "'k list \<Rightarrow> 's \<Rightarrow> 's"
    and view :: "int \<Rightarrow> 's \<Rightarrow> 'k \<Rightarrow> 'v entry option"
  assumes read_value: "fst (read now k s) = map_option val (view now s k)"
    and read_view: "now \<le> t \<Longrightarrow> view t (snd (read now k s)) k' = view t s k'"
    and put_result: "fst (put now k v ttl mode s) =
      (case mode of Always \<Rightarrow> True | NX \<Rightarrow> view now s k = None | XX \<Rightarrow> view now s k \<noteq> None)"
    and put_view: "now \<le> t \<Longrightarrow> view t (snd (put now k v ttl mode s)) k' =
      (if k' = k \<and> fst (put now k v ttl mode s)
       then (let e = \<lparr>val = v, expiresAt = map_option (\<lambda>x. now + x * 1000) ttl\<rparr>
             in if live t e then Some e else None)
       else view t s k')"
    and take_value: "fst (take now k s) = map_option val (view now s k)"
    and take_view: "now \<le> t \<Longrightarrow> view t (snd (take now k s)) k' = (if k' = k then None else view t s k')"
    and drop_view: "view t (drop ks s) k' = (if k' \<in> set ks then None else view t s k')"
    and view_later: "view t s k = Some e \<Longrightarrow> now \<le> t \<Longrightarrow> view now s k = Some e"
    and view_live: "view now s k = Some e \<Longrightarrow> live t e \<Longrightarrow> view t s k = Some e"
begin

text \<open>\<^verbatim>\<open>SET NX\<close> is a lock: after one caller got it, no other gets it until it expires.\<close>

lemma lock_excludes:
  assumes "fst (put now k v (Some ttl) NX s)" and "now \<le> t" and "t < now + ttl * 1000"
  shows "\<not> fst (put t k v' ttl' NX (snd (put now k v (Some ttl) NX s)))"
  using assms by (simp add: put_result put_view live_def Let_def)

text \<open>The lock is free again once its time to live has passed.\<close>

lemma lock_expires:
  assumes "fst (put now k v (Some ttl) NX s)" and "now \<le> t" and "now + ttl * 1000 \<le> t"
  shows "fst (put t k v' ttl' NX (snd (put now k v (Some ttl) NX s)))"
  using assms by (simp add: put_result put_view live_def Let_def)

text \<open>A value taken once is not taken again.\<close>

lemma take_once:
  assumes "now \<le> t"
  shows "fst (take t k (snd (take now k s))) = None"
  using assms by (simp add: take_value take_view)

lemma take_other:
  assumes "now \<le> t" and "k' \<noteq> k"
  shows "fst (take t k' (snd (take now k s))) = map_option val (view t s k')"
  using assms by (simp add: take_value take_view)

lemma put_then_read:
  assumes "fst (put now k v ttl mode s)" and "now \<le> t"
    and "live t \<lparr>val = v, expiresAt = map_option (\<lambda>x. now + x * 1000) ttl\<rparr>"
  shows "fst (read t k (snd (put now k v ttl mode s))) = Some v"
  using assms by (simp add: read_value put_view)

lemma drop_then_read: "k \<in> set ks \<Longrightarrow> fst (read t k (drop ks s)) = None"
  by (simp add: read_value drop_view)

end

interpretation fr: expiring_store get rset getdel del ent
proof unfold_locales
  fix now k s show "fst (get now k s) = map_option val (ent now s k)" by (simp add: look_def)
next
  fix now t :: int and k k' s
  assume "now \<le> t" then show "ent t (snd (get now k s)) k' = ent t s k'" by simp
next
  fix now k v ttl mode s
  show "fst (rset now k v ttl mode s) =
      (case mode of Always \<Rightarrow> True | NX \<Rightarrow> ent now s k = None | XX \<Rightarrow> ent now s k \<noteq> None)"
    by (simp add: set_ok_def)
next
  fix now t :: int and k v ttl mode s k'
  assume "now \<le> t"
  then show "ent t (snd (rset now k v ttl mode s)) k' =
      (if k' = k \<and> fst (rset now k v ttl mode s)
       then (let e = \<lparr>val = v, expiresAt = map_option (\<lambda>x. now + x * 1000) ttl\<rparr>
             in if live t e then Some e else None)
       else ent t s k')"
    by (simp add: set_ent)
next
  fix now k s show "fst (getdel now k s) = map_option val (ent now s k)" by (simp add: look_def)
qed (auto simp: getdel_ent del_ent intro: ent_later ent_live)

section \<open>Properties of the store\<close>

lemma redis_lock_excludes:
  assumes "fst (rset now k v (Some ttl) NX r)" and "now \<le> t" and "t < now + ttl * 1000"
  shows "\<not> fst (rset t k v' ttl' NX (snd (rset now k v (Some ttl) NX r)))"
  using assms by (rule fr.lock_excludes)

lemma redis_getdel_once:
  assumes "now \<le> t"
  shows "fst (getdel t k (snd (getdel now k r))) = None"
  using assms by (rule fr.take_once)

end
