(* ===== verification/Json.thy ===== *)
theory Json
  imports Complex_Main Prelude
begin

text \<open>
  What the services use of the language's own library: JSON objects (LiveKit room and
  participant metadata), property reads, writes and deletes with JavaScript's behaviour on
  values that are no objects, and the hex and base64url spellings of random bytes.
\<close>

section \<open>JSON values\<close>

text \<open>
  A number is a rational; \<^verbatim>\<open>JSON.parse\<close> reads a number beyond the range of doubles as an
  infinity (\<open>JInf True\<close> the negative one), and never gives \<^verbatim>\<open>NaN\<close>.
\<close>

datatype json =
    JNull
  | JBool bool
  | JNum rat
  | JInf bool
  | JStr string
  | JArr "json list"
  | JObj "(string \<times> json) list"

text \<open>
  A metadata string, by what \<^verbatim>\<open>JSON.parse\<close> makes of it: absent or empty, not JSON, or a
  JSON value. \<^verbatim>\<open>JSON.stringify\<close> of an object is \<open>Metadata (JObj ..)\<close>.
\<close>

datatype metadata = NoMetadata | BadMetadata | Metadata json

definition typeError :: exn where
  "typeError = JsError ''TypeError''"

text \<open>\<^verbatim>\<open>value.key\<close>: \<^verbatim>\<open>undefined\<close> (\<open>None\<close>) when the property is missing; \<^verbatim>\<open>null.key\<close> throws.\<close>

fun jget :: "string \<Rightarrow> json \<Rightarrow> exn + json option" where
  "jget key JNull = Inl typeError"
| "jget key (JObj fields) = Inr (map_of fields key)"
| "jget key _ = Inr None"

fun upd_field :: "string \<Rightarrow> json \<Rightarrow> (string \<times> json) list \<Rightarrow> (string \<times> json) list" where
  "upd_field k v [] = [(k, v)]"
| "upd_field k v ((k', v') # fs) = (if k' = k then (k, v) # fs else (k', v') # upd_field k v fs)"

definition del_field :: "string \<Rightarrow> (string \<times> json) list \<Rightarrow> (string \<times> json) list" where
  "del_field k fs = filter (\<lambda>(k', _). k' \<noteq> k) fs"

text \<open>
  \<^verbatim>\<open>value.key = v\<close> in strict mode: a property of a primitive cannot be set, and a named
  property of an array is not part of its JSON text.
\<close>

fun jset :: "string \<Rightarrow> json \<Rightarrow> json \<Rightarrow> exn + json" where
  "jset k v (JObj fields) = Inr (JObj (upd_field k v fields))"
| "jset k v (JArr xs) = Inr (JArr xs)"
| "jset k v _ = Inl typeError"

text \<open>\<^verbatim>\<open>delete value.key\<close>: \<^verbatim>\<open>null\<close> throws, other primitives ignore it.\<close>

fun jdel :: "string \<Rightarrow> json \<Rightarrow> exn + json" where
  "jdel k JNull = Inl typeError"
| "jdel k (JObj fields) = Inr (JObj (del_field k fields))"
| "jdel k v = Inr v"

fun jtruthy :: "json option \<Rightarrow> bool" where
  "jtruthy None = False"
| "jtruthy (Some JNull) = False"
| "jtruthy (Some (JBool b)) = b"
| "jtruthy (Some (JNum n)) = (n \<noteq> 0)"
| "jtruthy (Some (JStr s)) = (s \<noteq> [])"
| "jtruthy (Some _) = True"

text \<open>\<^verbatim>\<open>typeof v === 'string' ? v : undefined\<close>.\<close>

fun jstring :: "json option \<Rightarrow> string option" where
  "jstring (Some (JStr s)) = Some s"
| "jstring _ = None"

text \<open>\<^verbatim>\<open>s.trim()\<close>, on the white space of the 8-bit characters.\<close>

definition white :: "char \<Rightarrow> bool" where
  "white c = (of_char c \<in> {9, 10, 11, 12, 13, 32, 160 :: nat})"

definition trim :: "string \<Rightarrow> string" where
  "trim s = rev (dropWhile white (rev (dropWhile white s)))"

text \<open>\<^verbatim>\<open>x?.trim() || fallback\<close>.\<close>

definition trimOr :: "string option \<Rightarrow> string \<Rightarrow> string" where
  "trimOr x fallback =
     (case x of None \<Rightarrow> fallback | Some s \<Rightarrow> if trim s = [] then fallback else trim s)"

lemma map_of_upd_field: "map_of (upd_field k v fs) = (map_of fs)(k \<mapsto> v)"
  by (induction fs) (auto simp: fun_eq_iff)

lemma map_of_del_field: "map_of (del_field k fs) = (map_of fs)(k := None)"
  unfolding del_field_def by (induction fs) (auto simp: fun_eq_iff)

section \<open>Spellings of numbers and dates\<close>

definition dec_digit :: "nat \<Rightarrow> char" where
  "dec_digit n = ''0123456789'' ! (n mod 10)"

fun decimal :: "nat \<Rightarrow> string" where
  "decimal n = (if n < 10 then [dec_digit n] else decimal (n div 10) @ [dec_digit n])"

declare decimal.simps [simp del]

definition padLeft :: "nat \<Rightarrow> nat \<Rightarrow> string" where
  "padLeft w n = replicate (w - length (decimal n)) (CHR ''0'') @ decimal n"

text \<open>Year, month and day of a day number counted from 1970-01-01, proleptic Gregorian.\<close>

definition civil :: "int \<Rightarrow> int \<times> int \<times> int" where
  "civil days =
     (let z = days + 719468; era = z div 146097; doe = z - era * 146097;
          yoe = (doe - doe div 1460 + doe div 36524 - doe div 146096) div 365;
          doy = doe - (365 * yoe + yoe div 4 - yoe div 100);
          mp = (5 * doy + 2) div 153;
          d = doy - (153 * mp + 2) div 5 + 1;
          m = (if mp < 10 then mp + 3 else mp - 9)
      in (yoe + era * 400 + (if m \<le> 2 then 1 else 0), m, d))"

text \<open>\<^verbatim>\<open>new Date(t).toISOString()\<close>, for the years 0 to 9999.\<close>

definition isoText :: "int \<Rightarrow> string" where
  "isoText t =
     (let (y, m, d) = civil (t div 86400000); ms = t mod 86400000 in
      padLeft 4 (nat y) @ ''-'' @ padLeft 2 (nat m) @ ''-'' @ padLeft 2 (nat d) @ ''T'' @
      padLeft 2 (nat (ms div 3600000)) @ '':'' @ padLeft 2 (nat (ms div 60000 mod 60)) @ '':'' @
      padLeft 2 (nat (ms div 1000 mod 60)) @ ''.'' @ padLeft 3 (nat (ms mod 1000)) @ ''Z'')"

text \<open>A date string inside a JSON object; text that is no date is spelled empty.\<close>

definition isoJson :: "iso \<Rightarrow> json" where
  "isoJson d = (case d of None \<Rightarrow> JStr [] | Some t \<Rightarrow> JStr (isoText t))"

section \<open>Spellings of bytes\<close>

definition hex_digit :: "nat \<Rightarrow> char" where
  "hex_digit n = ''0123456789abcdef'' ! (n mod 16)"

definition toHex :: "nat list \<Rightarrow> string" where
  "toHex bs = concat (map (\<lambda>b. [hex_digit (b div 16), hex_digit b]) bs)"

definition b64_digit :: "nat \<Rightarrow> char" where
  "b64_digit n = ''ABCDEFGHIJKLMNOPQRSTUVWXYZabcdefghijklmnopqrstuvwxyz0123456789-_'' ! (n mod 64)"

text \<open>Three bytes give four characters; one or two left over give two or three, unpadded.\<close>

fun toBase64url :: "nat list \<Rightarrow> string" where
  "toBase64url (a # b # c # bs) =
     b64_digit (a div 4) # b64_digit (a mod 4 * 16 + b div 16) #
     b64_digit (b mod 16 * 4 + c div 64) # b64_digit c # toBase64url bs"
| "toBase64url [a, b] =
     [b64_digit (a div 4), b64_digit (a mod 4 * 16 + b div 16), b64_digit (b mod 16 * 4)]"
| "toBase64url [a] = [b64_digit (a div 4), b64_digit (a mod 4 * 16)]"
| "toBase64url [] = []"

lemma length_toHex [simp]: "length (toHex bs) = 2 * length bs"
  unfolding toHex_def by (induction bs) auto

lemma hex_digit_in: "hex_digit n \<in> set ''0123456789abcdef''"
proof -
  have "n mod 16 < length ''0123456789abcdef''" by simp
  then show ?thesis unfolding hex_digit_def by (rule nth_mem)
qed

lemma set_toHex: "set (toHex bs) \<subseteq> set ''0123456789abcdef''"
  unfolding toHex_def using hex_digit_in by (induction bs) auto

lemma length_decimal: "n < 10 ^ k \<Longrightarrow> 0 < k \<Longrightarrow> length (decimal n) \<le> k"
proof (induction k arbitrary: n)
  case (Suc k)
  show ?case
  proof (cases "n < 10")
    case False
    with Suc.prems have "0 < k" by (cases k) auto
    moreover have "n div 10 < 10 ^ k" using Suc.prems by (simp add: less_mult_imp_div_less mult.commute)
    ultimately have "length (decimal (n div 10)) \<le> k" by (rule Suc.IH [rotated])
    with False show ?thesis by (subst decimal.simps) simp
  qed (simp add: decimal.simps)
qed simp

end
