(* ===== verification/Keys.thy ===== *)
theory Keys
  imports Main
begin

text \<open>
  The Redis keys of \<^verbatim>\<open>rooms.state.ts\<close>, \<^verbatim>\<open>remote-control.state.ts\<close> and
  \<^verbatim>\<open>chat-files.service.ts\<close>, as the strings the services build, and when two of them are the same.
\<close>

section \<open>Keys of the room state\<close>

definition knockKey :: "string \<Rightarrow> string \<Rightarrow> string" where
  "knockKey room knockId = ''huddle:knock:'' @ room @ '':'' @ knockId"

definition indexKey :: "string \<Rightarrow> string" where
  "indexKey room = ''huddle:knocks:'' @ room"

definition directRejoinKey :: "string \<Rightarrow> string \<Rightarrow> string" where
  "directRejoinKey room userId = ''huddle:direct-rejoin:'' @ room @ '':'' @ userId"

definition directRejoinIdentityKey :: "string \<Rightarrow> string \<Rightarrow> string" where
  "directRejoinIdentityKey room identity = ''huddle:direct-rejoin-identity:'' @ room @ '':'' @ identity"

definition directRejoinIndexKey :: "string \<Rightarrow> string" where
  "directRejoinIndexKey room = ''huddle:direct-rejoin-users:'' @ room"

definition recordingShareConsentKey :: "string \<Rightarrow> string \<Rightarrow> string \<Rightarrow> string" where
  "recordingShareConsentKey room roomSid userId =
     ''huddle:recording-share-consent:'' @ room @ '':'' @ roomSid @ '':'' @ userId"

definition recordingShareConsentIdentityKey :: "string \<Rightarrow> string \<Rightarrow> string \<Rightarrow> string" where
  "recordingShareConsentIdentityKey room roomSid identity =
     ''huddle:recording-share-consent-identity:'' @ room @ '':'' @ roomSid @ '':'' @ identity"

definition recordingShareConsentIndexKey :: "string \<Rightarrow> string \<Rightarrow> string" where
  "recordingShareConsentIndexKey room roomSid =
     ''huddle:recording-share-consent-users:'' @ room @ '':'' @ roomSid"

section \<open>Keys of Remote Control\<close>

definition ownerKey :: "string \<Rightarrow> string" where
  "ownerKey room = ''huddle:remote-control:owner:'' @ room"

definition pendingKey :: "string \<Rightarrow> string" where
  "pendingKey room = ''huddle:remote-control:pending:'' @ room"

definition activeKey :: "string \<Rightarrow> string" where
  "activeKey room = ''huddle:remote-control:active:'' @ room"

definition bootstrapKey :: "string \<Rightarrow> string" where
  "bootstrapKey digest = ''huddle:remote-control:bootstrap:'' @ digest"

section \<open>Keys of chat files\<close>

definition chatFileKey :: "string \<Rightarrow> string" where
  "chatFileKey i = ''huddle:chat-file:'' @ i"

definition EXPIRY_INDEX :: string where
  "EXPIRY_INDEX = ''huddle:chat-files:expiry''"

section \<open>Keys name one value\<close>

text \<open>A Room Code has no colon, so a key determines the room and the rest.\<close>

definition colon_free :: "string \<Rightarrow> bool" where
  "colon_free s \<longleftrightarrow> CHR '':'' \<notin> set s"

lemma sep_eq [simp]:
  assumes "colon_free a" and "colon_free b"
  shows "a @ CHR '':'' # x = b @ CHR '':'' # y \<longleftrightarrow> a = b \<and> x = y"
  using assms unfolding colon_free_def
proof (induction a arbitrary: b)
  case Nil
  then show ?case by (cases b) auto
next
  case (Cons c a)
  then show ?case by (cases b) auto
qed

lemmas key_defs = knockKey_def indexKey_def directRejoinKey_def directRejoinIdentityKey_def
  directRejoinIndexKey_def recordingShareConsentKey_def recordingShareConsentIdentityKey_def
  recordingShareConsentIndexKey_def ownerKey_def pendingKey_def activeKey_def bootstrapKey_def
  chatFileKey_def

lemma key_inject:
  assumes "colon_free room" and "colon_free room'"
  shows "knockKey room i = knockKey room' i' \<longleftrightarrow> room = room' \<and> i = i'"
    and "directRejoinKey room i = directRejoinKey room' i' \<longleftrightarrow> room = room' \<and> i = i'"
    and "directRejoinIdentityKey room i = directRejoinIdentityKey room' i' \<longleftrightarrow> room = room' \<and> i = i'"
  using assms by (simp_all add: key_defs)

lemma key_inject_same [simp]:
  "knockKey room i = knockKey room i' \<longleftrightarrow> i = i'"
  "directRejoinKey room i = directRejoinKey room i' \<longleftrightarrow> i = i'"
  "directRejoinIdentityKey room i = directRejoinIdentityKey room i' \<longleftrightarrow> i = i'"
  "indexKey room = indexKey room' \<longleftrightarrow> room = room'"
  "directRejoinIndexKey room = directRejoinIndexKey room' \<longleftrightarrow> room = room'"
  by (simp_all add: key_defs)

lemma key_disjoint [simp]:
  "knockKey a b \<noteq> indexKey c" "indexKey c \<noteq> knockKey a b"
  "directRejoinKey a b \<noteq> directRejoinIdentityKey c d" "directRejoinIdentityKey c d \<noteq> directRejoinKey a b"
  "directRejoinKey a b \<noteq> directRejoinIndexKey c" "directRejoinIndexKey c \<noteq> directRejoinKey a b"
  "directRejoinIdentityKey a b \<noteq> directRejoinIndexKey c"
  "directRejoinIndexKey c \<noteq> directRejoinIdentityKey a b"
  "knockKey a b \<noteq> directRejoinKey c d" "directRejoinKey c d \<noteq> knockKey a b"
  "knockKey a b \<noteq> directRejoinIdentityKey c d" "directRejoinIdentityKey c d \<noteq> knockKey a b"
  "indexKey a \<noteq> directRejoinKey c d" "directRejoinKey c d \<noteq> indexKey a"
  "indexKey a \<noteq> directRejoinIdentityKey c d" "directRejoinIdentityKey c d \<noteq> indexKey a"
  "knockKey a b \<noteq> directRejoinIndexKey c" "directRejoinIndexKey c \<noteq> knockKey a b"
  "indexKey a \<noteq> directRejoinIndexKey c" "directRejoinIndexKey c \<noteq> indexKey a"
  by (simp_all add: key_defs)

lemma consent_key_disjoint [simp]:
  "recordingShareConsentKey a b c \<noteq> recordingShareConsentIdentityKey d e f"
  "recordingShareConsentIdentityKey d e f \<noteq> recordingShareConsentKey a b c"
  "recordingShareConsentKey a b c \<noteq> recordingShareConsentIndexKey d e"
  "recordingShareConsentIdentityKey a b c \<noteq> recordingShareConsentIndexKey d e"
  "directRejoinKey a b \<noteq> recordingShareConsentKey c d e"
  "directRejoinKey a b \<noteq> recordingShareConsentIdentityKey c d e"
  "directRejoinKey a b \<noteq> recordingShareConsentIndexKey c d"
  "directRejoinIdentityKey a b \<noteq> recordingShareConsentKey c d e"
  "directRejoinIdentityKey a b \<noteq> recordingShareConsentIdentityKey c d e"
  "directRejoinIdentityKey a b \<noteq> recordingShareConsentIndexKey c d"
  by (simp_all add: key_defs)

lemma rc_key_inject [simp]:
  "ownerKey a = ownerKey b \<longleftrightarrow> a = b" "pendingKey a = pendingKey b \<longleftrightarrow> a = b"
  "activeKey a = activeKey b \<longleftrightarrow> a = b" "bootstrapKey a = bootstrapKey b \<longleftrightarrow> a = b"
  "chatFileKey a = chatFileKey b \<longleftrightarrow> a = b"
  by (simp_all add: key_defs)

lemma rc_key_disjoint [simp]:
  "ownerKey a \<noteq> pendingKey b" "pendingKey b \<noteq> ownerKey a"
  "ownerKey a \<noteq> activeKey b" "activeKey b \<noteq> ownerKey a"
  "ownerKey a \<noteq> bootstrapKey b" "bootstrapKey b \<noteq> ownerKey a"
  "pendingKey a \<noteq> activeKey b" "activeKey b \<noteq> pendingKey a"
  "pendingKey a \<noteq> bootstrapKey b" "bootstrapKey b \<noteq> pendingKey a"
  "activeKey a \<noteq> bootstrapKey b" "bootstrapKey b \<noteq> activeKey a"
  by (simp_all add: key_defs)

end
