(* ===== verification/World.thy ===== *)
theory World
  imports Redis Json Keys
begin

text \<open>
  The data the services share and the world they act on.
  The records the services keep in Redis are the interfaces of \<^verbatim>\<open>rooms.state.ts\<close> and
  \<^verbatim>\<open>remote-control.state.ts\<close>; a value of \<open>stored\<close> is the JSON text of one of them (or a
  plain string). The tables are those of \<^verbatim>\<open>prisma/schema.prisma\<close>.
  The record \<open>env\<close> holds what is not code of the repository: the LiveKit server SDK,
  random numbers and cryptographic hashes. Each LiveKit call is an operation on the whole
  world, because other requests may run, and change Redis, Postgres and the clock, while a
  handler awaits it. The list \<open>faults\<close> schedules failures of Redis and Postgres: each
  command consumes one element, and \<open>True\<close> makes it throw instead of acting.
\<close>

section \<open>Values stored in Redis\<close>

datatype knock_status = Pending | Admitted | Denied

record knock =
  kn_knockId :: string
  kn_room :: string
  kn_name :: string
  kn_userId :: "string option"
  kn_image :: "string option"
  kn_status :: knock_status
  kn_requestedAt :: int
  kn_identity :: "string option"
  kn_token :: "string option"

record direct_rejoin_grant =
  dr_grantId :: string
  dr_room :: string
  dr_roomSid :: string
  dr_userId :: string
  dr_identity :: string
  dr_createdAt :: int

record recording_share_consent =
  sc_room :: string
  sc_roomSid :: string
  sc_userId :: string
  sc_identity :: string
  sc_accountBinding :: string
  sc_consentedAt :: int

record pending_request =
  pr_requestId :: string
  pr_room :: string
  pr_sharerIdentity :: string
  pr_sharerName :: string
  pr_controllerIdentity :: string
  pr_controllerName :: string
  pr_requestedAt :: iso
  pr_expiresAt :: iso
  pr_controllerTokenExpiresAt :: iso

datatype grant_status = AwaitingAgent | AgentActive

record active_grant =
  ag_sessionId :: string
  ag_room :: string
  ag_roomId :: string
  ag_sharerIdentity :: string
  ag_sharerName :: string
  ag_controllerIdentity :: string
  ag_controllerName :: string
  ag_agentIdentity :: string
  ag_status :: grant_status
  ag_agentConnected :: bool
  ag_startedAt :: iso
  ag_renewalDueAt :: iso
  ag_authorizationExpiresAt :: iso
  ag_bootstrapDigest :: "string option"

record bootstrap_grant =
  bs_room :: string
  bs_sessionId :: string
  bs_digest :: string
  bs_expiresAt :: iso

record chat_file =
  cf_id :: string
  cf_room :: string
  cf_roomSid :: string
  cf_identity :: string
  cf_name :: string
  cf_size :: int
  cf_key :: string
  cf_uploadId :: string
  cf_partSize :: int
  cf_parts :: "(int \<times> string) list"
  cf_expiresAt :: int
  cf_completed :: bool

datatype stored =
    VStr string
  | VKnock knock
  | VRejoin direct_rejoin_grant
  | VConsent recording_share_consent
  | VPending pending_request
  | VActive active_grant
  | VBootstrap bootstrap_grant
  | VChat chat_file

section \<open>Tables\<close>

record user_row =
  us_id :: string
  us_name :: string
  us_email :: string
  us_emailVerified :: bool
  us_image :: "string option"

record room_row =
  rm_id :: string
  rm_slug :: string
  rm_scheduledStart :: "int option"
  rm_hostKey :: string
  rm_hostUserId :: string
  rm_createdAt :: int

datatype session_status =
    Requested | Active | DeniedS | Withdrawn | Ended | Expired | Failed

record session_row =
  rs_id :: string
  rs_roomId :: string
  rs_sharerIdentity :: string
  rs_sharerName :: string
  rs_controllerIdentity :: string
  rs_controllerName :: string
  rs_agentIdentity :: "string option"
  rs_status :: session_status
  rs_startedAt :: "int option"
  rs_endedAt :: "int option"
  rs_renewalDueAt :: "int option"
  rs_endReason :: "string option"
  rs_createdAt :: int

datatype recording_status = RecStarting | RecActive | RecCompleted | RecFailed | RecAborted

record recording_row =
  rec_id :: string
  rec_egressId :: string
  rec_roomId :: string
  rec_status :: recording_status
  rec_objectKey :: string
  rec_startedByIdentity :: "string option"
  rec_sizeBytes :: "int option"
  rec_durationMs :: "int option"
  rec_error :: "string option"
  rec_startedAt :: int
  rec_endedAt :: "int option"
  rec_localExpiresAt :: "int option"
  rec_localDeleteAfter :: "int option"
  rec_localDeletedAt :: "int option"
  rec_driveShareAvailable :: bool
  rec_finalWarningSentAt :: "int option"

datatype delivery_status = Queued | Uploading | ActionRequired | Delivered | ExpiredUndelivered

record delivery_row =
  dl_id :: string
  dl_recordingId :: string
  dl_status :: delivery_status
  dl_attempts :: nat
  dl_nextAttemptAt :: int
  dl_leaseOwner :: "string option"
  dl_leaseUntil :: "int option"
  dl_encryptedUploadSession :: "string option"
  dl_uploadOffsetBytes :: int
  dl_driveFileId :: "string option"
  dl_driveUrl :: "string option"
  dl_deliveredAt :: "int option"
  dl_lastError :: "string option"
  dl_actionNotifiedAt :: "int option"

datatype recipient_status = RecipientPending | RecipientShared | RecipientFailed

record recipient_row =
  rp_id :: string
  rp_recordingId :: string
  rp_userId :: string
  rp_email :: string
  rp_name :: "string option"
  rp_consentedAt :: int
  rp_status :: recipient_status
  rp_permissionId :: "string option"
  rp_error :: "string option"

datatype connection_status = Connected | ConnectionActionRequired | Disconnected

record connection_row =
  cs_id :: string
  cs_userId :: string
  cs_providerEmail :: "string option"
  cs_encryptedRefreshToken :: "string option"
  cs_driveFolderId :: "string option"
  cs_status :: connection_status
  cs_disconnectedAt :: "int option"
  cs_backfillRequestedAt :: "int option"
  cs_createdAt :: int

record maintenance_row =
  mt_enabled :: bool
  mt_startsAt :: int
  mt_message :: string
  mt_actorId :: string

record cleanup_row =
  mc_roomSid :: string
  mc_roomName :: string

datatype deletion_status = DeletionPending | DeletionProcessing

record deletion_row =
  ad_userId :: string
  ad_status :: deletion_status
  ad_attempts :: nat
  ad_lastError :: "string option"
  ad_createdAt :: int
  ad_updatedAt :: int

record database =
  users :: "user_row list"
  rooms :: "room_row list"
  sessions :: "session_row list"
  recordings :: "recording_row list"
  deliveries :: "delivery_row list"
  recipients :: "recipient_row list"
  connections :: "connection_row list"
  maintenanceState :: "maintenance_row option"
  maintenanceCleanup :: "cleanup_row list"
  deletions :: "deletion_row list"

definition emptyDatabase :: database where
  "emptyDatabase = \<lparr>users = [], rooms = [], sessions = [], recordings = [], deliveries = [],
     recipients = [], connections = [], maintenanceState = None, maintenanceCleanup = [],
     deletions = []\<rparr>"

section \<open>The world\<close>

text \<open>What a process remembers between requests: set-up steps it has already done.\<close>

record process =
  bucketReady :: bool
  graceInitialized :: bool
  chatReady :: bool
  cleaning :: bool

record 'lk world =
  clock :: int
  kv :: "stored redis"
  dbase :: database
  sfu :: 'lk
  draws :: nat
  proc :: process
  faults :: "bool list"

type_synonym ('lk, 'a) op = "('lk world, 'a) act"

definition storeDown :: exn where
  "storeDown = JsError ''connection lost''"

definition failing :: "'lk world \<Rightarrow> bool" where
  "failing w = (case faults w of [] \<Rightarrow> False | b # _ \<Rightarrow> b)"

definition tick :: "'lk world \<Rightarrow> 'lk world" where
  "tick w = w\<lparr>faults := tl (faults w)\<rparr>"

text \<open>A Redis command and a Postgres query, at the current time, with the fault schedule.\<close>

definition rcmd :: "(int \<Rightarrow> stored redis \<Rightarrow> 'a \<times> stored redis) \<Rightarrow> ('lk, 'a) op" where
  "rcmd f w =
     (if failing w then (Inl storeDown, tick w)
      else (Inr (fst (f (clock w) (kv w))), (tick w)\<lparr>kv := snd (f (clock w) (kv w))\<rparr>))"

definition dbcmd :: "(int \<Rightarrow> database \<Rightarrow> (exn + 'a) \<times> database) \<Rightarrow> ('lk, 'a) op" where
  "dbcmd f w =
     (if failing w then (Inl storeDown, tick w)
      else (fst (f (clock w) (dbase w)), (tick w)\<lparr>dbase := snd (f (clock w) (dbase w))\<rparr>))"

abbreviation dbread :: "(int \<Rightarrow> database \<Rightarrow> 'a) \<Rightarrow> ('lk, 'a) op" where
  "dbread f \<equiv> dbcmd (\<lambda>now d. (Inr (f now d), d))"

abbreviation redisGet :: "string \<Rightarrow> ('lk, stored option) op" where
  "redisGet k \<equiv> rcmd (\<lambda>now. get now k)"

abbreviation redisSet :: "string \<Rightarrow> stored \<Rightarrow> int option \<Rightarrow> set_mode \<Rightarrow> ('lk, bool) op" where
  "redisSet k v ttl mode \<equiv> rcmd (\<lambda>now. rset now k v ttl mode)"

abbreviation redisGetdel :: "string \<Rightarrow> ('lk, stored option) op" where
  "redisGetdel k \<equiv> rcmd (\<lambda>now. getdel now k)"

abbreviation redisMget :: "string list \<Rightarrow> ('lk, stored option list) op" where
  "redisMget ks \<equiv> rcmd (\<lambda>now. mget now ks)"

abbreviation redisDel :: "string list \<Rightarrow> ('lk, unit) op" where
  "redisDel ks \<equiv> rcmd (\<lambda>now r. ((), del ks r))"

abbreviation redisSadd :: "string \<Rightarrow> string \<Rightarrow> ('lk, unit) op" where
  "redisSadd k m \<equiv> rcmd (\<lambda>now r. ((), sadd now k m r))"

abbreviation redisSrem :: "string \<Rightarrow> string list \<Rightarrow> ('lk, unit) op" where
  "redisSrem k ms \<equiv> rcmd (\<lambda>now r. ((), srem now k ms r))"

abbreviation redisSmembers :: "string \<Rightarrow> ('lk, string list) op" where
  "redisSmembers k \<equiv> rcmd (\<lambda>now. smembers now k)"

abbreviation redisExpire :: "string \<Rightarrow> int \<Rightarrow> ('lk, unit) op" where
  "redisExpire k secs \<equiv> rcmd (\<lambda>now r. ((), expire now k secs r))"

abbreviation redisZadd :: "string \<Rightarrow> int \<Rightarrow> string \<Rightarrow> ('lk, unit) op" where
  "redisZadd k score m \<equiv> rcmd (\<lambda>_ r. ((), zadd k score m r))"

abbreviation redisZrem :: "string \<Rightarrow> string \<Rightarrow> ('lk, unit) op" where
  "redisZrem k m \<equiv> rcmd (\<lambda>_ r. ((), zrem k m r))"

abbreviation redisZrangebyscore :: "string \<Rightarrow> int \<Rightarrow> int \<Rightarrow> nat \<Rightarrow> nat \<Rightarrow> ('lk, string list) op" where
  "redisZrangebyscore k low high offset count \<equiv> rcmd (\<lambda>_ r. (zrangebyscore k low high offset count r, r))"

abbreviation dateNow :: "('lk, int) op" where
  "dateNow \<equiv> gets clock"

section \<open>What is not code of the repository\<close>

datatype track_source = MICROPHONE | SCREEN_SHARE | OTHER_SOURCE

record lk_track =
  tr_sid :: string
  tr_source :: track_source
  tr_muted :: bool

record lk_participant =
  pi_identity :: string
  pi_name :: string
  pi_metadata :: metadata
  pi_tracks :: "lk_track list"

record lk_room =
  ro_name :: string
  ro_sid :: string
  ro_metadata :: metadata

record video_grant =
  vg_room :: string
  vg_canPublish :: bool
  vg_canPublishSources :: "track_source list option"
  vg_canSubscribe :: bool
  vg_canPublishData :: bool
  vg_roomAdmin :: bool

record access_token =
  at_identity :: string
  at_name :: string
  at_ttl :: int
  at_metadata :: metadata
  at_grant :: video_grant

record token_claims =
  cl_sub :: "string option"
  cl_name :: "string option"
  cl_metadata :: metadata
  cl_room :: "string option"
  cl_exp :: "int option"

text \<open>
  An event of the LiveKit webhook, as the receiver returns it once the signature is
  verified. Strings of the protocol default to the empty string.
\<close>

datatype egress_status =
    EGRESS_STARTING | EGRESS_ACTIVE | EGRESS_ENDING | EGRESS_COMPLETE | EGRESS_FAILED
  | EGRESS_ABORTED | EGRESS_LIMIT_REACHED

record egress_file =
  ef_size :: "int option"
  ef_duration :: "int option"

record egress_info =
  ei_egressId :: string
  ei_roomName :: string
  ei_status :: egress_status
  ei_error :: string
  ei_fileResults :: "egress_file list"

record webhook_room =
  wr_name :: string
  wr_sid :: string
  wr_numParticipants :: nat

record webhook_participant =
  wp_identity :: string
  wp_metadata :: metadata

record webhook_event =
  we_event :: string
  we_room :: "webhook_room option"
  we_participant :: "webhook_participant option"
  we_egressInfo :: "egress_info option"

text \<open>The keys of the HMACs, each from a setting of its own.\<close>

datatype secret = AccountBindingSecret | RecordingDownloadSecret | ApiSecret

record 'lk env =
  uuid :: "nat \<Rightarrow> string"
  cuid :: "nat \<Rightarrow> string"
  randBytes :: "nat \<Rightarrow> nat \<Rightarrow> nat list"
  sha256 :: "string \<Rightarrow> string"
  hmac :: "secret \<Rightarrow> string \<Rightarrow> string"
  livekitUrl :: string
  maintenanceOwner :: "string option"
  webOrigin :: "string option"
  lk_createRoom :: "string \<Rightarrow> ('lk, lk_room) op"
  lk_listRooms :: "string list option \<Rightarrow> ('lk, lk_room list) op"
  lk_deleteRoom :: "string \<Rightarrow> ('lk, unit) op"
  lk_listParticipants :: "string \<Rightarrow> ('lk, lk_participant list) op"
  lk_getParticipant :: "string \<Rightarrow> string \<Rightarrow> ('lk, lk_participant) op"
  lk_removeParticipant :: "string \<Rightarrow> string \<Rightarrow> int option \<Rightarrow> ('lk, unit) op"
  lk_updateParticipant :: "string \<Rightarrow> string \<Rightarrow> string \<Rightarrow> metadata \<Rightarrow> ('lk, unit) op"
  lk_mutePublishedTrack :: "string \<Rightarrow> string \<Rightarrow> string \<Rightarrow> bool \<Rightarrow> ('lk, unit) op"
  lk_updateRoomMetadata :: "string \<Rightarrow> metadata \<Rightarrow> ('lk, unit) op"
  lk_toJwt :: "access_token \<Rightarrow> ('lk, string) op"
  lk_verify :: "string \<Rightarrow> ('lk, token_claims) op"
  lk_receive :: "string \<Rightarrow> string option \<Rightarrow> ('lk, webhook_event) op"
  lk_startEgress :: "string \<Rightarrow> string \<Rightarrow> ('lk, string) op"
  lk_stopEgress :: "string \<Rightarrow> ('lk, unit) op"

definition lift :: "exn + 'a \<Rightarrow> ('lk, 'a) op" where
  "lift r w = (r, w)"

definition modify :: "('lk world \<Rightarrow> 'lk world) \<Rightarrow> ('lk, unit) op" where
  "modify f w = (Inr (), f w)"

text \<open>Each draw of a random value takes the next one.\<close>

definition draw :: "(nat \<Rightarrow> 'a) \<Rightarrow> ('lk, 'a) op" where
  "draw f w = (Inr (f (draws w)), w\<lparr>draws := Suc (draws w)\<rparr>)"

abbreviation randomUUID :: "'lk env \<Rightarrow> ('lk, string) op" where
  "randomUUID E \<equiv> draw (uuid E)"

abbreviation randomBytes :: "'lk env \<Rightarrow> nat \<Rightarrow> ('lk, nat list) op" where
  "randomBytes E n \<equiv> draw (\<lambda>i. randBytes E i n)"

text \<open>
  The two assumptions a property may make of the LiveKit calls: that they keep a predicate
  of the world, whatever runs meanwhile, or that nothing but LiveKit itself changes.
\<close>

definition env_keeps :: "('lk world \<Rightarrow> bool) \<Rightarrow> 'lk env \<Rightarrow> bool" where
  "env_keeps I E \<longleftrightarrow>
     (\<forall>n. keeps I (lk_createRoom E n)) \<and> (\<forall>ns. keeps I (lk_listRooms E ns)) \<and>
     (\<forall>n. keeps I (lk_deleteRoom E n)) \<and> (\<forall>n. keeps I (lk_listParticipants E n)) \<and>
     (\<forall>n i. keeps I (lk_getParticipant E n i)) \<and>
     (\<forall>n i t. keeps I (lk_removeParticipant E n i t)) \<and>
     (\<forall>n i a m. keeps I (lk_updateParticipant E n i a m)) \<and>
     (\<forall>n i s b. keeps I (lk_mutePublishedTrack E n i s b)) \<and>
     (\<forall>n m. keeps I (lk_updateRoomMetadata E n m)) \<and>
     (\<forall>t. keeps I (lk_toJwt E t)) \<and> (\<forall>t. keeps I (lk_verify E t)) \<and>
     (\<forall>b a. keeps I (lk_receive E b a)) \<and> (\<forall>n f. keeps I (lk_startEgress E n f)) \<and>
     (\<forall>i. keeps I (lk_stopEgress E i))"

definition quiet_op :: "('lk, 'a) op \<Rightarrow> bool" where
  "quiet_op m \<longleftrightarrow> (\<forall>w. \<exists>s. snd (m w) = w\<lparr>sfu := s\<rparr>)"

definition quiet :: "'lk env \<Rightarrow> bool" where
  "quiet E \<longleftrightarrow>
     (\<forall>n. quiet_op (lk_createRoom E n)) \<and> (\<forall>ns. quiet_op (lk_listRooms E ns)) \<and>
     (\<forall>n. quiet_op (lk_deleteRoom E n)) \<and> (\<forall>n. quiet_op (lk_listParticipants E n)) \<and>
     (\<forall>n i. quiet_op (lk_getParticipant E n i)) \<and>
     (\<forall>n i t. quiet_op (lk_removeParticipant E n i t)) \<and>
     (\<forall>n i a m. quiet_op (lk_updateParticipant E n i a m)) \<and>
     (\<forall>n i s b. quiet_op (lk_mutePublishedTrack E n i s b)) \<and>
     (\<forall>n m. quiet_op (lk_updateRoomMetadata E n m)) \<and>
     (\<forall>t. quiet_op (lk_toJwt E t)) \<and> (\<forall>t. quiet_op (lk_verify E t)) \<and>
     (\<forall>b a. quiet_op (lk_receive E b a)) \<and> (\<forall>n f. quiet_op (lk_startEgress E n f)) \<and>
     (\<forall>i. quiet_op (lk_stopEgress E i))"

section \<open>Running commands\<close>

lemma lift_run [simp]: "lift r w = (r, w)"
  by (simp add: lift_def)

lemma modify_run [simp]: "modify f w = (Inr (), f w)"
  by (simp add: modify_def)

lemma keeps_lift [keeps_rules]: "keeps I (lift r)"
  by (simp add: keeps_def)

lemma failing_none [simp]: "faults w = [] \<Longrightarrow> \<not> failing w"
  by (simp add: failing_def)

lemma tick_none [simp]: "faults w = [] \<Longrightarrow> tick w = w"
  by (simp add: tick_def)

lemma tick_simps [simp]:
  "clock (tick w) = clock w" "kv (tick w) = kv w" "dbase (tick w) = dbase w"
  "sfu (tick w) = sfu w" "draws (tick w) = draws w" "proc (tick w) = proc w" "faults (tick w) = tl (faults w)"
  by (simp_all add: tick_def)

lemma rcmd_ok: "faults w = [] \<Longrightarrow>
    rcmd f w = (Inr (fst (f (clock w) (kv w))), w\<lparr>kv := snd (f (clock w) (kv w))\<rparr>)"
  by (simp add: rcmd_def)

lemma dbcmd_ok: "faults w = [] \<Longrightarrow>
    dbcmd f w = (fst (f (clock w) (dbase w)), w\<lparr>dbase := snd (f (clock w) (dbase w))\<rparr>)"
  by (simp add: dbcmd_def)

lemma draw_run [run, simp]: "draw f w = (Inr (f (draws w)), w\<lparr>draws := Suc (draws w)\<rparr>)"
  by (simp add: draw_def)

lemma rcmd_InrE:
  assumes "rcmd f w = (Inr x, w')"
  obtains "x = fst (f (clock w) (kv w))" and "w' = (tick w)\<lparr>kv := snd (f (clock w) (kv w))\<rparr>"
  using assms by (auto simp: rcmd_def split: if_splits)

lemma dbcmd_InrE:
  assumes "dbcmd f w = (Inr x, w')"
  obtains "fst (f (clock w) (dbase w)) = Inr x"
    and "w' = (tick w)\<lparr>dbase := snd (f (clock w) (dbase w))\<rparr>"
  using assms by (auto simp: dbcmd_def split: if_splits)

lemma quiet_opE:
  assumes "quiet_op m" and "m w = (r, w')"
  obtains s where "w' = w\<lparr>sfu := s\<rparr>"
  using assms unfolding quiet_op_def by (metis snd_conv)

lemma quiet_op_keeps: "quiet_op m \<Longrightarrow> (\<And>w s. I w \<Longrightarrow> I (w\<lparr>sfu := s\<rparr>)) \<Longrightarrow> keeps I m"
  unfolding quiet_op_def keeps_def by metis

lemma quiet_env_keeps: "quiet E \<Longrightarrow> (\<And>w s. I w \<Longrightarrow> I (w\<lparr>sfu := s\<rparr>)) \<Longrightarrow> env_keeps I E"
  unfolding quiet_def env_keeps_def by (simp add: quiet_op_keeps)

lemma env_keepsD [keeps_rules]:
  assumes "env_keeps I E"
  shows "keeps I (lk_createRoom E n)" "keeps I (lk_listRooms E ns)" "keeps I (lk_deleteRoom E n)"
    "keeps I (lk_listParticipants E n)" "keeps I (lk_getParticipant E n i)"
    "keeps I (lk_removeParticipant E n i t)" "keeps I (lk_updateParticipant E n i a m)"
    "keeps I (lk_mutePublishedTrack E n i s b)" "keeps I (lk_updateRoomMetadata E n m)"
    "keeps I (lk_toJwt E tk)" "keeps I (lk_verify E st)" "keeps I (lk_receive E body auth)"
    "keeps I (lk_startEgress E n f)" "keeps I (lk_stopEgress E i)"
  using assms by (simp_all add: env_keeps_def)

text \<open>
  Invariants of one part of the world: a command that acts on another part, and the draw of
  a random value, keep them.
\<close>

lemma keeps_rcmd:
  assumes "\<And>w. I w \<Longrightarrow> I (tick w)"
    and "\<And>w. I w \<Longrightarrow> I (w\<lparr>kv := snd (f (clock w) (kv w))\<rparr>)"
  shows "keeps I (rcmd f)"
proof (rule keepsI)
  fix w assume "I w"
  then have "I (tick w)" by (rule assms(1))
  with assms(2) [OF this] show "I (snd (rcmd f w))" by (simp add: rcmd_def)
qed

lemma keeps_dbcmd:
  assumes "\<And>w. I w \<Longrightarrow> I (tick w)"
    and "\<And>w. I w \<Longrightarrow> I (w\<lparr>dbase := snd (f (clock w) (dbase w))\<rparr>)"
  shows "keeps I (dbcmd f)"
proof (rule keepsI)
  fix w assume "I w"
  then have "I (tick w)" by (rule assms(1))
  with assms(2) [OF this] show "I (snd (dbcmd f w))" by (simp add: dbcmd_def)
qed

lemma keeps_draw:
  assumes "\<And>w n. I w \<Longrightarrow> I (w\<lparr>draws := n\<rparr>)"
  shows "keeps I (draw f)"
  using assms by (simp add: keeps_def)

section \<open>Reading without writing\<close>

abbreviation entry_of :: "'lk world \<Rightarrow> string \<Rightarrow> stored entry option" where
  "entry_of w k \<equiv> ent (clock w) (kv w) k"

abbreviation value_of :: "'lk world \<Rightarrow> string \<Rightarrow> stored option" where
  "value_of w k \<equiv> look (clock w) (kv w) k"

abbreviation index_of :: "'lk world \<Rightarrow> string \<Rightarrow> string list" where
  "index_of w k \<equiv> mem (clock w) (kv w) k"

text \<open>
  Two worlds that differ in evicted entries and in the fault schedule only: no command can
  tell them apart.
\<close>

definition unchanged :: "'lk world \<Rightarrow> 'lk world \<Rightarrow> bool" where
  "unchanged w w' \<longleftrightarrow> clock w' = clock w \<and> dbase w' = dbase w \<and> sfu w' = sfu w \<and> draws w' = draws w \<and>
     proc w' = proc w \<and> (\<forall>t k. clock w \<le> t \<longrightarrow> ent t (kv w') k = ent t (kv w) k \<and> mem t (kv w') k = mem t (kv w) k)"

lemma unchanged_refl [simp]: "unchanged w w"
  by (simp add: unchanged_def)

lemma unchanged_trans: "unchanged w w' \<Longrightarrow> unchanged w' w'' \<Longrightarrow> unchanged w w''"
  by (simp add: unchanged_def)

lemma unchanged_tick [simp]: "unchanged w (tick w)"
  by (simp add: unchanged_def)

lemma unchangedD:
  assumes "unchanged w w'"
  shows "clock w' = clock w" "dbase w' = dbase w" "sfu w' = sfu w" "draws w' = draws w"
    "clock w \<le> t \<Longrightarrow> ent t (kv w') k = ent t (kv w) k"
    "clock w \<le> t \<Longrightarrow> look t (kv w') k = look t (kv w) k"
    "clock w \<le> t \<Longrightarrow> mem t (kv w') k = mem t (kv w) k"
    "proc w' = proc w"
  using assms by (simp_all add: unchanged_def look_def)

definition reads_only :: "('lk, 'a) op \<Rightarrow> bool" where
  "reads_only m \<longleftrightarrow> (\<forall>w. unchanged w (snd (m w)))"

named_theorems reads_rules "operations that only read"

lemma reads_onlyD: "reads_only m \<Longrightarrow> m w = (r, w') \<Longrightarrow> unchanged w w'"
  unfolding reads_only_def by (metis snd_conv)

lemma reads_only_andThen [reads_rules]:
  assumes "reads_only m" and "\<And>x. reads_only (k x)"
  shows "reads_only (andThen m k)"
proof -
  have "unchanged w (snd (andThen m k w))" for w
  proof (cases "m w" rule: prod.exhaust)
    case (Pair r w1)
    with assms(1) have 1: "unchanged w w1" by (rule reads_onlyD)
    show ?thesis
    proof (cases r)
      case (Inl e)
      with Pair 1 show ?thesis by (simp add: andThen_def)
    next
      case (Inr x)
      have "unchanged w1 (snd (k x w1))" using assms(2) by (simp add: reads_only_def)
      with 1 Pair Inr show ?thesis by (auto simp: andThen_def intro: unchanged_trans)
    qed
  qed
  then show ?thesis by (simp add: reads_only_def)
qed

lemma reads_only_basic [reads_rules]:
  "reads_only (ret x)" "reads_only (raise e)" "reads_only (gets f)" "reads_only (Pair r)"
  by (simp_all add: reads_only_def)

lemma reads_lift [reads_rules]: "reads_only (lift r)"
  by (simp add: reads_only_def)

lemma reads_only_cases [reads_rules]:
  "(b \<Longrightarrow> reads_only m) \<Longrightarrow> (\<not> b \<Longrightarrow> reads_only n) \<Longrightarrow> reads_only (if b then m else n)"
  "(x = None \<Longrightarrow> reads_only m) \<Longrightarrow> (\<And>y. x = Some y \<Longrightarrow> reads_only (f y)) \<Longrightarrow>
    reads_only (case x of None \<Rightarrow> m | Some y \<Rightarrow> f y)"
  by (auto split: option.splits)

lemma reads_only_rcmd [reads_rules]:
  "reads_only (redisGet k)" "reads_only (redisMget ks)" "reads_only (redisSmembers k)"
  by (simp_all add: reads_only_def rcmd_def unchanged_def)

lemma reads_only_dbread [reads_rules]: "reads_only (dbread f)"
  by (simp add: reads_only_def dbcmd_def unchanged_def)

lemma reads_only_catchE [reads_rules]:
  assumes "reads_only m" and "\<And>e. reads_only (h e)"
  shows "reads_only (catchE m h)"
  using assms unfolding reads_only_def catchE_def
  by (auto split: prod.splits sum.splits) (metis snd_conv unchanged_trans)+

lemma reads_only_seqE [reads_rules]: "reads_only m \<Longrightarrow> reads_only n \<Longrightarrow> reads_only (seqE m n)"
  by (simp add: seqE_def reads_only_andThen)

lemma reads_only_all2 [reads_rules]: "reads_only a \<Longrightarrow> reads_only b \<Longrightarrow> reads_only (all2 a b)"
  unfolding reads_only_def all2_def by (auto split: prod.splits) (metis snd_conv unchanged_trans)

lemma reads_only_allE [reads_rules]:
  "(\<And>a. a \<in> set as \<Longrightarrow> reads_only a) \<Longrightarrow> reads_only (allE as)"
proof (induction as)
  case (Cons a as)
  have "reads_only (andThen (all2 a (allE as)) (\<lambda>p. case p of (x, xs) \<Rightarrow> ret (x # xs)))"
    using Cons by (intro reads_only_andThen reads_only_all2)
      (auto intro: reads_rules split: prod.splits)
  then show ?case by simp
qed (simp add: reads_rules)

text \<open>Reads succeed, with the value of the view, unless a fault is scheduled.\<close>

lemma redisGet_InrD: "redisGet k w = (Inr v, w') \<Longrightarrow> v = value_of w k \<and> unchanged w w'"
  by (frule reads_onlyD [OF reads_only_rcmd(1)]) (auto elim!: rcmd_InrE)

lemma redisSmembers_InrD: "redisSmembers k w = (Inr v, w') \<Longrightarrow> v = index_of w k \<and> unchanged w w'"
  by (frule reads_onlyD [OF reads_only_rcmd(3)]) (auto elim!: rcmd_InrE)

lemma redisMget_InrD: "redisMget ks w = (Inr v, w') \<Longrightarrow> v = map (value_of w) ks \<and> unchanged w w'"
  by (frule reads_onlyD [OF reads_only_rcmd(2)]) (auto elim!: rcmd_InrE)

section \<open>What the stored values are\<close>

text \<open>
  Each family of keys holds one kind of value. An invariant \<open>wf_kv\<close> of every operation of
  every service: so no read of a stored value finds text of another kind.
\<close>

definition pre :: "string \<Rightarrow> string \<Rightarrow> bool" where
  "pre p k = (take (length p) k = p)"

fun isKnock where "isKnock (VKnock _) = True" | "isKnock _ = False"
fun isRejoin where "isRejoin (VRejoin _) = True" | "isRejoin _ = False"
fun isConsent where "isConsent (VConsent _) = True" | "isConsent _ = False"
fun isPending where "isPending (VPending _) = True" | "isPending _ = False"
fun isActive where "isActive (VActive _) = True" | "isActive _ = False"
fun isBootstrap where "isBootstrap (VBootstrap _) = True" | "isBootstrap _ = False"
fun isChat where "isChat (VChat _) = True" | "isChat _ = False"

text \<open>The key a stored record belongs under; a plain string does not say.\<close>

fun home :: "stored \<Rightarrow> string option" where
  "home (VStr _) = None"
| "home (VKnock k) = Some (knockKey (kn_room k) (kn_knockId k))"
| "home (VRejoin g) = Some (directRejoinKey (dr_room g) (dr_userId g))"
| "home (VConsent c) = Some (recordingShareConsentKey (sc_room c) (sc_roomSid c) (sc_userId c))"
| "home (VPending p) = Some (pendingKey (pr_room p))"
| "home (VActive g) = Some (activeKey (ag_room g))"
| "home (VBootstrap b) = Some (bootstrapKey (bs_digest b))"
| "home (VChat c) = Some (chatFileKey (cf_id c))"

definition well_kinded :: "string \<Rightarrow> stored \<Rightarrow> bool" where
  "well_kinded k v \<longleftrightarrow>
     (home v = None \<or> home v = Some k) \<and>
     (pre ''huddle:knock:'' k \<longrightarrow> isKnock v) \<and>
     (pre ''huddle:direct-rejoin:'' k \<longrightarrow> isRejoin v) \<and>
     (pre ''huddle:recording-share-consent:'' k \<longrightarrow> isConsent v) \<and>
     (pre ''huddle:remote-control:pending:'' k \<longrightarrow> isPending v) \<and>
     (pre ''huddle:remote-control:active:'' k \<longrightarrow> isActive v) \<and>
     (pre ''huddle:remote-control:bootstrap:'' k \<longrightarrow> isBootstrap v) \<and>
     (pre ''huddle:chat-file:'' k \<longrightarrow> isChat v)"

text \<open>A condition on every stored value and its key, whatever the condition.\<close>

definition all_stored :: "(string \<Rightarrow> stored \<Rightarrow> bool) \<Rightarrow> stored redis \<Rightarrow> bool" where
  "all_stored P r \<longleftrightarrow> (\<forall>k e. strings r k = Some e \<longrightarrow> P k (val e))"

definition holds_kv :: "(string \<Rightarrow> stored \<Rightarrow> bool) \<Rightarrow> 'lk world \<Rightarrow> bool" where
  "holds_kv P w \<longleftrightarrow> all_stored P (kv w)"

definition wf_kv :: "'lk world \<Rightarrow> bool" where
  "wf_kv w \<longleftrightarrow> holds_kv well_kinded w"

lemma all_stored_upd [simp]:
  "all_stored P (r\<lparr>sets := s\<rparr>) = all_stored P r" "all_stored P (r\<lparr>setExpiresAt := x\<rparr>) = all_stored P r"
  "all_stored P (r\<lparr>zsets := z\<rparr>) = all_stored P r"
  by (simp_all add: all_stored_def)

lemma all_cleanup [simp]:
  "all_stored P r \<Longrightarrow> all_stored P (cleanupString now k r)"
  "all_stored P r \<Longrightarrow> all_stored P (cleanupSet now k r)"
  by (auto simp: all_stored_def cleanupString_def cleanupSet_def split: option.splits if_splits)

lemma all_del1: "all_stored P r \<Longrightarrow> all_stored P (del1 k r)"
  by (auto simp: all_stored_def del1_def split: if_splits)

lemma all_get: "all_stored P r \<Longrightarrow> all_stored P (snd (get now k r))"
  by (simp add: get_def Let_def)

lemma all_mget: "all_stored P r \<Longrightarrow> all_stored P (snd (mget now ks r))"
  by (induction ks arbitrary: r) (simp_all add: split_beta Let_def all_get)

lemma all_getdel: "all_stored P r \<Longrightarrow> all_stored P (snd (getdel now k r))"
  using all_get [of P r now k] by (auto simp: getdel_def split_beta Let_def all_stored_def)

lemma all_rset:
  assumes "all_stored P r" and "P k v"
  shows "all_stored P (snd (rset now k v ttl mode r))"
  using all_cleanup(1) [OF assms(1), of now k] assms(2)
  by (auto simp: rset_def Let_def all_stored_def split: if_splits)

lemma all_del: "all_stored P r \<Longrightarrow> all_stored P (del ks r)"
  unfolding del_def by (induction ks arbitrary: r) (auto simp: all_del1)

lemma all_sets:
  "all_stored P r \<Longrightarrow> all_stored P (sadd now k m r)"
  "all_stored P r \<Longrightarrow> all_stored P (srem now k ms r)"
  "all_stored P r \<Longrightarrow> all_stored P (snd (smembers now k r))"
  "all_stored P r \<Longrightarrow> all_stored P (zadd k score m r)"
  "all_stored P r \<Longrightarrow> all_stored P (zrem k m r)"
  by (auto simp: sadd_def srem_def smembers_def zadd_def zrem_def Let_def split: option.splits)

lemma all_expire: "all_stored P r \<Longrightarrow> all_stored P (expire now k secs r)"
proof -
  assume "all_stored P r"
  then have "all_stored P (cleanupSet now k (cleanupString now k r))" by simp
  then show ?thesis
    by (auto simp: expire_def Let_def all_stored_def split: option.splits if_splits)
qed

lemma holds_kv_simps [simp]:
  "holds_kv P (tick w) = holds_kv P w" "holds_kv P (w\<lparr>sfu := s\<rparr>) = holds_kv P w"
  "holds_kv P (w\<lparr>dbase := d\<rparr>) = holds_kv P w" "holds_kv P (w\<lparr>draws := n\<rparr>) = holds_kv P w"
  "holds_kv P (w\<lparr>proc := p\<rparr>) = holds_kv P w" "holds_kv P (w\<lparr>clock := t\<rparr>) = holds_kv P w"
  by (simp_all add: holds_kv_def)

lemma keeps_holds_kv [keeps_rules]:
  "keeps (holds_kv P) (redisGet k)" "keeps (holds_kv P) (redisMget ks)" "keeps (holds_kv P) (redisGetdel k)"
  "keeps (holds_kv P) (redisDel ks)" "keeps (holds_kv P) (redisSadd k m)" "keeps (holds_kv P) (redisSrem k ms)"
  "keeps (holds_kv P) (redisSmembers k)" "keeps (holds_kv P) (redisExpire k secs)"
  "keeps (holds_kv P) (redisZadd k score m)" "keeps (holds_kv P) (redisZrem k m)"
  "keeps (holds_kv P) (redisZrangebyscore k low high offset count)"
  "keeps (holds_kv P) (dbcmd q)" "keeps (holds_kv P) (draw f)"
  by (auto intro!: keeps_rcmd keeps_dbcmd keeps_draw
      simp: holds_kv_def all_get all_mget all_getdel all_del all_sets all_expire tick_def)

lemma keeps_holds_kv_set [keeps_rules]:
  "P k v \<Longrightarrow> keeps (holds_kv P) (redisSet k v ttl mode)"
  by (auto intro!: keeps_rcmd simp: holds_kv_def all_rset tick_def)

lemma wf_kv_simps [simp]:
  "wf_kv (tick w) = wf_kv w" "wf_kv (w\<lparr>sfu := s\<rparr>) = wf_kv w" "wf_kv (w\<lparr>dbase := d\<rparr>) = wf_kv w"
  "wf_kv (w\<lparr>draws := n\<rparr>) = wf_kv w" "wf_kv (w\<lparr>proc := p\<rparr>) = wf_kv w" "wf_kv (w\<lparr>clock := t\<rparr>) = wf_kv w"
  by (simp_all add: wf_kv_def)

lemma wf_kv_eq: "wf_kv = holds_kv well_kinded"
  by (simp add: fun_eq_iff wf_kv_def)

lemmas keeps_wf_kv [keeps_rules] = keeps_holds_kv [where P = well_kinded, folded wf_kv_eq]
lemmas keeps_wf_kv_set [keeps_rules] = keeps_holds_kv_set [where P = well_kinded, folded wf_kv_eq]

lemma wf_kv_value: "wf_kv w \<Longrightarrow> value_of w k = Some v \<Longrightarrow> well_kinded k v"
  by (auto simp: wf_kv_def holds_kv_def all_stored_def look_def ent_def split: option.splits if_splits)

lemma kinds:
  "well_kinded (knockKey room i) v \<longleftrightarrow> (\<exists>k. v = VKnock k \<and> knockKey room i = knockKey (kn_room k) (kn_knockId k))"
  "well_kinded (directRejoinKey room i) v \<longleftrightarrow>
     (\<exists>g. v = VRejoin g \<and> directRejoinKey room i = directRejoinKey (dr_room g) (dr_userId g))"
  "well_kinded (recordingShareConsentKey room sid i) v \<longleftrightarrow>
     (\<exists>c. v = VConsent c \<and> recordingShareConsentKey room sid i =
            recordingShareConsentKey (sc_room c) (sc_roomSid c) (sc_userId c))"
  by (cases v; auto simp: well_kinded_def pre_def key_defs)+

lemma rc_kinds:
  "well_kinded (pendingKey room) v \<longleftrightarrow> (\<exists>p. v = VPending p \<and> pr_room p = room)"
  "well_kinded (activeKey room) v \<longleftrightarrow> (\<exists>g. v = VActive g \<and> ag_room g = room)"
  "well_kinded (bootstrapKey d) v \<longleftrightarrow> (\<exists>b. v = VBootstrap b \<and> bs_digest b = d)"
  "well_kinded (chatFileKey i) v \<longleftrightarrow> (\<exists>c. v = VChat c \<and> cf_id c = i)"
  by (cases v; auto simp: well_kinded_def pre_def key_defs)+

lemma string_kinds [simp]:
  "well_kinded (directRejoinIdentityKey room i) (VStr s)"
  "well_kinded (recordingShareConsentIdentityKey room sid i) (VStr s)"
  "well_kinded (ownerKey room) (VStr s)"
  by (auto simp: well_kinded_def pre_def key_defs)

end
