(* ===== verification/RoomState.thy ===== *)
theory RoomState
  imports World
begin

text \<open>
  \<^verbatim>\<open>RoomStateService\<close> (\<^verbatim>\<open>rooms/rooms.state.ts\<close>): the waiting-room Knocks, the Direct Rejoin
  Grants and the Recording Share Consents, kept in Redis under string keys. Every operation
  is the whole method, command by command.
\<close>

definition KNOCK_TTL_SECONDS :: int where
  "KNOCK_TTL_SECONDS = 60 * 60"

section \<open>Reading stored values\<close>

text \<open>\<^verbatim>\<open>if (!raw)\<close>: no value, or the empty string.\<close>

fun present :: "stored option \<Rightarrow> stored option" where
  "present None = None"
| "present (Some (VStr [])) = None"
| "present (Some v) = Some v"

lemma present_VStr [simp]: "present (Some (VStr s)) = (if s = [] then None else Some (VStr s))"
  by (cases s) auto

definition syntaxError :: exn where
  "syntaxError = JsError ''SyntaxError''"

fun parseKnock :: "stored \<Rightarrow> exn + knock" where
  "parseKnock (VKnock k) = Inr k"
| "parseKnock _ = Inl syntaxError"

fun parseRejoin :: "stored \<Rightarrow> exn + direct_rejoin_grant" where
  "parseRejoin (VRejoin g) = Inr g"
| "parseRejoin _ = Inl syntaxError"

fun parseConsent :: "stored \<Rightarrow> exn + recording_share_consent" where
  "parseConsent (VConsent c) = Inr c"
| "parseConsent _ = Inl syntaxError"

fun rawString :: "stored option \<Rightarrow> string option" where
  "rawString (Some (VStr s)) = (if s = [] then None else Some s)"
| "rawString _ = None"

section \<open>Knocks\<close>

definition writeKnock :: "knock \<Rightarrow> ('lk, unit) op" where
  "writeKnock k =
     seqE (redisSet (knockKey (kn_room k) (kn_knockId k)) (VKnock k) (Some KNOCK_TTL_SECONDS) Always)
       (ret ())"

definition addKnock :: "'lk env \<Rightarrow> string \<Rightarrow> string \<Rightarrow> string option \<Rightarrow> string option \<Rightarrow> ('lk, knock) op" where
  "addKnock E room name img userId =
     andThen (randomUUID E) (\<lambda>knockId.
     andThen dateNow (\<lambda>now.
     let k = \<lparr>kn_knockId = knockId, kn_room = room, kn_name = name, kn_userId = userId,
              kn_image = img, kn_status = Pending, kn_requestedAt = now,
              kn_identity = None, kn_token = None\<rparr>
     in seqE (writeKnock k)
       (seqE (redisSadd (indexKey room) knockId)
       (seqE (redisExpire (indexKey room) KNOCK_TTL_SECONDS)
       (ret k)))))"

definition getKnock :: "string \<Rightarrow> string \<Rightarrow> ('lk, knock option) op" where
  "getKnock room knockId =
     andThen (redisGet (knockKey room knockId)) (\<lambda>raw.
       case present raw of
         None \<Rightarrow> ret None
       | Some v \<Rightarrow> andThen (lift (parseKnock v)) (\<lambda>k.
           ret (if kn_room k = room then Some k else None)))"

text \<open>The loop of \<^verbatim>\<open>listPendingKnocks\<close>: pending Knocks and ids whose value has expired.\<close>

fun sortKnocks :: "(string \<times> stored option) list \<Rightarrow> exn + knock list \<times> string list" where
  "sortKnocks [] = Inr ([], [])"
| "sortKnocks ((i, None) # rest) =
     (case sortKnocks rest of Inl e \<Rightarrow> Inl e | Inr (ps, xs) \<Rightarrow> Inr (ps, i # xs))"
| "sortKnocks ((i, Some v) # rest) =
     (case parseKnock v of
        Inl e \<Rightarrow> Inl e
      | Inr k \<Rightarrow>
          (case sortKnocks rest of
             Inl e \<Rightarrow> Inl e
           | Inr (ps, xs) \<Rightarrow> Inr (if kn_status k = Pending then k # ps else ps, xs)))"

definition listPendingKnocks :: "string \<Rightarrow> ('lk, knock list) op" where
  "listPendingKnocks room =
     andThen (redisSmembers (indexKey room)) (\<lambda>ids.
       if ids = [] then ret []
       else
         andThen (redisMget (map (knockKey room) ids)) (\<lambda>raws.
         andThen (lift (sortKnocks (zip ids raws))) (\<lambda>(pending, expired).
           seqE (whenE (expired \<noteq> []) (redisSrem (indexKey room) expired))
             (ret pending))))"

definition removeKnock :: "string \<Rightarrow> string \<Rightarrow> ('lk, unit) op" where
  "removeKnock room knockId =
     seqE (redisDel [knockKey room knockId]) (redisSrem (indexKey room) [knockId])"

definition updatePendingKnocksForUser ::
    "string \<Rightarrow> string \<Rightarrow> string \<Rightarrow> string option \<Rightarrow> ('lk, unit) op" where
  "updatePendingKnocksForUser room userId name img =
     andThen (listPendingKnocks room) (\<lambda>knocks.
       forE (\<lambda>k. if kn_userId k \<noteq> Some userId then ret ()
                else writeKnock (k\<lparr>kn_name := name, kn_image := img\<rparr>)) knocks)"

definition removePendingKnocksForUser :: "string \<Rightarrow> string \<Rightarrow> ('lk, unit) op" where
  "removePendingKnocksForUser room userId =
     andThen (listPendingKnocks room) (\<lambda>knocks.
       forE (\<lambda>k. whenE (kn_userId k = Some userId) (removeKnock room (kn_knockId k))) knocks)"

text \<open>\<^verbatim>\<open>resolveKnock\<close> mutates the caller's object; the model returns the new value.\<close>

definition resolveKnock :: "knock \<Rightarrow> knock_status \<Rightarrow> (string \<times> string) option \<Rightarrow> ('lk, knock) op" where
  "resolveKnock k status grant =
     (let k = k\<lparr>kn_status := status\<rparr>;
          k = (case grant of None \<Rightarrow> k
               | Some (identity, token) \<Rightarrow> k\<lparr>kn_identity := Some identity, kn_token := Some token\<rparr>)
      in seqE (writeKnock k) (ret k))"

definition clearKnocks :: "string \<Rightarrow> ('lk, unit) op" where
  "clearKnocks room =
     andThen (redisSmembers (indexKey room)) (\<lambda>ids.
       seqE (whenE (ids \<noteq> []) (redisDel (map (knockKey room) ids)))
         (redisDel [indexKey room]))"

section \<open>Direct Rejoin Grants\<close>

definition getDirectRejoinGrant :: "string \<Rightarrow> string \<Rightarrow> ('lk, direct_rejoin_grant option) op" where
  "getDirectRejoinGrant room userId =
     andThen (redisGet (directRejoinKey room userId)) (\<lambda>raw.
       case present raw of
         None \<Rightarrow> ret None
       | Some v \<Rightarrow> andThen (lift (parseRejoin v)) (\<lambda>g.
           ret (if dr_room g = room \<and> dr_userId g = userId then Some g else None)))"

definition addDirectRejoinGrant ::
    "'lk env \<Rightarrow> string \<Rightarrow> string \<Rightarrow> string \<Rightarrow> string \<Rightarrow> ('lk, direct_rejoin_grant) op" where
  "addDirectRejoinGrant E room roomSid userId identity =
     andThen (getDirectRejoinGrant room userId) (\<lambda>previous.
     seqE (case previous of
             None \<Rightarrow> ret ()
           | Some p \<Rightarrow> redisDel [directRejoinIdentityKey room (dr_identity p)])
     (andThen (randomUUID E) (\<lambda>grantId.
      andThen dateNow (\<lambda>now.
      let g = \<lparr>dr_grantId = grantId, dr_room = room, dr_roomSid = roomSid, dr_userId = userId,
               dr_identity = identity, dr_createdAt = now\<rparr>
      in seqE (redisSet (directRejoinKey room userId) (VRejoin g) None Always)
        (seqE (redisSet (directRejoinIdentityKey room identity) (VStr userId) None Always)
        (seqE (redisSadd (directRejoinIndexKey room) userId)
        (ret g)))))))"

definition getDirectRejoinGrantByIdentity ::
    "string \<Rightarrow> string \<Rightarrow> ('lk, direct_rejoin_grant option) op" where
  "getDirectRejoinGrantByIdentity room identity =
     andThen (redisGet (directRejoinIdentityKey room identity)) (\<lambda>raw.
       case rawString raw of
         None \<Rightarrow> ret None
       | Some userId \<Rightarrow> andThen (getDirectRejoinGrant room userId) (\<lambda>grant.
           ret (case grant of
                  None \<Rightarrow> None
                | Some g \<Rightarrow> if dr_identity g = identity then Some g else None)))"

definition removeDirectRejoinGrant :: "direct_rejoin_grant \<Rightarrow> ('lk, unit) op" where
  "removeDirectRejoinGrant g =
     andThen (getDirectRejoinGrant (dr_room g) (dr_userId g)) (\<lambda>current.
       if map_option dr_grantId current \<noteq> Some (dr_grantId g) then ret ()
       else seqE (redisDel [directRejoinKey (dr_room g) (dr_userId g),
                            directRejoinIdentityKey (dr_room g) (dr_identity g)])
              (redisSrem (directRejoinIndexKey (dr_room g)) [dr_userId g]))"

definition revokeDirectRejoinGrantByIdentity ::
    "string \<Rightarrow> string \<Rightarrow> ('lk, direct_rejoin_grant option) op" where
  "revokeDirectRejoinGrantByIdentity room identity =
     andThen (getDirectRejoinGrantByIdentity room identity) (\<lambda>grant.
       case grant of
         None \<Rightarrow> ret None
       | Some g \<Rightarrow> seqE (removeDirectRejoinGrant g) (ret (Some g)))"

fun parseRejoins :: "stored option list \<Rightarrow> exn + direct_rejoin_grant list" where
  "parseRejoins [] = Inr []"
| "parseRejoins (None # vs) = parseRejoins vs"
| "parseRejoins (Some v # vs) =
     (case parseRejoin v of Inl e \<Rightarrow> Inl e
      | Inr g \<Rightarrow> (case parseRejoins vs of Inl e \<Rightarrow> Inl e | Inr gs \<Rightarrow> Inr (g # gs)))"

definition clearDirectRejoinGrants :: "string \<Rightarrow> string \<Rightarrow> ('lk, unit) op" where
  "clearDirectRejoinGrants room roomSid =
     andThen (redisSmembers (directRejoinIndexKey room)) (\<lambda>userIds.
       if userIds = [] then ret ()
       else
         andThen (redisMget (map (directRejoinKey room) userIds)) (\<lambda>raws.
         andThen (lift (parseRejoins raws)) (\<lambda>grants.
         seqE (allE (map removeDirectRejoinGrant (filter (\<lambda>g. dr_roomSid g = roomSid) grants)))
           (ret ()))))"

section \<open>Recording Share Consents\<close>

definition getRecordingShareConsent ::
    "string \<Rightarrow> string \<Rightarrow> string \<Rightarrow> ('lk, recording_share_consent option) op" where
  "getRecordingShareConsent room roomSid userId =
     andThen (redisGet (recordingShareConsentKey room roomSid userId)) (\<lambda>raw.
       case present raw of
         None \<Rightarrow> ret None
       | Some v \<Rightarrow> andThen (lift (parseConsent v)) (\<lambda>c.
           ret (if sc_room c = room \<and> sc_roomSid c = roomSid \<and> sc_userId c = userId
                then Some c else None)))"

definition addRecordingShareConsent ::
    "string \<Rightarrow> string \<Rightarrow> string \<Rightarrow> string \<Rightarrow> string \<Rightarrow> ('lk, recording_share_consent) op" where
  "addRecordingShareConsent room roomSid userId identity accountBinding =
     andThen (getRecordingShareConsent room roomSid userId) (\<lambda>previous.
     seqE (case previous of
             None \<Rightarrow> ret ()
           | Some p \<Rightarrow> whenE (sc_identity p \<noteq> identity)
               (redisDel [recordingShareConsentIdentityKey room roomSid (sc_identity p)]))
     (andThen dateNow (\<lambda>now.
      let c = \<lparr>sc_room = room, sc_roomSid = roomSid, sc_userId = userId, sc_identity = identity,
               sc_accountBinding = accountBinding, sc_consentedAt = now\<rparr>
      in seqE (redisSet (recordingShareConsentKey room roomSid userId) (VConsent c) None Always)
        (seqE (redisSet (recordingShareConsentIdentityKey room roomSid identity) (VStr userId) None Always)
        (seqE (redisSadd (recordingShareConsentIndexKey room roomSid) userId)
        (ret c))))))"

definition getRecordingShareConsentByIdentity ::
    "string \<Rightarrow> string \<Rightarrow> string \<Rightarrow> ('lk, recording_share_consent option) op" where
  "getRecordingShareConsentByIdentity room roomSid identity =
     andThen (redisGet (recordingShareConsentIdentityKey room roomSid identity)) (\<lambda>raw.
       case rawString raw of
         None \<Rightarrow> ret None
       | Some userId \<Rightarrow> andThen (getRecordingShareConsent room roomSid userId) (\<lambda>consent.
           ret (case consent of
                  None \<Rightarrow> None
                | Some c \<Rightarrow> if sc_identity c = identity then Some c else None)))"

definition listRecordingShareConsents ::
    "string \<Rightarrow> string \<Rightarrow> ('lk, recording_share_consent list) op" where
  "listRecordingShareConsents room roomSid =
     andThen (redisSmembers (recordingShareConsentIndexKey room roomSid)) (\<lambda>userIds.
       if userIds = [] then ret []
       else andThen (allE (map (getRecordingShareConsent room roomSid) userIds)) (\<lambda>consents.
         ret (List.map_filter (\<lambda>c. c) consents)))"

definition clearRecordingShareConsents :: "string \<Rightarrow> string \<Rightarrow> ('lk, unit) op" where
  "clearRecordingShareConsents room roomSid =
     andThen (listRecordingShareConsents room roomSid) (\<lambda>consents.
       let keys = concat (map (\<lambda>c. [recordingShareConsentKey room roomSid (sc_userId c),
                                    recordingShareConsentIdentityKey room roomSid (sc_identity c)]) consents)
       in seqE (whenE (keys \<noteq> []) (redisDel keys))
            (redisDel [recordingShareConsentIndexKey room roomSid]))"

section \<open>The stored values stay well-kinded\<close>

lemma keeps_wf_knocks [keeps_rules]:
  "keeps wf_kv (writeKnock k)" "keeps wf_kv (addKnock E room name img userId)"
  "keeps wf_kv (getKnock room i)" "keeps wf_kv (listPendingKnocks room)"
  "keeps wf_kv (removeKnock room i)" "keeps wf_kv (resolveKnock k st g)"
  "keeps wf_kv (clearKnocks room)"
  unfolding writeKnock_def addKnock_def getKnock_def listPendingKnocks_def removeKnock_def
    resolveKnock_def clearKnocks_def Let_def
  by (auto intro!: keeps_rules simp: kinds)

lemma keeps_wf_knocks_user [keeps_rules]:
  "keeps wf_kv (updatePendingKnocksForUser room userId name img)"
  "keeps wf_kv (removePendingKnocksForUser room userId)"
  unfolding updatePendingKnocksForUser_def removePendingKnocksForUser_def
  by (auto intro!: keeps_rules simp: kinds)

lemma keeps_wf_rejoin_get [keeps_rules]: "keeps wf_kv (getDirectRejoinGrant room userId)"
  unfolding getDirectRejoinGrant_def by (auto intro!: keeps_rules)

lemma keeps_wf_rejoin [keeps_rules]:
  "keeps wf_kv (addDirectRejoinGrant E room sid userId identity)"
  "keeps wf_kv (getDirectRejoinGrantByIdentity room identity)"
  "keeps wf_kv (removeDirectRejoinGrant g)"
  unfolding addDirectRejoinGrant_def getDirectRejoinGrantByIdentity_def removeDirectRejoinGrant_def Let_def
  by (auto intro!: keeps_rules simp: kinds)

lemma keeps_wf_rejoin_clear [keeps_rules]:
  "keeps wf_kv (revokeDirectRejoinGrantByIdentity room identity)"
  "keeps wf_kv (clearDirectRejoinGrants room sid)"
  unfolding revokeDirectRejoinGrantByIdentity_def clearDirectRejoinGrants_def
  by (auto intro!: keeps_rules simp: kinds)

lemma keeps_wf_consent_get [keeps_rules]: "keeps wf_kv (getRecordingShareConsent room sid userId)"
  unfolding getRecordingShareConsent_def by (auto intro!: keeps_rules)

lemma keeps_wf_consent [keeps_rules]:
  "keeps wf_kv (addRecordingShareConsent room sid userId identity b)"
  "keeps wf_kv (getRecordingShareConsentByIdentity room sid identity)"
  "keeps wf_kv (listRecordingShareConsents room sid)"
  "keeps wf_kv (clearRecordingShareConsents room sid)"
  unfolding addRecordingShareConsent_def getRecordingShareConsentByIdentity_def
    listRecordingShareConsents_def clearRecordingShareConsents_def Let_def
  by (auto intro!: keeps_rules simp: kinds)

section \<open>What the operations do\<close>

subsection \<open>Knocks\<close>

definition knock_at :: "'lk world \<Rightarrow> string \<Rightarrow> string \<Rightarrow> knock option" where
  "knock_at w room i =
     (case value_of w (knockKey room i) of
        Some (VKnock k) \<Rightarrow> if kn_room k = room then Some k else None
      | _ \<Rightarrow> None)"

lemma reads_getKnock [reads_rules]: "reads_only (getKnock room i)"
  unfolding getKnock_def by (auto intro!: reads_rules)

lemma getKnock_Inr:
  assumes "getKnock room i w = (Inr k, w')"
  shows "k = knock_at w room i" and "unchanged w w'"
proof -
  show "unchanged w w'" using reads_onlyD [OF reads_getKnock assms] .
  from assms obtain raw w1 where r: "redisGet (knockKey room i) w = (Inr raw, w1)"
    and c: "(case present raw of None \<Rightarrow> ret None
       | Some v \<Rightarrow> andThen (lift (parseKnock v)) (\<lambda>k. ret (if kn_room k = room then Some k else None))) w1
       = (Inr k, w')"
    unfolding getKnock_def by (rule andThen_InrE)
  from redisGet_InrD [OF r] have raw: "value_of w (knockKey room i) = raw" by simp
  show "k = knock_at w room i"
  proof (cases raw)
    case None
    with c raw show ?thesis by (simp add: knock_at_def look_def)
  next
    case (Some v)
    with c raw show ?thesis
      by (cases v) (auto simp: knock_at_def andThen_def split: if_splits)
  qed
qed

lemma writeKnock_Inr:
  assumes "writeKnock k w = (Inr x, w')"
  shows "entry_of w' key = (if key = knockKey (kn_room k) (kn_knockId k)
           then Some \<lparr>val = VKnock k, expiresAt = Some (clock w + KNOCK_TTL_SECONDS * 1000)\<rparr>
           else entry_of w key)"
    and "index_of w' key = index_of w key"
    and "clock w' = clock w" "dbase w' = dbase w" "sfu w' = sfu w" "draws w' = draws w"
  using assms unfolding writeKnock_def
  by (auto elim!: seqE_InrE rcmd_InrE simp: set_ent live_def KNOCK_TTL_SECONDS_def Let_def)

subsection \<open>Direct Rejoin Grants\<close>

definition rejoin_at :: "'lk world \<Rightarrow> string \<Rightarrow> string \<Rightarrow> direct_rejoin_grant option" where
  "rejoin_at w room userId =
     (case value_of w (directRejoinKey room userId) of
        Some (VRejoin g) \<Rightarrow> if dr_room g = room \<and> dr_userId g = userId then Some g else None
      | _ \<Rightarrow> None)"

definition rejoin_by :: "'lk world \<Rightarrow> string \<Rightarrow> string \<Rightarrow> direct_rejoin_grant option" where
  "rejoin_by w room identity =
     (case rawString (value_of w (directRejoinIdentityKey room identity)) of
        None \<Rightarrow> None
      | Some u \<Rightarrow> (case rejoin_at w room u of
                    None \<Rightarrow> None
                  | Some g \<Rightarrow> if dr_identity g = identity then Some g else None))"

lemma unchanged_rejoin_at: "unchanged w w' \<Longrightarrow> rejoin_at w' room u = rejoin_at w room u"
  by (simp add: rejoin_at_def unchangedD)

lemma unchanged_rejoin_by: "unchanged w w' \<Longrightarrow> rejoin_by w' room i = rejoin_by w room i"
  by (simp add: rejoin_by_def unchanged_rejoin_at unchangedD split: option.split)

lemmas unchanged_rejoin = unchanged_rejoin_at unchanged_rejoin_by

lemma rejoin_at_fields:
  "rejoin_at w room u = Some g \<Longrightarrow> dr_room g = room \<and> dr_userId g = u"
  by (auto simp: rejoin_at_def split: option.splits stored.splits if_splits)

lemma reads_getDirectRejoinGrant [reads_rules]: "reads_only (getDirectRejoinGrant room u)"
  unfolding getDirectRejoinGrant_def by (auto intro!: reads_rules)

lemma getDirectRejoinGrant_Inr:
  assumes "getDirectRejoinGrant room u w = (Inr g, w')"
  shows "g = rejoin_at w room u" and "unchanged w w'"
proof -
  show "unchanged w w'" using reads_onlyD [OF reads_getDirectRejoinGrant assms] .
  from assms obtain raw w1 where r: "redisGet (directRejoinKey room u) w = (Inr raw, w1)"
    and c: "(case present raw of None \<Rightarrow> ret None
       | Some v \<Rightarrow> andThen (lift (parseRejoin v)) (\<lambda>g.
           ret (if dr_room g = room \<and> dr_userId g = u then Some g else None))) w1 = (Inr g, w')"
    unfolding getDirectRejoinGrant_def by (rule andThen_InrE)
  from redisGet_InrD [OF r] have raw: "value_of w (directRejoinKey room u) = raw" by simp
  show "g = rejoin_at w room u"
  proof (cases raw)
    case None
    with c raw show ?thesis by (simp add: rejoin_at_def look_def)
  next
    case (Some v)
    with c raw show ?thesis
      by (cases v) (auto simp: rejoin_at_def andThen_def split: if_splits)
  qed
qed

lemma reads_getDirectRejoinGrantByIdentity [reads_rules]:
  "reads_only (getDirectRejoinGrantByIdentity room i)"
  unfolding getDirectRejoinGrantByIdentity_def by (auto intro!: reads_rules)

lemma getDirectRejoinGrantByIdentity_Inr:
  assumes "getDirectRejoinGrantByIdentity room i w = (Inr g, w')"
  shows "g = rejoin_by w room i" and "unchanged w w'"
proof -
  show "unchanged w w'" using reads_onlyD [OF reads_getDirectRejoinGrantByIdentity assms] .
  from assms obtain raw w1 where r: "redisGet (directRejoinIdentityKey room i) w = (Inr raw, w1)"
    and c: "(case rawString raw of None \<Rightarrow> ret None
       | Some userId \<Rightarrow> andThen (getDirectRejoinGrant room userId) (\<lambda>grant.
           ret (case grant of None \<Rightarrow> None
                | Some g \<Rightarrow> if dr_identity g = i then Some g else None))) w1 = (Inr g, w')"
    unfolding getDirectRejoinGrantByIdentity_def by (rule andThen_InrE)
  from redisGet_InrD [OF r] have raw: "value_of w (directRejoinIdentityKey room i) = raw"
    and u: "unchanged w w1" by simp_all
  show "g = rejoin_by w room i"
  proof (cases "rawString raw")
    case None
    with c raw show ?thesis by (simp add: rejoin_by_def)
  next
    case (Some userId)
    with c show ?thesis
      by (auto simp: rejoin_by_def raw unchanged_rejoin [OF u]
          elim!: andThen_InrE dest!: getDirectRejoinGrant_Inr(1))
  qed
qed

text \<open>Removing a grant removes exactly that grant, by its id.\<close>

lemma removeDirectRejoinGrant_Inr:
  assumes "removeDirectRejoinGrant g w = (Inr x, w')"
  shows "rejoin_at w' room u =
      (if map_option dr_grantId (rejoin_at w (dr_room g) (dr_userId g)) = Some (dr_grantId g) \<and>
          directRejoinKey room u = directRejoinKey (dr_room g) (dr_userId g)
       then None else rejoin_at w room u)"
    and "clock w' = clock w" and "dbase w' = dbase w" and "draws w' = draws w"
proof -
  from assms obtain c w1 where c: "getDirectRejoinGrant (dr_room g) (dr_userId g) w = (Inr c, w1)"
    and k: "(if map_option dr_grantId c \<noteq> Some (dr_grantId g) then ret ()
       else seqE (redisDel [directRejoinKey (dr_room g) (dr_userId g),
                            directRejoinIdentityKey (dr_room g) (dr_identity g)])
              (redisSrem (directRejoinIndexKey (dr_room g)) [dr_userId g])) w1 = (Inr x, w')"
    unfolding removeDirectRejoinGrant_def by (rule andThen_InrE)
  note c = getDirectRejoinGrant_Inr [OF c]
  have v: "ent (clock w) (kv w1) key = entry_of w key" for key using unchangedD(5) [OF c(2)] by simp
  have cl: "clock w1 = clock w" "dbase w1 = dbase w" "draws w1 = draws w"
    using unchangedD [OF c(2)] by simp_all
  show "clock w' = clock w" and "dbase w' = dbase w" and "draws w' = draws w"
    using k cl by (auto elim!: seqE_InrE rcmd_InrE split: if_splits)
  show "rejoin_at w' room u =
      (if map_option dr_grantId (rejoin_at w (dr_room g) (dr_userId g)) = Some (dr_grantId g) \<and>
          directRejoinKey room u = directRejoinKey (dr_room g) (dr_userId g)
       then None else rejoin_at w room u)"
  proof (cases "map_option dr_grantId c = Some (dr_grantId g)")
    case True
    with k have "value_of w' (directRejoinKey room u) =
        (if directRejoinKey room u = directRejoinKey (dr_room g) (dr_userId g) then None
         else value_of w (directRejoinKey room u))"
      by (auto elim!: seqE_InrE rcmd_InrE simp: look_def del_ent v cl)
    with True c(1) show ?thesis by (simp add: rejoin_at_def)
  next
    case False
    with k c have "unchanged w w'" by simp
    with False c(1) show ?thesis by (auto simp: unchanged_rejoin)
  qed
qed

text \<open>
  Adding a grant: it is found by account and by identity, and the identity of the grant it
  replaces no longer resolves.
\<close>

lemma addDirectRejoinGrant_Inr:
  assumes "addDirectRejoinGrant E room sid u i w = (Inr g, w')"
  shows "g = \<lparr>dr_grantId = uuid E (draws w), dr_room = room, dr_roomSid = sid, dr_userId = u,
              dr_identity = i, dr_createdAt = clock w\<rparr>"
    and "rejoin_at w' room u = Some g"
    and "u \<noteq> [] \<Longrightarrow> rejoin_by w' room i = Some g"
    and "rejoin_at w room u = Some p \<Longrightarrow> dr_identity p \<noteq> i \<Longrightarrow> rejoin_by w' room (dr_identity p) = None"
    and "clock w' = clock w" and "dbase w' = dbase w" and "draws w' = Suc (draws w)"
proof -
  from assms obtain prev w1 where c: "getDirectRejoinGrant room u w = (Inr prev, w1)"
    and k: "seqE (case prev of None \<Rightarrow> ret ()
           | Some p \<Rightarrow> redisDel [directRejoinIdentityKey room (dr_identity p)])
      (andThen (randomUUID E) (\<lambda>grantId. andThen dateNow (\<lambda>now.
       let g = \<lparr>dr_grantId = grantId, dr_room = room, dr_roomSid = sid, dr_userId = u,
               dr_identity = i, dr_createdAt = now\<rparr>
       in seqE (redisSet (directRejoinKey room u) (VRejoin g) None Always)
        (seqE (redisSet (directRejoinIdentityKey room i) (VStr u) None Always)
        (seqE (redisSadd (directRejoinIndexKey room) u) (ret g)))))) w1 = (Inr g, w')"
    unfolding addDirectRejoinGrant_def by (rule andThen_InrE)
  note c = getDirectRejoinGrant_Inr [OF c]
  note same = unchangedD [OF c(2)]
  from k obtain y w2 where d: "(case prev of None \<Rightarrow> ret ()
           | Some p \<Rightarrow> redisDel [directRejoinIdentityKey room (dr_identity p)]) w1 = (Inr y, w2)"
    and k2: "(andThen (randomUUID E) (\<lambda>grantId. andThen dateNow (\<lambda>now.
       let g = \<lparr>dr_grantId = grantId, dr_room = room, dr_roomSid = sid, dr_userId = u,
               dr_identity = i, dr_createdAt = now\<rparr>
       in seqE (redisSet (directRejoinKey room u) (VRejoin g) None Always)
        (seqE (redisSet (directRejoinIdentityKey room i) (VStr u) None Always)
        (seqE (redisSadd (directRejoinIndexKey room) u) (ret g)))))) w2 = (Inr g, w')"
    by (rule seqE_InrE)
  have w2: "clock w2 = clock w" "dbase w2 = dbase w" "draws w2 = draws w"
    "ent (clock w) (kv w2) key = (case prev of None \<Rightarrow> entry_of w key
       | Some p \<Rightarrow> if key = directRejoinIdentityKey room (dr_identity p) then None else entry_of w key)" for key
    using d same by (auto simp: del_ent elim!: rcmd_InrE split: option.splits)
  have e: "ent (clock w) (kv w') key =
      (if key = directRejoinIdentityKey room i then Some \<lparr>val = VStr u, expiresAt = None\<rparr>
       else if key = directRejoinKey room u then Some \<lparr>val = VRejoin g, expiresAt = None\<rparr>
       else ent (clock w) (kv w2) key)"
    and g: "g = \<lparr>dr_grantId = uuid E (draws w), dr_room = room, dr_roomSid = sid, dr_userId = u,
              dr_identity = i, dr_createdAt = clock w\<rparr>"
    and cl: "clock w' = clock w" "dbase w' = dbase w" "draws w' = Suc (draws w)" for key
    using k2 w2 by (auto simp: Let_def set_ent live_def andThen_gets andThen_def [of "draw _"]
        elim!: seqE_InrE rcmd_InrE)
  show "g = \<lparr>dr_grantId = uuid E (draws w), dr_room = room, dr_roomSid = sid, dr_userId = u,
              dr_identity = i, dr_createdAt = clock w\<rparr>" by (rule g)
  show a: "rejoin_at w' room u = Some g" using g by (simp add: rejoin_at_def look_def e cl)
  show "rejoin_by w' room i = Some g" if "u \<noteq> []"
    using that a g by (simp add: rejoin_by_def look_def e cl)
  show "rejoin_by w' room (dr_identity p) = None" if "rejoin_at w room u = Some p" "dr_identity p \<noteq> i"
    using that c(1) by (simp add: rejoin_by_def look_def e w2 cl)
  show "clock w' = clock w" and "dbase w' = dbase w" and "draws w' = Suc (draws w)" by (fact cl)+
qed

end
