(* ===== verification/RoomsRepo.thy ===== *)
theory RoomsRepo
  imports World
begin

text \<open>
  \<^verbatim>\<open>RoomRepository\<close> (\<^verbatim>\<open>rooms/rooms.repo.ts\<close>) and \<^verbatim>\<open>makeIdentity\<close> (\<^verbatim>\<open>rooms/identity.ts\<close>): the
  persisted rooms with their generated Room Codes, and LiveKit identities derived from
  display names.
\<close>

section \<open>Room Codes\<close>

definition roomAlphabet :: string where
  "roomAlphabet = ''abcdefghijkmnpqrstuvwxyz''"

definition codeGroup :: "nat \<Rightarrow> nat list \<Rightarrow> string" where
  "codeGroup n bytes = map (\<lambda>i. roomAlphabet ! (bytes ! i mod length roomAlphabet)) [0..<n]"

definition roomCode :: "'lk env \<Rightarrow> ('lk, string) op" where
  "roomCode E =
     andThen (randomBytes E 3) (\<lambda>a.
     andThen (randomBytes E 4) (\<lambda>b.
     andThen (randomBytes E 3) (\<lambda>c.
       ret (codeGroup 3 a @ ''-'' @ codeGroup 4 b @ ''-'' @ codeGroup 3 c))))"

section \<open>Rows\<close>

text \<open>An insert: the primary key and the slug are unique, and the host must exist.\<close>

definition insertRoom :: "room_row \<Rightarrow> database \<Rightarrow> (exn + room_row) \<times> database" where
  "insertRoom r d =
     (if \<exists>r' \<in> set (rooms d). rm_slug r' = rm_slug r \<or> rm_id r' = rm_id r
      then (Inl (PrismaError ''P2002''), d)
      else if \<not> (\<exists>u \<in> set (users d). us_id u = rm_hostUserId r) then (Inl (PrismaError ''P2003''), d)
      else (Inr r, d\<lparr>rooms := rooms d @ [r]\<rparr>))"

definition tryCreate :: "'lk env \<Rightarrow> int option \<Rightarrow> string \<Rightarrow> ('lk, room_row) op" where
  "tryCreate E scheduledStart hostUserId =
     andThen (roomCode E) (\<lambda>slug.
     andThen (randomBytes E 24) (\<lambda>key.
     andThen (draw (cuid E)) (\<lambda>i.
       dbcmd (\<lambda>now. insertRoom \<lparr>rm_id = i, rm_slug = slug, rm_scheduledStart = scheduledStart,
                                rm_hostKey = toBase64url key, rm_hostUserId = hostUserId,
                                rm_createdAt = now\<rparr>))))"

text \<open>The retry loop; \<open>attempts\<close> is how many are left.\<close>

primrec createLoop :: "'lk env \<Rightarrow> int option \<Rightarrow> string \<Rightarrow> nat \<Rightarrow> ('lk, room_row) op" where
  "createLoop E scheduledStart hostUserId 0 = raise (JsError ''Could not allocate a unique room code'')"
| "createLoop E scheduledStart hostUserId (Suc attempts) =
     catchE (tryCreate E scheduledStart hostUserId)
       (\<lambda>err. if isUniqueViolation err then createLoop E scheduledStart hostUserId attempts
              else raise err)"

definition roomCreate :: "'lk env \<Rightarrow> int option \<Rightarrow> string \<Rightarrow> ('lk, room_row) op" where
  "roomCreate E scheduledStart hostUserId = createLoop E scheduledStart hostUserId 5"

definition roomBySlug :: "string \<Rightarrow> database \<Rightarrow> room_row option" where
  "roomBySlug slug d = find (\<lambda>r. rm_slug r = slug) (rooms d)"

definition findBySlug :: "string \<Rightarrow> ('lk, room_row option) op" where
  "findBySlug slug = dbread (\<lambda>_. roomBySlug slug)"

definition findRoomById :: "string \<Rightarrow> ('lk, room_row option) op" where
  "findRoomById i = dbread (\<lambda>_ d. find (\<lambda>r. rm_id r = i) (rooms d))"

definition listByHost :: "string \<Rightarrow> ('lk, room_row list) op" where
  "listByHost hostUserId =
     dbread (\<lambda>now d. sort_key (\<lambda>r. the (rm_scheduledStart r))
       (filter (\<lambda>r. rm_hostUserId r = hostUserId \<and>
                    (case rm_scheduledStart r of None \<Rightarrow> False | Some t \<Rightarrow> t > now)) (rooms d)))"

section \<open>Identities\<close>

definition toLower :: "char \<Rightarrow> char" where
  "toLower c =
     (let n = of_char c :: nat in if 65 \<le> n \<and> n \<le> 90 then char_of (n + 32) else c)"

definition slugChar :: "char \<Rightarrow> bool" where
  "slugChar c = (c \<in> set ''abcdefghijklmnopqrstuvwxyz0123456789'')"

text \<open>\<^verbatim>\<open>replace(/[^a-z0-9]+/g, '-')\<close>: each run of other characters becomes one dash.\<close>

fun dashRuns :: "string \<Rightarrow> string" where
  "dashRuns [] = []"
| "dashRuns (c # cs) =
     (let r = dashRuns cs in
      if slugChar c then c # r
      else if r \<noteq> [] \<and> hd r = CHR ''-'' then r else CHR ''-'' # r)"

definition stripDashes :: "string \<Rightarrow> string" where
  "stripDashes s =
     rev (dropWhile (\<lambda>c. c = CHR ''-'') (rev (dropWhile (\<lambda>c. c = CHR ''-'') s)))"

definition nameSlug :: "string \<Rightarrow> string" where
  "nameSlug displayName =
     (let s = take 24 (stripDashes (dashRuns (map toLower displayName)))
      in if s = [] then ''guest'' else s)"

definition makeIdentity :: "'lk env \<Rightarrow> string \<Rightarrow> ('lk, string) op" where
  "makeIdentity E displayName =
     andThen (randomBytes E 4) (\<lambda>suffix. ret (nameSlug displayName @ ''-'' @ toHex suffix))"

section \<open>Lemmas\<close>

lemma reads_rooms [reads_rules]:
  "reads_only (findBySlug slug)" "reads_only (findRoomById i)" "reads_only (listByHost u)"
  unfolding findBySlug_def findRoomById_def listByHost_def by (auto intro: reads_rules)

lemma findBySlug_Inr:
  assumes "findBySlug slug w = (Inr r, w')"
  shows "r = roomBySlug slug (dbase w)" and "unchanged w w'"
  using assms reads_onlyD [OF reads_rooms(1) assms] by (auto simp: findBySlug_def elim!: dbcmd_InrE)

lemma roomBySlug_Some: "roomBySlug slug d = Some r \<Longrightarrow> r \<in> set (rooms d) \<and> rm_slug r = slug"
  unfolding roomBySlug_def by (rule find_Some_mem)

lemma codeGroup_chars:
  "set (codeGroup n bytes) \<subseteq> set roomAlphabet" and length_codeGroup [simp]: "length (codeGroup n bytes) = n"
proof -
  have "k mod length roomAlphabet < length roomAlphabet" for k by (simp add: roomAlphabet_def)
  then show "set (codeGroup n bytes) \<subseteq> set roomAlphabet" by (auto simp: codeGroup_def)
  show "length (codeGroup n bytes) = n" by (simp add: codeGroup_def)
qed

definition wellFormedCode :: "string \<Rightarrow> bool" where
  "wellFormedCode s \<longleftrightarrow> length s = 12 \<and> s ! 3 = CHR ''-'' \<and> s ! 8 = CHR ''-'' \<and>
     (\<forall>i < 12. i \<noteq> 3 \<and> i \<noteq> 8 \<longrightarrow> s ! i \<in> set roomAlphabet)"

lemma code_shape:
  assumes "set a \<subseteq> A" "set b \<subseteq> A" "set c \<subseteq> A" "length a = 3" "length b = 4" "length c = 3"
    and i: "i < 12" "i \<noteq> 3" "i \<noteq> 8"
  shows "(a @ ''-'' @ b @ ''-'' @ c) ! i \<in> A"
proof -
  consider "i < 3" | "3 < i" "i < 8" | "8 < i" using i by linarith
  then show ?thesis
  proof cases
    case 1
    with assms show ?thesis by (auto simp: nth_append subset_iff)
  next
    case 2
    then have "b ! (i - 4) \<in> set b" using assms by (intro nth_mem) linarith
    with 2 assms show ?thesis by (auto simp: nth_append nth_Cons' subset_iff)
  next
    case 3
    then have "c ! (i - 9) \<in> set c" using assms by (intro nth_mem) linarith
    with 3 assms show ?thesis by (auto simp: nth_append nth_Cons' subset_iff numeral_eq_Suc)
  qed
qed

lemma codeGroup_shape: "wellFormedCode (codeGroup 3 a @ ''-'' @ codeGroup 4 b @ ''-'' @ codeGroup 3 c)"
  unfolding wellFormedCode_def
  using code_shape [OF codeGroup_chars codeGroup_chars codeGroup_chars length_codeGroup
      length_codeGroup length_codeGroup, of _ a b c]
  by (simp add: nth_append)

lemma wellFormedCode_colon_free:
  assumes "wellFormedCode s" shows "colon_free s"
proof -
  have "c \<noteq> CHR '':''" if "c \<in> set s" for c
  proof -
    obtain i where i: "i < length s" "c = s ! i" using \<open>c \<in> set s\<close> by (auto simp: in_set_conv_nth)
    with assms have "c = CHR ''-'' \<or> c \<in> set roomAlphabet" unfolding wellFormedCode_def by metis
    then show ?thesis by (auto simp: roomAlphabet_def)
  qed
  then show ?thesis by (auto simp: colon_free_def)
qed

lemma tryCreate_Inr:
  assumes "tryCreate E st h w = (Inr r, w')"
  shows "wellFormedCode (rm_slug r)" "rm_hostUserId r = h" "rm_scheduledStart r = st"
    "rooms (dbase w') = rooms (dbase w) @ [r]"
    "\<forall>r' \<in> set (rooms (dbase w)). rm_slug r' \<noteq> rm_slug r \<and> rm_id r' \<noteq> rm_id r"
  using assms codeGroup_shape unfolding tryCreate_def roomCode_def
  by (auto elim!: andThen_InrE dbcmd_InrE simp: insertRoom_def split: if_splits)

lemma tryCreate_Inl:
  assumes "tryCreate E st h w = (Inl e, w')"
  shows "dbase w' = dbase w" "kv w' = kv w"
  using assms unfolding tryCreate_def roomCode_def
  by (auto simp: andThen_def dbcmd_def insertRoom_def split: if_splits)

text \<open>Whatever attempt succeeds, the room it inserts is new and well formed.\<close>

lemma createLoop_Inr:
  assumes "createLoop E st h n w = (Inr r, w')"
  shows "wellFormedCode (rm_slug r) \<and> rm_hostUserId r = h \<and> rm_scheduledStart r = st \<and>
    rooms (dbase w') = rooms (dbase w) @ [r] \<and>
    (\<forall>r' \<in> set (rooms (dbase w)). rm_slug r' \<noteq> rm_slug r \<and> rm_id r' \<noteq> rm_id r)"
  using assms
proof (induction n arbitrary: w)
  case (Suc n)
  obtain x w1 where t: "tryCreate E st h w = (x, w1)" by (cases "tryCreate E st h w")
  show ?case
  proof (cases x)
    case (Inl e)
    with t Suc.prems have "createLoop E st h n w1 = (Inr r, w')"
      by (auto simp: catchE_def split: if_splits)
    from Suc.IH [OF this] tryCreate_Inl [OF t [unfolded Inl]] show ?thesis by simp
  next
    case (Inr r')
    with t Suc.prems have "tryCreate E st h w = (Inr r, w')" by (simp add: catchE_def)
    from tryCreate_Inr [OF this] show ?thesis by simp
  qed
qed simp

lemma keeps_wf_rooms [keeps_rules]:
  "keeps wf_kv (findBySlug slug)" "keeps wf_kv (findRoomById i)" "keeps wf_kv (listByHost u)"
  "keeps wf_kv (makeIdentity E name)" "keeps wf_kv (tryCreate E st h)"
  unfolding findBySlug_def findRoomById_def listByHost_def makeIdentity_def tryCreate_def roomCode_def
  by (auto intro!: keeps_rules)

lemma keeps_wf_createLoop [keeps_rules]: "keeps wf_kv (createLoop E st h n)"
  by (induction n) (auto intro!: keeps_rules)

lemma keeps_wf_roomCreate [keeps_rules]: "keeps wf_kv (roomCreate E st h)"
  unfolding roomCreate_def by (rule keeps_wf_createLoop)

end
