(* ===== verification/Maintenance.thy ===== *)
theory Maintenance
  imports World
begin

text \<open>
  \<^verbatim>\<open>MaintenanceService\<close>, \<^verbatim>\<open>MaintenanceGuard\<close> and \<^verbatim>\<open>MaintenanceController\<close>
  (\<^verbatim>\<open>maintenance/\<close>): the one maintenance row, its phase at an instant, who may change it, and
  the gate that keeps new meetings and joins out while maintenance is scheduled or active.
  The interactive transaction of \<^verbatim>\<open>change\<close> holds the advisory lock for its whole body, so
  it is one atomic database step.
\<close>

definition WARNING_MS :: int where
  "WARNING_MS = 5 * 60 * 1000"

definition DEFAULT_MESSAGE :: string where
  "DEFAULT_MESSAGE = ''Huddle is temporarily unavailable while we make improvements. Please check back shortly.''"

datatype phase = PhaseOff | PhaseScheduled | PhaseActive

record maintenance_status =
  ms_phase :: phase
  ms_startsAt :: iso
  ms_message :: string
  ms_serverTime :: iso

text \<open>The phase of the row at an instant.\<close>

definition phaseAt :: "maintenance_row option \<Rightarrow> int \<Rightarrow> phase" where
  "phaseAt row now =
     (case row of
        None \<Rightarrow> PhaseOff
      | Some m \<Rightarrow> if \<not> mt_enabled m then PhaseOff
                 else if mt_startsAt m > now then PhaseScheduled else PhaseActive)"

definition maintenanceStatus :: "('lk, maintenance_status) op" where
  "maintenanceStatus =
     andThen (dbread (\<lambda>_. maintenanceState)) (\<lambda>row.
     andThen dateNow (\<lambda>now.
       ret \<lparr>ms_phase = phaseAt row now,
            ms_startsAt = (case row of None \<Rightarrow> None
                           | Some m \<Rightarrow> if mt_enabled m then toISOString (mt_startsAt m) else None),
            ms_message = (case row of None \<Rightarrow> DEFAULT_MESSAGE
                          | Some m \<Rightarrow> if mt_message m = [] then DEFAULT_MESSAGE else mt_message m),
            ms_serverTime = toISOString now\<rparr>))"

definition isOwner :: "'lk env \<Rightarrow> string option \<Rightarrow> bool" where
  "isOwner E userId =
     (case map_option trim (maintenanceOwner E) of
        None \<Rightarrow> False
      | Some owner \<Rightarrow> owner \<noteq> [] \<and> truthy userId \<and> userId = Some owner)"

definition requireOwner :: "'lk env \<Rightarrow> string option \<Rightarrow> ('lk, unit) op" where
  "requireOwner E userId = whenE (\<not> isOwner E userId) (raise (ForbiddenException TextBody))"

text \<open>The body of the transaction of \<^verbatim>\<open>change\<close>.\<close>

definition changeRow ::
    "bool \<Rightarrow> string option \<Rightarrow> string \<Rightarrow> int \<Rightarrow> database \<Rightarrow> (exn + unit) \<times> database" where
  "changeRow enabled message actorId now d =
     (if \<not> enabled \<and> length (maintenanceCleanup d) > 0 then (Inl (ConflictException TextBody), d)
      else
        let startsAt = (case maintenanceState d of
                          None \<Rightarrow> now + WARNING_MS
                        | Some previous \<Rightarrow> if mt_enabled previous \<and> enabled then mt_startsAt previous
                                          else now + WARNING_MS)
        in (Inr (), d\<lparr>maintenanceState :=
              Some \<lparr>mt_enabled = enabled, mt_startsAt = startsAt,
                    mt_message = trimOr message DEFAULT_MESSAGE, mt_actorId = actorId\<rparr>\<rparr>))"

definition changeMaintenance ::
    "'lk env \<Rightarrow> bool \<Rightarrow> string option \<Rightarrow> string \<Rightarrow> ('lk, maintenance_status) op" where
  "changeMaintenance E enabled message actorId =
     seqE (requireOwner E (Some actorId))
     (seqE (dbcmd (changeRow enabled message actorId))
       maintenanceStatus)"

definition requireAdmissionsOpen :: "('lk, unit) op" where
  "requireAdmissionsOpen =
     andThen maintenanceStatus (\<lambda>st.
       whenE (ms_phase st \<noteq> PhaseOff) (raise (ServiceUnavailableException MaintenanceBody)))"

text \<open>The guard: a handler marked \<^verbatim>\<open>BlockDuringMaintenance\<close> runs while admissions are open.\<close>

definition maintenanceGuard :: "bool \<Rightarrow> ('lk, bool) op" where
  "maintenanceGuard blocked = seqE (whenE blocked requireAdmissionsOpen) (ret True)"

text \<open>The controller: reading needs the owner, changing needs the exact web origin as well.\<close>

definition maintenanceAdmin :: "'lk env \<Rightarrow> string \<Rightarrow> ('lk, maintenance_status) op" where
  "maintenanceAdmin E userId = seqE (requireOwner E (Some userId)) maintenanceStatus"

definition maintenanceChangeEndpoint ::
    "'lk env \<Rightarrow> string \<Rightarrow> string option \<Rightarrow> bool \<Rightarrow> string option \<Rightarrow> ('lk, maintenance_status) op" where
  "maintenanceChangeEndpoint E userId origin enabled message =
     (let expected = (case webOrigin E of None \<Rightarrow> ''http://localhost:3000'' | Some o' \<Rightarrow> o')
      in if origin \<noteq> Some expected then raise (ForbiddenException TextBody)
         else changeMaintenance E enabled message userId)"

section \<open>Lemmas\<close>

lemma reads_maintenanceStatus [reads_rules]: "reads_only maintenanceStatus"
  unfolding maintenanceStatus_def by (auto intro!: reads_rules)

lemma maintenanceStatus_Inr:
  assumes "maintenanceStatus w = (Inr st, w')"
  shows "ms_phase st = phaseAt (maintenanceState (dbase w)) (clock w)" and "unchanged w w'"
  using assms reads_onlyD [OF reads_maintenanceStatus assms] unfolding maintenanceStatus_def
  by (auto elim!: andThen_InrE dbcmd_InrE)

lemma reads_requireAdmissionsOpen [reads_rules]: "reads_only requireAdmissionsOpen"
  unfolding requireAdmissionsOpen_def whenE_def by (auto intro!: reads_rules)

text \<open>The gate lets a caller through exactly while no maintenance is scheduled or active.\<close>

lemma requireAdmissionsOpen_Inr:
  assumes "requireAdmissionsOpen w = (Inr x, w')"
  shows "phaseAt (maintenanceState (dbase w)) (clock w) = PhaseOff" and "unchanged w w'"
proof -
  show "unchanged w w'" using reads_onlyD [OF reads_requireAdmissionsOpen assms] .
  from assms obtain st w1 where st: "maintenanceStatus w = (Inr st, w1)"
    and o: "whenE (ms_phase st \<noteq> PhaseOff) (raise (ServiceUnavailableException MaintenanceBody)) w1 = (Inr x, w')"
    unfolding requireAdmissionsOpen_def by (rule andThen_InrE)
  from o have "ms_phase st = PhaseOff" by (auto simp: whenE_def split: if_splits)
  with maintenanceStatus_Inr(1) [OF st]
  show "phaseAt (maintenanceState (dbase w)) (clock w) = PhaseOff" by simp
qed

lemma requireAdmissionsOpen_ok:
  assumes "faults w = []"
  shows "requireAdmissionsOpen w =
    (if phaseAt (maintenanceState (dbase w)) (clock w) = PhaseOff then (Inr (), w)
     else (Inl (ServiceUnavailableException MaintenanceBody), w))"
  using assms by (simp add: requireAdmissionsOpen_def maintenanceStatus_def andThen_def dbcmd_ok whenE_def)

lemma keeps_wf_maintenance [keeps_rules]:
  "keeps wf_kv maintenanceStatus" "keeps wf_kv requireAdmissionsOpen"
  "keeps wf_kv (changeMaintenance E b m a)"
  unfolding requireAdmissionsOpen_def maintenanceStatus_def changeMaintenance_def requireOwner_def
  by (auto intro!: keeps_rules)

text \<open>A maintenance window, once set, is kept by every later \<^verbatim>\<open>enable\<close>.\<close>

lemma changeRow_keeps_start:
  assumes "maintenanceState d = Some m" and "mt_enabled m"
  shows "\<exists>m'. maintenanceState (snd (changeRow True msg actor now d)) = Some m' \<and>
              mt_enabled m' \<and> mt_startsAt m' = mt_startsAt m"
  using assms by (simp add: changeRow_def Let_def)

end
