(* ===== verification/Livekit.thy ===== *)
theory Livekit
  imports Maintenance
begin

text \<open>
  \<^verbatim>\<open>LivekitService\<close> (\<^verbatim>\<open>rooms/livekit.service.ts\<close>): the wrapper over the LiveKit server SDK
  that mints tokens, administers rooms and keeps the room-wide flags in the room metadata.
  The SDK calls are the operations of \<open>env\<close>. Writes to one room's metadata are chained in
  the process, so the model runs each read-modify-write as one sequence; what other
  processes do between its two SDK calls is part of those calls.
\<close>

section \<open>Metadata\<close>

fun parseMetadata :: "metadata \<Rightarrow> json" where
  "parseMetadata NoMetadata = JObj []"
| "parseMetadata BadMetadata = JObj []"
| "parseMetadata (Metadata j) = j"

fun readMuteOnEntry :: "metadata \<Rightarrow> bool" where
  "readMuteOnEntry (Metadata j) = (jget ''muteOnEntry'' j = Inr (Some (JBool True)))"
| "readMuteOnEntry _ = False"

definition isHost :: "metadata \<Rightarrow> exn + bool" where
  "isHost md = bindR (jget ''role'' (parseMetadata md)) (\<lambda>r. Inr (r = Some (JStr ''host'')))"

definition directRejoinMetadata :: "metadata \<Rightarrow> exn + (string \<times> string) option" where
  "directRejoinMetadata md =
     (let parsed = parseMetadata md in
      bindR (jget ''directRejoinGrantId'' parsed) (\<lambda>g.
      bindR (jget ''directRejoinRoomSid'' parsed) (\<lambda>s.
        Inr (case (jstring g, jstring s) of (Some gid, Some sid) \<Rightarrow> Some (gid, sid) | _ \<Rightarrow> None))))"

text \<open>
  One serialized write: read the room's metadata, let \<open>mutate\<close> change it, write it back
  with the server time unless \<open>mutate\<close> says that nothing changed.
\<close>

definition mutateRoomMetadata ::
    "'lk env \<Rightarrow> string \<Rightarrow> (int \<Rightarrow> json \<Rightarrow> exn + bool \<times> json) \<Rightarrow> ('lk, unit) op" where
  "mutateRoomMetadata E room mutate =
     andThen (lk_listRooms E (Some [room])) (\<lambda>infos.
     andThen dateNow (\<lambda>now.
     let meta = (case infos of [] \<Rightarrow> JObj [] | info # _ \<Rightarrow> parseMetadata (ro_metadata info)) in
     andThen (lift (mutate now meta)) (\<lambda>(changed, meta).
       if \<not> changed then ret ()
       else andThen (lift (jset ''serverTime'' (JNum (of_int now)) meta)) (\<lambda>meta.
              lk_updateRoomMetadata E room (Metadata meta)))))"

section \<open>Tokens\<close>

definition accountBindingFor :: "'lk env \<Rightarrow> string \<Rightarrow> string" where
  "accountBindingFor E userId = hmac E AccountBindingSecret userId"

definition matchesAccountBinding :: "'lk env \<Rightarrow> string \<Rightarrow> string option \<Rightarrow> bool" where
  "matchesAccountBinding E userId proof =
     (truthy proof \<and> proof = Some (accountBindingFor E userId))"

record participant_claims =
  pc_identity :: string
  pc_name :: "string option"
  pc_room :: "string option"
  pc_role :: "string option"
  pc_accountBinding :: "string option"
  pc_tokenExpiresAt :: int

definition verifyParticipantToken :: "'lk env \<Rightarrow> string \<Rightarrow> ('lk, participant_claims option) op" where
  "verifyParticipantToken E token =
     catchE
       (andThen (lk_verify E token) (\<lambda>claims.
          if \<not> truthy (cl_sub claims) then ret None
          else
            let md = parseMetadata (cl_metadata claims) in
            andThen (lift (jget ''role'' md)) (\<lambda>role.
            andThen (lift (jget ''accountBinding'' md)) (\<lambda>binding.
              ret (Some \<lparr>pc_identity = the (cl_sub claims), pc_name = cl_name claims,
                         pc_room = cl_room claims, pc_role = jstring role,
                         pc_accountBinding = jstring binding,
                         pc_tokenExpiresAt = (case cl_exp claims of None \<Rightarrow> 0 | Some s \<Rightarrow> s * 1000)\<rparr>)))))
       (\<lambda>_. ret None)"

record mint_opts =
  mo_room :: string
  mo_identity :: string
  mo_name :: string
  mo_host :: bool
  mo_image :: "string option"
  mo_accountUserId :: "string option"
  mo_directRejoin :: "(string \<times> string) option"

text \<open>\<^verbatim>\<open>JSON.stringify\<close> leaves out the properties that are \<^verbatim>\<open>undefined\<close>.\<close>

definition optional :: "string \<Rightarrow> string option \<Rightarrow> (string \<times> json) list" where
  "optional key v = (case v of None \<Rightarrow> [] | Some s \<Rightarrow> [(key, JStr s)])"

definition joinToken :: "'lk env \<Rightarrow> mint_opts \<Rightarrow> access_token" where
  "joinToken E opts =
     \<lparr>at_identity = mo_identity opts, at_name = mo_name opts, at_ttl = 3600,
      at_metadata = Metadata (JObj (
        [(''role'', JStr (if mo_host opts then ''host'' else ''guest''))] @
        optional ''avatarUrl'' (mo_image opts) @
        optional ''accountBinding''
          (if truthy (mo_accountUserId opts)
           then Some (accountBindingFor E (the (mo_accountUserId opts))) else None) @
        optional ''directRejoinGrantId'' (map_option fst (mo_directRejoin opts)) @
        optional ''directRejoinRoomSid'' (map_option snd (mo_directRejoin opts)))),
      at_grant = \<lparr>vg_room = mo_room opts, vg_canPublish = True, vg_canPublishSources = None,
                  vg_canSubscribe = True, vg_canPublishData = True, vg_roomAdmin = mo_host opts\<rparr>\<rparr>"

definition mintToken :: "'lk env \<Rightarrow> mint_opts \<Rightarrow> ('lk, string) op" where
  "mintToken E opts = seqE requireAdmissionsOpen (lk_toJwt E (joinToken E opts))"

record agent_opts =
  ao_room :: string
  ao_sessionId :: string
  ao_sharerIdentity :: string
  ao_controllerIdentity :: string
  ao_agentIdentity :: string
  ao_protocolVersion :: int

definition agentToken :: "agent_opts \<Rightarrow> access_token" where
  "agentToken opts =
     \<lparr>at_identity = ao_agentIdentity opts, at_name = ''Control Agent'', at_ttl = 3600,
      at_metadata = Metadata (JObj
        [(''role'', JStr ''control-agent''), (''room'', JStr (ao_room opts)),
         (''sessionId'', JStr (ao_sessionId opts)),
         (''sharerIdentity'', JStr (ao_sharerIdentity opts)),
         (''controllerIdentity'', JStr (ao_controllerIdentity opts)),
         (''agentIdentity'', JStr (ao_agentIdentity opts)),
         (''protocolVersion'', JNum (of_int (ao_protocolVersion opts)))]),
      at_grant = \<lparr>vg_room = ao_room opts, vg_canPublish = True,
                  vg_canPublishSources = Some [SCREEN_SHARE], vg_canSubscribe = True,
                  vg_canPublishData = True, vg_roomAdmin = False\<rparr>\<rparr>"

definition mintControlAgentToken :: "'lk env \<Rightarrow> agent_opts \<Rightarrow> ('lk, string) op" where
  "mintControlAgentToken E opts = lk_toJwt E (agentToken opts)"

section \<open>Rooms and participants\<close>

definition listActiveRooms :: "'lk env \<Rightarrow> ('lk, lk_room list) op" where
  "listActiveRooms E = lk_listRooms E None"

definition endRoom :: "'lk env \<Rightarrow> string \<Rightarrow> ('lk, unit) op" where
  "endRoom E name = lk_deleteRoom E name"

definition lkCreateRoom :: "'lk env \<Rightarrow> string \<Rightarrow> ('lk, string) op" where
  "lkCreateRoom E name = andThen (lk_createRoom E name) (\<lambda>room. ret (ro_sid room))"

definition getRoomSid :: "'lk env \<Rightarrow> string \<Rightarrow> ('lk, string option) op" where
  "getRoomSid E name =
     andThen (lk_listRooms E (Some [name])) (\<lambda>infos.
       ret (case infos of [] \<Rightarrow> None | room # _ \<Rightarrow> Some (ro_sid room)))"

text \<open>\<^verbatim>\<open>revokeTokenTs\<close> is the current time in whole seconds.\<close>

definition removeParticipant :: "'lk env \<Rightarrow> string \<Rightarrow> string \<Rightarrow> ('lk, unit) op" where
  "removeParticipant E room identity =
     andThen dateNow (\<lambda>now. lk_removeParticipant E room identity (Some (now div 1000)))"

definition disconnectControlAgent :: "'lk env \<Rightarrow> string \<Rightarrow> string \<Rightarrow> ('lk, unit) op" where
  "disconnectControlAgent E room identity =
     andThen dateNow (\<lambda>now. lk_removeParticipant E room identity (Some (now div 1000)))"

record connected_participant =
  cp_identity :: string
  cp_name :: string
  cp_role :: "string option"
  cp_accountBinding :: "string option"

definition toConnected :: "lk_participant \<Rightarrow> exn + connected_participant" where
  "toConnected p =
     (let md = parseMetadata (pi_metadata p) in
      bindR (jget ''role'' md) (\<lambda>role.
      bindR (jget ''accountBinding'' md) (\<lambda>binding.
        Inr \<lparr>cp_identity = pi_identity p,
             cp_name = (if pi_name p = [] then pi_identity p else pi_name p),
             cp_role = jstring role, cp_accountBinding = jstring binding\<rparr>)))"

definition getConnectedParticipant ::
    "'lk env \<Rightarrow> string \<Rightarrow> string \<Rightarrow> ('lk, connected_participant option) op" where
  "getConnectedParticipant E room identity =
     andThen (lk_listParticipants E room) (\<lambda>participants.
       case find (\<lambda>p. pi_identity p = identity) participants of
         None \<Rightarrow> ret None
       | Some p \<Rightarrow> andThen (lift (toConnected p)) (\<lambda>c. ret (Some c)))"

definition listConnectedParticipants :: "'lk env \<Rightarrow> string \<Rightarrow> ('lk, connected_participant list) op" where
  "listConnectedParticipants E room =
     andThen (lk_listParticipants E room) (\<lambda>participants. lift (mapR toConnected participants))"

definition hasActiveScreenShare :: "'lk env \<Rightarrow> string \<Rightarrow> ('lk, bool) op" where
  "hasActiveScreenShare E room =
     andThen (lk_listParticipants E room) (\<lambda>participants.
       ret (list_ex (\<lambda>p. list_ex (\<lambda>t. tr_source t = SCREEN_SHARE) (pi_tracks p)) participants))"

definition syncAccountProfile :: "'lk env \<Rightarrow> string \<Rightarrow> string \<Rightarrow> string option \<Rightarrow> ('lk, unit) op" where
  "syncAccountProfile E userId name img =
     andThen (listActiveRooms E) (\<lambda>rooms.
       forE (\<lambda>room.
         andThen (lk_listParticipants E (ro_name room)) (\<lambda>participants.
         forE (\<lambda>p.
           let md = parseMetadata (pi_metadata p) in
           andThen (lift (jget ''accountBinding'' md)) (\<lambda>binding.
           andThen (lift (jget ''role'' md)) (\<lambda>role.
             if binding \<noteq> Some (JStr (accountBindingFor E userId)) \<or> role = Some (JStr ''control-agent'')
             then ret ()
             else andThen (lift (case img of None \<Rightarrow> jdel ''avatarUrl'' md
                                 | Some i \<Rightarrow> jset ''avatarUrl'' (JStr i) md)) (\<lambda>md.
                    lk_updateParticipant E (ro_name room) (pi_identity p) name (Metadata md)))))
           participants)) rooms)"

definition removeAccountParticipants :: "'lk env \<Rightarrow> string \<Rightarrow> ('lk, unit) op" where
  "removeAccountParticipants E userId =
     andThen (listActiveRooms E) (\<lambda>rooms.
       forE (\<lambda>room.
         andThen (lk_listParticipants E (ro_name room)) (\<lambda>participants.
         forE (\<lambda>p.
           let md = parseMetadata (pi_metadata p) in
           andThen (lift (jget ''accountBinding'' md)) (\<lambda>binding.
           andThen (lift (jget ''role'' md)) (\<lambda>role.
             whenE (binding = Some (JStr (accountBindingFor E userId)) \<and> role \<noteq> Some (JStr ''control-agent''))
               (lk_removeParticipant E (ro_name room) (pi_identity p) None))))
           participants)) rooms)"

section \<open>Muting\<close>

definition getMuteOnEntry :: "'lk env \<Rightarrow> string \<Rightarrow> ('lk, bool) op" where
  "getMuteOnEntry E room =
     andThen (lk_listRooms E (Some [room])) (\<lambda>infos.
       ret (case infos of [] \<Rightarrow> False | info # _ \<Rightarrow> readMuteOnEntry (ro_metadata info)))"

definition lkSetMuteOnEntry :: "'lk env \<Rightarrow> string \<Rightarrow> bool \<Rightarrow> ('lk, unit) op" where
  "lkSetMuteOnEntry E room muted =
     mutateRoomMetadata E room (\<lambda>now meta.
       bindR (jget ''muteOnEntry'' meta) (\<lambda>v.
         if v = Some (JBool muted) then Inr (False, meta)
         else bindR (jset ''muteOnEntry'' (JBool muted) meta) (\<lambda>meta. Inr (True, meta))))"

definition muteAllMicsExceptHost :: "'lk env \<Rightarrow> string \<Rightarrow> ('lk, nat) op" where
  "muteAllMicsExceptHost E room =
     andThen (lk_listParticipants E room) (\<lambda>participants.
     andThen (lift (filterR (\<lambda>p. bindR (isHost (pi_metadata p)) (\<lambda>b. Inr (\<not> b))) participants)) (\<lambda>guests.
     let mics = concat (map (\<lambda>p. map (Pair (pi_identity p))
                  (filter (\<lambda>t. tr_source t = MICROPHONE \<and> \<not> tr_muted t) (pi_tracks p))) guests) in
     seqE (allE (map (\<lambda>(i, t). lk_mutePublishedTrack E room i (tr_sid t) True) mics))
       (ret (length mics))))"

definition setParticipantMuted :: "'lk env \<Rightarrow> string \<Rightarrow> string \<Rightarrow> bool \<Rightarrow> ('lk, nat) op" where
  "setParticipantMuted E room identity muted =
     andThen (lk_getParticipant E room identity) (\<lambda>p.
     let audioTracks = filter (\<lambda>t. tr_source t = MICROPHONE) (pi_tracks p) in
     seqE (allE (map (\<lambda>t. lk_mutePublishedTrack E room identity (tr_sid t) muted) audioTracks))
       (ret (length audioTracks)))"

section \<open>Room-wide flags\<close>

definition publishMaintenance :: "'lk env \<Rightarrow> string \<Rightarrow> maintenance_status \<Rightarrow> ('lk, unit) op" where
  "publishMaintenance E room st =
     mutateRoomMetadata E room (\<lambda>now meta.
       bindR (jget ''maintenance'' meta) (\<lambda>previous.
         if ms_phase st = PhaseOff \<and> \<not> jtruthy previous then Inr (False, meta)
         else bindR (case previous of None \<Rightarrow> Inr None
                     | Some JNull \<Rightarrow> Inr None
                     | Some v \<Rightarrow> jget ''phase'' v) (\<lambda>phase.
           if ms_phase st = PhaseOff \<and> phase = Some (JStr ''off'') then Inr (False, meta)
           else bindR (jset ''maintenance'' (JObj
                  [(''phase'', JStr (case ms_phase st of PhaseOff \<Rightarrow> ''off''
                      | PhaseScheduled \<Rightarrow> ''scheduled'' | PhaseActive \<Rightarrow> ''active'')),
                   (''startsAt'', case ms_startsAt st of None \<Rightarrow> JNull | Some t \<Rightarrow> JStr (isoText t)),
                   (''message'', JStr (ms_message st)),
                   (''serverTime'', isoJson (ms_serverTime st))]) meta) (\<lambda>meta. Inr (True, meta)))))"

definition setRecordingActive :: "'lk env \<Rightarrow> string \<Rightarrow> bool \<Rightarrow> ('lk, unit) op" where
  "setRecordingActive E room active =
     mutateRoomMetadata E room (\<lambda>now meta.
       bindR (jget ''recording'' meta) (\<lambda>v.
         if (v = Some (JBool True)) = active then Inr (False, meta)
         else bindR (jset ''recording'' (JBool active) meta) (\<lambda>meta.
           if active then bindR (jset ''recordingStartedAt'' (JNum (of_int now)) meta) (\<lambda>meta. Inr (True, meta))
           else bindR (jdel ''recordingStartedAt'' meta) (\<lambda>meta.
                bindR (jdel ''recordingId'' meta) (\<lambda>meta.
                bindR (jdel ''recordingShareAvailable'' meta) (\<lambda>meta. Inr (True, meta)))))))"

definition lkSetRecordingState :: "'lk env \<Rightarrow> string \<Rightarrow> string \<Rightarrow> bool \<Rightarrow> ('lk, unit) op" where
  "lkSetRecordingState E room recordingId shareAvailable =
     mutateRoomMetadata E room (\<lambda>now meta.
       bindR (jset ''recording'' (JBool True) meta) (\<lambda>meta.
       bindR (jset ''recordingStartedAt'' (JNum (of_int now)) meta) (\<lambda>meta.
       bindR (jset ''recordingId'' (JStr recordingId) meta) (\<lambda>meta.
       bindR (jset ''recordingShareAvailable'' (JBool shareAvailable) meta) (\<lambda>meta. Inr (True, meta))))))"

definition stampStartedAt :: "'lk env \<Rightarrow> string \<Rightarrow> ('lk, unit) op" where
  "stampStartedAt E room =
     mutateRoomMetadata E room (\<lambda>now meta.
       bindR (jget ''startedAt'' meta) (\<lambda>v.
         if jtruthy v then Inr (False, meta)
         else bindR (jset ''startedAt'' (JNum (of_int now)) meta) (\<lambda>meta. Inr (True, meta))))"

definition clearStartedAt :: "'lk env \<Rightarrow> string \<Rightarrow> ('lk, unit) op" where
  "clearStartedAt E room =
     mutateRoomMetadata E room (\<lambda>now meta.
       bindR (jget ''startedAt'' meta) (\<lambda>v.
         if \<not> jtruthy v then Inr (False, meta)
         else bindR (jdel ''startedAt'' meta) (\<lambda>meta. Inr (True, meta))))"

record session_summary =
  ss_sessionId :: string
  ss_status :: grant_status
  ss_sharerIdentity :: string
  ss_sharerName :: string
  ss_controllerIdentity :: string
  ss_controllerName :: string
  ss_agentIdentity :: string
  ss_agentConnected :: bool
  ss_renewalDueAt :: iso

definition roomStateJson :: "session_summary \<Rightarrow> json" where
  "roomStateJson s = JObj
     [(''sessionId'', JStr (ss_sessionId s)),
      (''status'', JStr (case ss_status s of AwaitingAgent \<Rightarrow> ''awaiting-agent'' | AgentActive \<Rightarrow> ''active'')),
      (''sharerIdentity'', JStr (ss_sharerIdentity s)), (''sharerName'', JStr (ss_sharerName s)),
      (''controllerIdentity'', JStr (ss_controllerIdentity s)),
      (''controllerName'', JStr (ss_controllerName s)),
      (''agentIdentity'', JStr (ss_agentIdentity s)),
      (''agentConnected'', JBool (ss_agentConnected s)),
      (''renewalDueAt'', isoJson (ss_renewalDueAt s))]"

text \<open>\<^verbatim>\<open>'key' in value\<close> throws on a primitive.\<close>

fun jhas :: "string \<Rightarrow> json \<Rightarrow> exn + bool" where
  "jhas key (JObj fs) = Inr (map_of fs key \<noteq> None)"
| "jhas key (JArr _) = Inr False"
| "jhas key _ = Inl typeError"

definition setRemoteControlState :: "'lk env \<Rightarrow> string \<Rightarrow> session_summary option \<Rightarrow> ('lk, unit) op" where
  "setRemoteControlState E room st =
     mutateRoomMetadata E room (\<lambda>now meta.
       case st of
         Some s \<Rightarrow> bindR (jset ''remoteControl'' (roomStateJson s) meta) (\<lambda>meta. Inr (True, meta))
       | None \<Rightarrow> bindR (jhas ''remoteControl'' meta) (\<lambda>b.
           if \<not> b then Inr (False, meta)
           else bindR (jdel ''remoteControl'' meta) (\<lambda>meta. Inr (True, meta))))"

definition receiveWebhook :: "'lk env \<Rightarrow> string \<Rightarrow> string option \<Rightarrow> ('lk, webhook_event) op" where
  "receiveWebhook E body authHeader = lk_receive E body authHeader"

definition egressStart :: "'lk env \<Rightarrow> string \<Rightarrow> string \<Rightarrow> ('lk, string) op" where
  "egressStart E slug objectKey = lk_startEgress E slug objectKey"

definition egressStop :: "'lk env \<Rightarrow> string \<Rightarrow> ('lk, unit) op" where
  "egressStop E egressId = lk_stopEgress E egressId"

section \<open>Invariants through LiveKit calls\<close>

lemma keeps_mutate [keeps_rules]: "env_keeps I E \<Longrightarrow> keeps I (mutateRoomMetadata E room f)"
  unfolding mutateRoomMetadata_def Let_def by (auto intro!: keeps_rules)

lemma keeps_metadata [keeps_rules]:
  assumes "env_keeps I E"
  shows "keeps I (lkSetMuteOnEntry E room b)" "keeps I (publishMaintenance E room st)"
    "keeps I (setRecordingActive E room b)" "keeps I (lkSetRecordingState E room i b)"
    "keeps I (stampStartedAt E room)" "keeps I (clearStartedAt E room)"
    "keeps I (setRemoteControlState E room rst)"
  unfolding lkSetMuteOnEntry_def publishMaintenance_def setRecordingActive_def
    lkSetRecordingState_def stampStartedAt_def clearStartedAt_def setRemoteControlState_def
  by (simp_all add: keeps_mutate [OF assms])

lemma keeps_livekit_rooms [keeps_rules]:
  assumes "env_keeps I E"
  shows "keeps I (listActiveRooms E)" "keeps I (endRoom E room)" "keeps I (lkCreateRoom E room)"
    "keeps I (getRoomSid E room)" "keeps I (removeParticipant E room i)"
    "keeps I (disconnectControlAgent E room i)" "keeps I (getConnectedParticipant E room i)"
    "keeps I (listConnectedParticipants E room)" "keeps I (hasActiveScreenShare E room)"
    "keeps I (getMuteOnEntry E room)" "keeps I (verifyParticipantToken E tok)"
    "keeps I (mintControlAgentToken E ao)" "keeps I (receiveWebhook E body auth)"
    "keeps I (egressStart E room key)" "keeps I (egressStop E i)"
  using assms unfolding listActiveRooms_def endRoom_def lkCreateRoom_def getRoomSid_def
    removeParticipant_def disconnectControlAgent_def getConnectedParticipant_def
    listConnectedParticipants_def hasActiveScreenShare_def getMuteOnEntry_def
    verifyParticipantToken_def mintControlAgentToken_def receiveWebhook_def egressStart_def
    egressStop_def Let_def
  by (auto intro!: keeps_rules)

lemma keeps_livekit_loops [keeps_rules]:
  assumes "env_keeps I E"
  shows "keeps I (syncAccountProfile E u name img)" "keeps I (removeAccountParticipants E u)"
    "keeps I (muteAllMicsExceptHost E room)" "keeps I (setParticipantMuted E room i b)"
  using assms unfolding syncAccountProfile_def removeAccountParticipants_def
    muteAllMicsExceptHost_def setParticipantMuted_def Let_def
  by (auto intro!: keeps_rules)

lemma keeps_requireAdmissionsOpen:
  "keeps I (dbread (\<lambda>_. maintenanceState)) \<Longrightarrow> keeps I requireAdmissionsOpen"
  unfolding requireAdmissionsOpen_def maintenanceStatus_def by (auto intro!: keeps_rules)

lemma keeps_mintToken:
  "env_keeps I E \<Longrightarrow> keeps I (dbread (\<lambda>_. maintenanceState)) \<Longrightarrow> keeps I (mintToken E opts)"
  unfolding mintToken_def by (auto intro!: keeps_rules keeps_requireAdmissionsOpen)

lemma keeps_wf_mintToken [keeps_rules]: "env_keeps wf_kv E \<Longrightarrow> keeps wf_kv (mintToken E opts)"
  by (auto intro!: keeps_mintToken keeps_rules)

text \<open>No join token is signed while maintenance is scheduled or active.\<close>

lemma mintToken_open:
  assumes "mintToken E opts w = (Inr token, w')"
  shows "phaseAt (maintenanceState (dbase w)) (clock w) = PhaseOff"
    and "\<exists>w1. unchanged w w1 \<and> lk_toJwt E (joinToken E opts) w1 = (Inr token, w')"
proof -
  from assms obtain x w1 where o: "requireAdmissionsOpen w = (Inr x, w1)"
    and t: "lk_toJwt E (joinToken E opts) w1 = (Inr token, w')"
    unfolding mintToken_def by (rule seqE_InrE)
  show "phaseAt (maintenanceState (dbase w)) (clock w) = PhaseOff"
    by (rule requireAdmissionsOpen_Inr [OF o])
  show "\<exists>w1. unchanged w w1 \<and> lk_toJwt E (joinToken E opts) w1 = (Inr token, w')"
    using requireAdmissionsOpen_Inr(2) [OF o] t by blast
qed

lemma mintToken_closed:
  assumes "faults w = []" and "phaseAt (maintenanceState (dbase w)) (clock w) \<noteq> PhaseOff"
  shows "mintToken E opts w = (Inl (ServiceUnavailableException MaintenanceBody), w)"
  using assms by (simp add: mintToken_def seqE_def andThen_def requireAdmissionsOpen_ok)

end
