(* ===== verification/Rooms.thy ===== *)
theory Rooms
  imports RoomState RoomsRepo Livekit
begin

text \<open>
  \<^verbatim>\<open>RoomsService\<close> (\<^verbatim>\<open>rooms/rooms.service.ts\<close>): creating and joining rooms, the waiting room
  (knock, poll, admit, deny), Direct Rejoin, muting and removal. \<^verbatim>\<open>admit\<close> chains the
  decisions of one room in the process, so two runs of \<open>admitOnce\<close> for one room never
  overlap.
\<close>

record auth_user =
  au_id :: string
  au_name :: string
  au_email :: string
  au_image :: "string option"

record host_join_result =
  hj_room :: string
  hj_scheduledStart :: "int option"
  hj_identity :: string
  hj_token :: string
  hj_hostKey :: string
  hj_livekitUrl :: string
  hj_muteOnEntry :: bool

record room_summary =
  su_room :: string
  su_scheduledStart :: "int option"
  su_hostKey :: string
  su_createdAt :: int

record knock_status_result =
  kr_status :: knock_status
  kr_token :: "string option"
  kr_identity :: "string option"
  kr_livekitUrl :: "string option"
  kr_muteOnEntry :: "bool option"

record guest_join_result =
  gj_room :: string
  gj_identity :: string
  gj_token :: string
  gj_livekitUrl :: string
  gj_muteOnEntry :: bool

record knock_summary =
  ks_knockId :: string
  ks_name :: string
  ks_image :: "string option"
  ks_requestedAt :: int

section \<open>Private helpers\<close>

definition requireRoom :: "string \<Rightarrow> ('lk, room_row) op" where
  "requireRoom slug =
     andThen (findBySlug slug) (\<lambda>room.
       case room of None \<Rightarrow> raise (NotFoundException (faultBody ROOM_NOT_FOUND)) | Some r \<Rightarrow> ret r)"

definition requireKnock :: "string \<Rightarrow> string \<Rightarrow> ('lk, knock) op" where
  "requireKnock slug knockId =
     andThen (getKnock slug knockId) (\<lambda>k.
       case k of None \<Rightarrow> raise (NotFoundException (faultBody KNOCK_NOT_FOUND)) | Some k \<Rightarrow> ret k)"

definition ensureLivekitRoom :: "'lk env \<Rightarrow> string \<Rightarrow> ('lk, string) op" where
  "ensureLivekitRoom E slug =
     andThen (getRoomSid E slug) (\<lambda>sid.
       case sid of None \<Rightarrow> lkCreateRoom E slug | Some s \<Rightarrow> ret s)"

definition directRejoinNotAllowed :: exn where
  "directRejoinNotAllowed = ForbiddenException (faultBody DIRECT_REJOIN_NOT_ALLOWED)"

definition requireDirectRejoinGrant :: "string \<Rightarrow> string \<Rightarrow> ('lk, direct_rejoin_grant) op" where
  "requireDirectRejoinGrant slug userId =
     andThen (getDirectRejoinGrant slug userId) (\<lambda>grant.
       case grant of None \<Rightarrow> raise directRejoinNotAllowed | Some g \<Rightarrow> ret g)"

definition mintHostJoin :: "'lk env \<Rightarrow> room_row \<Rightarrow> auth_user \<Rightarrow> ('lk, host_join_result) op" where
  "mintHostJoin E room host =
     andThen (makeIdentity E (au_name host)) (\<lambda>identity.
     andThen (lkCreateRoom E (rm_slug room)) (\<lambda>_.
     andThen (mintToken E \<lparr>mo_room = rm_slug room, mo_identity = identity, mo_name = au_name host,
        mo_host = True, mo_image = au_image host, mo_accountUserId = Some (au_id host),
        mo_directRejoin = None\<rparr>) (\<lambda>token.
     andThen (getMuteOnEntry E (rm_slug room)) (\<lambda>muteOnEntry.
       ret \<lparr>hj_room = rm_slug room, hj_scheduledStart = rm_scheduledStart room,
            hj_identity = identity, hj_token = token, hj_hostKey = rm_hostKey room,
            hj_livekitUrl = livekitUrl E, hj_muteOnEntry = muteOnEntry\<rparr>))))"

definition toRoomSummary :: "room_row \<Rightarrow> room_summary" where
  "toRoomSummary room = \<lparr>su_room = rm_slug room, su_scheduledStart = rm_scheduledStart room,
     su_hostKey = rm_hostKey room, su_createdAt = rm_createdAt room\<rparr>"

section \<open>Rooms\<close>

text \<open>The requested start is absent, or a string that names an instant or none.\<close>

definition createRoom :: "'lk env \<Rightarrow> auth_user \<Rightarrow> iso option \<Rightarrow> ('lk, host_join_result) op" where
  "createRoom E host scheduledStart =
     andThen dateNow (\<lambda>now.
       if (case scheduledStart of None \<Rightarrow> False | Some d \<Rightarrow> expired_at d now)
       then raise (BadRequestException (faultBody VALIDATION))
       else andThen (roomCreate E (Option.bind scheduledStart (\<lambda>d. d)) (au_id host)) (\<lambda>room.
              mintHostJoin E room host))"

definition hostJoin :: "'lk env \<Rightarrow> string \<Rightarrow> auth_user \<Rightarrow> ('lk, host_join_result) op" where
  "hostJoin E slug host =
     andThen (requireRoom slug) (\<lambda>room.
       if rm_hostUserId room \<noteq> au_id host then raise (ForbiddenException (faultBody NOT_HOST))
       else mintHostJoin E room host)"

definition listMine :: "string \<Rightarrow> ('lk, room_summary list) op" where
  "listMine userId = andThen (listByHost userId) (\<lambda>rs. ret (map toRoomSummary rs))"

definition getPublic :: "string \<Rightarrow> ('lk, string \<times> int option) op" where
  "getPublic slug =
     andThen (requireRoom slug) (\<lambda>room. ret (rm_slug room, rm_scheduledStart room))"

section \<open>The waiting room\<close>

definition knockRoom ::
    "'lk env \<Rightarrow> string \<Rightarrow> string option \<Rightarrow> string option \<Rightarrow> string option \<Rightarrow> ('lk, string) op" where
  "knockRoom E slug guestName guestImage guestUserId =
     andThen (requireRoom slug) (\<lambda>_.
       let name = trimOr guestName [] in
       if name = [] then raise (BadRequestException (faultBody NAME_REQUIRED))
       else andThen (addKnock E slug name guestImage guestUserId) (\<lambda>k. ret (kn_knockId k)))"

definition cancelKnock :: "string \<Rightarrow> string \<Rightarrow> ('lk, bool) op" where
  "cancelKnock slug knockId = seqE (removeKnock slug knockId) (ret True)"

definition knockStatus :: "'lk env \<Rightarrow> string \<Rightarrow> string \<Rightarrow> ('lk, knock_status_result) op" where
  "knockStatus E slug knockId =
     andThen (requireKnock slug knockId) (\<lambda>k.
       if kn_status k = Admitted
       then andThen (getMuteOnEntry E slug) (\<lambda>muteOnEntry.
              ret \<lparr>kr_status = Admitted, kr_token = kn_token k, kr_identity = kn_identity k,
                   kr_livekitUrl = Some (livekitUrl E), kr_muteOnEntry = Some muteOnEntry\<rparr>)
       else ret \<lparr>kr_status = kn_status k, kr_token = None, kr_identity = None,
                 kr_livekitUrl = None, kr_muteOnEntry = None\<rparr>)"

definition listKnocks :: "string \<Rightarrow> ('lk, knock_summary list) op" where
  "listKnocks slug =
     andThen (listPendingKnocks slug) (\<lambda>knocks.
       ret (map (\<lambda>k. \<lparr>ks_knockId = kn_knockId k, ks_name = kn_name k, ks_image = kn_image k,
                      ks_requestedAt = kn_requestedAt k\<rparr>) knocks))"

text \<open>The grant a pending Knock is admitted with: the one of this room instance, or a new one.\<close>

definition admissionGrant ::
    "'lk env \<Rightarrow> string \<Rightarrow> knock \<Rightarrow> ('lk, string \<times> direct_rejoin_grant option \<times> bool) op" where
  "admissionGrant E slug k =
     andThen (if truthy (kn_userId k)
              then andThen (ensureLivekitRoom E slug) (\<lambda>s. ret (Some s)) else ret None) (\<lambda>roomSid.
     andThen (if truthy (kn_userId k) then getDirectRejoinGrant slug (the (kn_userId k))
              else ret None) (\<lambda>existing.
     let reusable = (case existing of
                       None \<Rightarrow> None
                     | Some g \<Rightarrow> if Some (dr_roomSid g) = roomSid then Some g else None) in
     case reusable of
       Some g \<Rightarrow> ret (dr_identity g, Some g, True)
     | None \<Rightarrow>
         andThen (makeIdentity E (kn_name k)) (\<lambda>identity.
         if truthy (kn_userId k) \<and> truthy roomSid
         then andThen (addDirectRejoinGrant E slug (the roomSid) (the (kn_userId k)) identity) (\<lambda>g.
                ret (identity, Some g, False))
         else ret (identity, None, False))))"

definition admitOnce :: "'lk env \<Rightarrow> string \<Rightarrow> string \<Rightarrow> ('lk, knock_status) op" where
  "admitOnce E slug knockId =
     andThen (requireKnock slug knockId) (\<lambda>k.
       if kn_status k \<noteq> Pending then ret (kn_status k)
       else
         andThen (admissionGrant E slug k) (\<lambda>(identity, grant, reused).
         andThen (catchE
                    (mintToken E \<lparr>mo_room = slug, mo_identity = identity, mo_name = kn_name k,
                       mo_host = False, mo_image = kn_image k, mo_accountUserId = kn_userId k,
                       mo_directRejoin = map_option (\<lambda>g. (dr_grantId g, dr_roomSid g)) grant\<rparr>)
                    (\<lambda>err. seqE (case grant of
                                   None \<Rightarrow> ret ()
                                 | Some g \<Rightarrow> whenE (\<not> reused) (removeDirectRejoinGrant g))
                             (raise err))) (\<lambda>token.
         andThen (resolveKnock k Admitted (Some (identity, token))) (\<lambda>k.
           ret (kn_status k)))))"

definition rooms_deny :: "string \<Rightarrow> string \<Rightarrow> ('lk, knock_status) op" where
  "rooms_deny slug knockId =
     andThen (requireKnock slug knockId) (\<lambda>k.
       if kn_status k = Pending
       then andThen (resolveKnock k Denied None) (\<lambda>k. ret (kn_status k))
       else ret (kn_status k))"

section \<open>Direct Rejoin\<close>

definition directRejoinEligibility :: "'lk env \<Rightarrow> string \<Rightarrow> auth_user \<Rightarrow> ('lk, bool) op" where
  "directRejoinEligibility E slug guest =
     andThen (requireRoom slug) (\<lambda>_.
     andThen (getDirectRejoinGrant slug (au_id guest)) (\<lambda>grant.
       case grant of
         None \<Rightarrow> ret False
       | Some g \<Rightarrow>
           andThen (getRoomSid E slug) (\<lambda>roomSid.
             if roomSid \<noteq> Some (dr_roomSid g)
             then seqE (removeDirectRejoinGrant g) (ret False)
             else ret True)))"

definition directRejoin :: "'lk env \<Rightarrow> string \<Rightarrow> auth_user \<Rightarrow> ('lk, guest_join_result) op" where
  "directRejoin E slug guest =
     andThen (requireRoom slug) (\<lambda>_.
     andThen (requireDirectRejoinGrant slug (au_id guest)) (\<lambda>grant.
     andThen (getRoomSid E slug) (\<lambda>roomSid.
       if roomSid \<noteq> Some (dr_roomSid grant)
       then seqE (removeDirectRejoinGrant grant) (raise directRejoinNotAllowed)
       else
         andThen (mintToken E \<lparr>mo_room = slug, mo_identity = dr_identity grant,
            mo_name = au_name guest, mo_host = False, mo_image = au_image guest,
            mo_accountUserId = Some (au_id guest),
            mo_directRejoin = Some (dr_grantId grant, dr_roomSid grant)\<rparr>) (\<lambda>token.
         andThen (all2 (getDirectRejoinGrant slug (au_id guest)) (getRoomSid E slug))
           (\<lambda>(latestGrant, latestRoomSid).
         if map_option dr_grantId latestGrant \<noteq> Some (dr_grantId grant) \<or>
            latestRoomSid \<noteq> Some (dr_roomSid grant)
         then raise directRejoinNotAllowed
         else andThen (getMuteOnEntry E slug) (\<lambda>muteOnEntry.
                ret \<lparr>gj_room = slug, gj_identity = dr_identity grant, gj_token = token,
                     gj_livekitUrl = livekitUrl E, gj_muteOnEntry = muteOnEntry\<rparr>))))))"

definition isDirectRejoinParticipantValid ::
    "string \<Rightarrow> string \<Rightarrow> string \<Rightarrow> string \<times> string \<Rightarrow> ('lk, bool) op" where
  "isDirectRejoinParticipantValid slug roomSid identity = (\<lambda>(grantId, tokenSid).
     if tokenSid \<noteq> roomSid then ret False
     else andThen (getDirectRejoinGrantByIdentity slug identity) (\<lambda>grant.
            ret (case grant of None \<Rightarrow> False
                 | Some g \<Rightarrow> dr_grantId g = grantId \<and> dr_roomSid g = roomSid)))"

section \<open>Host actions\<close>

definition rooms_mute :: "'lk env \<Rightarrow> string \<Rightarrow> string \<Rightarrow> bool \<Rightarrow> ('lk, bool) op" where
  "rooms_mute E slug identity muted =
     seqE (setParticipantMuted E slug identity muted) (ret True)"

definition rooms_setMuteOnEntry :: "'lk env \<Rightarrow> string \<Rightarrow> bool \<Rightarrow> ('lk, bool) op" where
  "rooms_setMuteOnEntry E slug muted =
     andThen (requireRoom slug) (\<lambda>_.
     seqE (lkSetMuteOnEntry E slug muted)
     (seqE (if muted then seqE (muteAllMicsExceptHost E slug) (ret ()) else ret ())
       (ret muted)))"

definition rooms_remove :: "'lk env \<Rightarrow> string \<Rightarrow> string \<Rightarrow> ('lk, bool) op" where
  "rooms_remove E slug identity =
     andThen (getConnectedParticipant E slug identity) (\<lambda>participant.
       case participant of
         None \<Rightarrow> raise (NotFoundException (faultBody NOT_PARTICIPANT))
       | Some _ \<Rightarrow>
           andThen (revokeDirectRejoinGrantByIdentity slug identity) (\<lambda>_.
           seqE (removeParticipant E slug identity) (ret True)))"

definition rooms_onRoomFinished :: "string \<Rightarrow> string option \<Rightarrow> ('lk, unit) op" where
  "rooms_onRoomFinished slug roomSid =
     seqE (clearKnocks slug)
       (if truthy roomSid
        then seqE (clearDirectRejoinGrants slug (the roomSid))
               (clearRecordingShareConsents slug (the roomSid))
        else ret ())"

section \<open>The stored values stay well-kinded\<close>

lemma keeps_wf_rooms_helpers [keeps_rules]:
  "keeps wf_kv (requireRoom slug)" "keeps wf_kv (requireKnock slug i)"
  "keeps wf_kv (requireDirectRejoinGrant slug u)"
  unfolding requireRoom_def requireKnock_def requireDirectRejoinGrant_def
  by (auto intro!: keeps_rules)

lemma keeps_wf_rooms_livekit [keeps_rules]:
  assumes "env_keeps wf_kv E"
  shows "keeps wf_kv (ensureLivekitRoom E slug)" "keeps wf_kv (mintHostJoin E room host)"
    "keeps wf_kv (createRoom E host st)" "keeps wf_kv (hostJoin E slug host)"
  using assms unfolding ensureLivekitRoom_def mintHostJoin_def createRoom_def hostJoin_def
  by (auto intro!: keeps_rules)

lemma keeps_wf_waiting_room [keeps_rules]:
  "keeps wf_kv (knockRoom E slug n im u)" "keeps wf_kv (cancelKnock slug i)"
  "keeps wf_kv (listKnocks slug)" "keeps wf_kv (rooms_deny slug i)"
  "keeps wf_kv (isDirectRejoinParticipantValid slug sid i p)"
  "keeps wf_kv (rooms_onRoomFinished slug s)"
  unfolding knockRoom_def cancelKnock_def listKnocks_def rooms_deny_def
    isDirectRejoinParticipantValid_def rooms_onRoomFinished_def Let_def
  by (auto intro!: keeps_rules)

lemma keeps_wf_admit [keeps_rules]:
  assumes "env_keeps wf_kv E"
  shows "keeps wf_kv (admissionGrant E slug k)" "keeps wf_kv (admitOnce E slug i)"
    "keeps wf_kv (knockStatus E slug i)"
proof -
  show a: "keeps wf_kv (admissionGrant E slug k)" for k
    using assms unfolding admissionGrant_def Let_def by (auto intro!: keeps_rules)
  show "keeps wf_kv (admitOnce E slug i)"
    using assms unfolding admitOnce_def by (auto intro!: keeps_rules a)
  show "keeps wf_kv (knockStatus E slug i)"
    using assms unfolding knockStatus_def by (auto intro!: keeps_rules)
qed

lemma keeps_wf_direct_rejoin [keeps_rules]:
  assumes "env_keeps wf_kv E"
  shows "keeps wf_kv (directRejoinEligibility E slug g)" "keeps wf_kv (directRejoin E slug g)"
    "keeps wf_kv (rooms_remove E slug i)" "keeps wf_kv (rooms_setMuteOnEntry E slug b)"
    "keeps wf_kv (rooms_mute E slug i b)"
  using assms unfolding directRejoinEligibility_def directRejoin_def rooms_remove_def
    rooms_setMuteOnEntry_def rooms_mute_def
  by (auto intro!: keeps_rules)

end
