(* ===== verification/Store.thy ===== *)
theory Store
  imports World
begin

text \<open>
  Redis as its clients see it: the live entry of each key at the current time, and what
  each command that succeeds does to it. The proofs about the Remote Control services run
  on these equations instead of on the representation of the store.
\<close>

definition store :: "'lk world \<Rightarrow> string \<rightharpoonup> stored entry" where
  "store w = (\<lambda>k. ent (clock w) (kv w) k)"

text \<open>Nothing but Redis and the fault schedule changed.\<close>

definition frame :: "'lk world \<Rightarrow> 'lk world \<Rightarrow> bool" where
  "frame w w' \<longleftrightarrow> clock w' = clock w \<and> dbase w' = dbase w \<and> sfu w' = sfu w \<and> draws w' = draws w \<and>
     proc w' = proc w"

lemma frame_refl [simp]: "frame w w"
  by (simp add: frame_def)

lemma frame_trans: "frame w w' \<Longrightarrow> frame w' w'' \<Longrightarrow> frame w w''"
  by (simp add: frame_def)

lemma frameD:
  "frame w w' \<Longrightarrow> clock w' = clock w" "frame w w' \<Longrightarrow> dbase w' = dbase w"
  "frame w w' \<Longrightarrow> sfu w' = sfu w" "frame w w' \<Longrightarrow> draws w' = draws w" "frame w w' \<Longrightarrow> proc w' = proc w"
  by (simp_all add: frame_def)

lemma store_value: "value_of w k = map_option val (store w k)"
  by (simp add: store_def look_def)

lemma unchanged_store: "unchanged w w' \<Longrightarrow> store w' = store w" "unchanged w w' \<Longrightarrow> frame w w'"
  by (auto simp: store_def frame_def fun_eq_iff unchangedD)

lemma store_simps [simp]:
  "store (tick w) = store w" "store (w\<lparr>dbase := d\<rparr>) = store w" "store (w\<lparr>sfu := s\<rparr>) = store w"
  "store (w\<lparr>draws := n\<rparr>) = store w" "store (w\<lparr>proc := p\<rparr>) = store w"
  by (simp_all add: store_def)

definition allows :: "set_mode \<Rightarrow> stored entry option \<Rightarrow> bool" where
  "allows mode e = (case mode of Always \<Rightarrow> True | NX \<Rightarrow> e = None | XX \<Rightarrow> e \<noteq> None)"

lemma allows_simps [simp]:
  "allows Always e" "allows NX e \<longleftrightarrow> e = None" "allows XX e \<longleftrightarrow> e \<noteq> None"
  by (simp_all add: allows_def)

abbreviation timed :: "'lk world \<Rightarrow> stored \<Rightarrow> int \<Rightarrow> stored entry" where
  "timed w v secs \<equiv> \<lparr>val = v, expiresAt = Some (clock w + secs * 1000)\<rparr>"

lemma set_InrD:
  assumes "redisSet k v (Some secs) mode w = (Inr b, w')" and "0 < secs"
  shows "b = allows mode (store w k)"
    and "store w' = (if b then (store w)(k \<mapsto> timed w v secs) else store w)" and "frame w w'"
  using assms by (auto elim!: rcmd_InrE
      simp: store_def frame_def fun_eq_iff set_ent live_def Let_def allows_def set_ok_def split: set_mode.splits)

lemma del_InrD:
  assumes "redisDel ks w = (Inr x, w')"
  shows "store w' = (store w) |` (- set ks)" and "frame w w'"
  using assms by (auto elim!: rcmd_InrE simp: store_def frame_def fun_eq_iff del_ent restrict_map_def)

lemma getdel_InrD:
  assumes "redisGetdel k w = (Inr v, w')"
  shows "v = map_option val (store w k)" and "store w' = (store w)(k := None)" and "frame w w'"
  using assms by (auto elim!: rcmd_InrE simp: store_def frame_def fun_eq_iff getdel_ent look_def)

lemma get_InrD:
  assumes "redisGet k w = (Inr v, w')"
  shows "v = map_option val (store w k)" and "store w' = store w" and "frame w w'"
  using redisGet_InrD [OF assms] unchanged_store [of w w'] by (simp_all add: store_value)

text \<open>The same facts, one conjunction per command, to run a whole sequence with.\<close>

named_theorems redisD "what a command or an operation that succeeded did to the store"

lemma set_D [redisD]:
  "redisSet k v (Some secs) mode w = (Inr b, w') \<Longrightarrow>
   0 < secs \<longrightarrow> b = allows mode (store w k) \<and>
   store w' = (if b then (store w)(k \<mapsto> timed w v secs) else store w) \<and> frame w w'"
  using set_InrD [of k v secs mode w b w'] by simp

lemma del_D [redisD]:
  "redisDel ks w = (Inr x, w') \<Longrightarrow> store w' = (store w) |` (- set ks) \<and> frame w w'"
  using del_InrD [of ks w x w'] by simp

lemma getdel_D [redisD]:
  "redisGetdel k w = (Inr v, w') \<Longrightarrow>
   v = map_option val (store w k) \<and> store w' = (store w)(k := None) \<and> frame w w'"
  using getdel_InrD [of k w v w'] by simp

lemma get_D [redisD]:
  "redisGet k w = (Inr v, w') \<Longrightarrow> v = map_option val (store w k) \<and> store w' = store w \<and> frame w w'"
  using get_InrD [of k w v w'] by simp

text \<open>A failing Redis command changes nothing.\<close>

lemma rcmd_InlD: "rcmd f w = (Inl e, w') \<Longrightarrow> store w' = store w \<and> frame w w' \<and> e = storeDown"
  by (auto simp: rcmd_def frame_def split: if_splits)

lemma restrict_compl_upd [simp]: "m |` (- {k}) = m(k := None)"
  by (auto simp: restrict_map_def)

text \<open>Later, an entry is there unless its time has passed.\<close>

lemma store_later:
  assumes "kv w' = kv w" and "clock w \<le> clock w'"
  shows "store w' k = (case store w k of None \<Rightarrow> None
    | Some e \<Rightarrow> if live (clock w') e then Some e else None)"
proof -
  have "live (clock w') e \<Longrightarrow> live (clock w) e" for e :: "stored entry"
    using assms(2) by (auto simp: live_def split: option.splits)
  then show ?thesis using assms(1) by (auto simp: store_def ent_def split: option.split)
qed

end
