(* ===== verification/RcState.thy ===== *)
theory RcState
  imports Store
begin

text \<open>
  \<^verbatim>\<open>RemoteControlStateService\<close> (\<^verbatim>\<open>rooms/remote-control.state.ts\<close>): the per-room lock
  (\<^verbatim>\<open>owner\<close>), the pending request, the active grant and the bootstrap codes, in Redis.
\<close>

definition REMOTE_CONTROL_REQUEST_TTL_MS :: int where
  "REMOTE_CONTROL_REQUEST_TTL_MS = 30000"

definition REMOTE_CONTROL_RENEWAL_MS :: int where
  "REMOTE_CONTROL_RENEWAL_MS = 30 * 60000"

definition REMOTE_CONTROL_BOOTSTRAP_TTL_MS :: int where
  "REMOTE_CONTROL_BOOTSTRAP_TTL_MS = 2 * 60000"

definition ACTIVE_STORAGE_TTL_SECONDS :: int where
  "ACTIVE_STORAGE_TTL_SECONDS = 31 * 60"

text \<open>\<^verbatim>\<open>Math.ceil(ms / 1000)\<close>.\<close>

definition ceilSeconds :: "int \<Rightarrow> int" where
  "ceilSeconds ms = - ((- ms) div 1000)"

lemmas rc_times = REMOTE_CONTROL_REQUEST_TTL_MS_def REMOTE_CONTROL_RENEWAL_MS_def
  REMOTE_CONTROL_BOOTSTRAP_TTL_MS_def ACTIVE_STORAGE_TTL_SECONDS_def ceilSeconds_def

text \<open>
  \<^verbatim>\<open>readJson\<close>: text that is missing, empty, not JSON, or JSON of another kind gives no
  record with the fields the callers compare.
\<close>

fun asPending :: "stored option \<Rightarrow> pending_request option" where
  "asPending (Some (VPending p)) = Some p"
| "asPending _ = None"

fun asActive :: "stored option \<Rightarrow> active_grant option" where
  "asActive (Some (VActive g)) = Some g"
| "asActive _ = None"

fun asBootstrap :: "stored option \<Rightarrow> bootstrap_grant option" where
  "asBootstrap (Some (VBootstrap b)) = Some b"
| "asBootstrap _ = None"

section \<open>Operations\<close>

definition hasOwner :: "string \<Rightarrow> ('lk, bool) op" where
  "hasOwner room = andThen (redisGet (ownerKey room)) (\<lambda>v. ret (v \<noteq> None))"

definition releaseOwner :: "string \<Rightarrow> string \<Rightarrow> ('lk, unit) op" where
  "releaseOwner room expectedId =
     andThen (redisGet (ownerKey room)) (\<lambda>owner.
       whenE (owner = Some (VStr expectedId)) (redisDel [ownerKey room]))"

definition createPending :: "pending_request \<Rightarrow> ('lk, bool) op" where
  "createPending request =
     andThen (redisSet (ownerKey (pr_room request)) (VStr (pr_requestId request))
                (Some (ceilSeconds REMOTE_CONTROL_REQUEST_TTL_MS)) NX) (\<lambda>owner.
       if \<not> owner then ret False
       else catchE
         (seqE (redisSet (pendingKey (pr_room request)) (VPending request)
                  (Some (ceilSeconds REMOTE_CONTROL_REQUEST_TTL_MS)) Always)
            (ret True))
         (\<lambda>err. seqE (releaseOwner (pr_room request) (pr_requestId request)) (raise err)))"

definition getPending :: "string \<Rightarrow> string \<Rightarrow> ('lk, pending_request option) op" where
  "getPending room requestId =
     andThen (redisGet (pendingKey room)) (\<lambda>raw.
       ret (case asPending raw of
              None \<Rightarrow> None
            | Some p \<Rightarrow> if pr_requestId p = requestId \<and> pr_room p = room then Some p else None))"

definition getPendingForRoom :: "string \<Rightarrow> ('lk, pending_request option) op" where
  "getPendingForRoom room =
     andThen (redisGet (pendingKey room)) (\<lambda>raw.
       ret (case asPending raw of
              None \<Rightarrow> None | Some p \<Rightarrow> if pr_room p = room then Some p else None))"

definition consumePending :: "string \<Rightarrow> string \<Rightarrow> ('lk, pending_request option) op" where
  "consumePending room requestId =
     andThen (redisGet (ownerKey room)) (\<lambda>owner.
       if owner \<noteq> Some (VStr requestId) then ret None
       else andThen (redisGetdel (pendingKey room)) (\<lambda>raw.
              ret (case asPending raw of
                     None \<Rightarrow> None
                   | Some p \<Rightarrow> if pr_requestId p \<noteq> requestId \<or> pr_room p \<noteq> room then None else Some p)))"

definition releasePending :: "string \<Rightarrow> string \<Rightarrow> ('lk, unit) op" where
  "releasePending room requestId =
     andThen (getPending room requestId) (\<lambda>pending.
     seqE (whenE (pending \<noteq> None) (redisDel [pendingKey room]))
       (releaseOwner room requestId))"

definition stateActivate :: "active_grant \<Rightarrow> ('lk, bool) op" where
  "stateActivate grant =
     andThen (redisGet (ownerKey (ag_room grant))) (\<lambda>owner.
       if owner \<noteq> Some (VStr (ag_sessionId grant)) then ret False
       else andThen (redisSet (activeKey (ag_room grant)) (VActive grant)
                       (Some ACTIVE_STORAGE_TTL_SECONDS) NX) (\<lambda>active.
         if \<not> active then ret False
         else andThen (redisSet (ownerKey (ag_room grant)) (VStr (ag_sessionId grant))
                         (Some ACTIVE_STORAGE_TTL_SECONDS) XX) (\<lambda>extendedOwner.
           if \<not> extendedOwner then seqE (redisDel [activeKey (ag_room grant)]) (ret False)
           else ret True)))"

definition getActive :: "string \<Rightarrow> ('lk, active_grant option) op" where
  "getActive room =
     andThen (redisGet (activeKey room)) (\<lambda>raw.
       ret (case asActive raw of
              None \<Rightarrow> None | Some g \<Rightarrow> if ag_room g = room then Some g else None))"

definition updateActive :: "active_grant \<Rightarrow> ('lk, bool) op" where
  "updateActive grant =
     andThen (getActive (ag_room grant)) (\<lambda>current.
       if map_option ag_sessionId current \<noteq> Some (ag_sessionId grant) then ret False
       else
         andThen (redisSet (activeKey (ag_room grant)) (VActive grant)
                    (Some ACTIVE_STORAGE_TTL_SECONDS) XX) (\<lambda>active.
         andThen (redisSet (ownerKey (ag_room grant)) (VStr (ag_sessionId grant))
                    (Some ACTIVE_STORAGE_TTL_SECONDS) XX) (\<lambda>owner.
           ret (active \<and> owner))))"

definition clearActive :: "string \<Rightarrow> string \<Rightarrow> ('lk, bool) op" where
  "clearActive room sessionId =
     andThen (getActive room) (\<lambda>current.
       if map_option ag_sessionId current \<noteq> Some sessionId then ret False
       else seqE (redisDel [activeKey room]) (seqE (releaseOwner room sessionId) (ret True)))"

definition digest :: "'lk env \<Rightarrow> string \<Rightarrow> string" where
  "digest E code = sha256 E code"

definition revokeBootstrap :: "active_grant \<Rightarrow> ('lk, unit) op" where
  "revokeBootstrap grant =
     (case ag_bootstrapDigest grant of
        None \<Rightarrow> ret ()
      | Some d \<Rightarrow> whenE (d \<noteq> []) (redisDel [bootstrapKey d]))"

definition issueBootstrap :: "'lk env \<Rightarrow> active_grant \<Rightarrow> ('lk, string \<times> iso) op" where
  "issueBootstrap E grant =
     seqE (case ag_bootstrapDigest grant of
             None \<Rightarrow> ret () | Some d \<Rightarrow> whenE (d \<noteq> []) (redisDel [bootstrapKey d]))
     (andThen (randomBytes E 32) (\<lambda>bytes.
      let bootstrapCode = toBase64url bytes; d = digest E bootstrapCode in
      andThen dateNow (\<lambda>now.
      let expiresAt = toISOString (now + REMOTE_CONTROL_BOOTSTRAP_TTL_MS);
          bootstrap = \<lparr>bs_room = ag_room grant, bs_sessionId = ag_sessionId grant, bs_digest = d,
                       bs_expiresAt = expiresAt\<rparr> in
      seqE (redisSet (bootstrapKey d) (VBootstrap bootstrap)
              (Some (ceilSeconds REMOTE_CONTROL_BOOTSTRAP_TTL_MS)) Always)
      (andThen (updateActive (grant\<lparr>ag_bootstrapDigest := Some d\<rparr>)) (\<lambda>updated.
         if \<not> updated
         then seqE (redisDel [bootstrapKey d])
                (raise (JsError ''Remote Control grant disappeared while issuing bootstrap''))
         else ret (bootstrapCode, expiresAt))))))"

definition consumeBootstrap ::
    "'lk env \<Rightarrow> string \<Rightarrow> string \<Rightarrow> string \<Rightarrow> ('lk, bootstrap_grant option) op" where
  "consumeBootstrap E room sessionId bootstrapCode =
     (let d = digest E bootstrapCode in
      andThen (redisGetdel (bootstrapKey d)) (\<lambda>raw.
        ret (case asBootstrap raw of
               None \<Rightarrow> None
             | Some b \<Rightarrow> if bs_digest b \<noteq> d \<or> bs_room b \<noteq> room \<or> bs_sessionId b \<noteq> sessionId
                        then None else Some b)))"

section \<open>The stored values stay well-kinded\<close>

lemma keeps_wf_rc_read [keeps_rules]:
  "keeps wf_kv (hasOwner room)" "keeps wf_kv (releaseOwner room i)" "keeps wf_kv (getPending room i)"
  "keeps wf_kv (getPendingForRoom room)" "keeps wf_kv (consumePending room i)"
  "keeps wf_kv (getActive room)" "keeps wf_kv (revokeBootstrap g)" "keeps wf_kv (consumeBootstrap E room i c)"
  unfolding hasOwner_def releaseOwner_def getPending_def getPendingForRoom_def consumePending_def
    getActive_def revokeBootstrap_def consumeBootstrap_def Let_def
  by (auto intro!: keeps_rules)

lemma keeps_wf_rc_write [keeps_rules]:
  "keeps wf_kv (createPending p)" "keeps wf_kv (releasePending room i)"
  "keeps wf_kv (stateActivate g)" "keeps wf_kv (updateActive g)" "keeps wf_kv (clearActive room i)"
  unfolding createPending_def releasePending_def stateActivate_def updateActive_def clearActive_def
  by (auto intro!: keeps_rules simp: rc_kinds)

lemma keeps_wf_issue [keeps_rules]: "keeps wf_kv (issueBootstrap E g)"
  unfolding issueBootstrap_def Let_def by (auto intro!: keeps_rules simp: rc_kinds)

section \<open>What the operations do\<close>

abbreviation owner_at :: "'lk world \<Rightarrow> string \<Rightarrow> stored entry option" where
  "owner_at w room \<equiv> store w (ownerKey room)"

definition pending_at :: "'lk world \<Rightarrow> string \<Rightarrow> pending_request option" where
  "pending_at w room =
     (case asPending (map_option val (store w (pendingKey room))) of
        None \<Rightarrow> None | Some p \<Rightarrow> if pr_room p = room then Some p else None)"

definition active_at :: "'lk world \<Rightarrow> string \<Rightarrow> active_grant option" where
  "active_at w room =
     (case asActive (map_option val (store w (activeKey room))) of
        None \<Rightarrow> None | Some g \<Rightarrow> if ag_room g = room then Some g else None)"

lemma active_at_room: "active_at w room = Some g \<Longrightarrow> ag_room g = room"
  by (auto simp: active_at_def split: option.splits if_splits)

lemma reads_rc [reads_rules]:
  "reads_only (hasOwner room)" "reads_only (getPending room i)" "reads_only (getPendingForRoom room)"
  "reads_only (getActive room)"
  unfolding hasOwner_def getPending_def getPendingForRoom_def getActive_def
  by (auto intro!: reads_rules)

lemma hasOwner_D [redisD]:
  "hasOwner room w = (Inr b, w') \<Longrightarrow>
   (b \<longleftrightarrow> owner_at w room \<noteq> None) \<and> store w' = store w \<and> frame w w'"
  unfolding hasOwner_def by (auto elim!: andThen_InrE dest!: redisD)

lemma getPending_D [redisD]:
  "getPending room i w = (Inr p, w') \<Longrightarrow>
   p = (case pending_at w room of None \<Rightarrow> None | Some q \<Rightarrow> if pr_requestId q = i then Some q else None) \<and>
   store w' = store w \<and> frame w w'"
  unfolding getPending_def
  by (auto elim!: andThen_InrE dest!: redisD simp: pending_at_def split: option.splits)

lemma getPendingForRoom_D [redisD]:
  "getPendingForRoom room w = (Inr p, w') \<Longrightarrow> p = pending_at w room \<and> store w' = store w \<and> frame w w'"
  unfolding getPendingForRoom_def
  by (auto elim!: andThen_InrE dest!: redisD simp: pending_at_def split: option.splits)

lemma getActive_D [redisD]:
  "getActive room w = (Inr g, w') \<Longrightarrow> g = active_at w room \<and> store w' = store w \<and> frame w w'"
  unfolding getActive_def
  by (auto elim!: andThen_InrE dest!: redisD simp: active_at_def split: option.splits)

lemma releaseOwner_D [redisD]:
  "releaseOwner room i w = (Inr x, w') \<Longrightarrow>
   store w' = (if map_option val (owner_at w room) = Some (VStr i)
               then (store w)(ownerKey room := None) else store w) \<and> frame w w'"
  unfolding releaseOwner_def whenE_def
  by (auto elim!: andThen_InrE dest!: redisD intro: frame_trans split: if_splits)

text \<open>Creating a request takes the lock of its room, or changes nothing.\<close>

lemma createPending_D [redisD]:
  "createPending p w = (Inr b, w') \<Longrightarrow>
   (b \<longleftrightarrow> owner_at w (pr_room p) = None) \<and>
   store w' = (if b then (store w)(ownerKey (pr_room p) \<mapsto> timed w (VStr (pr_requestId p)) 30,
                                   pendingKey (pr_room p) \<mapsto> timed w (VPending p) 30)
               else store w) \<and> frame w w'"
  unfolding createPending_def
  by (auto elim!: andThen_InrE seqE_InrE dest!: redisD intro: frame_trans
      simp: rc_times catchE_def seqE_def frame_def split: if_splits prod.splits sum.splits)

text \<open>Taking a request: only the id that holds the lock gets it, and it is gone afterwards.\<close>

lemma consumePending_D [redisD]:
  "consumePending room i w = (Inr p, w') \<Longrightarrow>
   (if map_option val (owner_at w room) = Some (VStr i)
    then store w' = (store w)(pendingKey room := None) \<and>
         p = (case pending_at w room of None \<Rightarrow> None | Some q \<Rightarrow> if pr_requestId q = i then Some q else None)
    else store w' = store w \<and> p = None) \<and> frame w w'"
  unfolding consumePending_def
  by (auto elim!: andThen_InrE dest!: redisD simp: pending_at_def frame_def
      split: if_splits option.splits)

lemma releasePending_D [redisD]:
  "releasePending room i w = (Inr x, w') \<Longrightarrow>
   store w' =
     (let s = (if map_option pr_requestId (pending_at w room) = Some i
               then (store w)(pendingKey room := None) else store w)
      in if map_option val (owner_at w room) = Some (VStr i) then s(ownerKey room := None) else s) \<and>
   frame w w'"
  unfolding releasePending_def whenE_def
  by (auto elim!: andThen_InrE seqE_InrE dest!: redisD simp: Let_def frame_def
      split: if_splits option.splits)

lemma stateActivate_D [redisD]:
  "stateActivate g w = (Inr b, w') \<Longrightarrow>
   (b \<longleftrightarrow> map_option val (owner_at w (ag_room g)) = Some (VStr (ag_sessionId g)) \<and>
          store w (activeKey (ag_room g)) = None) \<and>
   store w' = (if b then (store w)(activeKey (ag_room g) \<mapsto> timed w (VActive g) 1860,
                                   ownerKey (ag_room g) \<mapsto> timed w (VStr (ag_sessionId g)) 1860)
               else store w) \<and> frame w w'"
  unfolding stateActivate_def
  by (auto elim!: andThen_InrE seqE_InrE dest!: redisD simp: rc_times frame_def split: if_splits)

lemma updateActive_D [redisD]:
  "updateActive g w = (Inr b, w') \<Longrightarrow>
   (if map_option ag_sessionId (active_at w (ag_room g)) = Some (ag_sessionId g)
    then (b \<longleftrightarrow> owner_at w (ag_room g) \<noteq> None) \<and>
         store w' = (if b then (store w)(activeKey (ag_room g) \<mapsto> timed w (VActive g) 1860,
                                   ownerKey (ag_room g) \<mapsto> timed w (VStr (ag_sessionId g)) 1860)
                     else (store w)(activeKey (ag_room g) \<mapsto> timed w (VActive g) 1860))
    else \<not> b \<and> store w' = store w) \<and> frame w w'"
  unfolding updateActive_def
  by (auto elim!: andThen_InrE dest!: redisD simp: rc_times frame_def active_at_def split: if_splits option.splits)

lemma clearActive_D [redisD]:
  "clearActive room i w = (Inr b, w') \<Longrightarrow>
   (b \<longleftrightarrow> map_option ag_sessionId (active_at w room) = Some i) \<and>
   store w' = (if b then (let s = (store w)(activeKey room := None) in
                 if map_option val (owner_at w room) = Some (VStr i) then s(ownerKey room := None) else s)
               else store w) \<and> frame w w'"
  unfolding clearActive_def
  by (auto elim!: andThen_InrE seqE_InrE dest!: redisD simp: Let_def frame_def split: if_splits)

text \<open>The store without the bootstrap code of a grant.\<close>

definition revoked_store :: "active_grant \<Rightarrow> (string \<rightharpoonup> stored entry) \<Rightarrow> string \<rightharpoonup> stored entry" where
  "revoked_store g s =
     (case ag_bootstrapDigest g of None \<Rightarrow> s
      | Some d \<Rightarrow> if d = [] then s else s(bootstrapKey d := None))"

lemma revoked_store_keys [simp]:
  "revoked_store g s (activeKey room) = s (activeKey room)"
  "revoked_store g s (ownerKey room) = s (ownerKey room)"
  "revoked_store g s (pendingKey room) = s (pendingKey room)"
  by (simp_all add: revoked_store_def split: option.split)

lemma revokeBootstrap_D [redisD]:
  "revokeBootstrap g w = (Inr x, w') \<Longrightarrow> store w' = revoked_store g (store w) \<and> frame w w'"
  unfolding revokeBootstrap_def whenE_def revoked_store_def
  by (auto dest!: redisD split: option.splits if_splits)

lemma consumeBootstrap_D [redisD]:
  "consumeBootstrap E room i c w = (Inr b, w') \<Longrightarrow>
   b = (case asBootstrap (map_option val (store w (bootstrapKey (digest E c)))) of
          None \<Rightarrow> None
        | Some g \<Rightarrow> if bs_digest g \<noteq> digest E c \<or> bs_room g \<noteq> room \<or> bs_sessionId g \<noteq> i
                   then None else Some g) \<and>
   store w' = (store w)(bootstrapKey (digest E c) := None) \<and> frame w w'"
  unfolding consumeBootstrap_def Let_def by (auto elim!: andThen_InrE dest!: redisD)

text \<open>Issuing a code: the previous one of the grant is revoked, the grant remembers the new one.\<close>

definition issued_store :: "'lk world \<Rightarrow> active_grant \<Rightarrow> string \<Rightarrow> string \<rightharpoonup> stored entry" where
  "issued_store w g d =
     (revoked_store g (store w))
     (bootstrapKey d \<mapsto> timed w (VBootstrap \<lparr>bs_room = ag_room g, bs_sessionId = ag_sessionId g,
        bs_digest = d, bs_expiresAt = Some (clock w + 120000)\<rparr>) 120,
      activeKey (ag_room g) \<mapsto> timed w (VActive (g\<lparr>ag_bootstrapDigest := Some d\<rparr>)) 1860,
      ownerKey (ag_room g) \<mapsto> timed w (VStr (ag_sessionId g)) 1860)"

lemma issueBootstrap_D:
  assumes "issueBootstrap E g w = (Inr r, w')"
  defines "code \<equiv> toBase64url (randBytes E (draws w) 32)"
  shows "r = (code, Some (clock w + 120000))"
    and "store w' = issued_store w g (digest E code)"
    and "map_option ag_sessionId (active_at w (ag_room g)) = Some (ag_sessionId g)"
    and "owner_at w (ag_room g) \<noteq> None"
    and "clock w' = clock w" "dbase w' = dbase w" "sfu w' = sfu w" "draws w' = Suc (draws w)"
proof -
  from assms(1) obtain x w1 where r: "(case ag_bootstrapDigest g of None \<Rightarrow> ret ()
       | Some d \<Rightarrow> whenE (d \<noteq> []) (redisDel [bootstrapKey d])) w = (Inr x, w1)"
    and k: "(andThen (randomBytes E 32) (\<lambda>bytes.
      let bootstrapCode = toBase64url bytes; d = digest E bootstrapCode in
      andThen dateNow (\<lambda>now.
      let expiresAt = toISOString (now + REMOTE_CONTROL_BOOTSTRAP_TTL_MS);
          bootstrap = \<lparr>bs_room = ag_room g, bs_sessionId = ag_sessionId g, bs_digest = d,
                       bs_expiresAt = expiresAt\<rparr> in
      seqE (redisSet (bootstrapKey d) (VBootstrap bootstrap)
              (Some (ceilSeconds REMOTE_CONTROL_BOOTSTRAP_TTL_MS)) Always)
      (andThen (updateActive (g\<lparr>ag_bootstrapDigest := Some d\<rparr>)) (\<lambda>updated.
         if \<not> updated
         then seqE (redisDel [bootstrapKey d])
                (raise (JsError ''Remote Control grant disappeared while issuing bootstrap''))
         else ret (bootstrapCode, expiresAt)))))) w1 = (Inr r, w')"
    unfolding issueBootstrap_def by (rule seqE_InrE)
  have w1: "store w1 = revoked_store g (store w)"
    "clock w1 = clock w" "dbase w1 = dbase w" "sfu w1 = sfu w" "draws w1 = draws w"
    using r by (auto simp: whenE_def frame_def revoked_store_def dest!: redisD split: option.splits if_splits)
  have keys: "store w1 (activeKey room) = store w (activeKey room)" "owner_at w1 room = owner_at w room"
    for room using w1(1) by simp_all
  define w1' where "w1' = w1\<lparr>draws := Suc (draws w1)\<rparr>"
  have w1': "store w1' = store w1" "clock w1' = clock w" "dbase w1' = dbase w" "sfu w1' = sfu w"
    "draws w1' = Suc (draws w)"
    by (simp_all add: w1'_def w1)
  have k': "seqE (redisSet (bootstrapKey (digest E code)) (VBootstrap \<lparr>bs_room = ag_room g,
          bs_sessionId = ag_sessionId g, bs_digest = digest E code,
          bs_expiresAt = Some (clock w + 120000)\<rparr>) (Some 120) Always)
      (andThen (updateActive (g\<lparr>ag_bootstrapDigest := Some (digest E code)\<rparr>)) (\<lambda>u.
        if \<not> u then seqE (redisDel [bootstrapKey (digest E code)])
                (raise (JsError ''Remote Control grant disappeared while issuing bootstrap''))
         else ret (code, Some (clock w + 120000)))) w1' = (Inr r, w')"
    using k by (simp add: Let_def andThen_gets andThen_def [of "draw _"] w1 w1'_def code_def rc_times cong: if_cong)
  from k' obtain b w2 where
    s: "redisSet (bootstrapKey (digest E code)) (VBootstrap \<lparr>bs_room = ag_room g,
          bs_sessionId = ag_sessionId g, bs_digest = digest E code,
          bs_expiresAt = Some (clock w + 120000)\<rparr>) (Some 120) Always w1' = (Inr b, w2)"
    and k2: "andThen (updateActive (g\<lparr>ag_bootstrapDigest := Some (digest E code)\<rparr>)) (\<lambda>u.
        if \<not> u then seqE (redisDel [bootstrapKey (digest E code)])
                (raise (JsError ''Remote Control grant disappeared while issuing bootstrap''))
         else ret (code, Some (clock w + 120000))) w2 = (Inr r, w')"
    by (rule seqE_InrE)
  from k2 obtain u w3 where
    u: "updateActive (g\<lparr>ag_bootstrapDigest := Some (digest E code)\<rparr>) w2 = (Inr u, w3)"
    and v: "(if \<not> u then seqE (redisDel [bootstrapKey (digest E code)])
                (raise (JsError ''Remote Control grant disappeared while issuing bootstrap''))
         else ret (code, Some (clock w + 120000))) w3 = (Inr r, w')"
    by (rule andThen_InrE)
  from v have u1: "u" "w3 = w'" "r = (code, Some (clock w + 120000))"
    by (auto split: if_splits elim!: seqE_InrE)
  note s = set_D [OF s, simplified]
  have a2: "active_at w2 room = active_at w room" "owner_at w2 room = owner_at w room"
    "clock w2 = clock w" for room
    using s by (simp_all add: active_at_def w1' keys frame_def)
  note u = updateActive_D [OF u, simplified, unfolded a2 u1(2), simplified u1(1) simp_thms]
  show "r = (code, Some (clock w + 120000))" by (rule u1)
  show "map_option ag_sessionId (active_at w (ag_room g)) = Some (ag_sessionId g)"
    and "owner_at w (ag_room g) \<noteq> None" using u by (auto split: if_splits)
  show "store w' = issued_store w g (digest E code)"
    using u s w1 by (auto simp: issued_store_def w1' split: if_splits)
  show "clock w' = clock w" "dbase w' = dbase w" "sfu w' = sfu w" "draws w' = Suc (draws w)"
    using u s by (simp_all add: frame_def w1')
qed

end
