(* ===== verification/RcRepo.thy ===== *)
theory RcRepo
  imports Store
begin

text \<open>
  \<^verbatim>\<open>RemoteControlRepository\<close> (\<^verbatim>\<open>rooms/remote-control.repo.ts\<close>): the audit rows of Remote
  Control sessions. A partial unique index of the database allows one \<^verbatim>\<open>active\<close> row per
  room; an update that would break it throws \<^verbatim>\<open>P2002\<close>.
  The step relation \<open>audit_step\<close> is the life cycle of the rows; every operation follows it.
\<close>

section \<open>Operations\<close>

definition oneActive :: "session_row list \<Rightarrow> bool" where
  "oneActive rows = distinct (map rs_roomId (filter (\<lambda>r. rs_status r = Active) rows))"

definition insertSession :: "session_row \<Rightarrow> database \<Rightarrow> (exn + session_row) \<times> database" where
  "insertSession r d =
     (if \<exists>r' \<in> set (sessions d). rs_id r' = rs_id r then (Inl (PrismaError ''P2002''), d)
      else if \<not> (\<exists>room \<in> set (rooms d). rm_id room = rs_roomId r) then (Inl (PrismaError ''P2003''), d)
      else (Inr r, d\<lparr>sessions := sessions d @ [r]\<rparr>))"

definition createRequest ::
    "'lk env \<Rightarrow> string \<Rightarrow> string \<Rightarrow> string \<Rightarrow> string \<Rightarrow> string \<Rightarrow> ('lk, session_row) op" where
  "createRequest E roomId sharerIdentity sharerName controllerIdentity controllerName =
     andThen (draw (cuid E)) (\<lambda>i.
       dbcmd (\<lambda>now. insertSession
         \<lparr>rs_id = i, rs_roomId = roomId, rs_sharerIdentity = sharerIdentity,
          rs_sharerName = sharerName, rs_controllerIdentity = controllerIdentity,
          rs_controllerName = controllerName, rs_agentIdentity = None, rs_status = Requested,
          rs_startedAt = None, rs_endedAt = None, rs_renewalDueAt = None, rs_endReason = None,
          rs_createdAt = now\<rparr>))"

definition sessionById :: "string \<Rightarrow> database \<Rightarrow> session_row option" where
  "sessionById i d = find (\<lambda>r. rs_id r = i) (sessions d)"

definition auditFindById :: "string \<Rightarrow> ('lk, session_row option) op" where
  "auditFindById i = dbread (\<lambda>_. sessionById i)"

definition findActiveByRoom :: "string \<Rightarrow> ('lk, session_row option) op" where
  "findActiveByRoom roomId =
     dbread (\<lambda>_ d. find (\<lambda>r. rs_roomId r = roomId \<and> rs_status r = Active) (sessions d))"

text \<open>
  \<^verbatim>\<open>updateMany\<close> on the audit table. The migration gives the table a partial unique index on the room of active rows;
  Postgres refuses a statement that would break it.
\<close>

definition updateSessions ::
    "(session_row \<Rightarrow> bool) \<Rightarrow> (session_row \<Rightarrow> session_row) \<Rightarrow> database \<Rightarrow> (exn + nat) \<times> database" where
  "updateSessions P f d =
     (let rows = updateRows P f (sessions d) in
      if oneActive (sessions d) \<and> \<not> oneActive rows then (Inl (PrismaError ''P2002''), d)
      else (Inr (countRows P (sessions d)), d\<lparr>sessions := rows\<rparr>))"

definition auditActivate ::
    "string \<Rightarrow> string \<Rightarrow> int \<Rightarrow> int \<Rightarrow> ('lk, session_row option) op" where
  "auditActivate i agentIdentity startedAt renewalDueAt =
     andThen (dbcmd (\<lambda>_. updateSessions (\<lambda>r. rs_id r = i \<and> rs_status r = Requested)
        (\<lambda>r. r\<lparr>rs_status := Active, rs_agentIdentity := Some agentIdentity,
               rs_startedAt := Some startedAt, rs_renewalDueAt := Some renewalDueAt\<rparr>))) (\<lambda>count.
       if count = 1 then auditFindById i else ret None)"

definition transitionRequested :: "string \<Rightarrow> session_status \<Rightarrow> string \<Rightarrow> int \<Rightarrow> ('lk, bool) op" where
  "transitionRequested i status endReason endedAt =
     andThen (dbcmd (\<lambda>_. updateSessions (\<lambda>r. rs_id r = i \<and> rs_status r = Requested)
        (\<lambda>r. r\<lparr>rs_status := status, rs_endReason := Some endReason, rs_endedAt := Some endedAt\<rparr>)))
       (\<lambda>count. ret (count = 1))"

definition auditDeny :: "string \<Rightarrow> int \<Rightarrow> ('lk, bool) op" where
  "auditDeny i endedAt = transitionRequested i DeniedS ''sharer_denied'' endedAt"

definition auditWithdraw :: "string \<Rightarrow> int \<Rightarrow> ('lk, bool) op" where
  "auditWithdraw i endedAt = transitionRequested i Withdrawn ''controller_withdrew'' endedAt"

definition expireRequest :: "string \<Rightarrow> int \<Rightarrow> ('lk, bool) op" where
  "expireRequest i endedAt = transitionRequested i Expired ''request_timeout'' endedAt"

definition failRequest :: "string \<Rightarrow> string \<Rightarrow> int \<Rightarrow> ('lk, bool) op" where
  "failRequest i reason endedAt = transitionRequested i Failed reason endedAt"

definition updateRenewal :: "string \<Rightarrow> int \<Rightarrow> ('lk, bool) op" where
  "updateRenewal i renewalDueAt =
     andThen (dbcmd (\<lambda>_. updateSessions (\<lambda>r. rs_id r = i \<and> rs_status r = Active)
        (\<lambda>r. r\<lparr>rs_renewalDueAt := Some renewalDueAt\<rparr>)))
       (\<lambda>count. ret (count = 1))"

text \<open>How an active session may end: \<^verbatim>\<open>'ended' | 'expired' | 'failed'\<close>.\<close>

datatype end_status = EndEnded | EndExpired | EndFailed

fun toStatus :: "end_status \<Rightarrow> session_status" where
  "toStatus EndEnded = Ended"
| "toStatus EndExpired = Expired"
| "toStatus EndFailed = Failed"

definition endActive :: "string \<Rightarrow> end_status \<Rightarrow> string \<Rightarrow> int \<Rightarrow> ('lk, bool) op" where
  "endActive i status endReason endedAt =
     andThen (dbcmd (\<lambda>_. updateSessions (\<lambda>r. rs_id r = i \<and> rs_status r = Active)
        (\<lambda>r. r\<lparr>rs_status := toStatus status, rs_endReason := Some endReason, rs_endedAt := Some endedAt\<rparr>)))
       (\<lambda>count. ret (count = 1))"

text \<open>\<^verbatim>\<open>include: { room: { select: { slug } } }\<close>: the foreign key makes the room exist.\<close>

definition withRoom :: "database \<Rightarrow> session_row list \<Rightarrow> (session_row \<times> string) list" where
  "withRoom d rows = List.map_filter (\<lambda>r.
     map_option (\<lambda>room. (r, rm_slug room)) (find (\<lambda>room. rm_id room = rs_roomId r) (rooms d))) rows"

definition findDueActive :: "int \<Rightarrow> ('lk, (session_row \<times> string) list) op" where
  "findDueActive now =
     dbread (\<lambda>_ d. withRoom d (filter (\<lambda>r. rs_status r = Active \<and>
       (case rs_renewalDueAt r of None \<Rightarrow> False | Some t \<Rightarrow> t \<le> now)) (sessions d)))"

definition findExpiredRequests :: "int \<Rightarrow> ('lk, (session_row \<times> string) list) op" where
  "findExpiredRequests cutoff =
     dbread (\<lambda>_ d. withRoom d (filter (\<lambda>r. rs_status r = Requested \<and> rs_createdAt r \<le> cutoff) (sessions d)))"

definition findRequestedOrActive :: "('lk, (session_row \<times> string) list) op" where
  "findRequestedOrActive =
     dbread (\<lambda>_ d. withRoom d (filter (\<lambda>r. rs_status r = Requested \<or> rs_status r = Active) (sessions d)))"

section \<open>The life cycle of a row\<close>

inductive audit_step :: "session_row \<Rightarrow> session_row \<Rightarrow> bool" where
  activated: "rs_status r = Requested \<Longrightarrow>
    audit_step r (r\<lparr>rs_status := Active, rs_agentIdentity := Some a, rs_startedAt := Some s, rs_renewalDueAt := Some d\<rparr>)"
| resolved: "rs_status r = Requested \<Longrightarrow> st \<in> {DeniedS, Withdrawn, Expired, Failed} \<Longrightarrow>
    audit_step r (r\<lparr>rs_status := st, rs_endReason := Some why, rs_endedAt := Some t\<rparr>)"
| renewed: "rs_status r = Active \<Longrightarrow> audit_step r (r\<lparr>rs_renewalDueAt := Some d\<rparr>)"
| finished: "rs_status r = Active \<Longrightarrow>
    audit_step r (r\<lparr>rs_status := toStatus es, rs_endReason := Some why, rs_endedAt := Some t\<rparr>)"

inductive_cases audit_stepE: "audit_step r r'"

abbreviation audit_steps :: "session_row \<Rightarrow> session_row \<Rightarrow> bool" where
  "audit_steps \<equiv> audit_step\<^sup>*\<^sup>*"

definition terminal :: "session_row \<Rightarrow> bool" where
  "terminal r \<longleftrightarrow> rs_status r \<notin> {Requested, Active}"

lemma toStatus_terminal [simp]: "toStatus s \<noteq> Requested" "toStatus s \<noteq> Active"
  "toStatus s \<noteq> DeniedS" "toStatus s \<noteq> Withdrawn"
  by (cases s; simp)+

text \<open>A row that has ended never changes again.\<close>

lemma terminal_stuck: "terminal r \<Longrightarrow> \<not> audit_step r r'"
  by (auto simp: terminal_def elim: audit_stepE)

lemma terminal_frozen: "audit_steps r r' \<Longrightarrow> terminal r \<Longrightarrow> r' = r"
  by (induction rule: converse_rtranclp_induct) (auto dest: terminal_stuck)

text \<open>Who the row is about never changes.\<close>

lemma audit_step_ids: "audit_step r r' \<Longrightarrow>
    rs_id r' = rs_id r \<and> rs_roomId r' = rs_roomId r \<and> rs_sharerIdentity r' = rs_sharerIdentity r \<and>
    rs_controllerIdentity r' = rs_controllerIdentity r \<and> rs_createdAt r' = rs_createdAt r"
  by (auto elim: audit_stepE)

lemma audit_steps_ids: "audit_steps r r' \<Longrightarrow>
    rs_id r' = rs_id r \<and> rs_roomId r' = rs_roomId r \<and> rs_sharerIdentity r' = rs_sharerIdentity r \<and>
    rs_controllerIdentity r' = rs_controllerIdentity r \<and> rs_createdAt r' = rs_createdAt r"
  by (induction rule: rtranclp_induct) (auto dest: audit_step_ids)

text \<open>
  A consistent row: it has an end exactly when its status is final, and an agent and a
  start once it has been active. Every step keeps it.
\<close>

definition row_ok :: "session_row \<Rightarrow> bool" where
  "row_ok r \<longleftrightarrow>
     (terminal r \<longleftrightarrow> rs_endedAt r \<noteq> None) \<and> (terminal r \<longleftrightarrow> rs_endReason r \<noteq> None) \<and>
     (rs_status r = Requested \<longrightarrow> rs_startedAt r = None \<and> rs_agentIdentity r = None \<and> rs_renewalDueAt r = None) \<and>
     (rs_status r = Active \<longrightarrow> rs_startedAt r \<noteq> None \<and> rs_agentIdentity r \<noteq> None \<and> rs_renewalDueAt r \<noteq> None) \<and>
     (rs_status r = Ended \<longrightarrow> rs_startedAt r \<noteq> None) \<and>
     (rs_status r \<in> {DeniedS, Withdrawn} \<longrightarrow> rs_startedAt r = None)"

lemma audit_step_ok: "audit_step r r' \<Longrightarrow> row_ok r \<Longrightarrow> row_ok r'"
  by (erule audit_stepE; cases "rs_status r"; cases "rs_status r'")
    (auto simp: row_ok_def terminal_def)

section \<open>The table follows the life cycle\<close>

text \<open>
  \<open>audit_le d d'\<close>: every row of \<open>d\<close> has gone through steps of the life cycle, and the rows
  that \<open>d'\<close> has in addition started as requests.
\<close>

definition fresh_request :: "session_row \<Rightarrow> bool" where
  "fresh_request r \<longleftrightarrow> rs_status r = Requested \<and> rs_agentIdentity r = None \<and> rs_startedAt r = None \<and>
     rs_endedAt r = None \<and> rs_renewalDueAt r = None \<and> rs_endReason r = None"

definition audit_le :: "session_row list \<Rightarrow> session_row list \<Rightarrow> bool" where
  "audit_le rs rs' \<longleftrightarrow> (\<exists>new. list_all fresh_request new \<and> list_all2 audit_steps (rs @ new) rs')"

lemma audit_le_refl [simp]: "audit_le rs rs"
  unfolding audit_le_def by (rule exI [of _ "[]"]) (simp add: list_all2_refl)

lemma audit_le_trans:
  assumes "audit_le rs rs'" and "audit_le rs' rs''" shows "audit_le rs rs''"
proof -
  from assms obtain n1 n2 where n: "list_all fresh_request n1" "list_all fresh_request n2"
    and s1: "list_all2 audit_steps (rs @ n1) rs'" and s2: "list_all2 audit_steps (rs' @ n2) rs''"
    unfolding audit_le_def by blast
  have "list_all2 audit_steps ((rs @ n1) @ n2) (rs' @ n2)"
    using s1 by (rule list_all2_appendI) (simp add: list_all2_refl)
  then have "list_all2 audit_steps ((rs @ n1) @ n2) rs''"
    using s2 by (rule list_all2_trans [rotated 1]) auto
  then show ?thesis using n unfolding audit_le_def by (intro exI [of _ "n1 @ n2"]) simp
qed

lemma audit_le_update:
  assumes "\<And>r. P r \<Longrightarrow> audit_step r (f r)" shows "audit_le rs (updateRows P f rs)"
proof -
  have "list_all2 audit_steps rs (updateRows P f rs)"
    using assms by (induction rs) auto
  then show ?thesis unfolding audit_le_def by (intro exI [of _ "[]"]) simp
qed

lemma audit_le_insert: "fresh_request r \<Longrightarrow> audit_le rs (rs @ [r])"
  unfolding audit_le_def by (intro exI [of _ "[r]"]) (simp add: list_all2_refl)

lemma audit_le_snoc: "audit_le rs rs' \<Longrightarrow> fresh_request r \<Longrightarrow> audit_le rs (rs' @ [r])"
  by (rule audit_le_trans [OF _ audit_le_insert])

text \<open>A world whose audit table is reached from \<open>rs\<close>.\<close>

definition audited :: "session_row list \<Rightarrow> 'lk world \<Rightarrow> bool" where
  "audited rs w \<longleftrightarrow> audit_le rs (sessions (dbase w))"

lemma audited_simps [simp]:
  "audited rs (tick w) = audited rs w" "audited rs (w\<lparr>kv := x\<rparr>) = audited rs w"
  "audited rs (w\<lparr>sfu := s\<rparr>) = audited rs w" "audited rs (w\<lparr>draws := n\<rparr>) = audited rs w"
  by (simp_all add: audited_def)

lemma keeps_audited_basic [keeps_rules]:
  "keeps (audited rs) (rcmd f)" "keeps (audited rs) (draw g)" "keeps (audited rs) (dbread h)"
  by (auto intro!: keeps_rcmd keeps_draw keeps_dbcmd simp: audited_def)

lemma keeps_audited_update [keeps_rules]:
  assumes "\<And>r. P r \<Longrightarrow> audit_step r (f r)"
  shows "keeps (audited rs) (dbcmd (\<lambda>_. updateSessions P f))"
  using audit_le_trans [OF _ audit_le_update [OF assms]]
  by (auto intro!: keeps_dbcmd simp: audited_def updateSessions_def Let_def)

lemma keeps_audited_repo [keeps_rules]:
  "keeps (audited rs) (createRequest E room a b c e)" "keeps (audited rs) (auditFindById i)"
  "keeps (audited rs) (findActiveByRoom room)" "keeps (audited rs) (auditActivate i ag s d)"
  "keeps (audited rs) (auditDeny i t)" "keeps (audited rs) (auditWithdraw i t)"
  "keeps (audited rs) (expireRequest i t)" "keeps (audited rs) (failRequest i why t)"
  "keeps (audited rs) (updateRenewal i d)" "keeps (audited rs) (endActive i es why t)"
  "keeps (audited rs) (findDueActive t)" "keeps (audited rs) (findExpiredRequests t)"
  "keeps (audited rs) findRequestedOrActive"
proof -
  have new: "keeps (audited rs) (dbcmd (\<lambda>now. insertSession (r now)))" if "\<And>now. fresh_request (r now)" for r
    by (rule keeps_dbcmd) (simp_all add: audited_def insertSession_def audit_le_snoc that)
  show "keeps (audited rs) (createRequest E room a b c e)"
    unfolding createRequest_def by (intro keeps_rules new) (simp add: fresh_request_def)
  show "keeps (audited rs) (auditActivate i ag s d)"
    unfolding auditActivate_def auditFindById_def by (auto intro!: keeps_rules activated)
  show "keeps (audited rs) (auditDeny i t)" "keeps (audited rs) (auditWithdraw i t)"
    "keeps (audited rs) (expireRequest i t)" "keeps (audited rs) (failRequest i why t)"
    unfolding auditDeny_def auditWithdraw_def expireRequest_def failRequest_def transitionRequested_def
    by (auto intro!: keeps_rules resolved)
  show "keeps (audited rs) (updateRenewal i d)" "keeps (audited rs) (endActive i es why t)"
    unfolding updateRenewal_def endActive_def by (auto intro!: keeps_rules renewed finished)
qed (auto intro!: keeps_rules simp: auditFindById_def findActiveByRoom_def findDueActive_def
    findExpiredRequests_def findRequestedOrActive_def)

end
