(* ===== verification/RemoteControl.thy ===== *)
theory RemoteControl
  imports Rooms RcState RcRepo
begin

text \<open>
  \<^verbatim>\<open>RemoteControlService\<close> (\<^verbatim>\<open>rooms/remote-control.service.ts\<close>): request, approve, deny and
  withdraw attended Remote Control, redeem and reissue the Control Agent's bootstrap code,
  renew and stop a session, and the handlers of LiveKit events, of the expiry timer and of
  the protocol cutover. Redis holds the live grant, Postgres the audit rows, the LiveKit
  room metadata a projection for the clients.
\<close>

record call_participant =
  ca_identity :: string
  ca_name :: string
  ca_role :: "string option"
  ca_accountBinding :: "string option"
  ca_tokenExpiresAt :: "int option"

record request_summary =
  rq_requestId :: string
  rq_room :: string
  rq_sharerIdentity :: string
  rq_sharerName :: string
  rq_controllerIdentity :: string
  rq_controllerName :: string
  rq_requestedAt :: iso
  rq_expiresAt :: iso
  rq_expiresInMs :: int

section \<open>Errors\<close>

definition inProgress :: exn where
  "inProgress = ConflictException (faultBody REMOTE_CONTROL_IN_PROGRESS)"

definition presentActive :: exn where
  "presentActive = ConflictException (faultBody REMOTE_CONTROL_PRESENT_ACTIVE)"

definition rcNotFound :: exn where
  "rcNotFound = NotFoundException (faultBody REMOTE_CONTROL_NOT_FOUND)"

definition notAllowed :: exn where
  "notAllowed = ForbiddenException (faultBody REMOTE_CONTROL_NOT_ALLOWED)"

definition bootstrapInvalid :: exn where
  "bootstrapInvalid = UnauthorizedException (faultBody REMOTE_CONTROL_BOOTSTRAP_INVALID)"

definition upstream :: exn where
  "upstream = ServiceUnavailableException (faultBody UPSTREAM_UNAVAILABLE)"

definition renewalRequired :: exn where
  "renewalRequired = ConflictException (faultBody REMOTE_CONTROL_RENEWAL_REQUIRED)"

definition requireProtocolVersion :: "int \<Rightarrow> ('lk, unit) op" where
  "requireProtocolVersion protocolVersion =
     whenE (protocolVersion \<noteq> 2) (raise (ConflictException (faultBody REMOTE_CONTROL_PROTOCOL_UNSUPPORTED)))"

section \<open>Private helpers\<close>

definition isRequestExpired :: "pending_request \<Rightarrow> int \<Rightarrow> bool" where
  "isRequestExpired request now = expired_at (pr_expiresAt request) now"

definition isGrantExpired :: "active_grant \<Rightarrow> int \<Rightarrow> bool" where
  "isGrantExpired grant now =
     expired_at (min_time (ag_renewalDueAt grant) (ag_authorizationExpiresAt grant)) now"

definition toRequestSummary :: "pending_request \<Rightarrow> int \<Rightarrow> request_summary" where
  "toRequestSummary request now =
     \<lparr>rq_requestId = pr_requestId request, rq_room = pr_room request,
      rq_sharerIdentity = pr_sharerIdentity request, rq_sharerName = pr_sharerName request,
      rq_controllerIdentity = pr_controllerIdentity request,
      rq_controllerName = pr_controllerName request, rq_requestedAt = pr_requestedAt request,
      rq_expiresAt = pr_expiresAt request,
      rq_expiresInMs = (case pr_expiresAt request of
                          None \<Rightarrow> 0
                        | Some t \<Rightarrow> max 0 (min REMOTE_CONTROL_REQUEST_TTL_MS (t - now)))\<rparr>"

definition toSessionSummary :: "active_grant \<Rightarrow> session_summary" where
  "toSessionSummary grant =
     \<lparr>ss_sessionId = ag_sessionId grant, ss_status = ag_status grant,
      ss_sharerIdentity = ag_sharerIdentity grant, ss_sharerName = ag_sharerName grant,
      ss_controllerIdentity = ag_controllerIdentity grant,
      ss_controllerName = ag_controllerName grant, ss_agentIdentity = ag_agentIdentity grant,
      ss_agentConnected = ag_agentConnected grant, ss_renewalDueAt = ag_renewalDueAt grant\<rparr>"

definition toRoomState :: "active_grant \<Rightarrow> session_summary" where
  "toRoomState grant = toSessionSummary grant"

definition rcRequireRoom :: "string \<Rightarrow> ('lk, room_row) op" where
  "rcRequireRoom slug =
     andThen (findBySlug slug) (\<lambda>room.
       case room of None \<Rightarrow> raise (NotFoundException (faultBody ROOM_NOT_FOUND)) | Some r \<Rightarrow> ret r)"

definition connectedParticipant :: "'lk env \<Rightarrow> string \<Rightarrow> string \<Rightarrow> ('lk, connected_participant option) op" where
  "connectedParticipant E room identity =
     catchE (getConnectedParticipant E room identity) (\<lambda>_. raise upstream)"

definition presentationActive :: "'lk env \<Rightarrow> string \<Rightarrow> ('lk, bool) op" where
  "presentationActive E room = catchE (hasActiveScreenShare E room) (\<lambda>_. raise upstream)"

definition clearLivekitState :: "'lk env \<Rightarrow> string \<Rightarrow> string option \<Rightarrow> ('lk, unit) op" where
  "clearLivekitState E room agentIdentity =
     seqE (settle (setRemoteControlState E room None))
       (whenE (truthy agentIdentity) (settle (disconnectControlAgent E room (the agentIdentity))))"

definition endGrant ::
    "'lk env \<Rightarrow> active_grant \<Rightarrow> end_status \<Rightarrow> string \<Rightarrow> int \<Rightarrow> ('lk, unit) op" where
  "endGrant E grant status reason endedAt =
     seqE (revokeBootstrap grant)
     (seqE (clearActive (ag_room grant) (ag_sessionId grant))
     (seqE (clearLivekitState E (ag_room grant) (Some (ag_agentIdentity grant)))
     (seqE (endActive (ag_sessionId grant) status reason endedAt) (ret ()))))"

definition endAuditFallback ::
    "'lk env \<Rightarrow> session_row \<Rightarrow> string \<Rightarrow> end_status \<Rightarrow> string \<Rightarrow> int \<Rightarrow> ('lk, unit) op" where
  "endAuditFallback E row room status reason endedAt =
     seqE (clearActive room (rs_id row))
     (seqE (clearLivekitState E room (rs_agentIdentity row))
     (seqE (endActive (rs_id row) status reason endedAt) (ret ())))"

definition expirePending :: "string \<Rightarrow> string \<Rightarrow> ('lk, unit) op" where
  "expirePending room requestId =
     seqE (releasePending room requestId)
     (andThen (auditFindById requestId) (\<lambda>audit.
      andThen dateNow (\<lambda>now.
        if map_option rs_status audit = Some Requested
        then seqE (expireRequest requestId now) (ret ()) else ret ())))"

definition requirePending :: "string \<Rightarrow> string \<Rightarrow> ('lk, pending_request) op" where
  "requirePending room requestId =
     andThen (getPending room requestId) (\<lambda>pending.
     andThen dateNow (\<lambda>now.
       case pending of
         Some p \<Rightarrow> if \<not> isRequestExpired p now then ret p
                  else seqE (expirePending room requestId) (raise rcNotFound)
       | None \<Rightarrow> seqE (expirePending room requestId) (raise rcNotFound)))"

definition requireActive :: "'lk env \<Rightarrow> string \<Rightarrow> string \<Rightarrow> ('lk, active_grant) op" where
  "requireActive E roomSlug sessionId =
     andThen (getActive roomSlug) (\<lambda>grant.
       if map_option ag_sessionId grant = Some sessionId then ret (the grant)
       else
         andThen (findBySlug roomSlug) (\<lambda>room.
         seqE (case room of
                 None \<Rightarrow> ret ()
               | Some r \<Rightarrow>
                   andThen (findActiveByRoom (rm_id r)) (\<lambda>active.
                   andThen dateNow (\<lambda>now.
                     if map_option rs_id active = Some sessionId
                     then endAuditFallback E (the active) roomSlug EndFailed ''grant_missing'' now
                     else ret ())))
           (raise rcNotFound)))"

section \<open>Requests\<close>

definition requestControl ::
    "'lk env \<Rightarrow> string \<Rightarrow> call_participant \<Rightarrow> string \<Rightarrow> int \<Rightarrow> ('lk, request_summary) op" where
  "requestControl E roomSlug controller sharerIdentity protocolVersion =
     seqE (requireProtocolVersion protocolVersion)
     (andThen (rcRequireRoom roomSlug) (\<lambda>room.
      if ca_identity controller = sharerIdentity then raise notAllowed
      else andThen (hasOwner roomSlug) (\<lambda>owned.
      if owned then raise inProgress
      else andThen (all3 (connectedParticipant E roomSlug (ca_identity controller))
                         (connectedParticipant E roomSlug sharerIdentity)
                         (presentationActive E roomSlug)) (\<lambda>(connectedController, sharer, presenting).
      case (connectedController, sharer) of
        (Some c, Some s) \<Rightarrow>
          if cp_role c = Some ''control-agent'' \<or> cp_role s = Some ''control-agent'' then raise notAllowed
          else if presenting then raise presentActive
          else
            andThen (createRequest E (rm_id room) (cp_identity s) (cp_name s) (cp_identity c) (cp_name c)) (\<lambda>audit.
            andThen dateNow (\<lambda>now.
            let pending = \<lparr>pr_requestId = rs_id audit, pr_room = roomSlug,
                  pr_sharerIdentity = cp_identity s, pr_sharerName = cp_name s,
                  pr_controllerIdentity = cp_identity c, pr_controllerName = cp_name c,
                  pr_requestedAt = toISOString (rs_createdAt audit),
                  pr_expiresAt = toISOString (rs_createdAt audit + REMOTE_CONTROL_REQUEST_TTL_MS),
                  pr_controllerTokenExpiresAt =
                    toISOString (case ca_tokenExpiresAt controller of None \<Rightarrow> now + 60 * 60000 | Some t \<Rightarrow> t)\<rparr> in
            andThen (catchE (createPending pending)
                       (\<lambda>_. andThen dateNow (\<lambda>now.
                          seqE (failRequest (rs_id audit) ''redis_unavailable'' now) (raise upstream)))) (\<lambda>acquired.
            andThen dateNow (\<lambda>now.
            if \<not> acquired
            then seqE (failRequest (rs_id audit) ''room_in_progress'' now) (raise inProgress)
            else ret (toRequestSummary pending now)))))
      | _ \<Rightarrow> raise notAllowed))))"

definition getRequest :: "string \<Rightarrow> string \<Rightarrow> call_participant \<Rightarrow> ('lk, request_summary) op" where
  "getRequest room requestId participant =
     andThen (requirePending room requestId) (\<lambda>pending.
       if ca_identity participant \<noteq> pr_sharerIdentity pending \<and>
          ca_identity participant \<noteq> pr_controllerIdentity pending
       then raise notAllowed
       else andThen dateNow (\<lambda>now. ret (toRequestSummary pending now)))"

definition getPendingRequest :: "string \<Rightarrow> call_participant \<Rightarrow> ('lk, request_summary option) op" where
  "getPendingRequest room participant =
     andThen (getPendingForRoom room) (\<lambda>pending.
       case pending of
         None \<Rightarrow> ret None
       | Some p \<Rightarrow>
           andThen dateNow (\<lambda>now.
             if isRequestExpired p now then seqE (expirePending room (pr_requestId p)) (ret None)
             else if ca_identity participant \<noteq> pr_sharerIdentity p then ret None
             else ret (Some (toRequestSummary p now))))"

text \<open>The grant an approval at \<open>now\<close> creates, with the deadline \<open>auth\<close> of both tokens.\<close>

definition newGrant :: "string \<Rightarrow> room_row \<Rightarrow> pending_request \<Rightarrow> string \<Rightarrow> int \<Rightarrow> int \<Rightarrow> active_grant" where
  "newGrant roomSlug room consumed requestId now auth =
     \<lparr>ag_sessionId = requestId, ag_room = roomSlug, ag_roomId = rm_id room,
      ag_sharerIdentity = pr_sharerIdentity consumed, ag_sharerName = pr_sharerName consumed,
      ag_controllerIdentity = pr_controllerIdentity consumed,
      ag_controllerName = pr_controllerName consumed,
      ag_agentIdentity = ''control-agent:'' @ requestId, ag_status = AwaitingAgent,
      ag_agentConnected = False, ag_startedAt = toISOString now,
      ag_renewalDueAt = toISOString (min (now + REMOTE_CONTROL_RENEWAL_MS) auth),
      ag_authorizationExpiresAt = toISOString auth, ag_bootstrapDigest = None\<rparr>"

text \<open>The \<^verbatim>\<open>try\<close> block of \<^verbatim>\<open>approve\<close> and its handler.\<close>

definition startGrant :: "'lk env \<Rightarrow> active_grant \<Rightarrow> int \<Rightarrow> int \<Rightarrow> ('lk, session_summary \<times> string \<times> iso) op" where
  "startGrant E grant now due =
     catchE
       (andThen (auditActivate (ag_sessionId grant) (ag_agentIdentity grant) now due) (\<lambda>activated.
        if activated = None
        then seqE (clearActive (ag_room grant) (ag_sessionId grant)) (raise rcNotFound)
        else seqE (setRemoteControlState E (ag_room grant) (Some (toRoomState grant)))
             (andThen (issueBootstrap E grant) (\<lambda>helper. ret (toSessionSummary grant, helper)))))
       (\<lambda>err. andThen dateNow (\<lambda>ended.
          seqE (endGrant E grant EndFailed ''startup_failed'' ended)
            (if hasStatus [404, 409, 403] err then raise err
             else if isUniqueViolation err then raise inProgress
             else raise upstream)))"

definition approve ::
    "'lk env \<Rightarrow> string \<Rightarrow> string \<Rightarrow> call_participant \<Rightarrow> int \<Rightarrow> ('lk, session_summary \<times> string \<times> iso) op" where
  "approve E roomSlug requestId sharerParticipant protocolVersion =
     seqE (requireProtocolVersion protocolVersion)
     (andThen (rcRequireRoom roomSlug) (\<lambda>room.
      andThen (requirePending roomSlug requestId) (\<lambda>pending.
      if ca_identity sharerParticipant \<noteq> pr_sharerIdentity pending then raise notAllowed
      else andThen (all3 (connectedParticipant E roomSlug (pr_controllerIdentity pending))
                         (connectedParticipant E roomSlug (pr_sharerIdentity pending))
                         (presentationActive E roomSlug)) (\<lambda>(controller, sharer, presenting).
      case (controller, sharer) of
        (Some c, Some s) \<Rightarrow>
          if cp_role c = Some ''control-agent'' \<or> cp_role s = Some ''control-agent'' then raise notAllowed
          else if presenting then raise presentActive
          else
            andThen (consumePending roomSlug requestId) (\<lambda>consumed.
            case consumed of
              None \<Rightarrow> raise rcNotFound
            | Some p \<Rightarrow>
                andThen dateNow (\<lambda>now.
                let auth = min_time (pr_controllerTokenExpiresAt p)
                      (Some (case ca_tokenExpiresAt sharerParticipant of None \<Rightarrow> now + 60 * 60000 | Some t \<Rightarrow> t)) in
                if expired_at auth now
                then seqE (failRequest requestId ''participant_authorization_expired'' now)
                     (seqE (releasePending roomSlug requestId) (raise notAllowed))
                else
                  let grant = newGrant roomSlug room p requestId now (the auth) in
                  andThen (stateActivate grant) (\<lambda>activated.
                    if \<not> activated
                    then seqE (failRequest requestId ''room_in_progress'' now)
                         (seqE (releasePending roomSlug requestId) (raise inProgress))
                    else startGrant E grant now (min (now + REMOTE_CONTROL_RENEWAL_MS) (the auth)))))
      | _ \<Rightarrow> raise notAllowed))))"

definition rc_deny :: "string \<Rightarrow> string \<Rightarrow> call_participant \<Rightarrow> ('lk, unit) op" where
  "rc_deny room requestId participant =
     andThen (requirePending room requestId) (\<lambda>pending.
       if ca_identity participant \<noteq> pr_sharerIdentity pending then raise notAllowed
       else andThen (consumePending room requestId) (\<lambda>consumed.
         if consumed = None then raise rcNotFound
         else finallyE
           (andThen dateNow (\<lambda>now.
            andThen (auditDeny requestId now) (\<lambda>denied.
              if \<not> denied then raise rcNotFound else ret ())))
           (releasePending room requestId)))"

definition rc_withdraw :: "string \<Rightarrow> string \<Rightarrow> call_participant \<Rightarrow> ('lk, unit) op" where
  "rc_withdraw room requestId participant =
     andThen (requirePending room requestId) (\<lambda>pending.
       if ca_identity participant \<noteq> pr_controllerIdentity pending then raise notAllowed
       else andThen (consumePending room requestId) (\<lambda>consumed.
         if consumed = None then raise rcNotFound
         else finallyE
           (andThen dateNow (\<lambda>now.
            andThen (auditWithdraw requestId now) (\<lambda>withdrawn.
              if \<not> withdrawn then raise rcNotFound else ret ())))
           (releasePending room requestId)))"

section \<open>Sessions\<close>

definition redeemHelperToken ::
    "'lk env \<Rightarrow> string \<Rightarrow> string \<Rightarrow> string \<Rightarrow> int \<Rightarrow> ('lk, string \<times> string \<times> string \<times> session_summary) op" where
  "redeemHelperToken E room sessionId bootstrapCode protocolVersion =
     seqE (requireProtocolVersion protocolVersion)
     (andThen (consumeBootstrap E room sessionId bootstrapCode) (\<lambda>bootstrap.
      if bootstrap = None then raise bootstrapInvalid
      else andThen (getActive room) (\<lambda>grant.
      andThen dateNow (\<lambda>now.
      case grant of
        None \<Rightarrow> raise bootstrapInvalid
      | Some g \<Rightarrow>
          if ag_sessionId g \<noteq> sessionId then raise bootstrapInvalid
          else if isGrantExpired g now
          then seqE (endGrant E g EndExpired ''renewal_timeout'' now) (raise bootstrapInvalid)
          else catchE
            (andThen (mintControlAgentToken E \<lparr>ao_room = room, ao_sessionId = sessionId,
                ao_sharerIdentity = ag_sharerIdentity g,
                ao_controllerIdentity = ag_controllerIdentity g,
                ao_agentIdentity = ag_agentIdentity g, ao_protocolVersion = 2\<rparr>) (\<lambda>token.
              ret (token, livekitUrl E, room, toSessionSummary g)))
            (\<lambda>_. andThen dateNow (\<lambda>ended.
               seqE (endGrant E g EndFailed ''helper_token_failed'' ended) (raise upstream)))))))"

definition reissueBootstrap ::
    "'lk env \<Rightarrow> string \<Rightarrow> string \<Rightarrow> call_participant \<Rightarrow> ('lk, string \<times> iso) op" where
  "reissueBootstrap E roomSlug sessionId sharerParticipant =
     andThen (requireActive E roomSlug sessionId) (\<lambda>grant.
       if ca_identity sharerParticipant \<noteq> ag_sharerIdentity grant then raise notAllowed
       else andThen dateNow (\<lambda>now.
         if isGrantExpired grant now
         then seqE (endGrant E grant EndExpired ''renewal_timeout'' now) (raise renewalRequired)
         else if ag_agentConnected grant then raise inProgress
         else issueBootstrap E grant))"

definition rc_stop :: "'lk env \<Rightarrow> string \<Rightarrow> string \<Rightarrow> call_participant \<Rightarrow> ('lk, iso) op" where
  "rc_stop E room sessionId participant =
     andThen (requireActive E room sessionId) (\<lambda>grant.
       if ca_identity participant \<noteq> ag_sharerIdentity grant \<and>
          ca_identity participant \<noteq> ag_controllerIdentity grant
       then raise notAllowed
       else
         let reason = (if ca_identity participant = ag_sharerIdentity grant
                       then ''sharer_stopped'' else ''controller_stopped'') in
         andThen dateNow (\<lambda>endedAt.
         seqE (endGrant E grant
                 (if isGrantExpired grant endedAt then EndExpired else EndEnded)
                 (if isGrantExpired grant endedAt then ''renewal_timeout'' else reason) endedAt)
           (ret (toISOString endedAt))))"

text \<open>
  The handler of \<^verbatim>\<open>renew\<close>'s \<^verbatim>\<open>try\<close> block puts the old grant back; it also puts the old
  deadline back in the audit row when that had been updated.
\<close>

definition renewRollback :: "active_grant \<Rightarrow> bool \<Rightarrow> exn \<Rightarrow> ('lk, string \<times> iso) op" where
  "renewRollback grant auditUpdated err =
     seqE (updateActive grant)
     (seqE (if auditUpdated
            then (case ag_renewalDueAt grant of
                    None \<Rightarrow> raise (JsError ''PrismaClientValidationError'')
                  | Some t \<Rightarrow> seqE (updateRenewal (ag_sessionId grant) t) (ret ()))
            else ret ())
       (if hasStatus [404] err then raise err else raise upstream))"

definition renew :: "'lk env \<Rightarrow> string \<Rightarrow> string \<Rightarrow> call_participant \<Rightarrow> ('lk, string \<times> iso) op" where
  "renew E room sessionId participant =
     andThen (requireActive E room sessionId) (\<lambda>grant.
       if ca_identity participant \<noteq> ag_sharerIdentity grant then raise notAllowed
       else andThen dateNow (\<lambda>now.
         if isGrantExpired grant now
         then seqE (endGrant E grant EndExpired ''renewal_timeout'' now) (raise renewalRequired)
         else
           case min_time (Some (now + REMOTE_CONTROL_RENEWAL_MS)) (ag_authorizationExpiresAt grant) of
             None \<Rightarrow> raise (JsError ''RangeError'')
           | Some due \<Rightarrow>
               let renewed = grant\<lparr>ag_renewalDueAt := toISOString due\<rparr> in
               andThen (updateActive renewed) (\<lambda>updated.
                 if \<not> updated then raise rcNotFound
                 else
                   andThen (tryE (updateRenewal sessionId due)) (\<lambda>r.
                     case r of
                       Inl err \<Rightarrow> renewRollback grant False err
                     | Inr auditUpdated \<Rightarrow>
                         if \<not> auditUpdated then renewRollback grant False rcNotFound
                         else andThen (tryE (setRemoteControlState E room (Some (toRoomState renewed)))) (\<lambda>r.
                           case r of
                             Inl err \<Rightarrow> renewRollback grant True err
                           | Inr _ \<Rightarrow> ret (sessionId, ag_renewalDueAt renewed))))))"

section \<open>Events, timers and cutover\<close>

definition rc_onParticipantJoined :: "'lk env \<Rightarrow> string \<Rightarrow> string \<Rightarrow> ('lk, unit) op" where
  "rc_onParticipantJoined E room identity =
     andThen (getActive room) (\<lambda>grant.
       case grant of
         None \<Rightarrow> ret ()
       | Some g \<Rightarrow>
           if ag_agentIdentity g \<noteq> identity then ret ()
           else andThen dateNow (\<lambda>now.
             if isGrantExpired g now then endGrant E g EndExpired ''renewal_timeout'' now
             else
               let connected = g\<lparr>ag_status := AgentActive, ag_agentConnected := True\<rparr> in
               andThen (updateActive connected) (\<lambda>updated.
                 if \<not> updated then ret ()
                 else catchE (setRemoteControlState E room (Some (toRoomState connected)))
                   (\<lambda>_. andThen dateNow (\<lambda>ended.
                      endGrant E connected EndFailed ''agent_metadata_failed'' ended)))))"

definition leaveReason :: "active_grant \<Rightarrow> string \<Rightarrow> string option" where
  "leaveReason grant identity =
     (if identity = ag_sharerIdentity grant then Some ''sharer_disconnected''
      else if identity = ag_controllerIdentity grant then Some ''controller_disconnected''
      else if identity = ag_agentIdentity grant then Some ''agent_disconnected''
      else None)"

definition rc_onParticipantLeft :: "'lk env \<Rightarrow> string \<Rightarrow> string \<Rightarrow> ('lk, unit) op" where
  "rc_onParticipantLeft E room identity =
     andThen (getActive room) (\<lambda>grant.
       case grant of
         Some g \<Rightarrow>
           (case leaveReason g identity of
              None \<Rightarrow> ret ()
            | Some reason \<Rightarrow> andThen dateNow (\<lambda>now. endGrant E g EndEnded reason now))
       | None \<Rightarrow>
           andThen (getPendingForRoom room) (\<lambda>pending.
             case pending of
               None \<Rightarrow> ret ()
             | Some p \<Rightarrow>
                 if identity \<noteq> pr_sharerIdentity p \<and> identity \<noteq> pr_controllerIdentity p then ret ()
                 else andThen dateNow (\<lambda>now.
                   seqE (releasePending room (pr_requestId p))
                   (seqE (failRequest (pr_requestId p) ''participant_disconnected'' now) (ret ())))))"

definition rc_onRoomFinished :: "'lk env \<Rightarrow> string \<Rightarrow> ('lk, unit) op" where
  "rc_onRoomFinished E roomSlug =
     andThen (findBySlug roomSlug) (\<lambda>room.
       case room of
         None \<Rightarrow> ret ()
       | Some r \<Rightarrow>
           andThen (getActive roomSlug) (\<lambda>grant.
           andThen dateNow (\<lambda>now.
             case grant of
               Some g \<Rightarrow> endGrant E g EndEnded ''room_finished'' now
             | None \<Rightarrow>
                 andThen (findActiveByRoom (rm_id r)) (\<lambda>active.
                   case active of
                     None \<Rightarrow> ret ()
                   | Some row \<Rightarrow> endAuditFallback E row roomSlug EndEnded ''room_finished'' now))))"

definition expireDue :: "'lk env \<Rightarrow> int \<Rightarrow> session_row \<times> string \<Rightarrow> ('lk, unit) op" where
  "expireDue E now = (\<lambda>(row, slug).
     andThen (getActive slug) (\<lambda>grant.
       if map_option ag_sessionId grant = Some (rs_id row)
       then endGrant E (the grant) EndExpired ''renewal_timeout'' now
       else endAuditFallback E row slug EndExpired ''renewal_timeout'' now))"

definition reconcileExpirations :: "'lk env \<Rightarrow> ('lk, unit) op" where
  "reconcileExpirations E =
     andThen dateNow (\<lambda>now.
     catchE
       (andThen (all2 (findDueActive now) (findExpiredRequests (now - REMOTE_CONTROL_REQUEST_TTL_MS)))
         (\<lambda>(dueActive, expiredRequests).
          seqE (forE (expireDue E now) dueActive)
            (forE (\<lambda>(row, slug).
               seqE (releasePending slug (rs_id row))
               (seqE (expireRequest (rs_id row) now) (ret ()))) expiredRequests)))
       (\<lambda>_. ret ()))"

text \<open>
  The timer, with its guard: while an earlier pass is still at work (\<open>reconciling\<close>, which that pass set and clears at its
  end, also after an error), a tick does nothing.
\<close>

definition reconcileTick :: "'lk env \<Rightarrow> bool \<Rightarrow> ('lk, unit) op" where
  "reconcileTick E reconciling = (if reconciling then ret () else reconcileExpirations E)"

text \<open>The loop of the cutover, with its two counters.\<close>

fun cutoverLoop ::
    "'lk env \<Rightarrow> int \<Rightarrow> (session_row \<times> string) list \<Rightarrow> nat \<Rightarrow> nat \<Rightarrow> ('lk, nat \<times> nat) op" where
  "cutoverLoop E now [] grantsEnded requestsEnded = ret (grantsEnded, requestsEnded)"
| "cutoverLoop E now ((row, slug) # rows) grantsEnded requestsEnded =
     (if rs_status row = Requested
      then seqE (releasePending slug (rs_id row))
           (andThen (failRequest (rs_id row) ''protocol_upgrade'' now) (\<lambda>ended.
             cutoverLoop E now rows grantsEnded (if ended then Suc requestsEnded else requestsEnded)))
      else andThen (getActive slug) (\<lambda>grant.
           seqE (if map_option ag_sessionId grant = Some (rs_id row)
                 then endGrant E (the grant) EndEnded ''protocol_upgrade'' now
                 else endAuditFallback E row slug EndEnded ''protocol_upgrade'' now)
             (cutoverLoop E now rows (Suc grantsEnded) requestsEnded)))"

record cutover_result =
  co_roomsEnumerated :: nat
  co_grantsEnded :: nat
  co_requestsEnded :: nat
  co_remaining :: nat

definition forceProtocolUpgradeCutover :: "'lk env \<Rightarrow> ('lk, cutover_result) op" where
  "forceProtocolUpgradeCutover E =
     andThen (listActiveRooms E) (\<lambda>rooms.
     andThen findRequestedOrActive (\<lambda>rows.
     andThen dateNow (\<lambda>now.
     andThen (cutoverLoop E now rows 0 0) (\<lambda>(grantsEnded, requestsEnded).
     andThen findRequestedOrActive (\<lambda>left.
       ret \<lparr>co_roomsEnumerated = length rooms, co_grantsEnded = grantsEnded,
            co_requestsEnded = requestsEnded, co_remaining = length left\<rparr>)))))"

end
