(* ===== verification/Guards.thy ===== *)
theory Guards
  imports RemoteControl
begin

text \<open>
  The guards in front of the room endpoints: \<^verbatim>\<open>HostGuard\<close> (\<^verbatim>\<open>rooms/host.guard.ts\<close>) and
  \<^verbatim>\<open>ParticipantGuard\<close> (\<^verbatim>\<open>rooms/participant.guard.ts\<close>). A header is absent, one string, or a
  list of strings of which the first counts.
\<close>

datatype header = NoHeader | One string | Many "string list"

fun headerValue :: "header \<Rightarrow> string option" where
  "headerValue NoHeader = None"
| "headerValue (One s) = Some s"
| "headerValue (Many []) = None"
| "headerValue (Many (s # _)) = Some s"

definition hostGuard :: "string \<Rightarrow> header \<Rightarrow> ('lk, bool) op" where
  "hostGuard slug headerVal =
     (let hostKey = headerValue headerVal in
      andThen (findBySlug slug) (\<lambda>room.
        case room of
          None \<Rightarrow> raise (UnauthorizedException (faultBody NOT_HOST))
        | Some r \<Rightarrow>
            if \<not> truthy hostKey \<or> hostKey \<noteq> Some (rm_hostKey r)
            then raise (UnauthorizedException (faultBody NOT_HOST))
            else ret True))"

text \<open>The participant the guard attaches to the request.\<close>

definition participantGuard :: "'lk env \<Rightarrow> string \<Rightarrow> header \<Rightarrow> ('lk, call_participant) op" where
  "participantGuard E slug headerVal =
     (let token = headerValue headerVal in
      if \<not> truthy token then raise (UnauthorizedException (faultBody NOT_PARTICIPANT))
      else
        andThen (verifyParticipantToken E (the token)) (\<lambda>claims.
        andThen dateNow (\<lambda>now.
          case claims of
            None \<Rightarrow> raise (UnauthorizedException (faultBody NOT_PARTICIPANT))
          | Some c \<Rightarrow>
              if pc_room c \<noteq> Some slug \<or> pc_tokenExpiresAt c \<le> now \<or> pc_role c = Some ''control-agent''
              then raise (UnauthorizedException (faultBody NOT_PARTICIPANT))
              else ret \<lparr>ca_identity = pc_identity c,
                        ca_name = (if truthy (pc_name c) then the (pc_name c) else pc_identity c),
                        ca_role = pc_role c, ca_accountBinding = pc_accountBinding c,
                        ca_tokenExpiresAt = Some (pc_tokenExpiresAt c)\<rparr>)))"

section \<open>Lemmas\<close>

lemma hostGuard_Inr:
  assumes "hostGuard slug h w = (Inr b, w')"
  shows "\<exists>r. roomBySlug slug (dbase w) = Some r \<and> headerValue h = Some (rm_hostKey r) \<and> rm_hostKey r \<noteq> []"
    and "b" and "unchanged w w'"
proof -
  from assms obtain room w1 where f: "findBySlug slug w = (Inr room, w1)"
    and k: "(case room of None \<Rightarrow> raise (UnauthorizedException (faultBody NOT_HOST))
        | Some r \<Rightarrow> if \<not> truthy (headerValue h) \<or> headerValue h \<noteq> Some (rm_hostKey r)
            then raise (UnauthorizedException (faultBody NOT_HOST)) else ret True) w1 = (Inr b, w')"
    unfolding hostGuard_def Let_def by (rule andThen_InrE)
  from findBySlug_Inr [OF f] k
  show "\<exists>r. roomBySlug slug (dbase w) = Some r \<and> headerValue h = Some (rm_hostKey r) \<and> rm_hostKey r \<noteq> []"
    and "b" and "unchanged w w'"
    by (auto split: option.splits if_splits)
qed

lemma verifyParticipantToken_Some:
  assumes "verifyParticipantToken E tok w = (Inr (Some c), w')"
  shows "\<exists>cl. lk_verify E tok w = (Inr cl, w') \<and> cl_sub cl = Some (pc_identity c) \<and>
    pc_identity c \<noteq> [] \<and> pc_room c = cl_room cl \<and> pc_name c = cl_name cl \<and>
    pc_tokenExpiresAt c = (case cl_exp cl of None \<Rightarrow> 0 | Some s \<Rightarrow> s * 1000)"
proof -
  obtain r w1 where v: "lk_verify E tok w = (r, w1)" by (cases "lk_verify E tok w")
  show ?thesis
  proof (cases r)
    case (Inl e)
    with v assms show ?thesis by (simp add: verifyParticipantToken_def catchE_def andThen_def)
  next
    case (Inr cl)
    obtain s where "cl_sub cl = Some s \<and> s \<noteq> []"
      using v assms Inr by (cases "cl_sub cl") (auto simp: verifyParticipantToken_def catchE_def andThen_def split: if_splits)
    with v assms Inr show ?thesis
      by (auto simp: verifyParticipantToken_def catchE_def andThen_def Let_def split: sum.splits prod.splits if_splits)
  qed
qed

text \<open>Who passes the participant guard holds a verified, unexpired token of the very room.\<close>

lemma participantGuard_Inr:
  assumes "participantGuard E slug h w = (Inr p, w')"
  shows "\<exists>tok cl. headerValue h = Some tok \<and> tok \<noteq> [] \<and> lk_verify E tok w = (Inr cl, w') \<and>
    cl_sub cl = Some (ca_identity p) \<and> cl_room cl = Some slug \<and> ca_role p \<noteq> Some ''control-agent'' \<and>
    (\<exists>t. ca_tokenExpiresAt p = Some t \<and> clock w' < t \<and> t = (case cl_exp cl of None \<Rightarrow> 0 | Some s \<Rightarrow> s * 1000))"
proof -
  obtain tok where tok: "headerValue h = Some tok" "tok \<noteq> []"
    using assms by (cases "headerValue h") (auto simp: participantGuard_def Let_def split: if_splits)
  with assms obtain claims w1 where v: "verifyParticipantToken E tok w = (Inr claims, w1)"
    and k: "andThen dateNow (\<lambda>now.
          case claims of
            None \<Rightarrow> raise (UnauthorizedException (faultBody NOT_PARTICIPANT))
          | Some c \<Rightarrow>
              if pc_room c \<noteq> Some slug \<or> pc_tokenExpiresAt c \<le> now \<or> pc_role c = Some ''control-agent''
              then raise (UnauthorizedException (faultBody NOT_PARTICIPANT))
              else ret \<lparr>ca_identity = pc_identity c,
                        ca_name = (if truthy (pc_name c) then the (pc_name c) else pc_identity c),
                        ca_role = pc_role c, ca_accountBinding = pc_accountBinding c,
                        ca_tokenExpiresAt = Some (pc_tokenExpiresAt c)\<rparr>) w1 = (Inr p, w')"
    by (auto simp: participantGuard_def Let_def andThen_gets elim!: andThen_InrE)
  from k obtain c where c: "claims = Some c" and "w1 = w'" "pc_room c = Some slug"
    "clock w' < pc_tokenExpiresAt c" "pc_role c \<noteq> Some ''control-agent''"
    "ca_identity p = pc_identity c" "ca_role p = pc_role c" "ca_tokenExpiresAt p = Some (pc_tokenExpiresAt c)"
    by (auto simp: andThen_gets split: option.splits if_splits)
  with verifyParticipantToken_Some [of E tok w c w1] v tok show ?thesis by auto
qed

lemma keeps_wf_guards [keeps_rules]:
  "keeps wf_kv (hostGuard slug h)"
  "env_keeps wf_kv E \<Longrightarrow> keeps wf_kv (participantGuard E slug h)"
  unfolding hostGuard_def participantGuard_def Let_def by (auto intro!: keeps_rules)

end
