(* ===== verification/Secrets.thy ===== *)
theory Secrets
  imports World
begin

text \<open>
  \<^verbatim>\<open>SecretCryptoService\<close> (\<^verbatim>\<open>rooms/secret-crypto.service.ts\<close>): the encryption of the two
  durable OAuth secrets, and the reading of base64 text it needs. The cipher itself, AES-256-GCM
  of \<^verbatim>\<open>node:crypto\<close>, is the record \<open>gcm\<close>: sealing a text under a key and an initialisation
  vector gives a tag and a ciphertext, opening them gives the text or throws (\<open>None\<close>).
\<close>

section \<open>Reading base64\<close>

definition b64_alphabet :: string where
  "b64_alphabet = ''ABCDEFGHIJKLMNOPQRSTUVWXYZabcdefghijklmnopqrstuvwxyz0123456789-_''"

text \<open>\<^verbatim>\<open>Buffer.from(s, 'base64url')\<close> reads both alphabets, skips other characters and stops at \<^verbatim>\<open>=\<close>.\<close>

definition b64_value :: "char \<Rightarrow> nat option" where
  "b64_value c =
     (if c = CHR ''+'' then Some 62 else if c = CHR ''/'' then Some 63
      else map_of (zip b64_alphabet [0..<64]) c)"

fun fromSextets :: "nat list \<Rightarrow> nat list" where
  "fromSextets (a # b # c # d # rest) =
     (a * 4 + b div 16) # (b mod 16 * 16 + c div 4) # (c mod 4 * 64 + d) # fromSextets rest"
| "fromSextets [a, b, c] = [a * 4 + b div 16, b mod 16 * 16 + c div 4]"
| "fromSextets [a, b] = [a * 4 + b div 16]"
| "fromSextets _ = []"

definition fromBase64 :: "string \<Rightarrow> nat list" where
  "fromBase64 s = fromSextets (List.map_filter b64_value (takeWhile (\<lambda>c. c \<noteq> CHR ''='') s))"

text \<open>\<^verbatim>\<open>s.split(c)\<close>.\<close>

fun splitOn :: "char \<Rightarrow> string \<Rightarrow> string list" where
  "splitOn c [] = [[]]"
| "splitOn c (x # xs) =
     (if x = c then [] # splitOn c xs
      else case splitOn c xs of [] \<Rightarrow> [[x]] | y # ys \<Rightarrow> (x # y) # ys)"

section \<open>The service\<close>

record gcm =
  gcm_seal :: "nat list \<Rightarrow> nat list \<Rightarrow> string \<Rightarrow> nat list \<times> nat list"
  gcm_open :: "nat list \<Rightarrow> nat list \<Rightarrow> nat list \<Rightarrow> nat list \<Rightarrow> string option"

definition decodeKey :: "string \<Rightarrow> exn + nat list" where
  "decodeKey value =
     (let key = fromBase64 value in
      if length key \<noteq> 32 then Inl (InternalServerErrorException TextBody) else Inr key)"

text \<open>The constructor: the key of the service, or none when nothing is configured.\<close>

definition secretCrypto :: "string option \<Rightarrow> exn + nat list option" where
  "secretCrypto configured =
     (if truthy configured then bindR (decodeKey (the configured)) (\<lambda>key. Inr (Some key)) else Inr None)"

definition requireKey :: "nat list option \<Rightarrow> exn + nat list" where
  "requireKey key = (case key of None \<Rightarrow> Inl (InternalServerErrorException TextBody) | Some k \<Rightarrow> Inr k)"

definition sealText :: "gcm \<Rightarrow> nat list \<Rightarrow> nat list \<Rightarrow> string \<Rightarrow> string" where
  "sealText G key iv value =
     (case gcm_seal G key iv value of (tag, ciphertext) \<Rightarrow>
        toBase64url iv @ ''.'' @ toBase64url tag @ ''.'' @ toBase64url ciphertext)"

definition encryptSecret :: "'lk env \<Rightarrow> gcm \<Rightarrow> nat list option \<Rightarrow> string \<Rightarrow> ('lk, string) op" where
  "encryptSecret E G key value =
     andThen (lift (requireKey key)) (\<lambda>k.
     andThen (randomBytes E 12) (\<lambda>iv. ret (sealText G k iv value)))"

text \<open>The parts of the text; a missing part is \<^verbatim>\<open>undefined\<close>, falsy like an empty one.\<close>

definition decryptSecret :: "gcm \<Rightarrow> nat list option \<Rightarrow> string \<Rightarrow> exn + string" where
  "decryptSecret G key payload =
     (case splitOn (CHR ''.'') payload of
        iv # tag # ciphertext # _ \<Rightarrow>
          if iv = [] \<or> tag = [] \<or> ciphertext = [] then Inl (InternalServerErrorException TextBody)
          else (case requireKey key of
                  Inl e \<Rightarrow> Inl (InternalServerErrorException TextBody)
                | Inr k \<Rightarrow>
                    (case gcm_open G k (fromBase64 iv) (fromBase64 tag) (fromBase64 ciphertext) of
                       None \<Rightarrow> Inl (InternalServerErrorException TextBody)
                     | Some value \<Rightarrow> Inr value))
      | _ \<Rightarrow> Inl (InternalServerErrorException TextBody))"

section \<open>Lemmas\<close>

lemma b64_digit_value: "b64_value (b64_digit n) = Some (n mod 64)"
proof -
  have "list_all (\<lambda>i. b64_value (b64_alphabet ! i) = Some i) [0..<64]" by code_simp
  then have "b64_value (b64_alphabet ! i) = Some i" if "i < 64" for i
    using that by (simp add: list_all_iff)
  moreover have "b64_digit n = b64_alphabet ! (n mod 64)" by (simp add: b64_digit_def b64_alphabet_def)
  ultimately show ?thesis by simp
qed

lemma b64_digit_in: "b64_digit n \<in> set b64_alphabet"
proof -
  have "n mod 64 < length b64_alphabet" by (simp add: b64_alphabet_def)
  then show ?thesis unfolding b64_digit_def b64_alphabet_def by (rule nth_mem)
qed

lemma set_toBase64url: "set (toBase64url bs) \<subseteq> set b64_alphabet"
  by (induction bs rule: toBase64url.induct) (simp_all add: b64_digit_in)

lemma toBase64url_free [simp]:
  "CHR ''.'' \<notin> set (toBase64url bs)" "CHR ''='' \<notin> set (toBase64url bs)"
  using set_toBase64url [of bs] unfolding b64_alphabet_def by auto

lemma toBase64url_Nil [simp]: "toBase64url bs = [] \<longleftrightarrow> bs = []"
  by (cases bs rule: toBase64url.cases) simp_all

text \<open>How the bits of neighbouring bytes are put together again.\<close>

lemma sextet_bits:
  assumes "(a :: nat) < 256" and "b < 256"
  shows "a div 4 mod 64 * 4 + (a mod 4 * 16 + b div 16) mod 64 div 16 = a"
    and "a div 4 mod 64 * 4 + a mod 4 * 16 mod 64 div 16 = a"
    and "(a mod 4 * 16 + b div 16) mod 64 mod 16 = b div 16"
    and "(a mod 16 * 4 + b div 64) mod 64 div 4 = a mod 16"
    and "a mod 16 * 4 mod 64 div 4 = a mod 16"
    and "(a mod 16 * 4 + b div 64) mod 64 mod 4 = b div 64"
proof -
  have m: "a mod 4 < 4" "a mod 16 < 16" "b div 16 < 16" "b div 64 < 4" "a div 4 < 64" using assms by simp_all
  then have "a mod 4 * 16 + b div 16 < 64" "a mod 16 * 4 + b div 64 < 64" "a mod 4 * 16 < 64" "a mod 16 * 4 < 64"
    by linarith+
  with m show "a div 4 mod 64 * 4 + (a mod 4 * 16 + b div 16) mod 64 div 16 = a"
    "a div 4 mod 64 * 4 + a mod 4 * 16 mod 64 div 16 = a"
    "(a mod 4 * 16 + b div 16) mod 64 mod 16 = b div 16"
    "(a mod 16 * 4 + b div 64) mod 64 div 4 = a mod 16"
    "a mod 16 * 4 mod 64 div 4 = a mod 16"
    "(a mod 16 * 4 + b div 64) mod 64 mod 4 = b div 64"
    by simp_all
qed

lemma sextets_roundtrip:
  assumes "\<forall>b \<in> set bs. b < 256"
  shows "fromSextets (List.map_filter b64_value (toBase64url bs)) = bs"
  using assms
  by (induction bs rule: toBase64url.induct)
    (simp_all add: List.map_filter_simps b64_digit_value sextet_bits del: mod_mod_trivial)

lemma base64_roundtrip:
  assumes "\<forall>b \<in> set bs. b < 256"
  shows "fromBase64 (toBase64url bs) = bs"
proof -
  have "takeWhile (\<lambda>c. c \<noteq> CHR ''='') (toBase64url bs) = toBase64url bs"
    by (auto simp: takeWhile_eq_all_conv)
  then show ?thesis using sextets_roundtrip [OF assms] unfolding fromBase64_def by argo
qed

lemma splitOn_free: "c \<notin> set a \<Longrightarrow> splitOn c a = [a]"
  by (induction a) auto

lemma splitOn_sep: "c \<notin> set a \<Longrightarrow> splitOn c (a @ c # b) = a # splitOn c b"
  by (induction a) auto

lemma keeps_wf_secrets [keeps_rules]: "keeps wf_kv (encryptSecret E G key value)"
  unfolding encryptSecret_def by (auto intro!: keeps_rules)

end
