(* ===== verification/Cloud.thy ===== *)
theory Cloud
  imports Guards Secrets
begin

text \<open>
  The recording storage (\<^verbatim>\<open>rooms/storage.service.ts\<close>), the Google Drive connections
  (\<^verbatim>\<open>rooms/storage-connections.service.ts\<close>: status, disconnection and their rows; the OAuth
  flow is in \<open>Drive\<close>) and the download tokens (\<^verbatim>\<open>rooms/download-token.service.ts\<close> and
  \<^verbatim>\<open>download-token.guard.ts\<close>). The S3 client, the mail transport and Google's servers are the
  operations of \<open>cloud\<close>, each on the whole world like the LiveKit calls: \<open>google_fetch\<close> is
  \<^verbatim>\<open>fetch\<close>, on the requests the services make. \<open>s3_getObjectRange\<close> reads a range of an object
  to its end and gives the number of bytes read.
\<close>

text \<open>The requests to Google, by endpoint, with the parts that vary.\<close>

datatype google_request =
    RevokeToken string
  | TokenGrant "(string \<times> string) list"
  | AboutUser string
  | GetFile string string string
  | SearchFiles string nat string string
  | CreateFolder string
  | OpenUpload string int string string string
  | PutChunk string string int int int
  | CreatePermission string string string

text \<open>A response: its status, its body as JSON (\<open>None\<close> when it is none), and two headers.\<close>

record http_response =
  hr_status :: nat
  hr_json :: "json option"
  hr_location :: "string option"
  hr_range :: "string option"

definition responseOk :: "http_response \<Rightarrow> bool" where
  "responseOk r \<longleftrightarrow> 200 \<le> hr_status r \<and> hr_status r \<le> 299"

record 'lk cloud =
  s3_headBucket :: "('lk, unit) op"
  s3_createBucket :: "('lk, unit) op"
  s3_getObject :: "string \<Rightarrow> ('lk, string \<times> int option) op"
  s3_getObjectRange :: "string \<Rightarrow> int \<Rightarrow> int \<Rightarrow> ('lk, int) op"
  s3_deleteObject :: "string \<Rightarrow> ('lk, unit) op"
  mail_actionRequired :: "string \<Rightarrow> ('lk, unit) op"
  mail_expiryReminder :: "string \<Rightarrow> ('lk, unit) op"
  google_fetch :: "google_request \<Rightarrow> ('lk, http_response) op"
  cipher :: gcm
  encryptionKey :: "nat list option"
  googleClientId :: "string option"
  googleClientSecret :: "string option"
  driveRedirectUri :: "string option"
  smtpHost :: "string option"

definition cloud_keeps :: "('lk world \<Rightarrow> bool) \<Rightarrow> 'lk cloud \<Rightarrow> bool" where
  "cloud_keeps I C \<longleftrightarrow>
     keeps I (s3_headBucket C) \<and> keeps I (s3_createBucket C) \<and> (\<forall>k. keeps I (s3_getObject C k)) \<and>
     (\<forall>k a b. keeps I (s3_getObjectRange C k a b)) \<and>
     (\<forall>k. keeps I (s3_deleteObject C k)) \<and> (\<forall>m. keeps I (mail_actionRequired C m)) \<and>
     (\<forall>m. keeps I (mail_expiryReminder C m)) \<and> (\<forall>q. keeps I (google_fetch C q))"

lemma cloud_keepsD [keeps_rules]:
  assumes "cloud_keeps I C"
  shows "keeps I (s3_headBucket C)" "keeps I (s3_createBucket C)" "keeps I (s3_getObject C k)"
    "keeps I (s3_getObjectRange C k a b)" "keeps I (s3_deleteObject C k)" "keeps I (mail_actionRequired C m)"
    "keeps I (mail_expiryReminder C m)" "keeps I (google_fetch C q)"
  using assms by (simp_all add: cloud_keeps_def)

definition decryptOf :: "'lk cloud \<Rightarrow> string \<Rightarrow> ('lk, string) op" where
  "decryptOf C payload = lift (decryptSecret (cipher C) (encryptionKey C) payload)"

lemma keeps_decryptOf [keeps_rules]: "keeps I (decryptOf C payload)"
  by (simp add: decryptOf_def keeps_def)

section \<open>Recording storage\<close>

fun isNotFound :: "exn \<Rightarrow> bool" where
  "isNotFound (ServiceError status name) = (status = 404 \<or> name = ''NotFound'' \<or> name = ''NoSuchBucket'')"
| "isNotFound _ = False"

fun isAlreadyOwned :: "exn \<Rightarrow> bool" where
  "isAlreadyOwned (ServiceError _ name) = (name = ''BucketAlreadyOwnedByYou'' \<or> name = ''BucketAlreadyExists'')"
| "isAlreadyOwned _ = False"

definition storageError :: exn where
  "storageError = JsError ''recording storage unavailable''"

definition createBucketIfMissing :: "'lk cloud \<Rightarrow> ('lk, unit) op" where
  "createBucketIfMissing C =
     andThen (tryE (s3_headBucket C)) (\<lambda>r.
       case r of
         Inr _ \<Rightarrow> ret ()
       | Inl err \<Rightarrow>
           if \<not> isNotFound err then raise storageError
           else catchE (s3_createBucket C)
                  (\<lambda>err. if isAlreadyOwned err then ret () else raise storageError))"

text \<open>The promise of a success is remembered, one of a failure is forgotten.\<close>

definition ensureBucket :: "'lk cloud \<Rightarrow> ('lk, unit) op" where
  "ensureBucket C =
     andThen (gets (\<lambda>w. bucketReady (proc w))) (\<lambda>ready.
       if ready then ret ()
       else seqE (createBucketIfMissing C)
              (modify (\<lambda>w. w\<lparr>proc := (proc w)\<lparr>bucketReady := True\<rparr>\<rparr>)))"

section \<open>Storage connections\<close>

record connection_summary =
  csm_connected :: bool
  csm_status :: connection_status
  csm_providerEmail :: "string option"
  csm_connectedAt :: "int option"
  csm_backfillAvailable :: bool

definition connectionOf :: "string \<Rightarrow> database \<Rightarrow> connection_row option" where
  "connectionOf userId d = find (\<lambda>c. cs_userId c = userId) (connections d)"

definition getConnection :: "string \<Rightarrow> ('lk, connection_row option) op" where
  "getConnection userId = dbread (\<lambda>_. connectionOf userId)"

definition activeConnection :: "string \<Rightarrow> ('lk, connection_row option) op" where
  "activeConnection userId =
     andThen (getConnection userId) (\<lambda>connection.
       ret (case connection of
              None \<Rightarrow> None
            | Some c \<Rightarrow> if cs_status c = Connected \<and> truthy (cs_encryptedRefreshToken c) then Some c else None))"

definition toConnectionSummary :: "connection_row option \<Rightarrow> connection_summary" where
  "toConnectionSummary connection =
     (case connection of
        None \<Rightarrow> \<lparr>csm_connected = False, csm_status = Disconnected, csm_providerEmail = None,
                csm_connectedAt = None, csm_backfillAvailable = False\<rparr>
      | Some c \<Rightarrow>
          \<lparr>csm_connected = (cs_status c = Connected \<and> truthy (cs_encryptedRefreshToken c)),
           csm_status = cs_status c, csm_providerEmail = cs_providerEmail c,
           csm_connectedAt = (if cs_status c = Connected then Some (cs_createdAt c) else None),
           csm_backfillAvailable = (cs_status c = Connected \<and> cs_backfillRequestedAt c = None)\<rparr>)"

definition statusFor :: "string \<Rightarrow> ('lk, connection_summary) op" where
  "statusFor userId = andThen (getConnection userId) (\<lambda>c. ret (toConnectionSummary c))"

text \<open>\<^verbatim>\<open>update({ where: { id } })\<close> throws \<^verbatim>\<open>P2025\<close> when no row has the id.\<close>

definition updateOne ::
    "('r \<Rightarrow> bool) \<Rightarrow> ('r \<Rightarrow> 'r) \<Rightarrow> 'r list \<Rightarrow> exn + 'r list" where
  "updateOne P f rows =
     (if countRows P rows = 0 then Inl (PrismaError ''P2025'') else Inr (updateRows P f rows))"

definition updateConnection ::
    "string \<Rightarrow> (connection_row \<Rightarrow> connection_row) \<Rightarrow> ('lk, unit) op" where
  "updateConnection i f =
     dbcmd (\<lambda>_ d. case updateOne (\<lambda>c. cs_id c = i) f (connections d) of
        Inl e \<Rightarrow> (Inl e, d) | Inr rows \<Rightarrow> (Inr (), d\<lparr>connections := rows\<rparr>))"

definition markActionRequired :: "string \<Rightarrow> ('lk, unit) op" where
  "markActionRequired i = updateConnection i (\<lambda>c. c\<lparr>cs_status := ConnectionActionRequired\<rparr>)"

definition updateFolder :: "string \<Rightarrow> string \<Rightarrow> ('lk, unit) op" where
  "updateFolder i folder = updateConnection i (\<lambda>c. c\<lparr>cs_driveFolderId := Some folder\<rparr>)"

definition disconnectUser :: "'lk cloud \<Rightarrow> string \<Rightarrow> bool \<Rightarrow> ('lk, unit) op" where
  "disconnectUser C userId retryRevocationFailure =
     andThen (getConnection userId) (\<lambda>connection.
       case connection of
         None \<Rightarrow> ret ()
       | Some c \<Rightarrow>
           seqE (if truthy (cs_encryptedRefreshToken c)
                 then catchE
                   (andThen (decryptOf C (the (cs_encryptedRefreshToken c))) (\<lambda>refreshToken.
                    andThen (google_fetch C (RevokeToken refreshToken)) (\<lambda>response.
                      if \<not> responseOk response \<and> hr_status response \<noteq> 400
                      then raise (JsError ''Google token revocation failed'') else ret ())))
                   (\<lambda>err. if retryRevocationFailure then raise err else ret ())
                 else ret ())
             (andThen dateNow (\<lambda>now.
                updateConnection (cs_id c) (\<lambda>c. c\<lparr>cs_status := Disconnected,
                  cs_encryptedRefreshToken := None, cs_disconnectedAt := Some now\<rparr>))))"

definition disconnect :: "'lk cloud \<Rightarrow> string \<Rightarrow> ('lk, unit) op" where
  "disconnect C userId = disconnectUser C userId False"

definition disconnectForAccountDeletion :: "'lk cloud \<Rightarrow> string \<Rightarrow> ('lk, unit) op" where
  "disconnectForAccountDeletion C userId = disconnectUser C userId True"

section \<open>Download tokens\<close>

definition DOWNLOAD_TTL_MS :: int where
  "DOWNLOAD_TTL_MS = 5 * 60 * 1000"

text \<open>The expiry enters the signature as the text that JavaScript gives the number.\<close>

definition downloadHmac :: "'lk env \<Rightarrow> string \<Rightarrow> string \<Rightarrow> string \<Rightarrow> string" where
  "downloadHmac E room recordingId e =
     hmac E RecordingDownloadSecret (room @ '':'' @ recordingId @ '':'' @ e)"

text \<open>The instants are after 1970, so they print as plain decimal numbers.\<close>

definition signDownload :: "'lk env \<Rightarrow> string \<Rightarrow> string \<Rightarrow> int \<Rightarrow> string" where
  "signDownload E room recordingId now =
     (let e = decimal (nat (now + DOWNLOAD_TTL_MS)) in e @ ''.'' @ downloadHmac E room recordingId e)"

text \<open>
  \<^verbatim>\<open>Number(s)\<close>, as the number and its text, or \<open>None\<close> when it is not finite. Up to fifteen
  digits are the number they spell; \<open>other\<close> gives the numbers of all other spellings.
\<close>

definition digitsValue :: "string \<Rightarrow> nat" where
  "digitsValue s = foldl (\<lambda>n c. n * 10 + (of_char c - 48)) 0 s"

definition isDigit :: "char \<Rightarrow> bool" where
  "isDigit c \<longleftrightarrow> 48 \<le> (of_char c :: nat) \<and> of_char c \<le> (57 :: nat)"

definition readNumber :: "(string \<Rightarrow> (rat \<times> string) option) \<Rightarrow> string \<Rightarrow> (rat \<times> string) option" where
  "readNumber other s =
     (if s \<noteq> [] \<and> length s \<le> 15 \<and> list_all isDigit s
      then Some (of_nat (digitsValue s), decimal (digitsValue s)) else other s)"

definition verifyDownload ::
    "'lk env \<Rightarrow> (string \<Rightarrow> (rat \<times> string) option) \<Rightarrow> string \<Rightarrow> string \<Rightarrow> string \<Rightarrow> int \<Rightarrow> bool" where
  "verifyDownload E other room recordingId token now =
     (let front = takeWhile (\<lambda>c. c \<noteq> CHR ''.'') token; back = dropWhile (\<lambda>c. c \<noteq> CHR ''.'') token in
      if back = [] then False
      else case readNumber other front of
        None \<Rightarrow> False
      | Some (e, text) \<Rightarrow> \<not> e < of_int now \<and> tl back = downloadHmac E room recordingId text)"

text \<open>The guard takes the token of the query, or the first of several.\<close>

definition downloadTokenGuard ::
    "'lk env \<Rightarrow> (string \<Rightarrow> (rat \<times> string) option) \<Rightarrow> string \<Rightarrow> string \<Rightarrow> string list \<Rightarrow> ('lk, bool) op" where
  "downloadTokenGuard E other room i raw =
     andThen dateNow (\<lambda>now.
       case raw of
         [] \<Rightarrow> raise (UnauthorizedException (faultBody DOWNLOAD_TOKEN_INVALID))
       | token # _ \<Rightarrow>
           if \<not> verifyDownload E other room i token now
           then raise (UnauthorizedException (faultBody DOWNLOAD_TOKEN_INVALID))
           else ret True)"

section \<open>Lemmas\<close>

lemma keeps_wf_cloud [keeps_rules]:
  "keeps wf_kv (getConnection u)" "keeps wf_kv (activeConnection u)" "keeps wf_kv (statusFor u)"
  "keeps wf_kv (updateConnection i f)" "keeps wf_kv (markActionRequired i)" "keeps wf_kv (updateFolder i s)"
  unfolding getConnection_def activeConnection_def statusFor_def updateConnection_def
    markActionRequired_def updateFolder_def
  by (auto intro!: keeps_rules)

lemma keeps_wf_cloud_calls [keeps_rules]:
  assumes "cloud_keeps wf_kv C"
  shows "keeps wf_kv (ensureBucket C)" "keeps wf_kv (disconnectUser C u b)"
proof -
  have "keeps wf_kv (createBucketIfMissing C)"
    using assms unfolding createBucketIfMissing_def by (auto intro!: keeps_rules)
  then show "keeps wf_kv (ensureBucket C)"
    unfolding ensureBucket_def by (auto intro!: keeps_rules) (simp add: keeps_def)
  show "keeps wf_kv (disconnectUser C u b)"
    using assms unfolding disconnectUser_def by (auto intro!: keeps_rules)
qed

text \<open>Disconnecting discards the stored secret, whatever the revocation says.\<close>

lemma updateConnection_Inr:
  assumes "updateConnection i f w = (Inr x, w')"
  shows "connections (dbase w') = updateRows (\<lambda>c. cs_id c = i) f (connections (dbase w))"
  using assms unfolding updateConnection_def
  by (auto elim!: dbcmd_InrE simp: updateOne_def split: if_splits sum.splits)

lemma dec_digit_simps: "isDigit (dec_digit n)" "of_char (dec_digit n) = 48 + n mod 10"
proof -
  have "list_all (\<lambda>i. isDigit (''0123456789'' ! i) \<and> of_char (''0123456789'' ! i) = 48 + i) [0..<10]"
    by code_simp
  then have "isDigit (''0123456789'' ! i) \<and> of_char (''0123456789'' ! i) = 48 + i" if "i < 10" for i
    using that by (simp add: list_all_iff)
  then show "isDigit (dec_digit n)" "of_char (dec_digit n) = 48 + n mod 10"
    unfolding dec_digit_def by simp_all
qed

lemma decimal_digits: "list_all isDigit (decimal n) \<and> decimal n \<noteq> [] \<and> digitsValue (decimal n) = n"
proof (induction n rule: decimal.induct)
  case (1 n)
  show ?case
  proof (cases "n < 10")
    case True
    then show ?thesis by (subst (1 2 3) decimal.simps) (simp add: dec_digit_simps digitsValue_def)
  next
    case False
    with 1 show ?thesis
      by (subst (1 2 3) decimal.simps) (simp add: dec_digit_simps digitsValue_def)
  qed
qed

lemma dot_free_digits: "list_all isDigit s \<Longrightarrow> CHR ''.'' \<notin> set s"
  by (auto simp: list_all_iff isDigit_def)

lemma verify_split:
  assumes "CHR ''.'' \<notin> set front"
  shows "verifyDownload E other room i (front @ ''.'' @ sig) now =
    (case readNumber other front of None \<Rightarrow> False
     | Some (e, text) \<Rightarrow> \<not> e < of_int now \<and> sig = downloadHmac E room i text)"
proof -
  have "takeWhile (\<lambda>c. c \<noteq> CHR ''.'') (front @ ''.'' @ sig) = front"
    "dropWhile (\<lambda>c. c \<noteq> CHR ''.'') (front @ ''.'' @ sig) = ''.'' @ sig"
    using assms by (induction front) auto
  then show ?thesis by (simp add: verifyDownload_def split: option.split)
qed

end
