(* ===== verification/Calm.thy ===== *)
theory Calm
  imports Cloud
begin

text \<open>
  Operations that change LiveKit at most: reads, and LiveKit calls in an environment where
  nothing else happens meanwhile (\<open>quiet\<close>). The exact effects of the handlers are proved in
  such an environment; what holds under any interference does not use this theory.
\<close>

definition calm :: "'lk world \<Rightarrow> 'lk world \<Rightarrow> bool" where
  "calm w w' \<longleftrightarrow> store w' = store w \<and> (\<forall>k. mem (clock w) (kv w') k = index_of w k) \<and> clock w' = clock w \<and>
     dbase w' = dbase w \<and> draws w' = draws w \<and> proc w' = proc w \<and> (faults w = [] \<longrightarrow> faults w' = [])"

definition calm_op :: "('lk, 'a) op \<Rightarrow> bool" where
  "calm_op m \<longleftrightarrow> (\<forall>w. calm w (snd (m w)))"

named_theorems calm_rules "operations that change LiveKit at most"

lemma calm_refl [simp]: "calm w w"
  by (simp add: calm_def)

lemma calm_trans: "calm w w' \<Longrightarrow> calm w' w'' \<Longrightarrow> calm w w''"
  by (auto simp: calm_def)

lemma calmD:
  assumes "calm w w'"
  shows "store w' = store w" "clock w' = clock w" "dbase w' = dbase w" "draws w' = draws w"
    "proc w' = proc w" "faults w = [] \<Longrightarrow> faults w' = []" "mem (clock w) (kv w') k = index_of w k"
  using assms by (simp_all add: calm_def)

lemma calm_opD: "calm_op m \<Longrightarrow> m w = (r, w') \<Longrightarrow> calm w w'"
  unfolding calm_op_def by (metis snd_conv)

lemma calm_basic [calm_rules]:
  "calm_op (ret x)" "calm_op (raise e)" "calm_op (gets f)" "calm_op (lift r)" "calm_op (Pair r)"
  by (simp_all add: calm_op_def)

lemma calm_andThen [calm_rules]:
  assumes "calm_op m" and "\<And>x. calm_op (k x)" shows "calm_op (andThen m k)"
  using assms unfolding calm_op_def andThen_def
  by (auto split: prod.splits sum.splits) (metis calm_trans snd_conv)+

lemma calm_catchE [calm_rules]:
  assumes "calm_op m" and "\<And>e. calm_op (h e)" shows "calm_op (catchE m h)"
  using assms unfolding calm_op_def catchE_def
  by (auto split: prod.splits sum.splits) (metis calm_trans snd_conv)+

lemma calm_seqE [calm_rules]: "calm_op m \<Longrightarrow> calm_op n \<Longrightarrow> calm_op (seqE m n)"
  by (simp add: seqE_def calm_andThen)

lemma calm_settle [calm_rules]: "calm_op m \<Longrightarrow> calm_op (settle m)"
  by (simp add: calm_op_def)

lemma calm_whenE [calm_rules]: "calm_op m \<Longrightarrow> calm_op (whenE b m)"
  by (cases b) (simp_all add: calm_basic)

lemma calm_all2 [calm_rules]: "calm_op a \<Longrightarrow> calm_op b \<Longrightarrow> calm_op (all2 a b)"
  unfolding calm_op_def all2_def by (auto split: prod.splits) (metis calm_trans snd_conv)

lemma calm_all3 [calm_rules]: "calm_op a \<Longrightarrow> calm_op b \<Longrightarrow> calm_op c \<Longrightarrow> calm_op (all3 a b c)"
  by (simp add: all3_def calm_all2)

lemma calm_cases [calm_rules]:
  "(b \<Longrightarrow> calm_op m) \<Longrightarrow> (\<not> b \<Longrightarrow> calm_op n) \<Longrightarrow> calm_op (if b then m else n)"
  "(x = None \<Longrightarrow> calm_op m) \<Longrightarrow> (\<And>y. x = Some y \<Longrightarrow> calm_op (f y)) \<Longrightarrow>
    calm_op (case x of None \<Rightarrow> m | Some y \<Rightarrow> f y)"
  "(\<And>a b. p = (a, b) \<Longrightarrow> calm_op (g a b)) \<Longrightarrow> calm_op (case p of (a, b) \<Rightarrow> g a b)"
  by (auto split: option.splits prod.splits)

lemma calm_reads [calm_rules]:
  "calm_op (redisGet k)" "calm_op (redisMget ks)" "calm_op (redisSmembers k)" "calm_op (dbread f)"
  by (auto simp: calm_op_def calm_def store_def fun_eq_iff rcmd_def dbcmd_def)

lemma calm_quiet: "quiet_op m \<Longrightarrow> calm_op m"
proof -
  assume q: "quiet_op m"
  have "calm w (snd (m w))" for w
  proof -
    from q obtain s where "snd (m w) = w\<lparr>sfu := s\<rparr>" unfolding quiet_op_def by blast
    then show ?thesis by (simp add: calm_def)
  qed
  then show ?thesis by (simp add: calm_op_def)
qed

lemma calm_livekit [calm_rules]:
  assumes "quiet E"
  shows "calm_op (lk_createRoom E n)" "calm_op (lk_listRooms E ns)" "calm_op (lk_deleteRoom E n)"
    "calm_op (lk_listParticipants E n)" "calm_op (lk_getParticipant E n i)"
    "calm_op (lk_removeParticipant E n i t)" "calm_op (lk_updateParticipant E n i a m)"
    "calm_op (lk_mutePublishedTrack E n i s b)" "calm_op (lk_updateRoomMetadata E n m)"
    "calm_op (lk_toJwt E tk)" "calm_op (lk_verify E st)" "calm_op (lk_receive E body auth)"
    "calm_op (lk_startEgress E n f)" "calm_op (lk_stopEgress E i)"
  using assms by (simp_all add: quiet_def calm_quiet)

lemma calm_services [calm_rules]:
  assumes "quiet E"
  shows "calm_op (mutateRoomMetadata E room f)" "calm_op (getConnectedParticipant E room i)"
    "calm_op (hasActiveScreenShare E room)" "calm_op (getRoomSid E room)"
    "calm_op (removeParticipant E room i)" "calm_op (disconnectControlAgent E room i)"
    "calm_op (lkCreateRoom E room)" "calm_op (getMuteOnEntry E room)"
    "calm_op (mintControlAgentToken E ao)" "calm_op (listActiveRooms E)"
  using assms unfolding mutateRoomMetadata_def getConnectedParticipant_def hasActiveScreenShare_def
    getRoomSid_def removeParticipant_def disconnectControlAgent_def lkCreateRoom_def
    getMuteOnEntry_def mintControlAgentToken_def listActiveRooms_def Let_def
  by (auto intro!: calm_rules)

lemma calm_remote [calm_rules]:
  assumes "quiet E"
  shows "calm_op (setRemoteControlState E room st)" "calm_op (clearLivekitState E room a)"
    "calm_op (connectedParticipant E room i)" "calm_op (presentationActive E room)"
  using assms unfolding setRemoteControlState_def clearLivekitState_def connectedParticipant_def
    presentationActive_def
  by (auto intro!: calm_rules)

lemma calm_room_reads [calm_rules]:
  "calm_op (findBySlug slug)" "calm_op requireAdmissionsOpen" "calm_op (rcRequireRoom slug)"
  "calm_op (requireRoom slug)" "calm_op (getDirectRejoinGrant room u)"
  "calm_op (getDirectRejoinGrantByIdentity room i)" "calm_op (getKnock room i)"
  "calm_op (requireKnock room i)"
  unfolding findBySlug_def requireAdmissionsOpen_def maintenanceStatus_def rcRequireRoom_def
    requireRoom_def getDirectRejoinGrant_def getDirectRejoinGrantByIdentity_def getKnock_def requireKnock_def
  by (auto intro!: calm_rules)

lemma calm_mint [calm_rules]: "quiet E \<Longrightarrow> calm_op (mintToken E opts)"
  unfolding mintToken_def by (auto intro!: calm_rules)

lemma calm_rc_reads [calm_rules]:
  "calm_op (hasOwner room)" "calm_op (getPending room i)" "calm_op (getPendingForRoom room)"
  "calm_op (getActive room)" "calm_op (requireProtocolVersion v)"
  unfolding hasOwner_def getPending_def getPendingForRoom_def getActive_def requireProtocolVersion_def
  by (auto intro!: calm_rules)

lemma calm_views:
  assumes "calm w w'"
  shows "active_at w' room = active_at w room" "pending_at w' room = pending_at w room"
    "rejoin_at w' room u = rejoin_at w room u" "rejoin_by w' room i = rejoin_by w room i"
    "knock_at w' room k = knock_at w room k"
proof -
  have v: "value_of w' k = value_of w k" for k
    unfolding store_value calmD(1) [OF assms] by (rule refl)
  show r: "rejoin_at w' room u = rejoin_at w room u" for u by (simp add: rejoin_at_def v)
  show "rejoin_by w' room i = rejoin_by w room i" by (simp add: rejoin_by_def v r cong: option.case_cong)
  show "active_at w' room = active_at w room" "pending_at w' room = pending_at w room"
    using calmD [OF assms] by (simp_all add: active_at_def pending_at_def)
  show "knock_at w' room k = knock_at w room k" by (simp add: knock_at_def v)
qed

end
