(* ===== verification/RcInvariants.thy ===== *)
theory RcInvariants
  imports RemoteControl
begin

text \<open>
  Two invariants of the whole Remote Control service: its values in Redis stay well-kinded,
  and its audit rows only follow the life cycle of \<^verbatim>\<open>RcRepo\<close>. Both hold whatever Redis and
  Postgres commands fail and whatever other requests do during the LiveKit calls, as long
  as those keep them too.
\<close>

lemma keeps_wf_repo [keeps_rules]:
  "keeps wf_kv (createRequest E room a b c e)" "keeps wf_kv (auditFindById i)"
  "keeps wf_kv (findActiveByRoom room)" "keeps wf_kv (auditActivate i ag s d)"
  "keeps wf_kv (auditDeny i t)" "keeps wf_kv (auditWithdraw i t)" "keeps wf_kv (expireRequest i t)"
  "keeps wf_kv (failRequest i why t)" "keeps wf_kv (updateRenewal i d)" "keeps wf_kv (endActive i es why t)"
  "keeps wf_kv (findDueActive t)" "keeps wf_kv (findExpiredRequests t)" "keeps wf_kv findRequestedOrActive"
  unfolding createRequest_def auditFindById_def findActiveByRoom_def auditActivate_def auditDeny_def
    auditWithdraw_def expireRequest_def failRequest_def transitionRequested_def updateRenewal_def
    endActive_def findDueActive_def findExpiredRequests_def findRequestedOrActive_def
  by (auto intro!: keeps_rules)

lemma keeps_audited_state [keeps_rules]:
  "keeps (audited rs) (hasOwner room)" "keeps (audited rs) (releaseOwner room i)"
  "keeps (audited rs) (createPending p)" "keeps (audited rs) (getPending room i)"
  "keeps (audited rs) (getPendingForRoom room)" "keeps (audited rs) (consumePending room i)"
  "keeps (audited rs) (getActive room)" "keeps (audited rs) (stateActivate g)"
  "keeps (audited rs) (revokeBootstrap g)" "keeps (audited rs) (consumeBootstrap E room i c)"
  unfolding hasOwner_def releaseOwner_def createPending_def getPending_def getPendingForRoom_def
    consumePending_def getActive_def stateActivate_def revokeBootstrap_def consumeBootstrap_def Let_def
  by (auto intro!: keeps_rules)

lemma keeps_audited_state2 [keeps_rules]:
  "keeps (audited rs) (releasePending room i)" "keeps (audited rs) (updateActive g)"
  "keeps (audited rs) (clearActive room i)"
  unfolding releasePending_def updateActive_def clearActive_def
  by (auto intro!: keeps_rules)

lemma keeps_audited_issue [keeps_rules]: "keeps (audited rs) (issueBootstrap E g)"
  unfolding issueBootstrap_def Let_def by (auto intro!: keeps_rules)

lemma keeps_audited_rooms [keeps_rules]: "keeps (audited rs) (findBySlug slug)"
  unfolding findBySlug_def by (auto intro!: keeps_rules)

text \<open>
  An invariant of the service satisfies the rules below, which is all the service needs; the service is
  gone through once, for any predicate that does. New bootstrap codes come from the environment: \<open>fresh\<close> is
  what the invariant needs of them.
\<close>

locale rc_invariant =
  fixes I :: "'lk world \<Rightarrow> bool" and fresh :: "'lk env \<Rightarrow> bool"
  assumes state: "keeps I (hasOwner room)" "keeps I (createPending p)" "keeps I (getPending room i)"
      "keeps I (getPendingForRoom room)" "keeps I (consumePending room i)" "keeps I (releasePending room i)"
      "keeps I (stateActivate g)" "keeps I (getActive room)" "keeps I (updateActive g)"
      "keeps I (clearActive room i)" "fresh E \<Longrightarrow> keeps I (issueBootstrap E g)"
      "keeps I (consumeBootstrap E room i c)" "keeps I (revokeBootstrap g)"
    and repo: "keeps I (createRequest E rid a b c e)" "keeps I (auditFindById i)"
      "keeps I (findActiveByRoom rid)" "keeps I (auditActivate i ag s d)" "keeps I (auditDeny i t)"
      "keeps I (auditWithdraw i t)" "keeps I (expireRequest i t)" "keeps I (failRequest i why t)"
      "keeps I (updateRenewal i t)" "keeps I (endActive i es why t)" "keeps I (findDueActive t)"
      "keeps I (findExpiredRequests t)" "keeps I findRequestedOrActive" "keeps I (findBySlug slug)"
begin

lemmas calls = state repo keeps_rules

lemma helpers:
  "keeps I (rcRequireRoom slug)" "keeps I (requireProtocolVersion v)" "keeps I (expirePending room i)"
  unfolding rcRequireRoom_def requireProtocolVersion_def expirePending_def
  by (auto intro!: calls)

lemma livekit_helpers:
  assumes "env_keeps I E"
  shows "keeps I (connectedParticipant E room i)" "keeps I (presentationActive E room)"
    "keeps I (clearLivekitState E room a)"
  using assms unfolding connectedParticipant_def presentationActive_def clearLivekitState_def
  by (auto intro!: calls)

lemma require_pending: "keeps I (requirePending room i)"
  unfolding requirePending_def by (auto intro!: calls helpers)

lemma ends:
  assumes "env_keeps I E"
  shows "keeps I (endGrant E g es why t)" "keeps I (endAuditFallback E row room es why t)"
  using assms unfolding endGrant_def endAuditFallback_def
  by (auto intro!: calls livekit_helpers)

lemma require_active: "env_keeps I E \<Longrightarrow> keeps I (requireActive E room i)"
  unfolding requireActive_def by (auto intro!: calls ends)

lemma request_control: "env_keeps I E \<Longrightarrow> keeps I (requestControl E room c s v)"
  unfolding requestControl_def Let_def by (auto intro!: calls helpers livekit_helpers)

lemma request_handlers:
  "keeps I (getRequest room i p)" "keeps I (getPendingRequest room p)"
  "keeps I (rc_deny room i p)" "keeps I (rc_withdraw room i p)"
  unfolding getRequest_def getPendingRequest_def rc_deny_def rc_withdraw_def Let_def
  by (auto intro!: calls helpers require_pending)

lemma start_grant: "env_keeps I E \<Longrightarrow> fresh E \<Longrightarrow> keeps I (startGrant E g now due)"
  unfolding startGrant_def by (auto intro!: calls ends)

lemma approve: "env_keeps I E \<Longrightarrow> fresh E \<Longrightarrow> keeps I (approve E room i p v)"
  unfolding approve_def Let_def
  by (auto intro!: calls helpers livekit_helpers require_pending start_grant)

lemma session_handlers:
  assumes "env_keeps I E"
  shows "keeps I (redeemHelperToken E room i c v)" "fresh E \<Longrightarrow> keeps I (reissueBootstrap E room i p)"
    "keeps I (rc_stop E room i p)"
  using assms unfolding redeemHelperToken_def reissueBootstrap_def rc_stop_def Let_def
  by (auto intro!: calls helpers ends require_active)

lemma rollback: "keeps I (renewRollback g b err)"
  unfolding renewRollback_def by (auto intro!: calls)

lemma renew: "env_keeps I E \<Longrightarrow> keeps I (renew E room i p)"
  unfolding renew_def Let_def by (auto intro!: calls ends require_active rollback)

lemma event_handlers:
  assumes "env_keeps I E"
  shows "keeps I (rc_onParticipantJoined E room i)" "keeps I (rc_onParticipantLeft E room i)"
    "keeps I (rc_onRoomFinished E room)"
  using assms unfolding rc_onParticipantJoined_def rc_onParticipantLeft_def rc_onRoomFinished_def Let_def
  by (auto intro!: calls ends)

lemma expire_due: "env_keeps I E \<Longrightarrow> keeps I (expireDue E now x)"
  unfolding expireDue_def by (auto intro!: calls ends)

lemma reconcile: "env_keeps I E \<Longrightarrow> keeps I (reconcileTick E reconciling)"
  unfolding reconcileTick_def reconcileExpirations_def by (auto intro!: calls expire_due)

lemma cutover_loop: "env_keeps I E \<Longrightarrow> keeps I (cutoverLoop E now rows a b)"
proof (induction rows arbitrary: a b)
  case (Cons x rows)
  then show ?case by (cases x) (auto intro!: calls ends)
qed (simp add: keeps_rules)

lemma cutover: "env_keeps I E \<Longrightarrow> keeps I (forceProtocolUpgradeCutover E)"
  unfolding forceProtocolUpgradeCutover_def by (auto intro!: calls cutover_loop)

text \<open>Every handler of the service, in one statement.\<close>

lemma every_handler:
  assumes "env_keeps I E" and "fresh E"
  shows "keeps I (requestControl E room p s v) \<and> keeps I (getRequest room i p) \<and>
    keeps I (getPendingRequest room p) \<and> keeps I (approve E room i p v) \<and>
    keeps I (rc_deny room i p) \<and> keeps I (rc_withdraw room i p) \<and>
    keeps I (redeemHelperToken E room i c v) \<and> keeps I (reissueBootstrap E room i p) \<and>
    keeps I (rc_stop E room i p) \<and> keeps I (renew E room i p) \<and>
    keeps I (rc_onParticipantJoined E room i) \<and> keeps I (rc_onParticipantLeft E room i) \<and>
    keeps I (rc_onRoomFinished E room) \<and> keeps I (reconcileTick E reconciling) \<and>
    keeps I (forceProtocolUpgradeCutover E)"
  by (intro conjI request_control request_handlers approve session_handlers renew event_handlers
      reconcile cutover assms)

end

interpretation wfi: rc_invariant wf_kv "\<lambda>_. True"
  by unfold_locales (auto intro!: keeps_rules)

interpretation aui: rc_invariant "audited rs" "\<lambda>_. True" for rs
  by unfold_locales (auto intro!: keeps_rules)

end
