(* ===== verification/RcEffects.thy ===== *)
theory RcEffects
  imports Calm RcInvariants
begin

text \<open>
  The exact effects of the Remote Control operations in a quiet environment: what they do to
  the store and to the audit rows when they succeed, and that they do succeed when no Redis
  or Postgres command fails (\<open>total_op\<close>).
\<close>

section \<open>Operations that cannot fail on their own\<close>

definition total_op :: "('lk, 'a) op \<Rightarrow> bool" where
  "total_op m \<longleftrightarrow> (\<forall>w. faults w = [] \<longrightarrow> (\<exists>x w'. m w = (Inr x, w') \<and> faults w' = []))"

named_theorems total_rules "operations that succeed while no store command fails"

lemma total_opD: "total_op m \<Longrightarrow> faults w = [] \<Longrightarrow> \<exists>x w'. m w = (Inr x, w') \<and> faults w' = []"
  by (simp add: total_op_def)

lemma total_basic [total_rules]: "total_op (ret x)" "total_op (gets f)" "total_op (draw g)" "total_op (Pair (Inr y))"
  by (simp_all add: total_op_def)

lemma total_andThen [total_rules]:
  "total_op m \<Longrightarrow> (\<And>x. total_op (k x)) \<Longrightarrow> total_op (andThen m k)"
  unfolding total_op_def andThen_def by fastforce

lemma total_seqE [total_rules]: "total_op m \<Longrightarrow> total_op n \<Longrightarrow> total_op (seqE m n)"
  by (simp add: seqE_def total_andThen)

lemma total_settle [total_rules]: "calm_op m \<Longrightarrow> total_op (settle m)"
  unfolding total_op_def calm_op_def by (auto simp: settle_run dest: calmD(6))

lemma total_cases [total_rules]:
  "(b \<Longrightarrow> total_op m) \<Longrightarrow> (\<not> b \<Longrightarrow> total_op n) \<Longrightarrow> total_op (if b then m else n)"
  "(b \<Longrightarrow> total_op u) \<Longrightarrow> total_op (whenE b u)"
  "(x = None \<Longrightarrow> total_op m) \<Longrightarrow> (\<And>y. x = Some y \<Longrightarrow> total_op (f y)) \<Longrightarrow>
    total_op (case x of None \<Rightarrow> m | Some y \<Rightarrow> f y)"
  by (auto simp: whenE_def split: option.splits intro: total_basic)

lemma total_forE [total_rules]: "(\<And>x. x \<in> set xs \<Longrightarrow> total_op (f x)) \<Longrightarrow> total_op (forE f xs)"
  by (induction xs) (auto intro!: total_rules)

lemma total_all2 [total_rules]: "total_op a \<Longrightarrow> total_op b \<Longrightarrow> total_op (all2 a b)"
  unfolding total_op_def all2_def by fastforce

lemma total_prod [total_rules]: "(\<And>a b. total_op (f a b)) \<Longrightarrow> total_op (case p of (a, b) \<Rightarrow> f a b)"
  by (cases p) simp

lemma total_store [total_rules]: "total_op (rcmd f)" "total_op (dbread q)"
  by (auto simp: total_op_def rcmd_ok dbcmd_ok)

text \<open>An update of audit rows that creates no active row does not hit the unique index.\<close>

lemma oneActive_update:
  assumes "oneActive rs" and "\<And>r. P r \<Longrightarrow> rs_roomId (f r) = rs_roomId r"
    and "\<And>r. P r \<Longrightarrow> rs_status (f r) = Active \<Longrightarrow> rs_status r = Active"
  shows "oneActive (updateRows P f rs)"
  using assms(1)
proof (induction rs)
  case (Cons r rs)
  have sub: "set (map rs_roomId (filter (\<lambda>r. rs_status r = Active) (updateRows P f rs)))
      \<subseteq> set (map rs_roomId (filter (\<lambda>r. rs_status r = Active) rs))"
    using assms(2,3) by (auto simp: set_updateRows split: if_splits)
  have "oneActive rs" using Cons.prems by (auto simp: oneActive_def split: if_splits)
  note IH = Cons.IH [OF this]
  show ?case
  proof (cases "rs_status r = Active")
    case True
    with Cons.prems have "rs_roomId r \<notin> set (map rs_roomId (filter (\<lambda>r. rs_status r = Active) rs))"
      by (simp add: oneActive_def)
    with sub IH assms(2) show ?thesis by (auto simp: oneActive_def)
  next
    case False
    with IH assms(3) [of r] show ?thesis by (auto simp: oneActive_def)
  qed
qed simp

lemma updateSessions_D:
  assumes "dbcmd (\<lambda>_. updateSessions P f) w = (Inr n, w')"
  shows "n = countRows P (sessions (dbase w)) \<and>
    dbase w' = (dbase w)\<lparr>sessions := updateRows P f (sessions (dbase w))\<rparr> \<and>
    store w' = store w \<and> clock w' = clock w \<and> draws w' = draws w \<and> proc w' = proc w"
  using assms by (auto elim!: dbcmd_InrE simp: updateSessions_def Let_def split: if_splits)

lemma total_updateSessions:
  assumes "\<And>r. P r \<Longrightarrow> rs_roomId (f r) = rs_roomId r"
    and "\<And>r. P r \<Longrightarrow> rs_status (f r) = Active \<Longrightarrow> rs_status r = Active"
  shows "total_op (dbcmd (\<lambda>_. updateSessions P f))"
  using oneActive_update [OF _ assms]
  by (auto simp: total_op_def dbcmd_ok updateSessions_def Let_def)

lemma total_repo [total_rules]:
  "total_op (auditDeny i t)" "total_op (auditWithdraw i t)" "total_op (expireRequest i t)"
  "total_op (failRequest i why t)" "total_op (updateRenewal i d)" "total_op (endActive i es why t)"
  "total_op (auditFindById i)" "total_op (findActiveByRoom room)" "total_op (findDueActive t)"
  "total_op (findExpiredRequests t)" "total_op findRequestedOrActive" "total_op (findBySlug slug)"
  unfolding auditDeny_def auditWithdraw_def expireRequest_def failRequest_def transitionRequested_def
    updateRenewal_def endActive_def auditFindById_def findActiveByRoom_def findDueActive_def
    findExpiredRequests_def findRequestedOrActive_def findBySlug_def
  by (auto intro!: total_rules total_updateSessions)

lemma total_state [total_rules]:
  "total_op (hasOwner room)" "total_op (releaseOwner room i)" "total_op (getPending room i)"
  "total_op (getPendingForRoom room)" "total_op (consumePending room i)" "total_op (getActive room)"
  "total_op (stateActivate g)" "total_op (revokeBootstrap g)" "total_op (consumeBootstrap E room i c)"
  unfolding hasOwner_def releaseOwner_def getPending_def getPendingForRoom_def consumePending_def
    getActive_def stateActivate_def revokeBootstrap_def consumeBootstrap_def Let_def
  by (auto intro!: total_rules)

lemma total_state2 [total_rules]:
  "total_op (releasePending room i)" "total_op (updateActive g)" "total_op (clearActive room i)"
  unfolding releasePending_def updateActive_def clearActive_def
  by (auto intro!: total_rules)

lemma total_clearLivekitState [total_rules]: "quiet E \<Longrightarrow> total_op (clearLivekitState E room a)"
  unfolding clearLivekitState_def by (auto intro!: total_rules calm_rules)

lemma total_ends [total_rules]:
  "quiet E \<Longrightarrow> total_op (endGrant E g es why t)"
  "quiet E \<Longrightarrow> total_op (endAuditFallback E row room es why t)"
  "total_op (expirePending room i)"
  unfolding endGrant_def endAuditFallback_def expirePending_def
  by (auto intro!: total_rules)

section \<open>Effects\<close>

text \<open>The store after a grant is ended, and the audit rows.\<close>

definition cleared_store :: "(string \<rightharpoonup> stored entry) \<Rightarrow> string \<Rightarrow> string \<Rightarrow> string \<rightharpoonup> stored entry" where
  "cleared_store s room i =
     (let s' = s(activeKey room := None) in
      if map_option val (s (ownerKey room)) = Some (VStr i) then s'(ownerKey room := None) else s')"

definition end_row :: "end_status \<Rightarrow> string \<Rightarrow> int \<Rightarrow> session_row \<Rightarrow> session_row" where
  "end_row es why t r = r\<lparr>rs_status := toStatus es, rs_endReason := Some why, rs_endedAt := Some t\<rparr>"

definition ended_rows :: "string \<Rightarrow> end_status \<Rightarrow> string \<Rightarrow> int \<Rightarrow> session_row list \<Rightarrow> session_row list" where
  "ended_rows i es why t rs = updateRows (\<lambda>r. rs_id r = i \<and> rs_status r = Active) (end_row es why t) rs"

lemma endActive_D:
  assumes "endActive i es why t w = (Inr b, w')"
  shows "b = (countRows (\<lambda>r. rs_id r = i \<and> rs_status r = Active) (sessions (dbase w)) = 1)"
    and "dbase w' = (dbase w)\<lparr>sessions := ended_rows i es why t (sessions (dbase w))\<rparr>"
    and "store w' = store w" and "clock w' = clock w" and "draws w' = draws w"
  using assms unfolding endActive_def ended_rows_def end_row_def
  by (auto elim!: andThen_InrE dest!: updateSessions_D)

lemma transitionRequested_D:
  assumes "transitionRequested i st why t w = (Inr b, w')"
  shows "b = (countRows (\<lambda>r. rs_id r = i \<and> rs_status r = Requested) (sessions (dbase w)) = 1)"
    and "dbase w' = (dbase w)\<lparr>sessions := updateRows (\<lambda>r. rs_id r = i \<and> rs_status r = Requested)
      (\<lambda>r. r\<lparr>rs_status := st, rs_endReason := Some why, rs_endedAt := Some t\<rparr>) (sessions (dbase w))\<rparr>"
    and "store w' = store w" and "clock w' = clock w" and "draws w' = draws w"
  using assms unfolding transitionRequested_def
  by (auto elim!: andThen_InrE dest!: updateSessions_D)

lemma endGrant_D:
  assumes "quiet E" and "endGrant E g es why t w = (Inr x, w')"
  shows "store w' = (let s = revoked_store g (store w) in
           if map_option ag_sessionId (active_at w (ag_room g)) = Some (ag_sessionId g)
           then cleared_store s (ag_room g) (ag_sessionId g) else s)"
    and "dbase w' = (dbase w)\<lparr>sessions := ended_rows (ag_sessionId g) es why t (sessions (dbase w))\<rparr>"
    and "clock w' = clock w" and "draws w' = draws w"
proof -
  from assms(2) obtain x1 w1 x2 w2 x3 w3 x4 where
    r: "revokeBootstrap g w = (Inr x1, w1)"
    and c: "clearActive (ag_room g) (ag_sessionId g) w1 = (Inr x2, w2)"
    and l: "clearLivekitState E (ag_room g) (Some (ag_agentIdentity g)) w2 = (Inr x3, w3)"
    and e: "endActive (ag_sessionId g) es why t w3 = (Inr x4, w')"
    unfolding endGrant_def by (auto elim!: seqE_InrE)
  note r = revokeBootstrap_D [OF r] and c = clearActive_D [OF c] and e = endActive_D [OF e]
  note l = calmD [OF calm_opD [OF calm_remote(2) [OF assms(1)] l]]
  have a: "active_at w1 room = active_at w room" "owner_at w1 room = owner_at w room" for room
    using r by (simp_all add: active_at_def)
  show "store w' = (let s = revoked_store g (store w) in
           if map_option ag_sessionId (active_at w (ag_room g)) = Some (ag_sessionId g)
           then cleared_store s (ag_room g) (ag_sessionId g) else s)"
    using r c unfolding e(3) l(1) cleared_store_def Let_def a by (auto split: if_splits)
  show "dbase w' = (dbase w)\<lparr>sessions := ended_rows (ag_sessionId g) es why t (sessions (dbase w))\<rparr>"
    "clock w' = clock w" "draws w' = draws w"
    using r c by (simp_all add: e l frame_def)
qed

lemma ended_rows_none_active: "r \<in> set (ended_rows i es why t rs) \<Longrightarrow> rs_id r = i \<Longrightarrow> rs_status r \<noteq> Active"
proof -
  assume r: "r \<in> set (ended_rows i es why t rs)" "rs_id r = i"
  from r(1) obtain x where "r = (if rs_id x = i \<and> rs_status x = Active then end_row es why t x else x)"
    unfolding ended_rows_def set_updateRows by blast
  then have "r = end_row es why t x \<or> r = x \<and> \<not> (rs_id x = i \<and> rs_status x = Active)"
    by (simp split: if_splits)
  then show "rs_status r \<noteq> Active" using r(2) by (elim disjE) (simp_all add: end_row_def)
qed

end
