(* ===== verification/Demo.thy ===== *)
theory Demo
  imports RcEffects
begin

text \<open>
  Example data: an environment whose LiveKit calls answer at once, with two people in the
  call, and a database with one room. The examples of the other theories build on it.
\<close>

lemma runs: "\<not> isl (fst r) \<Longrightarrow> \<exists>x w. r = (Inr x, w)"
  by (cases r; cases "fst r") auto

definition person :: "string \<Rightarrow> lk_participant" where
  "person name = \<lparr>pi_identity = name, pi_name = name, pi_metadata = NoMetadata, pi_tracks = []\<rparr>"

definition demoEnv :: "unit env" where
  "demoEnv =
     \<lparr>uuid = (\<lambda>n. ''uuid'' @ decimal n), cuid = (\<lambda>n. ''id'' @ decimal n),
      randBytes = (\<lambda>i n. replicate n i), sha256 = (\<lambda>s. ''h'' @ s), hmac = (\<lambda>k s. ''m'' @ s),
      livekitUrl = ''wss://livekit'', maintenanceOwner = Some ''owner'', webOrigin = None,
      lk_createRoom = (\<lambda>n. ret \<lparr>ro_name = n, ro_sid = ''RM1'', ro_metadata = NoMetadata\<rparr>),
      lk_listRooms = (\<lambda>ns. ret [\<lparr>ro_name = ''abc-defg-hij'', ro_sid = ''RM1'', ro_metadata = NoMetadata\<rparr>]),
      lk_deleteRoom = (\<lambda>n. ret ()), lk_listParticipants = (\<lambda>n. ret [person ''ann'', person ''bob'']),
      lk_getParticipant = (\<lambda>n i. ret (person i)), lk_removeParticipant = (\<lambda>n i t. ret ()),
      lk_updateParticipant = (\<lambda>n i a m. ret ()), lk_mutePublishedTrack = (\<lambda>n i s b. ret ()),
      lk_updateRoomMetadata = (\<lambda>n m. ret ()), lk_toJwt = (\<lambda>t. ret ''jwt''),
      lk_verify = (\<lambda>s. ret \<lparr>cl_sub = Some ''ann'', cl_name = None, cl_metadata = NoMetadata,
                            cl_room = Some ''abc-defg-hij'', cl_exp = Some 5000\<rparr>),
      lk_receive = (\<lambda>b a. raise (JsError ''unsigned'')), lk_startEgress = (\<lambda>n f. ret ''EG1''),
      lk_stopEgress = (\<lambda>i. ret ())\<rparr>"

lemma quiet_ret: fixes x :: 'b shows "quiet_op (ret x :: ('a, 'b) op)" "quiet_op (raise e :: ('a, 'b) op)" "quiet_op (Pair r :: ('a, 'b) op)"
proof -
  have "\<exists>s. w = w\<lparr>sfu := s\<rparr>" for w :: "'a world"
    by (rule exI [of _ "sfu w"]) simp
  then show "quiet_op (ret x :: ('a, 'b) op)" "quiet_op (raise e :: ('a, 'b) op)"
    "quiet_op (Pair r :: ('a, 'b) op)"
    by (simp_all add: quiet_op_def)
qed

lemma quiet_demoEnv [simp]: "quiet demoEnv"
  unfolding quiet_def demoEnv_def by (simp add: quiet_ret)

definition demoRoom :: room_row where
  "demoRoom = \<lparr>rm_id = ''room1'', rm_slug = ''abc-defg-hij'', rm_scheduledStart = None,
     rm_hostKey = ''key'', rm_hostUserId = ''u1'', rm_createdAt = 0\<rparr>"

definition demoUser :: user_row where
  "demoUser = \<lparr>us_id = ''u1'', us_name = ''Ann'', us_email = ''ann@x'', us_emailVerified = True, us_image = None\<rparr>"

definition demoRow :: "session_status \<Rightarrow> session_row" where
  "demoRow st = \<lparr>rs_id = ''s1'', rs_roomId = ''room1'', rs_sharerIdentity = ''ann'', rs_sharerName = ''Ann'',
     rs_controllerIdentity = ''bob'', rs_controllerName = ''Bob'', rs_agentIdentity = Some ''control-agent:s1'',
     rs_status = st, rs_startedAt = Some 900, rs_endedAt = None, rs_renewalDueAt = Some 1800900,
     rs_endReason = None, rs_createdAt = 800\<rparr>"

definition demoGrant :: active_grant where
  "demoGrant = \<lparr>ag_sessionId = ''s1'', ag_room = ''abc-defg-hij'', ag_roomId = ''room1'',
     ag_sharerIdentity = ''ann'', ag_sharerName = ''Ann'', ag_controllerIdentity = ''bob'',
     ag_controllerName = ''Bob'', ag_agentIdentity = ''control-agent:s1'', ag_status = AwaitingAgent,
     ag_agentConnected = False, ag_startedAt = Some 900, ag_renewalDueAt = Some 1800900,
     ag_authorizationExpiresAt = Some 3600000, ag_bootstrapDigest = Some ''h0''\<rparr>"

definition demoPending :: pending_request where
  "demoPending = \<lparr>pr_requestId = ''s1'', pr_room = ''abc-defg-hij'', pr_sharerIdentity = ''ann'',
     pr_sharerName = ''Ann'', pr_controllerIdentity = ''bob'', pr_controllerName = ''Bob'',
     pr_requestedAt = Some 800, pr_expiresAt = Some 30800, pr_controllerTokenExpiresAt = Some 3600000\<rparr>"

definition demoPerson :: "string \<Rightarrow> call_participant" where
  "demoPerson name = \<lparr>ca_identity = name, ca_name = name, ca_role = None, ca_accountBinding = None,
     ca_tokenExpiresAt = Some 3600000\<rparr>"

definition demoWorld :: "(string \<times> stored) list \<Rightarrow> session_row list \<Rightarrow> unit world" where
  "demoWorld vals rows =
     \<lparr>clock = 1000,
      kv = \<lparr>strings = map_of (map (\<lambda>(k, v). (k, \<lparr>val = v, expiresAt = Some 100000\<rparr>)) vals),
            sets = Map.empty, setExpiresAt = Map.empty, zsets = Map.empty\<rparr>,
      dbase = emptyDatabase\<lparr>users := [demoUser], rooms := [demoRoom], sessions := rows\<rparr>,
      sfu = (), draws = 0, proc = \<lparr>bucketReady = False, graceInitialized = False, chatReady = False, cleaning = False\<rparr>, faults = []\<rparr>"

lemma demoWorld_simps [simp]:
  "clock (demoWorld vals rows) = 1000" "faults (demoWorld vals rows) = []" "draws (demoWorld vals rows) = 0"
  "sessions (dbase (demoWorld vals rows)) = rows" "rooms (dbase (demoWorld vals rows)) = [demoRoom]"
  "users (dbase (demoWorld vals rows)) = [demoUser]" "maintenanceState (dbase (demoWorld vals rows)) = None"
  by (simp_all add: demoWorld_def emptyDatabase_def)

lemma store_demoWorld [simp]:
  "store (demoWorld vals rows) k = map_option (\<lambda>v. \<lparr>val = v, expiresAt = Some 100000\<rparr>) (map_of vals k)"
proof -
  have "map_of (map (\<lambda>(k, v). (k, \<lparr>val = v, expiresAt = Some 100000\<rparr>)) vals) k =
      map_option (\<lambda>v. \<lparr>val = v, expiresAt = Some (100000 :: int)\<rparr>) (map_of vals k)"
    by (induction vals) auto
  then show ?thesis by (auto simp: store_def demoWorld_def ent_def live_def split: option.split)
qed

text \<open>A session under way, and a request that waits for an answer.\<close>

definition activeWorld :: "unit world" where
  "activeWorld = demoWorld [(ownerKey ''abc-defg-hij'', VStr ''s1''),
     (activeKey ''abc-defg-hij'', VActive demoGrant),
     (bootstrapKey ''h0'', VBootstrap \<lparr>bs_room = ''abc-defg-hij'', bs_sessionId = ''s1'', bs_digest = ''h0'',
        bs_expiresAt = Some 121000\<rparr>)] [demoRow Active]"

definition pendingWorld :: "unit world" where
  "pendingWorld = demoWorld [(ownerKey ''abc-defg-hij'', VStr ''s1''),
     (pendingKey ''abc-defg-hij'', VPending demoPending)]
     [(demoRow Requested)\<lparr>rs_agentIdentity := None, rs_startedAt := None, rs_renewalDueAt := None\<rparr>]"

lemma activeWorld_simps [simp]:
  "faults activeWorld = []" "clock activeWorld = 1000"
  "active_at activeWorld ''abc-defg-hij'' = Some demoGrant"
  "pending_at activeWorld ''abc-defg-hij'' = None"
  "map_option val (owner_at activeWorld ''abc-defg-hij'') = Some (VStr ''s1'')"
  by (simp_all add: activeWorld_def active_at_def pending_at_def demoGrant_def)

lemma pendingWorld_simps [simp]:
  "faults pendingWorld = []" "clock pendingWorld = 1000"
  "pending_at pendingWorld ''abc-defg-hij'' = Some demoPending"
  "active_at pendingWorld ''abc-defg-hij'' = None"
  "map_option val (owner_at pendingWorld ''abc-defg-hij'') = Some (VStr ''s1'')"
  by (simp_all add: pendingWorld_def active_at_def pending_at_def demoPending_def)

end
