(* ===== verification/RcSteps.thy ===== *)
theory RcSteps
  imports Demo
begin

text \<open>
  What the private helpers of the Remote Control service guarantee when they return: who is
  authorized, which request or grant was found, and what an expired lookup leaves behind.
\<close>

section \<open>Lookups\<close>

lemma getActive_ok:
  assumes "faults w = []"
  shows "\<exists>w1. getActive room w = (Inr (active_at w room), w1) \<and> calm w w1"
proof -
  obtain g w1 where g: "getActive room w = (Inr g, w1)"
    using total_opD [OF total_state(6) assms] by blast
  moreover have "calm w w1" using calm_opD [OF calm_rc_reads(4) g] .
  ultimately show ?thesis using getActive_D [OF g] by auto
qed

lemma requireActive_hit:
  assumes "faults w = []" and "active_at w room = Some g" and "ag_sessionId g = i"
  shows "\<exists>w1. requireActive E room i w = (Inr g, w1) \<and> calm w w1"
proof -
  obtain w1 where "getActive room w = (Inr (Some g), w1)" "calm w w1"
    using getActive_ok [OF assms(1), of room] assms(2) by auto
  with assms(3) show ?thesis by (auto simp: requireActive_def andThen_Inr)
qed

lemma requireActive_Inr:
  assumes "requireActive E room i w = (Inr g, w')"
  shows "active_at w room = Some g" and "ag_sessionId g = i" and "ag_room g = room" and "calm w w'"
proof -
  from assms obtain x w1 where a: "getActive room w = (Inr x, w1)"
    and k: "(if map_option ag_sessionId x = Some i then ret (the x)
       else andThen (findBySlug room) (\<lambda>r.
         seqE (case r of None \<Rightarrow> ret ()
               | Some r \<Rightarrow> andThen (findActiveByRoom (rm_id r)) (\<lambda>active. andThen dateNow (\<lambda>now.
                     if map_option rs_id active = Some i
                     then endAuditFallback E (the active) room EndFailed ''grant_missing'' now
                     else ret ())))
           (raise rcNotFound))) w1 = (Inr g, w')"
    unfolding requireActive_def by (rule andThen_InrE)
  have hit: "map_option ag_sessionId x = Some i"
    using k by (auto elim!: andThen_InrE seqE_InrE split: if_splits)
  note d = getActive_D [OF a] and c = calm_opD [OF calm_rc_reads(4) a]
  from hit k d c show "active_at w room = Some g" "ag_sessionId g = i" "calm w w'" by auto
  then show "ag_room g = room" by (simp add: active_at_room)
qed

lemma requirePending_Inr:
  assumes "requirePending room i w = (Inr p, w')"
  shows "pending_at w room = Some p" and "pr_requestId p = i" and "\<not> isRequestExpired p (clock w)"
    and "calm w w'"
proof -
  from assms obtain x w1 where a: "getPending room i w = (Inr x, w1)"
    and k: "andThen dateNow (\<lambda>now. case x of
         Some p \<Rightarrow> if \<not> isRequestExpired p now then ret p
                  else seqE (expirePending room i) (raise rcNotFound)
       | None \<Rightarrow> seqE (expirePending room i) (raise rcNotFound)) w1 = (Inr p, w')"
    unfolding requirePending_def by (rule andThen_InrE)
  note d = getPending_D [OF a] and c = calm_opD [OF calm_rc_reads(2) a]
  from k d have "x = Some p" "w' = w1" "\<not> isRequestExpired p (clock w)"
    by (auto simp: andThen_gets frame_def elim!: seqE_InrE split: option.splits if_splits)
  with d c show "pending_at w room = Some p" "pr_requestId p = i" "\<not> isRequestExpired p (clock w)" "calm w w'"
    by (auto split: option.splits if_splits)
qed

section \<open>Ending a grant\<close>

text \<open>What every way to end the grant of a room leaves behind.\<close>

definition control_over :: "'lk world \<Rightarrow> string \<Rightarrow> active_grant \<Rightarrow> bool" where
  "control_over w room g \<longleftrightarrow> active_at w room = None \<and>
     map_option val (owner_at w room) \<noteq> Some (VStr (ag_sessionId g)) \<and>
     (\<forall>d. ag_bootstrapDigest g = Some d \<and> d \<noteq> [] \<longrightarrow> store w (bootstrapKey d) = None) \<and>
     (\<forall>r \<in> set (sessions (dbase w)). rs_id r = ag_sessionId g \<longrightarrow> rs_status r \<noteq> Active)"

lemma endGrant_ends:
  assumes "quiet E" and "faults w = []" and "active_at w (ag_room g) = Some g"
  shows "\<exists>x w'. endGrant E g es why t w = (Inr x, w') \<and> control_over w' (ag_room g) g"
proof -
  obtain x w' where e: "endGrant E g es why t w = (Inr x, w')"
    using total_opD [OF total_ends(1) [OF assms(1)] assms(2)] by blast
  note d = endGrant_D [OF assms(1) e]
  have st: "store w' = cleared_store (revoked_store g (store w)) (ag_room g) (ag_sessionId g)"
    using d(1) assms(3) by simp
  show ?thesis
    using e unfolding control_over_def
    by (intro exI [of _ x] exI [of _ w'] conjI)
      (auto simp: st active_at_def cleared_store_def revoked_store_def Let_def d(2)
        dest: ended_rows_none_active split: option.splits if_splits)
qed

section \<open>Requests\<close>

lemma expirePending_D:
  assumes "expirePending room i w = (Inr x, w')"
  shows "store w' = (let s = (if map_option pr_requestId (pending_at w room) = Some i
               then (store w)(pendingKey room := None) else store w)
      in if map_option val (owner_at w room) = Some (VStr i) then s(ownerKey room := None) else s)"
proof -
  from assms obtain y w1 z w2 where r: "releasePending room i w = (Inr y, w1)"
    and a: "auditFindById i w1 = (Inr z, w2)"
    and k: "(if map_option rs_status z = Some Requested
        then seqE (expireRequest i (clock w2)) (ret ()) else ret ()) w2 = (Inr x, w')"
    unfolding expirePending_def by (auto simp: andThen_gets elim!: seqE_InrE andThen_InrE)
  have "store w2 = store w1" using a by (auto simp: auditFindById_def elim!: dbcmd_InrE)
  moreover have "store w' = store w2"
    using k by (auto simp: expireRequest_def elim!: seqE_InrE dest!: transitionRequested_D(3) split: if_splits)
  ultimately show ?thesis using releasePending_D [OF r] by simp
qed

lemma total_createPending [total_rules]: "total_op (createPending p)"
  unfolding createPending_def total_op_def
  by (auto simp: andThen_def seqE_def catchE_def rcmd_ok split: if_splits)

lemma requestControl_Inr:
  assumes "requestControl E room c s v w = (Inr sm, w')"
  shows "\<exists>q wa. createPending q wa = (Inr True, w') \<and> pr_room q = room \<and> sm = toRequestSummary q (clock w')"
proof -
  show ?thesis
    using assms unfolding requestControl_def Let_def
    by (auto elim!: seqE_InrE andThen_InrE simp: andThen_gets catchE_def requireProtocolVersion_def
        split: if_splits option.splits prod.splits sum.splits) (rule exI, intro conjI, rule exI, assumption, simp, simp)+
qed

lemma requirePending_hit:
  assumes "faults w = []" and "pending_at w room = Some q" and "\<not> isRequestExpired q (clock w)"
  shows "\<exists>w1. requirePending room (pr_requestId q) w = (Inr q, w1) \<and> calm w w1"
proof -
  obtain x w1 where g: "getPending room (pr_requestId q) w = (Inr x, w1)"
    using total_opD [OF total_state(3) assms(1)] by blast
  have "x = Some q" using getPending_D [OF g] assms(2) by simp
  moreover have c: "calm w w1" using calm_opD [OF calm_rc_reads(2) g] .
  ultimately show ?thesis using g assms(3) calmD(2) [OF c] by (simp add: requirePending_def andThen_def)
qed

lemma requireProtocolVersion_run:
  "requireProtocolVersion v w = (if v = 2 then (Inr (), w)
     else (Inl (ConflictException (faultBody REMOTE_CONTROL_PROTOCOL_UNSUPPORTED)), w))"
  by (simp add: requireProtocolVersion_def whenE_def)

lemma asBootstrap_Some: "asBootstrap raw = Some b \<longleftrightarrow> raw = Some (VBootstrap b)"
  by (cases raw rule: asBootstrap.cases) auto

end
