(* ===== verification/RcLock.thy ===== *)
theory RcLock
  imports RcState
begin

text \<open>
  What the Remote Control state promises of a room, as an abstract machine: nobody has asked
  (\<open>Free\<close>), a request waits (\<open>Waiting\<close>), its Sharer has accepted it and the session is being
  set up (\<open>Claimed\<close>), or a session runs (\<open>Running\<close>). The operations of
  \<^verbatim>\<open>rooms/remote-control.state.ts\<close>, which spread this over three Redis keys, implement the
  machine as long as no Redis command fails and no key runs out in between.
\<close>

datatype control = Free | Waiting pending_request | Claimed string | Running active_grant

fun lock_request :: "pending_request \<Rightarrow> control \<Rightarrow> bool \<times> control" where
  "lock_request q Free = (True, Waiting q)"
| "lock_request q c = (False, c)"

fun lock_take :: "string \<Rightarrow> control \<Rightarrow> pending_request option \<times> control" where
  "lock_take i (Waiting q) = (if pr_requestId q = i then (Some q, Claimed i) else (None, Waiting q))"
| "lock_take i c = (None, c)"

fun lock_start :: "active_grant \<Rightarrow> control \<Rightarrow> bool \<times> control" where
  "lock_start g (Claimed i) = (if ag_sessionId g = i then (True, Running g) else (False, Claimed i))"
| "lock_start g c = (False, c)"

fun lock_update :: "active_grant \<Rightarrow> control \<Rightarrow> bool \<times> control" where
  "lock_update g (Running g') = (if ag_sessionId g' = ag_sessionId g then (True, Running g) else (False, Running g'))"
| "lock_update g c = (False, c)"

fun lock_finish :: "string \<Rightarrow> control \<Rightarrow> bool \<times> control" where
  "lock_finish i (Running g) = (if ag_sessionId g = i then (True, Free) else (False, Running g))"
| "lock_finish i c = (False, c)"

fun lock_release :: "string \<Rightarrow> control \<Rightarrow> control" where
  "lock_release i (Waiting q) = (if pr_requestId q = i then Free else Waiting q)"
| "lock_release i (Claimed j) = (if j = i then Free else Claimed j)"
| "lock_release i c = c"

text \<open>The state of a room as its three keys show it, when they fit together.\<close>

definition control_at :: "'lk world \<Rightarrow> string \<Rightarrow> control option" where
  "control_at w room =
     (case (map_option val (store w (ownerKey room)), map_option val (store w (pendingKey room)),
            map_option val (store w (activeKey room))) of
        (None, None, None) \<Rightarrow> Some Free
      | (Some (VStr i), Some (VPending q), None) \<Rightarrow>
          if pr_requestId q = i \<and> pr_room q = room then Some (Waiting q) else None
      | (Some (VStr i), None, None) \<Rightarrow> Some (Claimed i)
      | (Some (VStr i), None, Some (VActive g)) \<Rightarrow>
          if ag_sessionId g = i \<and> ag_room g = room then Some (Running g) else None
      | _ \<Rightarrow> None)"

lemma control_at_cases:
  assumes "control_at w room = Some c"
  obtains
    (free) "c = Free" "store w (ownerKey room) = None" "store w (pendingKey room) = None" "store w (activeKey room) = None"
  | (waiting) q where "c = Waiting q" "map_option val (store w (ownerKey room)) = Some (VStr (pr_requestId q))"
      "map_option val (store w (pendingKey room)) = Some (VPending q)" "store w (activeKey room) = None" "pr_room q = room"
  | (claimed) i where "c = Claimed i" "map_option val (store w (ownerKey room)) = Some (VStr i)"
      "store w (pendingKey room) = None" "store w (activeKey room) = None"
  | (running) g where "c = Running g" "map_option val (store w (ownerKey room)) = Some (VStr (ag_sessionId g))"
      "store w (pendingKey room) = None" "map_option val (store w (activeKey room)) = Some (VActive g)" "ag_room g = room"
  using assms unfolding control_at_def by (auto split: option.splits stored.splits if_splits)

section \<open>The operations implement the machine\<close>

lemma request_refines:
  assumes "createPending q w = (Inr b, w')" and "control_at w (pr_room q) = Some c"
  shows "control_at w' (pr_room q) = Some (snd (lock_request q c)) \<and> b = fst (lock_request q c)"
  using createPending_D [OF assms(1)]
  by (cases rule: control_at_cases [OF assms(2)]) (auto simp: control_at_def split: if_splits)

lemma take_refines:
  assumes "consumePending room i w = (Inr r, w')" and "control_at w room = Some c"
  shows "control_at w' room = Some (snd (lock_take i c)) \<and> r = fst (lock_take i c)"
  using consumePending_D [OF assms(1)]
  by (cases rule: control_at_cases [OF assms(2)])
    (auto simp: control_at_def pending_at_def split: if_splits)

lemma start_refines:
  assumes "stateActivate g w = (Inr b, w')" and "control_at w (ag_room g) = Some c" and "\<nexists>q. c = Waiting q"
  shows "control_at w' (ag_room g) = Some (snd (lock_start g c)) \<and> b = fst (lock_start g c)"
  using stateActivate_D [OF assms(1)] assms(3)
  by (cases rule: control_at_cases [OF assms(2)]) (auto simp: control_at_def split: if_splits)

lemma update_refines:
  assumes "updateActive g w = (Inr b, w')" and "control_at w (ag_room g) = Some c"
  shows "control_at w' (ag_room g) = Some (snd (lock_update g c)) \<and> b = fst (lock_update g c)"
  using updateActive_D [OF assms(1)]
  by (cases rule: control_at_cases [OF assms(2)]) (auto simp: control_at_def active_at_def split: if_splits)

lemma finish_refines:
  assumes "clearActive room i w = (Inr b, w')" and "control_at w room = Some c"
  shows "control_at w' room = Some (snd (lock_finish i c)) \<and> b = fst (lock_finish i c)"
  using clearActive_D [OF assms(1)]
  by (cases rule: control_at_cases [OF assms(2)]) (auto simp: control_at_def active_at_def split: if_splits)

lemma release_refines:
  assumes "releasePending room i w = (Inr x, w')" and "control_at w room = Some c"
    and "\<nexists>g. c = Running g \<and> ag_sessionId g = i"
  shows "control_at w' room = Some (lock_release i c)"
  using releasePending_D [OF assms(1)] assms(3)
  by (cases rule: control_at_cases [OF assms(2)]) (auto simp: control_at_def pending_at_def Let_def split: if_splits)

section \<open>What a client of the machine may rely on\<close>

text \<open>
  The interface of one room's lock: operations whose successful runs follow the machine. What
  holds of every implementation is proved here once.
\<close>

locale control_lock =
  fixes room :: string
    and view :: "'w \<Rightarrow> control option"
    and request :: "pending_request \<Rightarrow> ('w, bool) act"
    and claim :: "string \<Rightarrow> ('w, pending_request option) act"
    and start :: "active_grant \<Rightarrow> ('w, bool) act"
    and finish :: "string \<Rightarrow> ('w, bool) act"
  assumes request_law: "request q w = (Inr b, w') \<Longrightarrow> pr_room q = room \<Longrightarrow> view w = Some c \<Longrightarrow>
      view w' = Some (snd (lock_request q c)) \<and> b = fst (lock_request q c)"
    and claim_law: "claim i w = (Inr r, w') \<Longrightarrow> view w = Some c \<Longrightarrow>
      view w' = Some (snd (lock_take i c)) \<and> r = fst (lock_take i c)"
    and start_law: "start g w = (Inr b, w') \<Longrightarrow> ag_room g = room \<Longrightarrow> view w = Some c \<Longrightarrow> \<nexists>q. c = Waiting q \<Longrightarrow>
      view w' = Some (snd (lock_start g c)) \<and> b = fst (lock_start g c)"
    and finish_law: "finish i w = (Inr b, w') \<Longrightarrow> view w = Some c \<Longrightarrow>
      view w' = Some (snd (lock_finish i c)) \<and> b = fst (lock_finish i c)"
begin

text \<open>From a request to the end of its session.\<close>

lemma life_cycle:
  assumes "view w = Some Free" and "pr_room q = room" "ag_room g = room" "ag_sessionId g = pr_requestId q"
    and runs: "request q w = (Inr a, w1)" "claim (pr_requestId q) w1 = (Inr r, w2)" "start g w2 = (Inr b, w3)"
      "finish (pr_requestId q) w3 = (Inr d, w4)"
  shows "a \<and> r = Some q \<and> b \<and> d \<and> view w1 = Some (Waiting q) \<and> view w3 = Some (Running g) \<and> view w4 = Some Free"
proof -
  have 1: "view w1 = Some (Waiting q)" "a" using request_law [OF runs(1) assms(2,1)] by simp_all
  have 2: "view w2 = Some (Claimed (pr_requestId q))" "r = Some q" using claim_law [OF runs(2) 1(1)] by simp_all
  have 3: "view w3 = Some (Running g)" "b" using start_law [OF runs(3) assms(3) 2(1)] assms(4) by simp_all
  have 4: "view w4 = Some Free" "d" using finish_law [OF runs(4) 3(1)] assms(4) by simp_all
  show ?thesis using 1 2 3 4 by blast
qed

text \<open>A room that is not free refuses every request and stays as it is.\<close>

lemma occupied:
  assumes "view w = Some c" and "c \<noteq> Free" and "pr_room q = room" and "request q w = (Inr b, w')"
  shows "\<not> b \<and> view w' = Some c"
  using request_law [OF assms(4,3,1)] assms(2) by (cases c) simp_all

end

interpretation cl: control_lock room "\<lambda>w. control_at w room" createPending "consumePending room" stateActivate
  "clearActive room" for room
proof (unfold_locales, goal_cases)
  case (1 q w b w' c)
  then show ?case using request_refines [of q w b w' c] by simp
next
  case (2 i w r w' c)
  then show ?case by (rule take_refines)
next
  case (3 g w b w' c)
  then show ?case using start_refines [of g w b w' c] by simp
next
  case (4 i w b w' c)
  then show ?case by (rule finish_refines)
qed

text \<open>An operation on one room leaves the others alone.\<close>

lemma control_at_frame:
  assumes "\<forall>k. k \<notin> {ownerKey room, pendingKey room, activeKey room} \<longrightarrow> store w' k = store w k" and "room' \<noteq> room"
  shows "control_at w' room' = control_at w room'"
proof -
  have "store w' (ownerKey room') = store w (ownerKey room')" "store w' (pendingKey room') = store w (pendingKey room')"
      "store w' (activeKey room') = store w (activeKey room')"
    using assms by (simp_all add: key_defs)
  then show ?thesis by (simp add: control_at_def)
qed

end
