(* ===== verification/RcProperties.thy ===== *)
theory RcProperties
  imports RcSteps RcLock
begin

text \<open>
  What the Remote Control handlers promise, one theorem per promise, with an example world
  in which each is applied.
\<close>

section \<open>Stopping\<close>

text \<open>C1. The Sharer or the Controller stops a session: the call succeeds, the grant and its
  bootstrap code are gone from Redis, the room's lock is released, and no audit row of the
  session is active any more.\<close>

theorem stop_ends_control:
  assumes "quiet E" and "faults w = []" and "active_at w room = Some g" and "ag_sessionId g = i"
    and "ca_identity p = ag_sharerIdentity g \<or> ca_identity p = ag_controllerIdentity g"
  shows "\<exists>w'. rc_stop E room i p w = (Inr (Some (clock w)), w') \<and> control_over w' room g"
proof -
  obtain w1 where r: "requireActive E room i w = (Inr g, w1)" and c: "calm w w1"
    using requireActive_hit [OF assms(2-4)] by blast
  note c = calmD [OF c] calm_views [OF c] and room = active_at_room [OF assms(3)]
  define es where "es = (if isGrantExpired g (clock w) then EndExpired else EndEnded)"
  define why where "why = (if isGrantExpired g (clock w) then ''renewal_timeout''
    else if ca_identity p = ag_sharerIdentity g then ''sharer_stopped'' else ''controller_stopped'')"
  obtain x w' where e: "endGrant E g es why (clock w) w1 = (Inr x, w')" "control_over w' room g"
    using endGrant_ends [OF assms(1), of w1 g es why "clock w"] assms(2,3) room by (auto simp: c)
  have "rc_stop E room i p w = seqE (endGrant E g es why (clock w)) (ret (Some (clock w))) w1"
    using assms(5) by (auto simp: rc_stop_def andThen_def r c(2) Let_def es_def why_def)
  with e show ?thesis by (simp add: seqE_def andThen_def)
qed

theorem stop_ends_control_witness:
  "\<exists>w'. rc_stop demoEnv ''abc-defg-hij'' ''s1'' (demoPerson ''bob'') activeWorld = (Inr (Some 1000), w') \<and>
    control_over w' ''abc-defg-hij'' demoGrant"
  using stop_ends_control [of demoEnv activeWorld "''abc-defg-hij''" demoGrant "''s1''" "demoPerson ''bob''"]
  by (simp add: demoGrant_def demoPerson_def)

section \<open>Reading a request that is already resolved\<close>

text \<open>C13. Reading a request by the id of a session that was already approved answers "not found",
  and releases the room's lock although the session is still active: the id of a request is
  the id of its session, and the lookup drops the lock of whatever id it did not find.\<close>

theorem late_read_releases_lock:
  assumes "faults w = []" and "pending_at w room = None"
    and "map_option val (owner_at w room) = Some (VStr i)"
  shows "\<exists>w'. getRequest room i p w = (Inl rcNotFound, w') \<and> owner_at w' room = None \<and>
    active_at w' room = active_at w room"
proof -
  obtain x w1 where g: "getPending room i w = (Inr x, w1)" and f1: "faults w1 = []"
    using total_opD [OF total_state(3) assms(1)] by blast
  have x: "x = None" using getPending_D [OF g] assms(2) by simp
  note c = calm_opD [OF calm_rc_reads(2) g]
  obtain y w' where e: "expirePending room i w1 = (Inr y, w')"
    using total_opD [OF total_ends(3) f1] by blast
  have r: "getRequest room i p w = (Inl rcNotFound, w')"
    using e by (simp add: getRequest_def requirePending_def andThen_def g x seqE_def)
  have "store w' = (store w)(ownerKey room := None)"
    using expirePending_D [OF e] assms(2,3) by (simp add: calmD [OF c] calm_views [OF c])
  with r show ?thesis by (auto simp: active_at_def)
qed

theorem late_read_releases_lock_witness:
  "\<exists>w'. getRequest ''abc-defg-hij'' ''s1'' (demoPerson ''eve'') activeWorld = (Inl rcNotFound, w') \<and>
    owner_at w' ''abc-defg-hij'' = None \<and> active_at w' ''abc-defg-hij'' = Some demoGrant"
  using late_read_releases_lock [of activeWorld "''abc-defg-hij''" "''s1''" "demoPerson ''eve''"]
  by simp

section \<open>Requests\<close>

text \<open>C2. While a request holds the room, every other request for the room is refused as
  already in progress and leaves no audit row, for the 30 seconds the request may wait,
  whoever asks and whatever LiveKit says.\<close>

theorem request_excludes:
  assumes "requestControl E room c s v w = (Inr sm, w1)" and "clock w1 \<le> t" and "t < clock w1 + 30000"
    and "faults w1 = []" and "roomBySlug room (dbase w1) = Some r" and "ca_identity c' \<noteq> s'"
  shows "\<exists>w2. requestControl E room c' s' 2 (w1\<lparr>clock := t\<rparr>) = (Inl inProgress, w2) \<and>
    sessions (dbase w2) = sessions (dbase w1)"
proof -
  let ?w = "w1\<lparr>clock := t\<rparr>"
  obtain q wa where q: "createPending q wa = (Inr True, w1)" "pr_room q = room"
    using requestControl_Inr [OF assms(1)] by blast
  have st: "store w1 (ownerKey room) = Some (timed wa (VStr (pr_requestId q)) 30)"
    and cl: "clock w1 = clock wa"
    using createPending_D [OF q(1)] q(2) by (simp_all add: frame_def)
  have o: "owner_at ?w room \<noteq> None"
    using st assms(2,3) cl by (simp add: store_later [of ?w w1] live_def)
  have "faults ?w = []" using assms(4) by simp
  from total_opD [OF total_repo(12) this, of room]
  obtain x w2 where f: "findBySlug room ?w = (Inr x, w2)" and f2: "faults w2 = []" by blast
  note fx = findBySlug_Inr [OF f]
  have x: "x = Some r" using fx(1) assms(5) by simp
  obtain y w3 where h: "hasOwner room w2 = (Inr y, w3)"
    using total_opD [OF total_state(1) f2] by blast
  have y: "y" and d: "dbase w3 = dbase w1"
    using hasOwner_D [OF h] o fx(2) by (auto simp: unchanged_store frame_def unchangedD)
  have "requestControl E room c' s' 2 ?w = (Inl inProgress, w3)"
    using assms(6) y by (simp add: requestControl_def requireProtocolVersion_def rcRequireRoom_def seqE_def
        andThen_def f x h)
  with d show ?thesis by auto
qed

text \<open>A request that is made in the example room, by evaluation.\<close>

lemma demo_request:
  "\<exists>sm w1. requestControl demoEnv ''abc-defg-hij'' (demoPerson ''bob'') ''ann'' 2 (demoWorld [] []) = (Inr sm, w1) \<and>
     faults w1 = [] \<and> clock w1 = 1000 \<and> rooms (dbase w1) = [demoRoom]"
proof -
  let ?r = "requestControl demoEnv ''abc-defg-hij'' (demoPerson ''bob'') ''ann'' 2 (demoWorld [] [])"
  have "\<not> isl (fst ?r) \<and> faults (snd ?r) = [] \<and> clock (snd ?r) = 1000 \<and> rooms (dbase (snd ?r)) = [demoRoom]"
    by code_simp
  then show ?thesis using runs [of ?r] by auto
qed

theorem request_excludes_witness:
  "\<exists>w1 w2. requestControl demoEnv ''abc-defg-hij'' (demoPerson ''eve'') ''ann'' 2 (w1\<lparr>clock := 20000\<rparr>) = (Inl inProgress, w2)"
proof -
  obtain sm w1 where r: "requestControl demoEnv ''abc-defg-hij'' (demoPerson ''bob'') ''ann'' 2 (demoWorld [] []) = (Inr sm, w1)"
    and w: "faults w1 = []" "clock w1 = 1000" "rooms (dbase w1) = [demoRoom]"
    using demo_request by blast
  have "roomBySlug ''abc-defg-hij'' (dbase w1) = Some demoRoom" by (simp add: roomBySlug_def w demoRoom_def)
  from request_excludes [OF r _ _ w(1) this, of 20000 "demoPerson ''eve''" "''ann''"] w(2)
  show ?thesis by (auto simp: demoPerson_def)
qed

section \<open>Leaving\<close>

text \<open>When the Sharer, the Controller or the Control Agent leaves the call, the session is
  over, whatever LiveKit answers: the grant, its code and its lock are gone and its audit
  row is not active.\<close>

theorem leaving_ends_control:
  assumes "quiet E" and "faults w = []" and "active_at w room = Some g"
    and "identity \<in> {ag_sharerIdentity g, ag_controllerIdentity g, ag_agentIdentity g}"
  shows "\<exists>w'. rc_onParticipantLeft E room identity w = (Inr (), w') \<and> control_over w' room g"
proof -
  obtain w1 where a: "getActive room w = (Inr (Some g), w1)" and c: "calm w w1"
    using getActive_ok [OF assms(2), of room] assms(3) by auto
  have "leaveReason g identity \<noteq> None" using assms(4) by (auto simp: leaveReason_def)
  then obtain why where why: "leaveReason g identity = Some why" by blast
  note c = calmD [OF c] calm_views [OF c] and room = active_at_room [OF assms(3)]
  obtain x w' where "endGrant E g EndEnded why (clock w1) w1 = (Inr x, w')" "control_over w' room g"
    using endGrant_ends [OF assms(1), of w1 g EndEnded why "clock w1"] assms(2,3) room by (auto simp: c)
  then show ?thesis
    by (intro exI [of _ w']) (simp add: rc_onParticipantLeft_def andThen_def a why)
qed

theorem leaving_ends_control_witness:
  "\<exists>w'. rc_onParticipantLeft demoEnv ''abc-defg-hij'' ''control-agent:s1'' activeWorld = (Inr (), w') \<and>
    control_over w' ''abc-defg-hij'' demoGrant"
  using leaving_ends_control [of demoEnv activeWorld "''abc-defg-hij''" demoGrant "''control-agent:s1''"]
  by (simp add: demoGrant_def)

section \<open>Who may act\<close>

text \<open>Nobody but its Sharer can approve or deny a waiting request, nobody but its Controller
  can withdraw it, nobody but these two can read it, and the refused call changes nothing in
  Redis or in the database.\<close>

theorem request_strangers_refused:
  assumes "faults w = []" and "pending_at w room = Some q" and "\<not> isRequestExpired q (clock w)"
    and "ca_identity a \<noteq> pr_sharerIdentity q" and "ca_identity b \<noteq> pr_controllerIdentity q"
    and "ca_identity c \<notin> {pr_sharerIdentity q, pr_controllerIdentity q}"
    and "roomBySlug room (dbase w) = Some r"
  shows "\<exists>w1 w2 w3 w4. approve E room (pr_requestId q) a 2 w = (Inl notAllowed, w1) \<and> calm w w1 \<and>
    rc_deny room (pr_requestId q) a w = (Inl notAllowed, w2) \<and> calm w w2 \<and>
    rc_withdraw room (pr_requestId q) b w = (Inl notAllowed, w3) \<and> calm w w3 \<and>
    getRequest room (pr_requestId q) c w = (Inl notAllowed, w4) \<and> calm w w4"
proof -
  obtain w1 where r1: "requirePending room (pr_requestId q) w = (Inr q, w1)" "calm w w1"
    using requirePending_hit [OF assms(1-3)] by blast
  obtain y wf where f: "findBySlug room w = (Inr y, wf)"
    using total_opD [OF total_repo(12) assms(1)] by blast
  have y: "y = Some r" and cf: "calm w wf"
    using findBySlug_Inr [OF f] assms(7) calm_opD [OF calm_room_reads(1) f] by auto
  obtain w2 where r2: "requirePending room (pr_requestId q) wf = (Inr q, w2)" "calm w w2"
    using requirePending_hit [OF calmD(6) [OF cf assms(1)], of room q] assms(2,3) calm_trans [OF cf]
    by (auto simp: calm_views [OF cf] calmD [OF cf])
  from r1 r2 f y assms(4-6) show ?thesis
    by (auto simp: approve_def rc_deny_def rc_withdraw_def getRequest_def andThen_def seqE_def
        requireProtocolVersion_run rcRequireRoom_def)
qed

theorem request_strangers_refused_witness:
  "\<exists>w1. approve demoEnv ''abc-defg-hij'' ''s1'' (demoPerson ''bob'') 2 pendingWorld = (Inl notAllowed, w1) \<and>
    calm pendingWorld w1"
proof -
  have r: "roomBySlug ''abc-defg-hij'' (dbase pendingWorld) = Some demoRoom"
    by (simp add: roomBySlug_def pendingWorld_def demoRoom_def)
  have e: "\<not> isRequestExpired demoPending (clock pendingWorld)" by (simp add: isRequestExpired_def demoPending_def)
  show ?thesis
    using request_strangers_refused [OF pendingWorld_simps(1) pendingWorld_simps(3) e _ _ _ r,
        of "demoPerson ''bob''" "demoPerson ''ann''" "demoPerson ''eve''" demoEnv]
    by (auto simp: demoPending_def demoPerson_def)
qed

text \<open>C21. Nobody but the Sharer can renew a session or get a new helper code for it, nobody but
  the Sharer and the Controller can stop it, and the refused call changes nothing.\<close>

theorem session_strangers_refused:
  assumes "faults w = []" and "active_at w room = Some g"
    and "ca_identity a \<noteq> ag_sharerIdentity g"
    and "ca_identity c \<notin> {ag_sharerIdentity g, ag_controllerIdentity g}"
  shows "\<exists>w1. calm w w1 \<and> renew E room (ag_sessionId g) a w = (Inl notAllowed, w1) \<and>
    reissueBootstrap E room (ag_sessionId g) a w = (Inl notAllowed, w1) \<and>
    rc_stop E room (ag_sessionId g) c w = (Inl notAllowed, w1)"
proof -
  obtain w1 where "requireActive E room (ag_sessionId g) w = (Inr g, w1)" "calm w w1"
    using requireActive_hit [OF assms(1,2)] by blast
  with assms(3,4) show ?thesis
    by (auto simp: renew_def reissueBootstrap_def rc_stop_def andThen_def)
qed

theorem session_strangers_refused_witness:
  "\<exists>w1. rc_stop demoEnv ''abc-defg-hij'' ''s1'' (demoPerson ''eve'') activeWorld = (Inl notAllowed, w1) \<and>
    calm activeWorld w1"
  using session_strangers_refused [OF activeWorld_simps(1) activeWorld_simps(3), of "demoPerson ''bob''" "demoPerson ''eve''" demoEnv]
  by (auto simp: demoGrant_def demoPerson_def)

section \<open>Denying and withdrawing\<close>

definition resolved_rows :: "string \<Rightarrow> session_status \<Rightarrow> string \<Rightarrow> int \<Rightarrow> session_row list \<Rightarrow> session_row list" where
  "resolved_rows i st why t rs = updateRows (\<lambda>r. rs_id r = i \<and> rs_status r = Requested)
     (\<lambda>r. r\<lparr>rs_status := st, rs_endReason := Some why, rs_endedAt := Some t\<rparr>) rs"

text \<open>The common body of the two handlers, after the authority check.\<close>

definition resolve :: "string \<Rightarrow> string \<Rightarrow> session_status \<Rightarrow> string \<Rightarrow> ('lk, unit) op" where
  "resolve room i st why =
     andThen (consumePending room i) (\<lambda>consumed.
         if consumed = None then raise rcNotFound
         else finallyE
           (andThen dateNow (\<lambda>now. andThen (transitionRequested i st why now) (\<lambda>done.
              if \<not> done then raise rcNotFound else ret ())))
           (releasePending room i))"

lemma resolve_ok:
  assumes "faults w = []" and "pending_at w room = Some q" and "pr_requestId q = i"
    and "map_option val (owner_at w room) = Some (VStr i)"
    and "countRows (\<lambda>r. rs_id r = i \<and> rs_status r = Requested) (sessions (dbase w)) = 1"
    and "st \<noteq> Active"
  shows "\<exists>w'. resolve room i st why w = (Inr (), w') \<and> pending_at w' room = None \<and> owner_at w' room = None \<and>
    sessions (dbase w') = resolved_rows i st why (clock w) (sessions (dbase w))"
proof -
  obtain x w1 where c: "consumePending room i w = (Inr x, w1)" and f1: "faults w1 = []"
    using total_opD [OF total_state(5) assms(1)] by blast
  have "total_op (transitionRequested i st why (clock w1))"
    unfolding transitionRequested_def using assms(6) by (auto intro!: total_rules total_updateSessions)
  from total_opD [OF this f1] obtain b w2 where t: "transitionRequested i st why (clock w1) w1 = (Inr b, w2)"
    and f2: "faults w2 = []" by blast
  obtain y w3 where r: "releasePending room i w2 = (Inr y, w3)"
    using total_opD [OF total_state2(1) f2] by blast
  note c' = consumePending_D [OF c] and t' = transitionRequested_D [OF t] and r' = releasePending_D [OF r]
  have x: "x = Some q" and w1: "dbase w1 = dbase w" "clock w1 = clock w" "store w1 = (store w)(pendingKey room := None)"
    using c' assms(2-4) by (simp_all add: frame_def)
  have b: "b" using t'(1) assms(5) by (simp add: w1)
  have s: "store w3 = (store w)(pendingKey room := None, ownerKey room := None)"
    using r' assms(4) by (simp add: t' w1 pending_at_def frame_def)
  have "resolve room i st why w = (Inr (), w3)"
    using c x t b r by (simp add: resolve_def andThen_def finallyE_def)
  moreover have "sessions (dbase w3) = resolved_rows i st why (clock w) (sessions (dbase w))"
    using r' t'(2) by (simp add: frame_def w1 resolved_rows_def)
  ultimately show ?thesis by (auto simp: pending_at_def s)
qed

text \<open>C22. While no store command fails: the Sharer denies a waiting request, or the Controller withdraws it: the call succeeds,
  the request and the lock of the room are gone, so that another request can be made, and
  the audit row records who ended it.\<close>

theorem deny_withdraw_release:
  assumes "faults w = []" and "pending_at w room = Some q" and "\<not> isRequestExpired q (clock w)"
    and "map_option val (owner_at w room) = Some (VStr (pr_requestId q))"
    and "countRows (\<lambda>r. rs_id r = pr_requestId q \<and> rs_status r = Requested) (sessions (dbase w)) = 1"
    and "ca_identity s = pr_sharerIdentity q" and "ca_identity c = pr_controllerIdentity q"
  shows "\<exists>w1 w2. rc_deny room (pr_requestId q) s w = (Inr (), w1) \<and>
      pending_at w1 room = None \<and> owner_at w1 room = None \<and>
      sessions (dbase w1) = resolved_rows (pr_requestId q) DeniedS ''sharer_denied'' (clock w) (sessions (dbase w)) \<and>
    rc_withdraw room (pr_requestId q) c w = (Inr (), w2) \<and>
      pending_at w2 room = None \<and> owner_at w2 room = None \<and>
      sessions (dbase w2) = resolved_rows (pr_requestId q) Withdrawn ''controller_withdrew'' (clock w) (sessions (dbase w))"
proof -
  obtain w0 where r: "requirePending room (pr_requestId q) w = (Inr q, w0)" and c: "calm w w0"
    using requirePending_hit [OF assms(1-3)] by blast
  note c = calmD [OF c] calm_views [OF c]
  have ok: "\<exists>w'. resolve room (pr_requestId q) st why w0 = (Inr (), w') \<and> pending_at w' room = None \<and>
      owner_at w' room = None \<and> sessions (dbase w') = resolved_rows (pr_requestId q) st why (clock w) (sessions (dbase w))"
    if "st \<noteq> Active" for st why
    using resolve_ok [OF c(6) [OF assms(1)], of room q "pr_requestId q" st why] assms(2,4,5) that by (simp add: c)
  have "rc_deny room (pr_requestId q) s w = resolve room (pr_requestId q) DeniedS ''sharer_denied'' w0"
    using assms(6) by (simp add: rc_deny_def andThen_def [of "requirePending _ _"] r resolve_def auditDeny_def cong: if_cong)
  moreover have "rc_withdraw room (pr_requestId q) c w = resolve room (pr_requestId q) Withdrawn ''controller_withdrew'' w0"
    using assms(7) by (simp add: rc_withdraw_def andThen_def [of "requirePending _ _"] r resolve_def auditWithdraw_def cong: if_cong)
  ultimately show ?thesis using ok [of DeniedS "''sharer_denied''"] ok [of Withdrawn "''controller_withdrew''"] by auto
qed

theorem deny_withdraw_release_witness:
  "\<exists>w1. rc_deny ''abc-defg-hij'' ''s1'' (demoPerson ''ann'') pendingWorld = (Inr (), w1) \<and>
    owner_at w1 ''abc-defg-hij'' = None"
proof -
  have e: "\<not> isRequestExpired demoPending (clock pendingWorld)" by (simp add: isRequestExpired_def demoPending_def)
  have n: "countRows (\<lambda>r. rs_id r = pr_requestId demoPending \<and> rs_status r = Requested) (sessions (dbase pendingWorld)) = 1"
    by (simp add: pendingWorld_def demoPending_def demoRow_def countRows_def)
  have o: "map_option val (owner_at pendingWorld ''abc-defg-hij'') = Some (VStr (pr_requestId demoPending))"
    using pendingWorld_simps(5) by (simp add: demoPending_def)
  show ?thesis
    using deny_withdraw_release [OF pendingWorld_simps(1,3) e o n, of "demoPerson ''ann''" "demoPerson ''bob''"]
    by (auto simp: demoPending_def demoPerson_def)
qed

section \<open>The lock of a room\<close>

text \<open>C6. The Redis operations implement the one-room lock: whenever they succeed, the room goes from
  free to waiting, claimed, running and free again exactly as the abstract machine does, with
  the answers it gives; a taken room refuses every request. Only two calls are outside the
  machine: starting a session whose request still waits, and releasing a request by the id
  of a running session.\<close>

theorem lock_refines:
  assumes "control_at w room = Some c" and "pr_room q = room" and "ag_room g = room"
  shows "(\<forall>b w'. createPending q w = (Inr b, w') \<longrightarrow>
      control_at w' room = Some (snd (lock_request q c)) \<and> b = fst (lock_request q c)) \<and>
    (\<forall>r w'. consumePending room i w = (Inr r, w') \<longrightarrow>
      control_at w' room = Some (snd (lock_take i c)) \<and> r = fst (lock_take i c)) \<and>
    ((\<nexists>q'. c = Waiting q') \<longrightarrow> (\<forall>b w'. stateActivate g w = (Inr b, w') \<longrightarrow>
      control_at w' room = Some (snd (lock_start g c)) \<and> b = fst (lock_start g c))) \<and>
    (\<forall>b w'. updateActive g w = (Inr b, w') \<longrightarrow>
      control_at w' room = Some (snd (lock_update g c)) \<and> b = fst (lock_update g c)) \<and>
    (\<forall>b w'. clearActive room i w = (Inr b, w') \<longrightarrow>
      control_at w' room = Some (snd (lock_finish i c)) \<and> b = fst (lock_finish i c)) \<and>
    ((\<nexists>g'. c = Running g' \<and> ag_sessionId g' = i) \<longrightarrow> (\<forall>x w'. releasePending room i w = (Inr x, w') \<longrightarrow>
      control_at w' room = Some (lock_release i c)))"
proof (intro conjI impI allI)
  fix b w' assume "createPending q w = (Inr b, w')"
  from cl.request_law [OF this assms(2,1)]
  show "control_at w' room = Some (snd (lock_request q c))" "b = fst (lock_request q c)" by blast+
next
  fix r w' assume "consumePending room i w = (Inr r, w')"
  from take_refines [OF this assms(1)]
  show "control_at w' room = Some (snd (lock_take i c))" "r = fst (lock_take i c)" by blast+
next
  fix b w' assume "\<nexists>q'. c = Waiting q'" "stateActivate g w = (Inr b, w')"
  from cl.start_law [OF this(2) assms(3,1) this(1)]
  show "control_at w' room = Some (snd (lock_start g c))" "b = fst (lock_start g c)" by blast+
next
  fix b w' assume "updateActive g w = (Inr b, w')"
  from update_refines [OF this, of c] assms
  show "control_at w' room = Some (snd (lock_update g c))" "b = fst (lock_update g c)" by simp_all
next
  fix b w' assume "clearActive room i w = (Inr b, w')"
  from finish_refines [OF this assms(1)]
  show "control_at w' room = Some (snd (lock_finish i c))" "b = fst (lock_finish i c)" by blast+
next
  fix x w' assume "\<nexists>g'. c = Running g' \<and> ag_sessionId g' = i" "releasePending room i w = (Inr x, w')"
  from release_refines [OF this(2) assms(1) this(1)]
  show "control_at w' room = Some (lock_release i c)" .
qed

theorem lock_refines_witness:
  "\<exists>w'. clearActive ''abc-defg-hij'' ''s1'' activeWorld = (Inr True, w') \<and> control_at w' ''abc-defg-hij'' = Some Free"
proof -
  have c: "control_at activeWorld ''abc-defg-hij'' = Some (Running demoGrant)"
    by (simp add: control_at_def activeWorld_def demoGrant_def)
  have "fst (clearActive ''abc-defg-hij'' ''s1'' activeWorld) = Inr True" by code_simp
  then obtain w' where run: "clearActive ''abc-defg-hij'' ''s1'' activeWorld = (Inr True, w')" by (metis prod.collapse)
  have rooms: "pr_room demoPending = ''abc-defg-hij''" "ag_room demoGrant = ''abc-defg-hij''" "ag_sessionId demoGrant = ''s1''"
    by (simp_all add: demoPending_def demoGrant_def)
  from lock_refines [OF c rooms(1,2), of "''s1''", THEN conjunct2, THEN conjunct2, THEN conjunct2, THEN conjunct2,
      THEN conjunct1, rule_format, OF run] rooms(3) run
  show ?thesis by simp
qed

end
