(* ===== verification/RcRuns.thy ===== *)
theory RcRuns
  imports RcSteps
begin

text \<open>
  The Remote Control service as a whole: any sequence of its handlers, with time passing and
  store commands failing between and during them. What holds at every moment of every run.
\<close>

section \<open>Runs\<close>

text \<open>
  One step: a handler with any arguments, to its end, normal or by an exception; or time goes
  on, and other store commands are going to fail. During a handler the LiveKit calls may do
  to the world whatever \<open>E\<close> lets them do, which includes the steps of other requests.
\<close>

inductive rc_step :: "'lk env \<Rightarrow> 'lk world \<Rightarrow> 'lk world \<Rightarrow> bool" for E where
  request: "rc_step E w (snd (requestControl E room p s v w))"
| read_one: "rc_step E w (snd (getRequest room i p w))"
| read_waiting: "rc_step E w (snd (getPendingRequest room p w))"
| approval: "rc_step E w (snd (approve E room i p v w))"
| denial: "rc_step E w (snd (rc_deny room i p w))"
| withdrawal: "rc_step E w (snd (rc_withdraw room i p w))"
| redemption: "rc_step E w (snd (redeemHelperToken E room i c v w))"
| reissue: "rc_step E w (snd (reissueBootstrap E room i p w))"
| stopping: "rc_step E w (snd (rc_stop E room i p w))"
| renewal: "rc_step E w (snd (renew E room i p w))"
| joined: "rc_step E w (snd (rc_onParticipantJoined E room i w))"
| left: "rc_step E w (snd (rc_onParticipantLeft E room i w))"
| finished_room: "rc_step E w (snd (rc_onRoomFinished E room w))"
| timer: "rc_step E w (snd (reconcileTick E reconciling w))"
| cutover: "rc_step E w (snd (forceProtocolUpgradeCutover E w))"
| later: "clock w \<le> t \<Longrightarrow> rc_step E w (w\<lparr>clock := t, faults := fs\<rparr>)"

abbreviation rc_run :: "'lk env \<Rightarrow> 'lk world \<Rightarrow> 'lk world \<Rightarrow> bool" where
  "rc_run E \<equiv> (rc_step E)\<^sup>*\<^sup>*"

context rc_invariant
begin

lemma step_keeps:
  assumes "rc_step E w w'" and "env_keeps I E" and "fresh E" and "I w"
    and "\<And>w t fs. I w \<Longrightarrow> I (w\<lparr>clock := t, faults := fs\<rparr>)"
  shows "I w'"
  using assms(1)
proof cases
  case (later t fs)
  with assms(4,5) show ?thesis by simp
qed (use every_handler [OF assms(2,3)] assms(4) in \<open>simp_all add: keepsD\<close>)

lemma run_keeps:
  assumes "rc_run E w w'" and "env_keeps I E" and "fresh E" and "I w"
    and "\<And>w t fs. I w \<Longrightarrow> I (w\<lparr>clock := t, faults := fs\<rparr>)"
  shows "I w'"
  using assms(1,4) by (induction rule: rtranclp_induct) (auto intro: step_keeps [OF _ assms(2,3) _ assms(5)])

end

lemma env_keeps_demo: "env_keeps I demoEnv"
  unfolding env_keeps_def demoEnv_def by (simp add: keeps_rules)

text \<open>The example run: the session is stopped, and a request is made afterwards.\<close>

definition laterWorld :: "unit world" where
  "laterWorld = snd (requestControl demoEnv ''abc-defg-hij'' (demoPerson ''bob'') ''ann'' 2
     (snd (rc_stop demoEnv ''abc-defg-hij'' ''s1'' (demoPerson ''ann'') activeWorld)))"

lemma run_later: "rc_run demoEnv activeWorld laterWorld"
  unfolding laterWorld_def by (blast intro: rc_step.request rc_step.stopping rtranclp.rtrancl_into_rtrancl rtranclp.rtrancl_refl)

text \<open>C11. In every run of the service, whatever store commands fail, the values under the Redis
  keys keep the kind their key promises: a pending key holds a request, an active key a
  grant, a bootstrap key a code, an owner key an id.\<close>

theorem run_keeps_kinds:
  assumes "rc_run E w w'" and "env_keeps wf_kv E" and "wf_kv w"
  shows "wf_kv w'"
  by (rule wfi.run_keeps [OF assms(1,2) TrueI assms(3)]) (simp add: wf_kv_def holds_kv_def)

theorem run_keeps_kinds_witness: "wf_kv laterWorld"
proof (rule run_keeps_kinds [OF run_later env_keeps_demo])
  show "wf_kv activeWorld"
    by (simp add: wf_kv_def holds_kv_def activeWorld_def demoWorld_def all_stored_def rc_kinds demoGrant_def)
qed

lemma audit_le_nth:
  assumes "audit_le rs rs'" and "k < length rs"
  shows "k < length rs' \<and> audit_steps (rs ! k) (rs' ! k)"
proof -
  from assms(1) obtain new where "list_all2 audit_steps (rs @ new) rs'" unfolding audit_le_def by blast
  with assms(2) show ?thesis using list_all2_nthD [of audit_steps "rs @ new" rs' k] list_all2_lengthD [of audit_steps "rs @ new" rs']
    by (simp add: nth_append)
qed

text \<open>C9. The audit table is append-only history: in every run the rows stay in place, each goes
  only through the steps of the life cycle, rows are added only as new requests, and a row
  that has ended never changes again.\<close>

theorem run_audit_history:
  assumes "rc_run E w w'" and "\<And>rs. env_keeps (audited rs) E"
  shows "audit_le (sessions (dbase w)) (sessions (dbase w')) \<and>
    (\<forall>k < length (sessions (dbase w)). audit_steps (sessions (dbase w) ! k) (sessions (dbase w') ! k) \<and>
      (terminal (sessions (dbase w) ! k) \<longrightarrow> sessions (dbase w') ! k = sessions (dbase w) ! k))"
proof -
  have "audited (sessions (dbase w)) w'"
    by (rule aui.run_keeps [OF assms(1,2) TrueI]) (simp_all add: audited_def)
  then have a: "audit_le (sessions (dbase w)) (sessions (dbase w'))" by (simp add: audited_def)
  then show ?thesis using audit_le_nth [OF a] terminal_frozen by blast
qed

theorem run_audit_history_witness:
  "audit_steps (demoRow Active) (sessions (dbase laterWorld) ! 0)"
  using run_audit_history [OF run_later env_keeps_demo]
  by (simp add: activeWorld_def)

end
