(* ===== verification/RcSessions.thy ===== *)
theory RcSessions
  imports RcSteps
begin

text \<open>
  Remote Control sessions from their approval to their renewal: who may do what, which
  deadlines hold, and that a request works once. The codes over whole runs are in \<open>RcCodes\<close>.
\<close>

section \<open>Starting a grant\<close>

definition activated_rows :: "string \<Rightarrow> string \<Rightarrow> int \<Rightarrow> int \<Rightarrow> session_row list \<Rightarrow> session_row list" where
  "activated_rows i agent t due rs = updateRows (\<lambda>r. rs_id r = i \<and> rs_status r = Requested)
     (\<lambda>r. r\<lparr>rs_status := Active, rs_agentIdentity := Some agent, rs_startedAt := Some t,
            rs_renewalDueAt := Some due\<rparr>) rs"

lemma auditActivate_D:
  assumes "auditActivate i agent t due w = (Inr x, w')"
  shows "dbase w' = (dbase w)\<lparr>sessions := activated_rows i agent t due (sessions (dbase w))\<rparr> \<and>
    store w' = store w \<and> clock w' = clock w \<and> draws w' = draws w \<and>
    (x \<noteq> None \<longrightarrow> countRows (\<lambda>r. rs_id r = i \<and> rs_status r = Requested) (sessions (dbase w)) = 1)"
proof -
  from assms obtain n w1 where u: "dbcmd (\<lambda>_. updateSessions (\<lambda>r. rs_id r = i \<and> rs_status r = Requested)
        (\<lambda>r. r\<lparr>rs_status := Active, rs_agentIdentity := Some agent, rs_startedAt := Some t,
               rs_renewalDueAt := Some due\<rparr>)) w = (Inr n, w1)"
    and k: "(if n = 1 then auditFindById i else ret None) w1 = (Inr x, w')"
    unfolding auditActivate_def by (rule andThen_InrE)
  have "calm_op (if n = 1 then auditFindById i else ret None :: ('a, session_row option) op)"
    unfolding auditFindById_def by (auto intro!: calm_rules)
  from calmD [OF calm_opD [OF this k]] updateSessions_D [OF u] k
  show ?thesis by (auto simp: activated_rows_def split: if_splits)
qed

lemma startGrant_D:
  assumes "quiet E" and "startGrant E g now due w = (Inr (sm, code, e), w')"
  shows "sm = toSessionSummary g \<and> e = Some (clock w + 120000) \<and>
    store w' = issued_store w g (digest E code) \<and> clock w' = clock w \<and>
    dbase w' = (dbase w)\<lparr>sessions := activated_rows (ag_sessionId g) (ag_agentIdentity g) now due (sessions (dbase w))\<rparr> \<and>
    countRows (\<lambda>r. rs_id r = ag_sessionId g \<and> rs_status r = Requested) (sessions (dbase w)) = 1"
proof -
  from assms(2) have "andThen (auditActivate (ag_sessionId g) (ag_agentIdentity g) now due) (\<lambda>activated.
        if activated = None
        then seqE (clearActive (ag_room g) (ag_sessionId g)) (raise rcNotFound)
        else seqE (setRemoteControlState E (ag_room g) (Some (toRoomState g)))
             (andThen (issueBootstrap E g) (\<lambda>helper. ret (toSessionSummary g, helper)))) w
      = (Inr (sm, code, e), w')"
    unfolding startGrant_def catchE_def
    by (auto elim!: andThen_InrE seqE_InrE split: prod.splits sum.splits if_splits)
  then obtain x w1 where a: "auditActivate (ag_sessionId g) (ag_agentIdentity g) now due w = (Inr x, w1)"
    and k: "(if x = None
        then seqE (clearActive (ag_room g) (ag_sessionId g)) (raise rcNotFound)
        else seqE (setRemoteControlState E (ag_room g) (Some (toRoomState g)))
             (andThen (issueBootstrap E g) (\<lambda>helper. ret (toSessionSummary g, helper)))) w1
      = (Inr (sm, code, e), w')"
    by (rule andThen_InrE)
  from k have x: "x \<noteq> None" by (auto elim!: seqE_InrE split: if_splits)
  with k obtain y w2 where s: "setRemoteControlState E (ag_room g) (Some (toRoomState g)) w1 = (Inr y, w2)"
    and i: "issueBootstrap E g w2 = (Inr (code, e), w')" and sm: "sm = toSessionSummary g"
    by (auto elim!: seqE_InrE andThen_InrE)
  note a = auditActivate_D [OF a] and s = calmD [OF calm_opD [OF calm_remote(1) [OF assms(1)] s]]
    and i = issueBootstrap_D [OF i]
  have st: "issued_store w2 g d = issued_store w g d" for d
    using a by (simp add: issued_store_def s)
  from i(1) have "e = Some (clock w2 + 120000)" "code = toBase64url (randBytes E (draws w2) 32)" by simp_all
  with a x s i(2,5,6) sm st show ?thesis by simp
qed

section \<open>Approval\<close>

lemma approve_Inr:
  assumes "quiet E" and "approve E room i p v w = (Inr (sm, code, e), w')"
  shows "\<exists>q r w1 w2 auth. v = 2 \<and> roomBySlug room (dbase w) = Some r \<and> pending_at w room = Some q \<and>
    pr_requestId q = i \<and> \<not> isRequestExpired q (clock w) \<and> ca_identity p = pr_sharerIdentity q \<and>
    calm w w1 \<and> consumePending room i w1 = (Inr (Some q), w2) \<and>
    min_time (pr_controllerTokenExpiresAt q)
      (Some (case ca_tokenExpiresAt p of None \<Rightarrow> clock w + 60 * 60000 | Some t \<Rightarrow> t)) = Some auth \<and>
    clock w < auth \<and>
    (\<exists>w3. stateActivate (newGrant room r q i (clock w) auth) w2 = (Inr True, w3) \<and>
      startGrant E (newGrant room r q i (clock w) auth) (clock w)
        (min (clock w + REMOTE_CONTROL_RENEWAL_MS) auth) w3 = (Inr (sm, code, e), w'))"
proof -
  define sharerDue where "sharerDue now = (case ca_tokenExpiresAt p of None \<Rightarrow> now + 60 * 60000 | Some t \<Rightarrow> t)" for now :: int
  define finish where "finish r q now = (let auth = min_time (pr_controllerTokenExpiresAt q) (Some (sharerDue now)) in
      if expired_at auth now
      then seqE (failRequest i ''participant_authorization_expired'' now)
           (seqE (releasePending room i) (raise notAllowed))
      else let grant = newGrant room r q i now (the auth) in
        andThen (stateActivate grant) (\<lambda>activated.
          if \<not> activated
          then seqE (failRequest i ''room_in_progress'' now) (seqE (releasePending room i) (raise inProgress))
          else startGrant E grant now (min (now + REMOTE_CONTROL_RENEWAL_MS) (the auth))))" for r q now
  note fin = finish_def [unfolded sharerDue_def Let_def]
  have v: "v = 2"
    using assms(2) by (cases "v = 2") (simp_all add: approve_def requireProtocolVersion_def seqE_def)
  from assms(2) obtain r w0 where r: "rcRequireRoom room w = (Inr r, w0)"
    and k: "andThen (requirePending room i) (\<lambda>pending.
      if ca_identity p \<noteq> pr_sharerIdentity pending then raise notAllowed
      else andThen (all3 (connectedParticipant E room (pr_controllerIdentity pending))
                         (connectedParticipant E room (pr_sharerIdentity pending))
                         (presentationActive E room)) (\<lambda>(controller, sharer, presenting).
      case (controller, sharer) of
        (Some c, Some s) \<Rightarrow>
          if cp_role c = Some ''control-agent'' \<or> cp_role s = Some ''control-agent'' then raise notAllowed
          else if presenting then raise presentActive
          else andThen (consumePending room i) (\<lambda>consumed.
            case consumed of None \<Rightarrow> raise rcNotFound
            | Some q \<Rightarrow> andThen dateNow (\<lambda>now. finish r q now))
      | _ \<Rightarrow> raise notAllowed)) w0 = (Inr (sm, code, e), w')"
    unfolding approve_def requireProtocolVersion_def fin Let_def v
    by (simp only: simp_thms whenE_simps seqE_def [of "ret ()"] andThen_ret) (erule andThen_InrE, blast)
  from k obtain q w0' where q: "requirePending room i w0 = (Inr q, w0')"
    and k2: "(if ca_identity p \<noteq> pr_sharerIdentity q then raise notAllowed
      else andThen (all3 (connectedParticipant E room (pr_controllerIdentity q))
                         (connectedParticipant E room (pr_sharerIdentity q))
                         (presentationActive E room)) (\<lambda>(controller, sharer, presenting).
      case (controller, sharer) of
        (Some c, Some s) \<Rightarrow>
          if cp_role c = Some ''control-agent'' \<or> cp_role s = Some ''control-agent'' then raise notAllowed
          else if presenting then raise presentActive
          else andThen (consumePending room i) (\<lambda>consumed.
            case consumed of None \<Rightarrow> raise rcNotFound
            | Some q \<Rightarrow> andThen dateNow (\<lambda>now. finish r q now))
      | _ \<Rightarrow> raise notAllowed)) w0' = (Inr (sm, code, e), w')"
    by (rule andThen_InrE)
  from k2 have p: "ca_identity p = pr_sharerIdentity q" by (auto split: if_splits)
  with k2 obtain y w1 where all: "all3 (connectedParticipant E room (pr_controllerIdentity q))
        (connectedParticipant E room (pr_sharerIdentity q)) (presentationActive E room) w0' = (Inr y, w1)"
    and k3: "andThen (consumePending room i) (\<lambda>consumed.
            case consumed of None \<Rightarrow> raise rcNotFound
            | Some q \<Rightarrow> andThen dateNow (\<lambda>now. finish r q now)) w1 = (Inr (sm, code, e), w')"
    by (auto elim!: andThen_InrE [where m = "all3 _ _ _"] split: prod.splits option.splits if_splits)
  from k3 obtain q' w2 where c: "consumePending room i w1 = (Inr (Some q'), w2)"
    and f: "finish r q' (clock w2) w2 = (Inr (sm, code, e), w')"
    by (auto elim!: andThen_InrE [where m = "consumePending _ _"] simp: andThen_gets split: option.splits)
  have "calm_op (rcRequireRoom room)" by (rule calm_room_reads)
  note c0 = calm_opD [OF this r] and q = requirePending_Inr [OF q]
  have "calm_op (all3 (connectedParticipant E room (pr_controllerIdentity q))
        (connectedParticipant E room (pr_sharerIdentity q)) (presentationActive E room))"
    using assms(1) by (auto intro!: calm_rules)
  note c1 = calm_trans [OF calm_trans [OF c0 q(4)] calm_opD [OF this all]]
  have room: "roomBySlug room (dbase w) = Some r"
    using r unfolding rcRequireRoom_def
    by (auto elim!: andThen_InrE dest!: findBySlug_Inr(1) split: option.splits)
  have cl: "clock w2 = clock w" and q': "q' = q"
    using consumePending_D [OF c] q(1,2) calm_views [OF c1] calm_views [OF c0] calmD [OF c1]
    by (auto simp: frame_def split: if_splits option.splits)
  from f [unfolded cl q' fin] obtain auth w3 where
    "min_time (pr_controllerTokenExpiresAt q) (Some (sharerDue (clock w))) = Some auth" "clock w < auth"
    "stateActivate (newGrant room r q i (clock w) auth) w2 = (Inr True, w3)"
    "startGrant E (newGrant room r q i (clock w) auth) (clock w)
        (min (clock w + REMOTE_CONTROL_RENEWAL_MS) auth) w3 = (Inr (sm, code, e), w')"
    by (auto elim!: seqE_InrE andThen_InrE simp: not_expired_iff sharerDue_def split: if_splits)
  with v room q p c1 c [unfolded q'] calm_views [OF c0] calmD [OF c0] show ?thesis
    unfolding sharerDue_def by auto
qed

text \<open>C3. Only the Sharer of a request that still waits can approve it, with the current protocol.
  Afterwards the request is gone, the room is locked by a grant for the two people of the
  request, its deadline is in the future and not later than thirty minutes from now or the
  end of either token, and the returned code is the one the helper can redeem.\<close>

theorem approve_starts_session:
  assumes "quiet E" and "approve E room i p v w = (Inr (sm, code, e), w')"
  shows "\<exists>q g due auth. v = 2 \<and> pending_at w room = Some q \<and> pr_requestId q = i \<and>
    \<not> isRequestExpired q (clock w) \<and> ca_identity p = pr_sharerIdentity q \<and>
    pending_at w' room = None \<and> map_option val (owner_at w' room) = Some (VStr i) \<and>
    active_at w' room = Some g \<and> ag_sessionId g = i \<and> \<not> ag_agentConnected g \<and>
    ag_sharerIdentity g = pr_sharerIdentity q \<and> ag_controllerIdentity g = pr_controllerIdentity q \<and>
    ag_renewalDueAt g = Some due \<and> ag_authorizationExpiresAt g = Some auth \<and>
    clock w < due \<and> due \<le> clock w + 1800000 \<and> due \<le> auth \<and>
    (\<forall>t. ca_tokenExpiresAt p = Some t \<longrightarrow> auth \<le> t) \<and>
    (\<forall>t. pr_controllerTokenExpiresAt q = Some t \<longrightarrow> auth \<le> t) \<and>
    map_option val (store w' (bootstrapKey (digest E code))) =
      Some (VBootstrap \<lparr>bs_room = room, bs_sessionId = i, bs_digest = digest E code, bs_expiresAt = e\<rparr>)"
proof -
  obtain q r w1 w2 w3 auth where v: "v = 2" and q: "pending_at w room = Some q" "pr_requestId q = i"
      "\<not> isRequestExpired q (clock w)" "ca_identity p = pr_sharerIdentity q"
    and c: "calm w w1" and con: "consumePending room i w1 = (Inr (Some q), w2)"
    and auth: "min_time (pr_controllerTokenExpiresAt q)
      (Some (case ca_tokenExpiresAt p of None \<Rightarrow> clock w + 60 * 60000 | Some t \<Rightarrow> t)) = Some auth" "clock w < auth"
    and act: "stateActivate (newGrant room r q i (clock w) auth) w2 = (Inr True, w3)"
    and start: "startGrant E (newGrant room r q i (clock w) auth) (clock w)
        (min (clock w + REMOTE_CONTROL_RENEWAL_MS) auth) w3 = (Inr (sm, code, e), w')"
    using approve_Inr [OF assms] by blast
  define g where "g = (newGrant room r q i (clock w) auth)\<lparr>ag_bootstrapDigest := Some (digest E code)\<rparr>"
  note d = consumePending_D [OF con] stateActivate_D [OF act] startGrant_D [OF assms(1) start]
  have st: "store w' = issued_store w3 (newGrant room r q i (clock w) auth) (digest E code)"
    and e: "e = Some (clock w3 + 120000)" using d by simp_all
  have pk: "store w3 (pendingKey room) = None"
    using d by (auto simp: newGrant_def split: if_splits)
  have views: "pending_at w' room = None" "active_at w' room = Some g"
    "map_option val (owner_at w' room) = Some (VStr i)"
    "map_option val (store w' (bootstrapKey (digest E code))) =
      Some (VBootstrap \<lparr>bs_room = room, bs_sessionId = i, bs_digest = digest E code, bs_expiresAt = e\<rparr>)"
    unfolding st e by (simp_all add: pending_at_def active_at_def st issued_store_def newGrant_def g_def pk revoked_store_def)
  have "auth \<le> t" if "pr_controllerTokenExpiresAt q = Some t \<or> ca_tokenExpiresAt p = Some t" for t
    using auth(1) that by (cases "pr_controllerTokenExpiresAt q") auto
  then show ?thesis
    using v q views auth(2)
    by (intro exI [of _ q] exI [of _ g] exI [of _ "min (clock w + 1800000) auth"] exI [of _ auth])
      (simp add: g_def newGrant_def rc_times)
qed

theorem approve_starts_session_witness:
  "\<exists>sm code e w' g. approve demoEnv ''abc-defg-hij'' ''s1'' (demoPerson ''ann'') 2 pendingWorld = (Inr (sm, code, e), w') \<and>
    active_at w' ''abc-defg-hij'' = Some g \<and> ag_controllerIdentity g = ''bob''"
proof -
  let ?r = "approve demoEnv ''abc-defg-hij'' ''s1'' (demoPerson ''ann'') 2 pendingWorld"
  have "\<not> isl (fst ?r)" by code_simp
  then obtain sm code e w' where r: "?r = (Inr (sm, code, e), w')"
    using runs [of ?r] by auto
  from approve_starts_session [OF quiet_demoEnv r]
  show ?thesis using r by (auto simp: demoPending_def)
qed

section \<open>Redeeming and reissuing the helper's code\<close>

lemma redeemHelperToken_Inr:
  assumes "quiet E" and "redeemHelperToken E room i code v w = (Inr (tok, url, rm, sm), w')"
  shows "\<exists>g b w1. v = 2 \<and> consumeBootstrap E room i code w = (Inr (Some b), w1) \<and>
    active_at w1 room = Some g \<and> ag_sessionId g = i \<and> \<not> isGrantExpired g (clock w) \<and>
    sm = toSessionSummary g \<and> rm = room \<and> calm w1 w'"
proof -
  have v: "v = 2"
    using assms(2) by (cases "v = 2") (simp_all add: redeemHelperToken_def requireProtocolVersion_def seqE_def)
  define mint where "mint g = catchE
            (andThen (mintControlAgentToken E \<lparr>ao_room = room, ao_sessionId = i,
                ao_sharerIdentity = ag_sharerIdentity g,
                ao_controllerIdentity = ag_controllerIdentity g,
                ao_agentIdentity = ag_agentIdentity g, ao_protocolVersion = 2\<rparr>) (\<lambda>token.
              ret (token, livekitUrl E, room, toSessionSummary g)))
            (\<lambda>_. andThen dateNow (\<lambda>ended.
               seqE (endGrant E g EndFailed ''helper_token_failed'' ended) (raise upstream)))" for g
  from assms(2) obtain b w1 where c: "consumeBootstrap E room i code w = (Inr b, w1)"
    and k: "(if b = None then raise bootstrapInvalid
      else andThen (getActive room) (\<lambda>grant. andThen dateNow (\<lambda>now.
      case grant of
        None \<Rightarrow> raise bootstrapInvalid
      | Some g \<Rightarrow>
          if ag_sessionId g \<noteq> i then raise bootstrapInvalid
          else if isGrantExpired g now
          then seqE (endGrant E g EndExpired ''renewal_timeout'' now) (raise bootstrapInvalid)
          else mint g))) w1
      = (Inr (tok, url, rm, sm), w')"
    unfolding redeemHelperToken_def requireProtocolVersion_def v mint_def
    by (simp only: simp_thms whenE_simps seqE_def [of "ret ()"] andThen_ret) (erule andThen_InrE, blast)
  from k obtain b' where b: "b = Some b'" by (auto split: if_splits)
  with k obtain x w2 where a: "getActive room w1 = (Inr x, w2)"
    and k2: "(case x of None \<Rightarrow> raise bootstrapInvalid
      | Some g \<Rightarrow>
          if ag_sessionId g \<noteq> i then raise bootstrapInvalid
          else if isGrantExpired g (clock w2)
          then seqE (endGrant E g EndExpired ''renewal_timeout'' (clock w2)) (raise bootstrapInvalid)
          else mint g) w2 = (Inr (tok, url, rm, sm), w')"
    by (auto elim!: andThen_InrE [where m = "getActive room"] simp: andThen_gets)
  note ca = calm_opD [OF calm_rc_reads(4) a] and a = getActive_D [OF a]
  from k2 obtain g where x: "x = Some g" and g: "ag_sessionId g = i" "\<not> isGrantExpired g (clock w2)"
    and m: "mint g w2 = (Inr (tok, url, rm, sm), w')"
    by (auto elim!: seqE_InrE split: option.splits if_splits)
  from m have "andThen (mintControlAgentToken E \<lparr>ao_room = room, ao_sessionId = i,
                ao_sharerIdentity = ag_sharerIdentity g,
                ao_controllerIdentity = ag_controllerIdentity g,
                ao_agentIdentity = ag_agentIdentity g, ao_protocolVersion = 2\<rparr>) (\<lambda>token.
              ret (token, livekitUrl E, room, toSessionSummary g)) w2 = (Inr (tok, url, rm, sm), w')"
    unfolding mint_def catchE_def
    by (auto elim!: andThen_InrE seqE_InrE split: prod.splits sum.splits)
  then obtain y where y: "mintControlAgentToken E \<lparr>ao_room = room, ao_sessionId = i,
                ao_sharerIdentity = ag_sharerIdentity g,
                ao_controllerIdentity = ag_controllerIdentity g,
                ao_agentIdentity = ag_agentIdentity g, ao_protocolVersion = 2\<rparr> w2 = (Inr y, w')"
    and "sm = toSessionSummary g" "rm = room"
    by (auto elim!: andThen_InrE)
  moreover have "calm w2 w'" using calm_opD [OF calm_services(9) [OF assms(1)] y] .
  moreover have "clock w2 = clock w" using a consumeBootstrap_D [OF c] by (simp add: frame_def)
  moreover have "active_at w1 room = Some g" using a x by simp
  ultimately show ?thesis using v c g b calm_trans [OF ca] by auto
qed

section \<open>Reissuing\<close>

lemma issueBootstrap_ok:
  assumes "faults w = []" and "map_option ag_sessionId (active_at w (ag_room g)) = Some (ag_sessionId g)"
    and "owner_at w (ag_room g) \<noteq> None"
  shows "\<exists>r w'. issueBootstrap E g w = (Inr r, w')"
proof -
  define pre :: "('a, unit) op" where "pre = (case ag_bootstrapDigest g of None \<Rightarrow> ret ()
       | Some d \<Rightarrow> whenE (d \<noteq> []) (redisDel [bootstrapKey d]))"
  have "total_op pre" unfolding pre_def by (auto intro!: total_rules)
  from total_opD [OF this assms(1)] obtain x w1 where p: "pre w = (Inr x, w1)" "faults w1 = []" by blast
  have w1: "store w1 = revoked_store g (store w)"
    using p(1) unfolding pre_def revoked_store_def
    by (auto simp: whenE_def dest!: redisD split: option.splits if_splits)
  define d where "d = digest E (toBase64url (randBytes E (draws w1) 32))"
  define w1' where "w1' = w1\<lparr>draws := Suc (draws w1)\<rparr>"
  define b where "b = VBootstrap \<lparr>bs_room = ag_room g, bs_sessionId = ag_sessionId g, bs_digest = d,
                       bs_expiresAt = Some (clock w1 + REMOTE_CONTROL_BOOTSTRAP_TTL_MS)\<rparr>"
  have f1: "faults w1' = []" using p(2) by (simp add: w1'_def)
  obtain y w2 where s: "redisSet (bootstrapKey d) b (Some 120) Always w1' = (Inr y, w2)" and f2: "faults w2 = []"
    by (meson total_opD total_store(1) f1)
  obtain u w3 where u: "updateActive (g\<lparr>ag_bootstrapDigest := Some d\<rparr>) w2 = (Inr u, w3)"
    using total_opD [OF total_state2(2) f2] by blast
  have keys: "store w2 (activeKey (ag_room g)) = store w (activeKey (ag_room g))"
    "owner_at w2 (ag_room g) = owner_at w (ag_room g)"
    using set_D [OF s, simplified] by (simp_all add: w1'_def w1)
  then have "active_at w2 (ag_room g) = active_at w (ag_room g)" by (simp add: active_at_def)
  with updateActive_D [OF u] keys assms(2,3) have "u" by simp
  have dr: "randomBytes E 32 w1 = (Inr (randBytes E (draws w1) 32), w1')" by (simp add: w1'_def)
  have "issueBootstrap E g w = (Inr (toBase64url (randBytes E (draws w1) 32),
      Some (clock w1 + REMOTE_CONTROL_BOOTSTRAP_TTL_MS)), w3)"
    unfolding issueBootstrap_def pre_def [symmetric] seqE_def andThen_Inr [of pre w, OF p(1)] andThen_Inr [of "randomBytes E 32" w1, OF dr]
      Let_def andThen_gets
    using s u \<open>u\<close> by (simp add: andThen_def b_def d_def w1'_def rc_times)
  then show ?thesis by blast
qed

text \<open>When the Sharer asks for a new helper code before the agent has joined, the call
  returns one that is good for two minutes and can be redeemed for this session, and the
  previous code of the session can no longer be redeemed.\<close>

theorem reissue_replaces_code:
  assumes "faults w = []" and "active_at w room = Some g" and "owner_at w room \<noteq> None"
    and "ca_identity p = ag_sharerIdentity g" and "\<not> isGrantExpired g (clock w)" and "\<not> ag_agentConnected g"
  shows "\<exists>code w'. reissueBootstrap E room (ag_sessionId g) p w = (Inr (code, Some (clock w + 120000)), w') \<and>
    active_at w' room = Some (g\<lparr>ag_bootstrapDigest := Some (digest E code)\<rparr>) \<and>
    map_option val (store w' (bootstrapKey (digest E code))) =
      Some (VBootstrap \<lparr>bs_room = room, bs_sessionId = ag_sessionId g, bs_digest = digest E code,
        bs_expiresAt = Some (clock w + 120000)\<rparr>) \<and>
    (\<forall>d. ag_bootstrapDigest g = Some d \<and> d \<noteq> [] \<and> d \<noteq> digest E code \<longrightarrow> store w' (bootstrapKey d) = None)"
proof -
  note room = active_at_room [OF assms(2)]
  obtain w1 where r: "requireActive E room (ag_sessionId g) w = (Inr g, w1)" and c: "calm w w1"
    using requireActive_hit [OF assms(1,2)] by blast
  note c = calmD [OF c] calm_views [OF c]
  obtain code e w' where i: "issueBootstrap E g w1 = (Inr (code, e), w')"
    using issueBootstrap_ok [of w1 g E] assms(1-3) room by (auto simp: c)
  note d = issueBootstrap_D [OF i]
  have code: "toBase64url (randBytes E (draws w1) 32) = code" and e: "e = Some (clock w + 120000)"
    using d(1) by (simp_all add: c)
  note d = d(2) [unfolded code]
  have "reissueBootstrap E room (ag_sessionId g) p w = (Inr (code, Some (clock w + 120000)), w')"
    using assms(4-6) i e by (simp add: reissueBootstrap_def andThen_def r c)
  then show ?thesis
    by (intro exI [of _ code] exI [of _ w'])
      (auto simp: d issued_store_def active_at_def room revoked_store_def c)
qed

theorem reissue_replaces_code_witness:
  "\<exists>code w'. reissueBootstrap demoEnv ''abc-defg-hij'' ''s1'' (demoPerson ''ann'') activeWorld = (Inr (code, Some 121000), w') \<and>
    store w' (bootstrapKey ''h0'') = None"
proof -
  have o: "owner_at activeWorld ''abc-defg-hij'' \<noteq> None"
    using activeWorld_simps(5) by (cases "owner_at activeWorld ''abc-defg-hij''") simp_all
  have e: "\<not> isGrantExpired demoGrant (clock activeWorld)"
    by (simp add: isGrantExpired_def demoGrant_def)
  obtain code w' where "reissueBootstrap demoEnv ''abc-defg-hij'' ''s1'' (demoPerson ''ann'') activeWorld =
      (Inr (code, Some 121000), w')" and "''h0'' \<noteq> digest demoEnv code \<longrightarrow> store w' (bootstrapKey ''h0'') = None"
    using reissue_replaces_code [OF activeWorld_simps(1) activeWorld_simps(3) o _ e, of "demoPerson ''ann''" demoEnv]
    by (auto simp: demoGrant_def demoPerson_def)
  moreover have "fst (reissueBootstrap demoEnv ''abc-defg-hij'' ''s1'' (demoPerson ''ann'') activeWorld) =
      Inr (''AAAAAAAAAAAAAAAAAAAAAAAAAAAAAAAAAAAAAAAAAAA'', Some 121000)" by code_simp
  ultimately show ?thesis by (auto simp: digest_def demoEnv_def)
qed

section \<open>Renewing\<close>






end
