(* ===== verification/RcCodes.thy ===== *)
theory RcCodes
  imports RcRuns RcSessions
begin

text \<open>
  The helper's bootstrap codes over whole runs of the service: a code that was redeemed is spent, and
  stays so whatever handlers run afterwards. The invariant of a spent code is an instance of
  \<open>rc_invariant\<close>; what it needs of the environment is that the random codes drawn later do not
  repeat the old one.
\<close>

section \<open>A spent code\<close>

text \<open>
  Nothing is stored under the digest, not even an expired entry, and the first \<open>n\<close> random draws
  are over.
\<close>

definition spent :: "string \<Rightarrow> nat \<Rightarrow> 'lk world \<Rightarrow> bool" where
  "spent d n w \<longleftrightarrow> holds_kv (\<lambda>k _. k \<noteq> bootstrapKey d) w \<and> n \<le> draws w"

text \<open>None of the codes drawn from the \<open>n\<close>-th draw on has this digest.\<close>

definition unrepeated :: "string \<Rightarrow> nat \<Rightarrow> 'lk env \<Rightarrow> bool" where
  "unrepeated d n E \<longleftrightarrow> (\<forall>k \<ge> n. digest E (toBase64url (randBytes E k 32)) \<noteq> d)"

lemma spent_simps [simp]:
  "spent d n (tick w) = spent d n w" "spent d n (w\<lparr>sfu := s\<rparr>) = spent d n w"
  "spent d n (w\<lparr>clock := t, faults := fs\<rparr>) = spent d n w" "spent d n (w\<lparr>dbase := b\<rparr>) = spent d n w"
  by (simp_all add: spent_def holds_kv_def tick_def)

lemma spent_store: "spent d n w \<Longrightarrow> store w (bootstrapKey d) = None"
  by (auto simp: spent_def holds_kv_def all_stored_def store_def ent_def split: option.splits)

lemma keeps_spentI:
  fixes m :: "('lk, 'a) op"
  assumes "\<And>P. P = (\<lambda>k _. k \<noteq> bootstrapKey d) \<Longrightarrow> keeps (holds_kv P) m" and "\<And>w. draws w \<le> draws (snd (m w))"
  shows "keeps (spent d n) m"
proof (rule keepsI)
  fix w :: "'lk world" assume "spent d n w"
  then show "spent d n (snd (m w))"
    using keepsD [OF assms(1) [OF refl]] assms(2) [of w] unfolding spent_def by auto
qed

lemma draws_rcmd: "draws w \<le> draws (snd (rcmd f w))"
  by (simp add: rcmd_def)

lemma draws_dbcmd: "draws w \<le> draws (snd (dbcmd f w))"
  by (simp add: dbcmd_def)

lemma keeps_spent [keeps_rules]:
  "keeps (spent d n) (redisGet k)" "keeps (spent d n) (redisGetdel k)" "keeps (spent d n) (redisDel ks)"
  "keeps (spent d n) (dbcmd q)" "keeps (spent d n) (draw f)"
  by (auto intro!: keeps_spentI keeps_rules draws_rcmd draws_dbcmd)

lemma keeps_spent_set [keeps_rules]: "k \<noteq> bootstrapKey d \<Longrightarrow> keeps (spent d n) (redisSet k v ttl mode)"
  by (auto intro!: keeps_spentI keeps_rules draws_rcmd)

section \<open>Every operation keeps it\<close>

lemma keeps_spent_reads [keeps_rules]:
  "keeps (spent d n) (hasOwner room)" "keeps (spent d n) (releaseOwner room i)" "keeps (spent d n) (getPending room i)"
  "keeps (spent d n) (getPendingForRoom room)" "keeps (spent d n) (consumePending room i)"
  "keeps (spent d n) (getActive room)" "keeps (spent d n) (revokeBootstrap g)"
  "keeps (spent d n) (consumeBootstrap E room i c)"
  unfolding hasOwner_def releaseOwner_def getPending_def getPendingForRoom_def consumePending_def
    getActive_def revokeBootstrap_def consumeBootstrap_def Let_def
  by (auto intro!: keeps_rules)

lemma keeps_spent_writes [keeps_rules]:
  "keeps (spent d n) (createPending p)" "keeps (spent d n) (releasePending room i)"
  "keeps (spent d n) (stateActivate g)" "keeps (spent d n) (updateActive g)" "keeps (spent d n) (clearActive room i)"
  unfolding createPending_def releasePending_def stateActivate_def updateActive_def clearActive_def
  by (auto intro!: keeps_rules)

lemma keeps_spent_draw:
  fixes h :: "'b \<Rightarrow> ('lk, 'a) op"
  assumes "\<And>k. n \<le> k \<Longrightarrow> keeps (spent d n) (h (f k))"
  shows "keeps (spent d n) (andThen (draw f) h)"
proof (rule keepsI)
  fix w :: "'lk world" assume w: "spent d n w"
  then have "n \<le> draws w" by (simp add: spent_def)
  from keepsD [OF assms [OF this], of "w\<lparr>draws := Suc (draws w)\<rparr>"] w
  show "spent d n (snd (andThen (draw f) h w))"
    by (simp add: andThen_def spent_def holds_kv_def)
qed

lemma keeps_spent_issue:
  assumes "unrepeated d n E"
  shows "keeps (spent d n) (issueBootstrap E g)"
  using assms unfolding issueBootstrap_def Let_def unrepeated_def
  by (auto intro!: keeps_spent_draw keeps_rules)

interpretation spi: rc_invariant "spent d n" "unrepeated d n" for d n
  by unfold_locales
    (auto intro!: keeps_rules keeps_spent_issue simp: createRequest_def auditFindById_def findActiveByRoom_def
      auditActivate_def auditDeny_def auditWithdraw_def expireRequest_def failRequest_def transitionRequested_def
      updateRenewal_def endActive_def findDueActive_def findExpiredRequests_def findRequestedOrActive_def findBySlug_def)

section \<open>A redeemed code stays spent\<close>

lemma consumeBootstrap_spends:
  "consumeBootstrap E room i c w = (Inr b, w') \<Longrightarrow> spent (digest E c) (draws w') w'"
  unfolding consumeBootstrap_def Let_def
  by (auto elim!: andThen_InrE rcmd_InrE
      simp: spent_def holds_kv_def all_stored_def getdel_def get_def cleanupString_def split_beta Let_def
      split: option.splits if_splits)

lemma andThen_establishes:
  assumes "andThen m k w = (Inr y, w')" and "\<And>x w1. m w = (Inr x, w1) \<Longrightarrow> I w1" and "\<And>x. keeps I (k x)"
  shows "I w'"
  using assms keepsD by (metis andThen_InrE snd_conv)

lemma redeem_spends:
  assumes "quiet E" and "redeemHelperToken E room i code v w = (Inr x, w')"
  shows "spent (digest E code) (draws w') w'"
proof -
  obtain tok url rm sm where x: "x = (tok, url, rm, sm)" by (cases x) blast
  obtain b w1 where v: "v = 2" and c: "consumeBootstrap E room i code w = (Inr (Some b), w1)" and cw: "calm w1 w'"
    using redeemHelperToken_Inr [OF assms(1) assms(2) [unfolded x]] by blast
  have E: "env_keeps (spent d n) E" for d n by (rule quiet_env_keeps [OF assms(1)]) simp
  have p: "requireProtocolVersion v w = (Inr (), w)" by (simp add: requireProtocolVersion_run v)
  note run = assms(2) [unfolded redeemHelperToken_def seqE_def [of "requireProtocolVersion v"] andThen_Inr [of "requireProtocolVersion v" w, OF p]]
  show ?thesis
  proof (rule andThen_establishes [OF run, where I = "spent (digest E code) (draws w')"])
    fix y w2 assume "consumeBootstrap E room i code w = (Inr y, w2)"
    with c consumeBootstrap_spends show "spent (digest E code) (draws w') w2" by (simp add: calmD(4) [OF cw])
  qed (auto simp: mintControlAgentToken_def Let_def intro!: keeps_rules spi.ends E)
qed

text \<open>What is refused about a spent code, in any later world.\<close>

lemma spent_refused:
  assumes "spent (digest E code) n w"
  shows "\<not> (\<exists>x w'. redeemHelperToken E room i code v w = (Inr x, w')) \<and>
    (faults w = [] \<longrightarrow> (\<exists>w'. redeemHelperToken E room i code 2 w = (Inl bootstrapInvalid, w')))"
proof -
  have none: "y = None" if "consumeBootstrap E room i code w = (Inr y, w1)" for y w1
    using consumeBootstrap_D [OF that] spent_store [OF assms] by simp
  have "\<not> (\<exists>x w'. redeemHelperToken E room i code v w = (Inr x, w'))"
    unfolding redeemHelperToken_def by (auto simp: seqE_def requireProtocolVersion_run elim!: andThen_InrE dest!: none split: if_splits)
  moreover have "\<exists>w'. redeemHelperToken E room i code 2 w = (Inl bootstrapInvalid, w')" if f: "faults w = []"
  proof -
    obtain y w1 where y: "consumeBootstrap E room i code w = (Inr y, w1)"
      using total_opD [OF total_state(9) f] by blast
    with none show ?thesis
      by (simp add: redeemHelperToken_def seqE_def andThen_def requireProtocolVersion_run)
  qed
  ultimately show ?thesis by blast
qed

text \<open>C4. A bootstrap code is redeemed only for the room and the session it was issued for, while
  the grant is active and not expired, and only once: after every run of the service that
  follows, whatever handlers run to their end one after the other, however much time passes and whatever store commands fail, no
  redemption of the same code succeeds, for any room, session and protocol version, and while no store
  command fails the answer is that the code is not valid. The one thing asked of the random
  source is that no code drawn later has the digest of the old one.\<close>

theorem redeem_once:
  assumes "quiet E" and "redeemHelperToken E room i code v w = (Inr (tok, url, rm, sm), w')"
    and "unrepeated (digest E code) (draws w') E" and "rc_run E w' w''"
  shows "\<exists>g b. map_option val (store w (bootstrapKey (digest E code))) = Some (VBootstrap b) \<and>
    bs_room b = room \<and> bs_sessionId b = i \<and> active_at w room = Some g \<and> ag_sessionId g = i \<and>
    \<not> isGrantExpired g (clock w) \<and> sm = toSessionSummary g \<and>
    \<not> (\<exists>x w3. redeemHelperToken E room2 i2 code v2 w'' = (Inr x, w3)) \<and>
    (faults w'' = [] \<longrightarrow> (\<exists>w3. redeemHelperToken E room2 i2 code 2 w'' = (Inl bootstrapInvalid, w3)))"
proof -
  obtain g b w1 where v: "v = 2" and c: "consumeBootstrap E room i code w = (Inr (Some b), w1)"
    and g: "active_at w1 room = Some g" "ag_sessionId g = i" "\<not> isGrantExpired g (clock w)"
      "sm = toSessionSummary g"
    using redeemHelperToken_Inr [OF assms(1,2)] by blast
  note c = consumeBootstrap_D [OF c]
  have b: "map_option val (store w (bootstrapKey (digest E code))) = Some (VBootstrap b)"
    "bs_room b = room" "bs_sessionId b = i"
    using c by (auto simp: asBootstrap_Some split: option.splits if_splits)
  have a: "active_at w room = Some g" using g(1) c by (auto simp: active_at_def)
  have "spent (digest E code) (draws w') w''"
    by (rule spi.run_keeps [OF assms(4) quiet_env_keeps [OF assms(1)] assms(3) redeem_spends [OF assms(1,2)]]) simp_all
  from spent_refused [OF this] a b g show ?thesis by blast
qed

text \<open>The Sharer asks for a new code after the first was redeemed; a minute later the old one is tried again.\<close>

theorem redeem_once_witness:
  "\<exists>x w' w''. redeemHelperToken demoEnv ''abc-defg-hij'' ''s1'' ''0'' 2 activeWorld = (Inr x, w') \<and>
    w'' = (snd (reissueBootstrap demoEnv ''abc-defg-hij'' ''s1'' (demoPerson ''ann'') w'))\<lparr>clock := 61000, faults := []\<rparr> \<and>
    (\<exists>w3. redeemHelperToken demoEnv ''abc-defg-hij'' ''s1'' ''0'' 2 w'' = (Inl bootstrapInvalid, w3))"
proof -
  let ?r = "redeemHelperToken demoEnv ''abc-defg-hij'' ''s1'' ''0'' 2 activeWorld"
  have "\<not> isl (fst ?r)" by code_simp
  then obtain tok url rm sm w' where r: "?r = (Inr (tok, url, rm, sm), w')" using runs [of ?r] by auto
  let ?w = "snd (reissueBootstrap demoEnv ''abc-defg-hij'' ''s1'' (demoPerson ''ann'') w')"
  have "clock (snd (reissueBootstrap demoEnv ''abc-defg-hij'' ''s1'' (demoPerson ''ann'') (snd ?r))) \<le> 61000" by code_simp
  with r have "clock ?w \<le> 61000" by simp
  then have run: "rc_run demoEnv w' (?w\<lparr>clock := 61000, faults := []\<rparr>)"
    by (blast intro: rc_step.reissue rc_step.later rtranclp.rtrancl_into_rtrancl rtranclp.rtrancl_refl)
  have "replicate 32 n = n # n # n # replicate 29 n" for n :: nat
    by (simp add: numeral_eq_Suc)
  then have "toBase64url (replicate 32 n) \<noteq> ''0''" for n
    by simp
  then have "unrepeated (digest demoEnv ''0'') (draws w') demoEnv"
    by (simp add: unrepeated_def digest_def demoEnv_def)
  from redeem_once [OF quiet_demoEnv r this run, of "''abc-defg-hij''" "''s1''"]
  have "\<exists>w3. redeemHelperToken demoEnv ''abc-defg-hij'' ''s1'' ''0'' 2 (?w\<lparr>clock := 61000, faults := []\<rparr>) = (Inl bootstrapInvalid, w3)"
    by auto
  with r show ?thesis by blast
qed

end
