(* ===== verification/RcSweeps.thy ===== *)
theory RcSweeps
  imports RcRuns
begin

text \<open>
  The two loops of the Remote Control service over the audit table: the protocol cutover and
  the expiry timer. Both are shown to finish what they set out to do.
\<close>

section \<open>Rows that end\<close>

text \<open>\<open>closes w w'\<close>: from \<open>w\<close> to \<open>w'\<close> audit rows were ended and nothing else happened to them.\<close>

definition closes :: "'lk world \<Rightarrow> 'lk world \<Rightarrow> bool" where
  "closes w w' \<longleftrightarrow> list_all2 (\<lambda>r r'. r' = r \<or> terminal r') (sessions (dbase w)) (sessions (dbase w')) \<and>
     rooms (dbase w') = rooms (dbase w) \<and> clock w' = clock w"

definition gone :: "string \<Rightarrow> session_status \<Rightarrow> 'lk world \<Rightarrow> bool" where
  "gone i st w \<longleftrightarrow> (\<forall>r \<in> set (sessions (dbase w)). \<not> (rs_id r = i \<and> rs_status r = st))"

lemma closes_refl [simp]: "closes w w"
  by (simp add: closes_def list_all2_refl)

lemma closes_trans: "closes w w' \<Longrightarrow> closes w' w'' \<Longrightarrow> closes w w''"
  unfolding closes_def
  by (auto intro: list_all2_trans [of "\<lambda>r r'. r' = r \<or> terminal r'" "\<lambda>r r'. r' = r \<or> terminal r'"
        "\<lambda>r r'. r' = r \<or> terminal r'", rotated 1])

lemma closes_row:
  assumes "closes w w'" and "r' \<in> set (sessions (dbase w'))" and "\<not> terminal r'"
  shows "r' \<in> set (sessions (dbase w))"
proof -
  from assms(2) obtain k where k: "k < length (sessions (dbase w'))" "r' = sessions (dbase w') ! k"
    by (auto simp: in_set_conv_nth)
  from assms(1) have l: "list_all2 (\<lambda>r r'. r' = r \<or> terminal r') (sessions (dbase w)) (sessions (dbase w'))"
    by (simp add: closes_def)
  have "r' = sessions (dbase w) ! k" using list_all2_nthD2 [OF l k(1)] k(2) assms(3) by simp
  then show ?thesis using list_all2_lengthD [OF l] k(1) by simp
qed

lemma gone_closes: "gone i st w \<Longrightarrow> closes w w' \<Longrightarrow> st \<in> {Requested, Active} \<Longrightarrow> gone i st w'"
  unfolding gone_def by (metis closes_row terminal_def)

lemma closes_frame: "frame w w' \<Longrightarrow> closes w w'" and closes_calm: "calm w w' \<Longrightarrow> closes w w'"
  by (simp_all add: closes_def frame_def calm_def list_all2_refl)

lemma closes_update:
  assumes "\<And>r. P r \<Longrightarrow> terminal (f r)"
    and "dbase w' = (dbase w)\<lparr>sessions := updateRows P f (sessions (dbase w))\<rparr>" and "clock w' = clock w"
  shows "closes w w'"
  using assms by (simp add: closes_def updateRows_def list_all2_map2 list_all2_refl)

lemma endActive_closes:
  assumes "endActive i es why t w = (Inr b, w')"
  shows "closes w w' \<and> gone i Active w'"
proof -
  note d = endActive_D [OF assms]
  have "closes w w'"
    by (rule closes_update [OF _ d(2) [unfolded ended_rows_def] d(4)]) (simp add: end_row_def terminal_def)
  then show ?thesis using ended_rows_none_active [of _ i es why t] by (auto simp: gone_def d(2))
qed

lemma transitionRequested_closes:
  assumes "transitionRequested i st why t w = (Inr b, w')" and "st \<notin> {Requested, Active}"
  shows "closes w w' \<and> gone i Requested w'"
proof -
  note d = transitionRequested_D [OF assms(1)]
  have "closes w w'"
    by (rule closes_update [OF _ d(2,4)]) (use assms(2) in \<open>simp add: terminal_def\<close>)
  moreover have "\<not> (rs_id r' = i \<and> rs_status r' = Requested)" if "r' \<in> set (sessions (dbase w'))" for r'
  proof -
    from that obtain r where "r' = (if rs_id r = i \<and> rs_status r = Requested
        then r\<lparr>rs_status := st, rs_endReason := Some why, rs_endedAt := Some t\<rparr> else r)"
      unfolding d(2) by (auto simp: set_updateRows)
    with assms(2) show ?thesis by (cases "rs_id r = i \<and> rs_status r = Requested") auto
  qed
  ultimately show ?thesis by (simp add: gone_def)
qed

lemma endGrant_closes:
  assumes "quiet E" and "endGrant E g es why t w = (Inr x, w')"
  shows "closes w w' \<and> gone (ag_sessionId g) Active w'"
proof -
  note d = endGrant_D [OF assms]
  have "closes w w'"
    by (rule closes_update [OF _ d(2) [unfolded ended_rows_def] d(3)]) (simp add: end_row_def terminal_def)
  moreover have "gone (ag_sessionId g) Active w'"
    unfolding gone_def d(2) by (auto dest: ended_rows_none_active)
  ultimately show ?thesis ..
qed

lemma endAuditFallback_closes:
  assumes "quiet E" and "endAuditFallback E row room es why t w = (Inr x, w')"
  shows "closes w w' \<and> gone (rs_id row) Active w'"
proof -
  from assms(2) obtain x1 w1 x2 w2 b where c: "clearActive room (rs_id row) w = (Inr x1, w1)"
    and l: "clearLivekitState E room (rs_agentIdentity row) w1 = (Inr x2, w2)"
    and e: "endActive (rs_id row) es why t w2 = (Inr b, w')"
    unfolding endAuditFallback_def by (auto elim!: seqE_InrE)
  have "closes w w1" using clearActive_D [OF c] closes_frame by blast
  moreover have "closes w1 w2" using closes_calm calm_opD [OF calm_remote(2) [OF assms(1)] l] by blast
  ultimately show ?thesis using endActive_closes [OF e] closes_trans by blast
qed

text \<open>What both sweeps do with a due or open active row.\<close>

lemma expire_closes:
  assumes "quiet E" and "andThen (getActive slug) (\<lambda>grant.
       if map_option ag_sessionId grant = Some (rs_id row) then endGrant E (the grant) es why t
       else endAuditFallback E row slug es why t) w = (Inr x, w')"
  shows "closes w w' \<and> gone (rs_id row) Active w'"
proof -
  from assms(2) obtain g w1 where g: "getActive slug w = (Inr g, w1)"
    and k: "(if map_option ag_sessionId g = Some (rs_id row) then endGrant E (the g) es why t
       else endAuditFallback E row slug es why t) w1 = (Inr x, w')"
    by (rule andThen_InrE)
  have c: "closes w w1" using getActive_D [OF g] closes_frame by blast
  have "closes w1 w' \<and> gone (rs_id row) Active w'"
    using k endGrant_closes [OF assms(1)] endAuditFallback_closes [OF assms(1)] by (fastforce split: if_splits)
  with c show ?thesis using closes_trans by blast
qed

lemma release_closes: "releasePending slug i w = (Inr x, w') \<Longrightarrow> closes w w'"
  using releasePending_D closes_frame by blast

lemma cutoverLoop_closes:
  assumes "quiet E" and "cutoverLoop E now rows a b w = (Inr x, w')"
    and "\<forall>r \<in> fst ` set rows. rs_status r \<in> {Requested, Active}"
  shows "closes w w' \<and> (\<forall>r \<in> fst ` set rows. gone (rs_id r) (rs_status r) w')"
  using assms(2,3)
proof (induction rows arbitrary: a b w)
  case (Cons rs rows)
  obtain row slug where rs: "rs = (row, slug)" by (cases rs)
  have st: "rs_status row \<in> {Requested, Active}" using Cons.prems(2) rs by simp
  have "\<exists>w1 a' b'. closes w w1 \<and> gone (rs_id row) (rs_status row) w1 \<and> cutoverLoop E now rows a' b' w1 = (Inr x, w')"
  proof (cases "rs_status row = Requested")
    case True
    with Cons.prems(1) rs obtain y w0 d w1 where r: "releasePending slug (rs_id row) w = (Inr y, w0)"
      and f: "failRequest (rs_id row) ''protocol_upgrade'' now w0 = (Inr d, w1)"
      and k: "cutoverLoop E now rows a (if d then Suc b else b) w1 = (Inr x, w')"
      by (auto elim!: seqE_InrE andThen_InrE)
    have "closes w0 w1 \<and> gone (rs_id row) Requested w1"
      using transitionRequested_closes [OF f [unfolded failRequest_def]] by simp
    with release_closes [OF r] k True show ?thesis using closes_trans by fastforce
  next
    case False
    with Cons.prems(1) rs obtain y w1 where "andThen (getActive slug) (\<lambda>grant.
       if map_option ag_sessionId grant = Some (rs_id row) then endGrant E (the grant) EndEnded ''protocol_upgrade'' now
       else endAuditFallback E row slug EndEnded ''protocol_upgrade'' now) w = (Inr y, w1)"
      and "cutoverLoop E now rows (Suc a) b w1 = (Inr x, w')"
      by (auto elim!: andThen_InrE seqE_InrE simp: andThen_Inr)
    with expire_closes [OF assms(1)] False st show ?thesis by fastforce
  qed
  then obtain w1 a' b' where w1: "closes w w1" "gone (rs_id row) (rs_status row) w1"
    "cutoverLoop E now rows a' b' w1 = (Inr x, w')" by blast
  have "closes w1 w' \<and> (\<forall>r \<in> fst ` set rows. gone (rs_id r) (rs_status r) w')"
    using Cons.IH [OF w1(3)] Cons.prems(2) by simp
  with w1 gone_closes [OF w1(2) _ st] closes_trans [OF w1(1)] rs show ?case by simp
qed simp

section \<open>What the cutover leaves in Redis\<close>

text \<open>The cutover only deletes from Redis, so what a row has lost it does not get back.\<close>

definition shrinks :: "'lk world \<Rightarrow> 'lk world \<Rightarrow> bool" where
  "shrinks w w' \<longleftrightarrow> (\<forall>k. store w' k = None \<or> store w' k = store w k)"

lemma shrinks_refl [simp]: "shrinks w w"
  by (simp add: shrinks_def)

lemma shrinks_same: "store w' = store w \<Longrightarrow> shrinks w w'"
  by (simp add: shrinks_def)

lemma shrinks_trans: "shrinks w w' \<Longrightarrow> shrinks w' w'' \<Longrightarrow> shrinks w w''"
  unfolding shrinks_def by metis

text \<open>The id of a row, waiting or active in its room, is nowhere in Redis where it would be used.\<close>

definition released :: "session_row \<Rightarrow> string \<Rightarrow> 'lk world \<Rightarrow> bool" where
  "released r slug w \<longleftrightarrow>
     (rs_status r = Requested \<longrightarrow> map_option pr_requestId (pending_at w slug) \<noteq> Some (rs_id r) \<and>
        map_option val (owner_at w slug) \<noteq> Some (VStr (rs_id r))) \<and>
     (rs_status r = Active \<longrightarrow> map_option ag_sessionId (active_at w slug) \<noteq> Some (rs_id r))"

lemma shrinks_views:
  assumes "shrinks w w'"
  shows "pending_at w' slug = None \<or> pending_at w' slug = pending_at w slug"
    and "active_at w' slug = None \<or> active_at w' slug = active_at w slug"
    and "owner_at w' slug = None \<or> owner_at w' slug = owner_at w slug"
  using assms [unfolded shrinks_def, rule_format, of "pendingKey slug"]
    assms [unfolded shrinks_def, rule_format, of "activeKey slug"]
    assms [unfolded shrinks_def, rule_format, of "ownerKey slug"]
  by (auto simp: pending_at_def active_at_def)

lemma released_shrinks: "released r slug w \<Longrightarrow> shrinks w w' \<Longrightarrow> released r slug w'"
  using shrinks_views [of w w' slug] unfolding released_def by fastforce

lemma releasePending_releases:
  assumes "releasePending slug i w = (Inr x, w')"
  shows "shrinks w w'" and "map_option pr_requestId (pending_at w' slug) \<noteq> Some i"
    and "map_option val (owner_at w' slug) \<noteq> Some (VStr i)"
  using releasePending_D [OF assms] by (auto simp: shrinks_def Let_def pending_at_def)

lemma endGrant_releases:
  assumes "quiet E" and "endGrant E g es why t w = (Inr x, w')"
  shows "shrinks w w'" and "map_option ag_sessionId (active_at w' (ag_room g)) \<noteq> Some (ag_sessionId g)"
proof -
  note d = endGrant_D(1) [OF assms]
  show "shrinks w w'" unfolding shrinks_def d
    by (auto simp: Let_def cleared_store_def revoked_store_def split: option.splits)
  show "map_option ag_sessionId (active_at w' (ag_room g)) \<noteq> Some (ag_sessionId g)"
    unfolding active_at_def d by (auto simp: Let_def cleared_store_def active_at_def split: option.splits if_splits)
qed

lemma endAuditFallback_releases:
  assumes "quiet E" and "endAuditFallback E row slug es why t w = (Inr x, w')"
  shows "shrinks w w'" and "map_option ag_sessionId (active_at w' slug) \<noteq> Some (rs_id row)"
proof -
  from assms(2) obtain x1 w1 x2 w2 b where c: "clearActive slug (rs_id row) w = (Inr x1, w1)"
    and l: "clearLivekitState E slug (rs_agentIdentity row) w1 = (Inr x2, w2)"
    and e: "endActive (rs_id row) es why t w2 = (Inr b, w')"
    unfolding endAuditFallback_def by (auto elim!: seqE_InrE)
  have st: "store w' = store w1"
    using endActive_D(3) [OF e] calmD(1) [OF calm_opD [OF calm_remote(2) [OF assms(1)] l]] by simp
  note c = clearActive_D [OF c]
  show "shrinks w w'" using c by (auto simp: shrinks_def st Let_def)
  show "map_option ag_sessionId (active_at w' slug) \<noteq> Some (rs_id row)"
    using c by (auto simp: active_at_def st Let_def split: if_splits)
qed

lemma expire_releases:
  assumes "quiet E" and "andThen (getActive slug) (\<lambda>grant.
       if map_option ag_sessionId grant = Some (rs_id row) then endGrant E (the grant) es why t
       else endAuditFallback E row slug es why t) w = (Inr x, w')"
  shows "shrinks w w' \<and> map_option ag_sessionId (active_at w' slug) \<noteq> Some (rs_id row)"
proof -
  from assms(2) obtain g w1 where g: "getActive slug w = (Inr g, w1)"
    and k: "(if map_option ag_sessionId g = Some (rs_id row) then endGrant E (the g) es why t
       else endAuditFallback E row slug es why t) w1 = (Inr x, w')"
    by (rule andThen_InrE)
  note g = getActive_D [OF g]
  have c: "shrinks w w1" using g by (simp add: shrinks_same)
  show ?thesis
  proof (cases "map_option ag_sessionId g = Some (rs_id row)")
    case True
    then obtain g' where g': "g = Some g'" "ag_sessionId g' = rs_id row" by auto
    have room: "ag_room g' = slug" using g g'(1) active_at_room [of w slug g'] by simp
    have "endGrant E g' es why t w1 = (Inr x, w')" using k g' by simp
    from endGrant_releases [OF assms(1) this] shrinks_trans [OF c] g'(2) room show ?thesis by simp
  next
    case False
    have "endAuditFallback E row slug es why t w1 = (Inr x, w')" using k unfolding if_not_P [OF False] .
    from endAuditFallback_releases [OF assms(1) this] shrinks_trans [OF c] show ?thesis by simp
  qed
qed

lemma cutoverLoop_releases:
  assumes "quiet E" and "cutoverLoop E now rows a b w = (Inr x, w')"
    and "\<forall>r \<in> fst ` set rows. rs_status r \<in> {Requested, Active}"
  shows "shrinks w w' \<and> (\<forall>(r, slug) \<in> set rows. released r slug w')"
  using assms(2,3)
proof (induction rows arbitrary: a b w)
  case (Cons rs rows)
  obtain row slug where rs: "rs = (row, slug)" by (cases rs)
  have "\<exists>w1 a' b'. shrinks w w1 \<and> released row slug w1 \<and> cutoverLoop E now rows a' b' w1 = (Inr x, w')"
  proof (cases "rs_status row = Requested")
    case True
    with Cons.prems(1) rs obtain y w0 d w1 where r: "releasePending slug (rs_id row) w = (Inr y, w0)"
      and f: "failRequest (rs_id row) ''protocol_upgrade'' now w0 = (Inr d, w1)"
      and k: "cutoverLoop E now rows a (if d then Suc b else b) w1 = (Inr x, w')"
      by (auto elim!: seqE_InrE andThen_InrE)
    have s: "shrinks w0 w1" using transitionRequested_D(3) [OF f [unfolded failRequest_def]] by (rule shrinks_same)
    have "released row slug w0" using releasePending_releases [OF r] True by (simp add: released_def)
    with s k releasePending_releases(1) [OF r] show ?thesis using released_shrinks shrinks_trans by blast
  next
    case False
    with Cons.prems(1) rs obtain y w1 where e: "andThen (getActive slug) (\<lambda>grant.
       if map_option ag_sessionId grant = Some (rs_id row) then endGrant E (the grant) EndEnded ''protocol_upgrade'' now
       else endAuditFallback E row slug EndEnded ''protocol_upgrade'' now) w = (Inr y, w1)"
      and k: "cutoverLoop E now rows (Suc a) b w1 = (Inr x, w')"
      by (auto elim!: andThen_InrE seqE_InrE simp: andThen_Inr)
    from expire_releases [OF assms(1) e] k False show ?thesis unfolding released_def by blast
  qed
  then obtain w1 a' b' where w1: "shrinks w w1" "released row slug w1" "cutoverLoop E now rows a' b' w1 = (Inr x, w')"
    by blast
  have "shrinks w1 w' \<and> (\<forall>(r, slug) \<in> set rows. released r slug w')"
    using Cons.IH [OF w1(3)] Cons.prems(2) by simp
  then show ?case using released_shrinks [OF w1(2)] shrinks_trans [OF w1(1)] rs by simp
qed simp

lemma withRoom_empty:
  assumes "\<And>r. r \<in> set rows \<Longrightarrow> rs_roomId r \<notin> rm_id ` set (rooms d)"
  shows "withRoom d rows = []"
  using assms by (force simp: withRoom_def List.map_filter_def filter_empty_conv find_None_iff image_iff)

lemma mem_withRoom:
  assumes "r \<in> set rows" and "rs_roomId r \<in> rm_id ` set (rooms d)"
  shows "\<exists>s. (r, s) \<in> set (withRoom d rows)"
proof -
  obtain room where "find (\<lambda>room. rm_id room = rs_roomId r) (rooms d) = Some room"
    using assms(2) by (cases "find (\<lambda>room. rm_id room = rs_roomId r) (rooms d)") (auto simp: find_None_iff)
  with assms(1) show ?thesis by (force simp: withRoom_def List.map_filter_def)
qed

lemma set_withRoom: "(r, s) \<in> set (withRoom d rows) \<Longrightarrow> r \<in> set rows"
  by (auto simp: withRoom_def List.map_filter_def)

lemma withRoom_filter: "(r, s) \<in> set (withRoom d rows) \<Longrightarrow> P r \<Longrightarrow> (r, s) \<in> set (withRoom d (filter P rows))"
  by (auto simp: withRoom_def List.map_filter_def)

text \<open>C15. The protocol cutover, when it returns and LiveKit calls change only LiveKit, has ended everything the audit table held open in an existing
  room. In the table, no such row is a request or an active session any more, and the number it reports as
  remaining is zero. In Redis, a row that was a request when the cutover began has no pending request and does not
  hold the lock of its room, and a row that was an active session has no grant there.\<close>

theorem cutover_leaves_nothing:
  assumes "quiet E" and "forceProtocolUpgradeCutover E w = (Inr res, w')"
  shows "co_remaining res = 0 \<and>
    (\<forall>r \<in> set (sessions (dbase w')). rs_roomId r \<in> rm_id ` set (rooms (dbase w')) \<longrightarrow> terminal r) \<and>
    (\<forall>(r, slug) \<in> set (withRoom (dbase w) (sessions (dbase w))).
      (rs_status r = Requested \<longrightarrow> map_option pr_requestId (pending_at w' slug) \<noteq> Some (rs_id r) \<and>
         map_option val (owner_at w' slug) \<noteq> Some (VStr (rs_id r))) \<and>
      (rs_status r = Active \<longrightarrow> map_option ag_sessionId (active_at w' slug) \<noteq> Some (rs_id r)))"
proof -
  define open_rows where "open_rows d = withRoom d (filter (\<lambda>r. rs_status r = Requested \<or> rs_status r = Active) (sessions d))" for d
  from assms(2) obtain rs w1 rows w2 x w3 left where
    l: "listActiveRooms E w = (Inr rs, w1)" and f: "findRequestedOrActive w1 = (Inr rows, w2)"
    and k: "cutoverLoop E (clock w2) rows 0 0 w2 = (Inr x, w3)"
    and f': "findRequestedOrActive w3 = (Inr left, w')" and res: "co_remaining res = length left"
    unfolding forceProtocolUpgradeCutover_def by (auto elim!: andThen_InrE)
  have rows: "rows = open_rows (dbase w1)" "dbase w2 = dbase w1" and left: "left = open_rows (dbase w3)" "dbase w' = dbase w3"
    using f f' unfolding findRequestedOrActive_def open_rows_def by (auto elim!: dbcmd_InrE)
  have st: "\<forall>r \<in> fst ` set rows. rs_status r \<in> {Requested, Active}"
    unfolding rows(1) open_rows_def by (auto dest!: set_withRoom)
  have c: "closes w2 w3" "\<forall>r \<in> fst ` set rows. gone (rs_id r) (rs_status r) w3"
    using cutoverLoop_closes [OF assms(1) k st] by blast+
  have ended: "terminal r" if r: "r \<in> set (sessions (dbase w3))" "rs_roomId r \<in> rm_id ` set (rooms (dbase w3))" for r
  proof (rule ccontr)
    assume t: "\<not> terminal r"
    have "r \<in> set (sessions (dbase w1))" using closes_row [OF c(1) r(1) t] rows(2) by simp
    moreover have "rooms (dbase w3) = rooms (dbase w1)" using c(1) rows(2) by (simp add: closes_def)
    ultimately obtain s where "(r, s) \<in> set rows"
      using mem_withRoom [of r "filter (\<lambda>r. rs_status r = Requested \<or> rs_status r = Active) (sessions (dbase w1))" "dbase w1"] t r(2)
      unfolding rows(1) open_rows_def by (auto simp: terminal_def)
    then have "r \<in> fst ` set rows" by force
    with c(2) r(1) show False unfolding gone_def by blast
  qed
  then have "left = []"
    unfolding left(1) open_rows_def by (intro withRoom_empty) (auto simp: terminal_def)
  moreover have "dbase w1 = dbase w"
    using calmD(3) [OF calm_opD [OF calm_services(10) [OF assms(1)] l]] .
  moreover have "store w' = store w3"
    using f' unfolding findRequestedOrActive_def by (auto elim!: dbcmd_InrE simp: store_def)
  moreover have "\<forall>(r, slug) \<in> set rows. released r slug w3" using cutoverLoop_releases [OF assms(1) k st] by blast
  ultimately have "released r slug w'" if "(r, slug) \<in> set (withRoom (dbase w) (sessions (dbase w)))"
    and "rs_status r = Requested \<or> rs_status r = Active" for r slug
    using withRoom_filter [of r slug _ _ "\<lambda>r. rs_status r = Requested \<or> rs_status r = Active", OF that]
      released_shrinks [of r slug w3 w', OF _ shrinks_same] unfolding rows(1) open_rows_def by auto
  then have "\<forall>(r, slug) \<in> set (withRoom (dbase w) (sessions (dbase w))).
      (rs_status r = Requested \<longrightarrow> map_option pr_requestId (pending_at w' slug) \<noteq> Some (rs_id r) \<and>
         map_option val (owner_at w' slug) \<noteq> Some (VStr (rs_id r))) \<and>
      (rs_status r = Active \<longrightarrow> map_option ag_sessionId (active_at w' slug) \<noteq> Some (rs_id r))"
    unfolding released_def by blast
  with ended res left(2) \<open>left = []\<close> show ?thesis by simp
qed

theorem cutover_leaves_nothing_witness:
  "\<exists>res w'. forceProtocolUpgradeCutover demoEnv activeWorld = (Inr res, w') \<and> co_remaining res = 0 \<and>
    map_option ag_sessionId (active_at activeWorld ''abc-defg-hij'') = Some ''s1'' \<and>
    map_option ag_sessionId (active_at w' ''abc-defg-hij'') \<noteq> Some ''s1''"
proof -
  have "\<not> isl (fst (forceProtocolUpgradeCutover demoEnv activeWorld))" by code_simp
  then obtain res w' where "forceProtocolUpgradeCutover demoEnv activeWorld = (Inr res, w')" using runs by blast
  moreover have "(demoRow Active, ''abc-defg-hij'') \<in> set (withRoom (dbase activeWorld) (sessions (dbase activeWorld)))"
    by code_simp
  ultimately show ?thesis using cutover_leaves_nothing [OF quiet_demoEnv]
    by (fastforce simp: demoRow_def demoGrant_def)
qed

lemma forE_closes:
  assumes "forE f xs w = (Inr y, w')"
    and "\<And>x w y w'. x \<in> set xs \<Longrightarrow> f x w = (Inr y, w') \<Longrightarrow> closes w w' \<and> gone (rs_id (fst x)) st w'"
    and "st \<in> {Requested, Active}"
  shows "closes w w' \<and> (\<forall>x \<in> set xs. gone (rs_id (fst x)) st w')"
  using assms(1,2)
proof (induction xs arbitrary: w)
  case (Cons x xs)
  from Cons.prems(1) obtain u w1 where f: "f x w = (Inr u, w1)" and r: "forE f xs w1 = (Inr y, w')"
    by (auto elim!: andThen_InrE)
  from Cons.prems(2) [OF _ f] have 1: "closes w w1" "gone (rs_id (fst x)) st w1" by simp_all
  have "closes w1 w' \<and> (\<forall>x \<in> set xs. gone (rs_id (fst x)) st w')"
    by (rule Cons.IH [OF r]) (rule Cons.prems(2), simp)
  then have 2: "closes w1 w'" "\<forall>x \<in> set xs. gone (rs_id (fst x)) st w'" by blast+
  show ?case using closes_trans [OF 1(1) 2(1)] gone_closes [OF 1(2) 2(1) assms(3)] 2(2) by simp
qed simp

text \<open>Whether a row is over the deadline of a renewal, or of an answer, at an instant.\<close>

definition overdue :: "int \<Rightarrow> session_row \<Rightarrow> bool" where
  "overdue now r \<longleftrightarrow> (rs_status r = Active \<and> (case rs_renewalDueAt r of None \<Rightarrow> False | Some t \<Rightarrow> t \<le> now)) \<or>
     (rs_status r = Requested \<and> rs_createdAt r \<le> now - 30000)"

text \<open>The two lists the timer works through, and what it does with an old request.\<close>

definition dueRows :: "int \<Rightarrow> database \<Rightarrow> (session_row \<times> string) list" where
  "dueRows now db = withRoom db (filter (\<lambda>r. rs_status r = Active \<and>
     (case rs_renewalDueAt r of None \<Rightarrow> False | Some t \<Rightarrow> t \<le> now)) (sessions db))"

definition oldRequests :: "int \<Rightarrow> database \<Rightarrow> (session_row \<times> string) list" where
  "oldRequests now db = withRoom db (filter (\<lambda>r. rs_status r = Requested \<and> rs_createdAt r \<le> now - 30000) (sessions db))"

definition dropRequest :: "int \<Rightarrow> session_row \<times> string \<Rightarrow> ('lk, unit) op" where
  "dropRequest now = (\<lambda>(row, slug). seqE (releasePending slug (rs_id row)) (seqE (expireRequest (rs_id row) now) (ret ())))"

lemma reconcile_runs:
  fixes w :: "'lk world"
  assumes "quiet E" and "faults w = []"
  obtains y x w1 w' where "forE (expireDue E (clock w)) (dueRows (clock w) (dbase w)) w = (Inr y, w1)"
    and "forE (dropRequest (clock w)) (oldRequests (clock w) (dbase w)) w1 = (Inr x, w')"
    and "reconcileExpirations E w = (Inr (), w')"
proof -
  let ?run = "seqE (forE (expireDue E (clock w)) (dueRows (clock w) (dbase w))) (forE (dropRequest (clock w)) (oldRequests (clock w) (dbase w)))"
  have body: "reconcileExpirations E w = catchE ?run (\<lambda>_. ret ()) w"
    using assms(2) unfolding reconcileExpirations_def findDueActive_def findExpiredRequests_def dropRequest_def dueRows_def oldRequests_def
    by (simp add: andThen_gets catchE_def andThen_def [of "all2 _ _"] all2_def dbcmd_ok rc_times)
  have "total_op ?run" using assms(1) unfolding expireDue_def dropRequest_def by (auto intro!: total_rules)
  from total_opD [OF this assms(2)] obtain x w' where run: "?run w = (Inr x, w')" by blast
  moreover from run have "reconcileExpirations E w = (Inr (), w')" using body by (simp add: catchE_def)
  ultimately show thesis using that by (elim seqE_InrE) blast
qed

lemma expireDue_closes:
  assumes "quiet E" and "forE (expireDue E now) rows w = (Inr y, w1)"
  shows "closes w w1 \<and> (\<forall>x \<in> set rows. gone (rs_id (fst x)) Active w1)"
proof (rule forE_closes [OF assms(2)])
  fix z :: "session_row \<times> string" and wa y' wb assume e: "expireDue E now z wa = (Inr y', wb)"
  obtain row slug where z: "z = (row, slug)" by (cases z)
  show "closes wa wb \<and> gone (rs_id (fst z)) Active wb"
    using expire_closes [OF assms(1) e [unfolded z expireDue_def prod.case]] by (simp add: z)
qed simp

lemma dropRequest_closes:
  assumes "forE (dropRequest now) rows w = (Inr y, w1)"
  shows "closes w w1 \<and> (\<forall>x \<in> set rows. gone (rs_id (fst x)) Requested w1)"
proof (rule forE_closes [OF assms])
  fix z :: "session_row \<times> string" and wa y' wb assume "dropRequest now z wa = (Inr y', wb)"
  then obtain u wc b where "releasePending (snd z) (rs_id (fst z)) wa = (Inr u, wc)"
    "transitionRequested (rs_id (fst z)) Expired ''request_timeout'' now wc = (Inr b, wb)"
    unfolding dropRequest_def expireRequest_def by (cases z) (auto elim!: seqE_InrE)
  then show "closes wa wb \<and> gone (rs_id (fst z)) Requested wb"
    using release_closes transitionRequested_closes [of "rs_id (fst z)" Expired] closes_trans by blast
qed simp

text \<open>C16. When no store command fails, the timer ends every session of the audit table whose
  renewal is overdue and every request that has waited thirty seconds.\<close>

theorem reconcile_ends_overdue:
  assumes "quiet E" and "faults w = []"
  shows "\<exists>w'. reconcileExpirations E w = (Inr (), w') \<and>
    (\<forall>r \<in> set (sessions (dbase w')). rs_roomId r \<in> rm_id ` set (rooms (dbase w')) \<longrightarrow> \<not> overdue (clock w) r)"
proof -
  let ?now = "clock w"
  obtain y x w1 w' where run: "forE (expireDue E ?now) (dueRows ?now (dbase w)) w = (Inr y, w1)"
    "forE (dropRequest ?now) (oldRequests ?now (dbase w)) w1 = (Inr x, w')" "reconcileExpirations E w = (Inr (), w')"
    using reconcile_runs [OF assms] .
  note c1 = expireDue_closes [OF assms(1) run(1)] and c2 = dropRequest_closes [OF run(2)]
  have c: "closes w w'" using c1 c2 closes_trans by blast
  have "\<not> overdue ?now r" if r: "r \<in> set (sessions (dbase w'))" "rs_roomId r \<in> rm_id ` set (rooms (dbase w'))" for r
  proof
    assume o: "overdue ?now r"
    then have "\<not> terminal r" by (auto simp: overdue_def terminal_def)
    from closes_row [OF c r(1) this] have rw: "r \<in> set (sessions (dbase w))" .
    have rm: "rs_roomId r \<in> rm_id ` set (rooms (dbase w))" using c r(2) by (simp add: closes_def)
    from o rw consider "r \<in> set (filter (\<lambda>r. rs_status r = Active \<and>
       (case rs_renewalDueAt r of None \<Rightarrow> False | Some t \<Rightarrow> t \<le> ?now)) (sessions (dbase w)))" "rs_status r = Active"
      | "r \<in> set (filter (\<lambda>r. rs_status r = Requested \<and> rs_createdAt r \<le> ?now - 30000) (sessions (dbase w)))" "rs_status r = Requested"
      by (auto simp: overdue_def)
    then show False
    proof cases
      case 1
      with mem_withRoom [OF 1(1) rm] c1 have "gone (rs_id r) Active w1" unfolding dueRows_def by force
      with gone_closes [of "rs_id r" Active w1 w'] c2 r(1) 1(2) show False by (auto simp: gone_def)
    next
      case 2
      with mem_withRoom [OF 2(1) rm] c2 have "gone (rs_id r) Requested w'" unfolding oldRequests_def by force
      with r(1) 2(2) show False by (auto simp: gone_def)
    qed
  qed
  with run(3) show ?thesis by blast
qed

theorem reconcile_ends_overdue_witness:
  "\<exists>w'. reconcileExpirations demoEnv (activeWorld\<lparr>clock := 2000000\<rparr>) = (Inr (), w') \<and>
    (\<forall>r \<in> set (sessions (dbase w')). rs_roomId r \<in> rm_id ` set (rooms (dbase w')) \<longrightarrow> \<not> overdue 2000000 r)"
  using reconcile_ends_overdue [OF quiet_demoEnv, of "activeWorld\<lparr>clock := 2000000\<rparr>"] by simp

end
