(* ===== verification/ControlProtocol.thy ===== *)
theory ControlProtocol
  imports RemoteControl
begin

text \<open>
  The Remote Control data messages of the browser (\<^verbatim>\<open>apps/web/src/lib/controlProtocol.ts\<close>):
  the encoder, the decoder that rejects malformed packets, and the reader of the session the
  API publishes in the room's metadata. A packet or a metadata string is a \<open>json_text\<close>: its
  length and what \<^verbatim>\<open>JSON.parse\<close> makes of it. The spelling of numbers and the reading of dates
  are arguments: \<open>N\<close> gives the length of the text of a number, \<open>D\<close> is \<^verbatim>\<open>Date.parse\<close>.
\<close>

definition REMOTE_CONTROL_TOPIC :: string where "REMOTE_CONTROL_TOPIC = ''huddle:remote-control''"
definition REMOTE_CONTROL_VERSION :: rat where "REMOTE_CONTROL_VERSION = 2"
definition CONTROL_AGENT_IDENTITY_PREFIX :: string where "CONTROL_AGENT_IDENTITY_PREFIX = ''control-agent:''"
definition MAX_REMOTE_CONTROL_PACKET_BYTES :: nat where "MAX_REMOTE_CONTROL_PACKET_BYTES = 8192"
definition MAX_CLIPBOARD_TEXT_BYTES :: nat where "MAX_CLIPBOARD_TEXT_BYTES = 6 * 1024"
definition MAX_ID_LENGTH :: nat where "MAX_ID_LENGTH = 160"
definition MAX_NAME_LENGTH :: nat where "MAX_NAME_LENGTH = 256"
definition MAX_KEY_LENGTH :: nat where "MAX_KEY_LENGTH = 64"
definition MAX_CODE_LENGTH :: nat where "MAX_CODE_LENGTH = 64"
definition MAX_SCROLL_DELTA :: rat where "MAX_SCROLL_DELTA = 2000"

lemmas protocol_limits = REMOTE_CONTROL_VERSION_def MAX_REMOTE_CONTROL_PACKET_BYTES_def
  MAX_CLIPBOARD_TEXT_BYTES_def MAX_ID_LENGTH_def MAX_NAME_LENGTH_def MAX_KEY_LENGTH_def
  MAX_CODE_LENGTH_def MAX_SCROLL_DELTA_def

section \<open>Messages\<close>

datatype mouse_button = LeftButton | MiddleButton | RightButton
datatype key_modifier = ShiftKey | CtrlKey | AltKey | MetaKey
datatype press = Down | Up

datatype input_event =
    Move rat rat
  | Press press rat rat mouse_button
  | Scroll rat rat rat rat
  | Key press string "string option" "key_modifier list"
  | ReleaseAll

datatype control_message =
    MsgRequest string
  | MsgDenied string
  | MsgWithdrawn string
  | MsgStopIntent string
  | MsgInput string int input_event
  | MsgClipboardCopy string int
  | MsgClipboardPaste string int string
  | MsgClipboardUpdate string int string

record json_text =
  jt_length :: nat
  jt_value :: "json option"

section \<open>Checks\<close>

text \<open>The length of a text in UTF-8, for the characters up to U+00FF.\<close>

definition utf8Length :: "string \<Rightarrow> nat" where
  "utf8Length s = sum_list (map (\<lambda>c. if of_char c < (128 :: nat) then 1 else 2) s)"

definition hasOnlyKeys :: "(string \<times> json) list \<Rightarrow> string list \<Rightarrow> bool" where
  "hasOnlyKeys fs keys = list_all (\<lambda>f. fst f \<in> set keys) fs"

fun isBoundedString :: "nat \<Rightarrow> json option \<Rightarrow> bool" where
  "isBoundedString limit (Some (JStr s)) = (0 < length s \<and> length s \<le> limit)"
| "isBoundedString limit _ = False"

fun isClipboardText :: "json option \<Rightarrow> bool" where
  "isClipboardText (Some (JStr s)) = (0 < utf8Length s \<and> utf8Length s \<le> MAX_CLIPBOARD_TEXT_BYTES)"
| "isClipboardText _ = False"

text \<open>\<^verbatim>\<open>Number.isSafeInteger(value) && value >= 0\<close>.\<close>

fun isSequence :: "json option \<Rightarrow> bool" where
  "isSequence (Some (JNum q)) = (of_int \<lfloor>q\<rfloor> = q \<and> \<lfloor>q\<rfloor> \<le> 9007199254740991 \<and> q \<ge> 0)"
| "isSequence _ = False"

fun isCoordinate :: "json option \<Rightarrow> bool" where
  "isCoordinate (Some (JNum q)) = (0 \<le> q \<and> q \<le> 1)"
| "isCoordinate _ = False"

fun isScrollDelta :: "json option \<Rightarrow> bool" where
  "isScrollDelta (Some (JNum q)) = (\<bar>q\<bar> \<le> MAX_SCROLL_DELTA)"
| "isScrollDelta _ = False"

definition mouseButton :: "json option \<Rightarrow> mouse_button option" where
  "mouseButton v =
     (if v = Some (JStr ''left'') then Some LeftButton
      else if v = Some (JStr ''middle'') then Some MiddleButton
      else if v = Some (JStr ''right'') then Some RightButton else None)"

definition keyModifier :: "json \<Rightarrow> key_modifier option" where
  "keyModifier v =
     (if v = JStr ''shift'' then Some ShiftKey else if v = JStr ''ctrl'' then Some CtrlKey
      else if v = JStr ''alt'' then Some AltKey else if v = JStr ''meta'' then Some MetaKey else None)"

text \<open>The loop of \<^verbatim>\<open>isModifiers\<close>, with the modifiers it has seen.\<close>

fun modifierLoop :: "json list \<Rightarrow> key_modifier list \<Rightarrow> key_modifier list option" where
  "modifierLoop [] seen = Some []"
| "modifierLoop (v # vs) seen =
     (case keyModifier v of
        None \<Rightarrow> None
      | Some m \<Rightarrow> if m \<in> set seen then None else map_option ((#) m) (modifierLoop vs (m # seen)))"

fun modifiers :: "json option \<Rightarrow> key_modifier list option" where
  "modifiers (Some (JArr vs)) = (if length vs > 4 then None else modifierLoop vs [])"
| "modifiers _ = None"

definition pressOf :: "json option \<Rightarrow> press option" where
  "pressOf v = (if v = Some (JStr ''down'') then Some Down else if v = Some (JStr ''up'') then Some Up else None)"

text \<open>What the checks have established, read off the value.\<close>

fun numOf :: "json option \<Rightarrow> rat" where
  "numOf (Some (JNum q)) = q"
| "numOf _ = 0"

fun strOf :: "json option \<Rightarrow> string" where
  "strOf (Some (JStr s)) = s"
| "strOf _ = []"

abbreviation seqOf :: "json option \<Rightarrow> int" where
  "seqOf v \<equiv> \<lfloor>numOf v\<rfloor>"

section \<open>Decoding\<close>

text \<open>\<^verbatim>\<open>value.key\<close> is \<open>prop key\<close> below; a missing property is \<^verbatim>\<open>undefined\<close>.\<close>

definition decodeKeyEvent :: "(string \<times> json) list \<Rightarrow> input_event option" where
  "decodeKeyEvent fs =
     (let prop = map_of fs in
      case (pressOf (prop ''action''), modifiers (prop ''modifiers'')) of
        (Some a, Some ms) \<Rightarrow>
          if \<not> hasOnlyKeys fs [''kind'', ''action'', ''key'', ''code'', ''modifiers''] \<or>
             \<not> isBoundedString MAX_CODE_LENGTH (prop ''code'') \<or>
             (prop ''key'' \<noteq> None \<and> (jstring (prop ''key'') = None \<or> length (strOf (prop ''key'')) > MAX_KEY_LENGTH))
          then None
          else Some (Key a (strOf (prop ''code'')) (jstring (prop ''key'')) ms)
      | _ \<Rightarrow> None)"

definition decodeButtonEvent :: "press \<Rightarrow> (string \<times> json) list \<Rightarrow> input_event option" where
  "decodeButtonEvent a fs =
     (let prop = map_of fs in
      case mouseButton (prop ''button'') of
        None \<Rightarrow> None
      | Some b \<Rightarrow>
          if \<not> hasOnlyKeys fs [''kind'', ''x'', ''y'', ''button''] \<or> \<not> isCoordinate (prop ''x'') \<or>
             \<not> isCoordinate (prop ''y'')
          then None else Some (Press a (numOf (prop ''x'')) (numOf (prop ''y'')) b))"

definition decodeInputEvent :: "json option \<Rightarrow> input_event option" where
  "decodeInputEvent v =
     (case v of
        Some (JObj fs) \<Rightarrow>
          (let prop = map_of fs; kind = prop ''kind'' in
           if kind = Some (JStr ''move'') then
             (if \<not> hasOnlyKeys fs [''kind'', ''x'', ''y''] \<or> \<not> isCoordinate (prop ''x'') \<or> \<not> isCoordinate (prop ''y'')
              then None else Some (Move (numOf (prop ''x'')) (numOf (prop ''y''))))
           else if kind = Some (JStr ''down'') then decodeButtonEvent Down fs
           else if kind = Some (JStr ''up'') then decodeButtonEvent Up fs
           else if kind = Some (JStr ''scroll'') then
             (if \<not> hasOnlyKeys fs [''kind'', ''x'', ''y'', ''dx'', ''dy''] \<or> \<not> isCoordinate (prop ''x'') \<or>
                 \<not> isCoordinate (prop ''y'') \<or> \<not> isScrollDelta (prop ''dx'') \<or> \<not> isScrollDelta (prop ''dy'')
              then None
              else Some (Scroll (numOf (prop ''x'')) (numOf (prop ''y'')) (numOf (prop ''dx'')) (numOf (prop ''dy''))))
           else if kind = Some (JStr ''key'') then decodeKeyEvent fs
           else if kind = Some (JStr ''release-all'') then
             (if hasOnlyKeys fs [''kind''] then Some ReleaseAll else None)
           else None)
      | _ \<Rightarrow> None)"

text \<open>The three messages that carry a request, and the switch on the type.\<close>

definition decodeRequest ::
    "(string \<Rightarrow> control_message) \<Rightarrow> (string \<times> json) list \<Rightarrow> control_message option" where
  "decodeRequest msg fs =
     (if \<not> hasOnlyKeys fs [''v'', ''type'', ''requestId''] \<or>
         \<not> isBoundedString MAX_ID_LENGTH (map_of fs ''requestId'')
      then None else Some (msg (strOf (map_of fs ''requestId''))))"

definition decodeFields :: "(string \<times> json) list \<Rightarrow> control_message option" where
  "decodeFields fs =
     (let prop = map_of fs; type = prop ''type'';
          session = isBoundedString MAX_ID_LENGTH (prop ''sessionId''); sid = strOf (prop ''sessionId'') in
      if type = Some (JStr ''remote-control:request'') then decodeRequest MsgRequest fs
      else if type = Some (JStr ''remote-control:denied'') then decodeRequest MsgDenied fs
      else if type = Some (JStr ''remote-control:withdrawn'') then decodeRequest MsgWithdrawn fs
      else if type = Some (JStr ''remote-control:stop-intent'') then
        (if \<not> hasOnlyKeys fs [''v'', ''type'', ''sessionId''] \<or> \<not> session then None
         else Some (MsgStopIntent sid))
      else if type = Some (JStr ''remote-control:input'') then
        (if \<not> hasOnlyKeys fs [''v'', ''type'', ''sessionId'', ''sequence'', ''event''] \<or> \<not> session \<or>
            \<not> isSequence (prop ''sequence'') then None
         else map_option (MsgInput sid (seqOf (prop ''sequence''))) (decodeInputEvent (prop ''event'')))
      else if type = Some (JStr ''remote-control:clipboard-copy'') then
        (if \<not> hasOnlyKeys fs [''v'', ''type'', ''sessionId'', ''sequence''] \<or> \<not> session \<or>
            \<not> isSequence (prop ''sequence'') then None
         else Some (MsgClipboardCopy sid (seqOf (prop ''sequence''))))
      else if type = Some (JStr ''remote-control:clipboard-paste'') then
        (if \<not> hasOnlyKeys fs [''v'', ''type'', ''sessionId'', ''sequence'', ''text''] \<or> \<not> session \<or>
            \<not> isSequence (prop ''sequence'') \<or> \<not> isClipboardText (prop ''text'') then None
         else Some (MsgClipboardPaste sid (seqOf (prop ''sequence'')) (strOf (prop ''text''))))
      else if type = Some (JStr ''remote-control:clipboard-update'') then
        (if \<not> hasOnlyKeys fs [''v'', ''type'', ''sessionId'', ''revision'', ''text''] \<or> \<not> session \<or>
            \<not> isSequence (prop ''revision'') \<or> \<not> isClipboardText (prop ''text'') then None
         else Some (MsgClipboardUpdate sid (seqOf (prop ''revision'')) (strOf (prop ''text''))))
      else None)"

definition decodeRemoteControlMessage :: "json_text \<Rightarrow> control_message option" where
  "decodeRemoteControlMessage data =
     (if jt_length data = 0 \<or> jt_length data > MAX_REMOTE_CONTROL_PACKET_BYTES then None
      else case jt_value data of
        Some (JObj fs) \<Rightarrow>
          if map_of fs ''v'' \<noteq> Some (JNum REMOTE_CONTROL_VERSION) then None else decodeFields fs
      | _ \<Rightarrow> None)"

section \<open>Encoding\<close>

definition buttonText :: "mouse_button \<Rightarrow> json" where
  "buttonText b = JStr (case b of LeftButton \<Rightarrow> ''left'' | MiddleButton \<Rightarrow> ''middle'' | RightButton \<Rightarrow> ''right'')"

definition modifierText :: "key_modifier \<Rightarrow> json" where
  "modifierText m = JStr (case m of ShiftKey \<Rightarrow> ''shift'' | CtrlKey \<Rightarrow> ''ctrl'' | AltKey \<Rightarrow> ''alt'' | MetaKey \<Rightarrow> ''meta'')"

definition pressText :: "press \<Rightarrow> json" where
  "pressText a = JStr (case a of Down \<Rightarrow> ''down'' | Up \<Rightarrow> ''up'')"

text \<open>The objects of the two types, as \<^verbatim>\<open>JSON.stringify\<close> writes them; an absent key is left out.\<close>

fun eventJson :: "input_event \<Rightarrow> json" where
  "eventJson (Move x y) = JObj [(''kind'', JStr ''move''), (''x'', JNum x), (''y'', JNum y)]"
| "eventJson (Press a x y b) =
     JObj [(''kind'', pressText a), (''x'', JNum x), (''y'', JNum y), (''button'', buttonText b)]"
| "eventJson (Scroll x y dx dy) =
     JObj [(''kind'', JStr ''scroll''), (''x'', JNum x), (''y'', JNum y), (''dx'', JNum dx), (''dy'', JNum dy)]"
| "eventJson (Key a code key ms) =
     JObj ([(''kind'', JStr ''key''), (''action'', pressText a), (''code'', JStr code)] @
       (case key of None \<Rightarrow> [] | Some k \<Rightarrow> [(''key'', JStr k)]) @
       [(''modifiers'', JArr (map modifierText ms))])"
| "eventJson ReleaseAll = JObj [(''kind'', JStr ''release-all'')]"

definition header :: "string \<Rightarrow> (string \<times> json) list \<Rightarrow> (string \<times> json) list" where
  "header type fs = [(''v'', JNum 2), (''type'', JStr type)] @ fs"

fun messageFields :: "control_message \<Rightarrow> (string \<times> json) list" where
  "messageFields (MsgRequest i) = header ''remote-control:request'' [(''requestId'', JStr i)]"
| "messageFields (MsgDenied i) = header ''remote-control:denied'' [(''requestId'', JStr i)]"
| "messageFields (MsgWithdrawn i) = header ''remote-control:withdrawn'' [(''requestId'', JStr i)]"
| "messageFields (MsgStopIntent s) = header ''remote-control:stop-intent'' [(''sessionId'', JStr s)]"
| "messageFields (MsgInput s n e) = header ''remote-control:input''
     [(''sessionId'', JStr s), (''sequence'', JNum (of_int n)), (''event'', eventJson e)]"
| "messageFields (MsgClipboardCopy s n) = header ''remote-control:clipboard-copy''
     [(''sessionId'', JStr s), (''sequence'', JNum (of_int n))]"
| "messageFields (MsgClipboardPaste s n t) = header ''remote-control:clipboard-paste''
     [(''sessionId'', JStr s), (''sequence'', JNum (of_int n)), (''text'', JStr t)]"
| "messageFields (MsgClipboardUpdate s n t) = header ''remote-control:clipboard-update''
     [(''sessionId'', JStr s), (''revision'', JNum (of_int n)), (''text'', JStr t)]"

text \<open>
  The length of \<^verbatim>\<open>JSON.stringify(value)\<close> in UTF-8: quotes, backslashes and the named control
  characters take two bytes, the other control characters six.
\<close>

definition charBytes :: "char \<Rightarrow> nat" where
  "charBytes c =
     (let n = (of_char c :: nat) in
      if n \<in> {8, 9, 10, 12, 13, 34, 92} then 2 else if n < 32 then 6 else if n < 128 then 1 else 2)"

definition strBytes :: "string \<Rightarrow> nat" where
  "strBytes s = 2 + sum_list (map charBytes s)"

definition joined :: "nat list \<Rightarrow> nat" where
  "joined ns = 2 + sum_list ns + (length ns - 1)"

fun jsonBytes :: "(rat \<Rightarrow> nat) \<Rightarrow> json \<Rightarrow> nat" where
  "jsonBytes N JNull = 4"
| "jsonBytes N (JBool b) = (if b then 4 else 5)"
| "jsonBytes N (JNum q) = N q"
| "jsonBytes N (JInf b) = 4"
| "jsonBytes N (JStr s) = strBytes s"
| "jsonBytes N (JArr vs) = joined (map (jsonBytes N) vs)"
| "jsonBytes N (JObj fs) = joined (map (\<lambda>(k, v). strBytes k + 1 + jsonBytes N v) fs)"

definition encodeRemoteControlMessage :: "(rat \<Rightarrow> nat) \<Rightarrow> control_message \<Rightarrow> exn + json_text" where
  "encodeRemoteControlMessage N message =
     (let value = JObj (messageFields message); bytes = jsonBytes N value in
      if bytes = 0 \<or> bytes > MAX_REMOTE_CONTROL_PACKET_BYTES then Inl (JsError ''RangeError'')
      else Inr \<lparr>jt_length = bytes, jt_value = Some value\<rparr>)"

fun isLossyRemoteControlMessage :: "control_message \<Rightarrow> bool" where
  "isLossyRemoteControlMessage (MsgInput _ _ (Move _ _)) = True"
| "isLossyRemoteControlMessage _ = False"

text \<open>\<^verbatim>\<open>publishData\<close> of the LiveKit client takes the packet, the reliability, topic and targets.\<close>

definition sendRemoteControlMessage ::
    "(rat \<Rightarrow> nat) \<Rightarrow> (json_text \<Rightarrow> bool \<Rightarrow> string \<Rightarrow> string list \<Rightarrow> exn + 'r) \<Rightarrow> string list \<Rightarrow>
      control_message \<Rightarrow> exn + 'r" where
  "sendRemoteControlMessage N publishData targets message =
     bindR (encodeRemoteControlMessage N message) (\<lambda>data.
       publishData data (\<not> isLossyRemoteControlMessage message) REMOTE_CONTROL_TOPIC targets)"

section \<open>Agents and sessions\<close>

definition isControlAgentIdentity :: "string \<Rightarrow> bool" where
  "isControlAgentIdentity identity =
     (take (length CONTROL_AGENT_IDENTITY_PREFIX) identity = CONTROL_AGENT_IDENTITY_PREFIX)"

definition participantRole :: "json_text option \<Rightarrow> string option" where
  "participantRole metadata =
     (case metadata of
        None \<Rightarrow> None
      | Some m \<Rightarrow>
          if jt_length m = 0 \<or> jt_length m > 2048 then None
          else case jt_value m of Some (JObj fs) \<Rightarrow> jstring (map_of fs ''role'') | _ \<Rightarrow> None)"

definition isControlAgentParticipant :: "string \<Rightarrow> json_text option \<Rightarrow> string option \<Rightarrow> bool" where
  "isControlAgentParticipant identity metadata expected =
     (if truthy expected \<and> Some identity = expected then True
      else participantRole metadata = Some ''control-agent'' \<or> isControlAgentIdentity identity)"

record web_session =
  ws_sessionId :: string
  ws_status :: grant_status
  ws_sharerIdentity :: string
  ws_sharerName :: string
  ws_controllerIdentity :: string
  ws_controllerName :: string
  ws_agentIdentity :: string
  ws_agentConnected :: bool
  ws_renewalDueAt :: string

definition statusOf :: "json option \<Rightarrow> grant_status option" where
  "statusOf v =
     (if v = Some (JStr ''awaiting-agent'') then Some AwaitingAgent
      else if v = Some (JStr ''active'') then Some AgentActive else None)"

fun boolOf :: "json option \<Rightarrow> bool option" where
  "boolOf (Some (JBool b)) = Some b"
| "boolOf _ = None"

definition sessionFields :: "(string \<Rightarrow> int option) \<Rightarrow> (string \<times> json) list \<Rightarrow> web_session option" where
  "sessionFields D fs =
     (let prop = map_of fs in
      case (statusOf (prop ''status''), boolOf (prop ''agentConnected'')) of
        (Some st, Some attached) \<Rightarrow>
          if \<not> isBoundedString MAX_ID_LENGTH (prop ''sessionId'') \<or>
             \<not> isBoundedString MAX_ID_LENGTH (prop ''sharerIdentity'') \<or>
             \<not> isBoundedString MAX_NAME_LENGTH (prop ''sharerName'') \<or>
             \<not> isBoundedString MAX_ID_LENGTH (prop ''controllerIdentity'') \<or>
             \<not> isBoundedString MAX_NAME_LENGTH (prop ''controllerName'') \<or>
             \<not> isBoundedString MAX_ID_LENGTH (prop ''agentIdentity'') \<or>
             \<not> isBoundedString MAX_ID_LENGTH (prop ''renewalDueAt'') \<or>
             D (strOf (prop ''renewalDueAt'')) = None
          then None
          else Some \<lparr>ws_sessionId = strOf (prop ''sessionId''), ws_status = st,
            ws_sharerIdentity = strOf (prop ''sharerIdentity''), ws_sharerName = strOf (prop ''sharerName''),
            ws_controllerIdentity = strOf (prop ''controllerIdentity''),
            ws_controllerName = strOf (prop ''controllerName''), ws_agentIdentity = strOf (prop ''agentIdentity''),
            ws_agentConnected = attached, ws_renewalDueAt = strOf (prop ''renewalDueAt'')\<rparr>
      | _ \<Rightarrow> None)"

definition parseRemoteControlSession ::
    "(string \<Rightarrow> int option) \<Rightarrow> json_text option \<Rightarrow> web_session option" where
  "parseRemoteControlSession D metadata =
     (case metadata of
        None \<Rightarrow> None
      | Some m \<Rightarrow>
          if jt_length m = 0 \<or> jt_length m > 64000 then None
          else case jt_value m of
            Some (JObj fs) \<Rightarrow> (case map_of fs ''remoteControl'' of Some (JObj gs) \<Rightarrow> sessionFields D gs | _ \<Rightarrow> None)
          | _ \<Rightarrow> None)"


section \<open>What a valid message is\<close>

text \<open>The limits of the protocol, stated on the messages instead of on their JSON.\<close>

definition boundedId :: "nat \<Rightarrow> string \<Rightarrow> bool" where
  "boundedId limit s \<longleftrightarrow> s \<noteq> [] \<and> length s \<le> limit"

abbreviation onScreen :: "rat \<Rightarrow> bool" where
  "onScreen x \<equiv> 0 \<le> x \<and> x \<le> 1"

fun validEvent :: "input_event \<Rightarrow> bool" where
  "validEvent (Move x y) = (onScreen x \<and> onScreen y)"
| "validEvent (Press a x y b) = (onScreen x \<and> onScreen y)"
| "validEvent (Scroll x y dx dy) = (onScreen x \<and> onScreen y \<and> \<bar>dx\<bar> \<le> 2000 \<and> \<bar>dy\<bar> \<le> 2000)"
| "validEvent (Key a code key ms) =
     (boundedId 64 code \<and> (case key of None \<Rightarrow> True | Some k \<Rightarrow> length k \<le> 64) \<and> distinct ms)"
| "validEvent ReleaseAll = True"

abbreviation validSequence :: "int \<Rightarrow> bool" where
  "validSequence n \<equiv> 0 \<le> n \<and> n < 2 ^ 53"

abbreviation validText :: "string \<Rightarrow> bool" where
  "validText t \<equiv> t \<noteq> [] \<and> utf8Length t \<le> 6144"

fun validMessage :: "control_message \<Rightarrow> bool" where
  "validMessage (MsgRequest i) = boundedId 160 i"
| "validMessage (MsgDenied i) = boundedId 160 i"
| "validMessage (MsgWithdrawn i) = boundedId 160 i"
| "validMessage (MsgStopIntent s) = boundedId 160 s"
| "validMessage (MsgInput s n e) = (boundedId 160 s \<and> validSequence n \<and> validEvent e)"
| "validMessage (MsgClipboardCopy s n) = (boundedId 160 s \<and> validSequence n)"
| "validMessage (MsgClipboardPaste s n t) = (boundedId 160 s \<and> validSequence n \<and> validText t)"
| "validMessage (MsgClipboardUpdate s n t) = (boundedId 160 s \<and> validSequence n \<and> validText t)"

lemma utf8Length_pos [simp]: "0 < utf8Length s \<longleftrightarrow> s \<noteq> []"
  by (cases s) (auto simp: utf8Length_def)

lemma isBoundedString_iff: "isBoundedString n v \<longleftrightarrow> (\<exists>s. v = Some (JStr s) \<and> boundedId n s)"
  by (cases "(n, v)" rule: isBoundedString.cases) (auto simp: boundedId_def)

lemma isClipboardText_iff: "isClipboardText v \<longleftrightarrow> (\<exists>s. v = Some (JStr s) \<and> validText s)"
  by (cases v rule: isClipboardText.cases) (auto simp: MAX_CLIPBOARD_TEXT_BYTES_def)

lemma isCoordinate_iff: "isCoordinate v \<longleftrightarrow> (\<exists>x. v = Some (JNum x) \<and> onScreen x)"
  by (cases v rule: isCoordinate.cases) auto

lemma isScrollDelta_iff: "isScrollDelta v \<longleftrightarrow> (\<exists>x. v = Some (JNum x) \<and> \<bar>x\<bar> \<le> 2000)"
  by (cases v rule: isScrollDelta.cases) (auto simp: MAX_SCROLL_DELTA_def)

lemma isSequence_iff: "isSequence v \<longleftrightarrow> (\<exists>n. v = Some (JNum (of_int n)) \<and> validSequence n)"
proof (cases v rule: isSequence.cases)
  case (1 q)
  have "(\<exists>n. q = of_int n \<and> validSequence n) \<longleftrightarrow> of_int \<lfloor>q\<rfloor> = q \<and> \<lfloor>q\<rfloor> < 2 ^ 53 \<and> 0 \<le> q"
    by (metis floor_of_int of_int_0_le_iff)
  with 1 show ?thesis by auto
qed auto

lemma mouseButton_Some: "mouseButton v = Some b \<longleftrightarrow> v = Some (buttonText b)"
  by (cases b) (auto simp: mouseButton_def buttonText_def)

lemma pressOf_Some: "pressOf v = Some a \<longleftrightarrow> v = Some (pressText a)"
  by (cases a) (auto simp: pressOf_def pressText_def)

lemma keyModifier_Some: "keyModifier v = Some m \<longleftrightarrow> v = modifierText m"
  by (cases m) (auto simp: keyModifier_def modifierText_def)

lemma keyModifier_Text [simp]: "keyModifier (modifierText m) = Some m"
  by (simp add: keyModifier_Some)

lemma modifierText_inject [simp]: "modifierText m = modifierText n \<longleftrightarrow> m = n"
  by (metis keyModifier_Text option.inject)

lemma map_modifierText [simp]: "map modifierText ms = map modifierText ns \<longleftrightarrow> ms = ns"
  by (rule inj_map_eq_map) (simp add: inj_def)

lemma modifierLoop_Some:
  "modifierLoop vs seen = Some ms \<longleftrightarrow> vs = map modifierText ms \<and> distinct ms \<and> set ms \<inter> set seen = {}"
proof (induction vs arbitrary: seen ms)
  case (Cons v vs)
  then show ?case by (cases ms) (auto simp: keyModifier_Some split: option.splits)
qed auto

lemma distinct_modifiers: "distinct (ms :: key_modifier list) \<Longrightarrow> length ms \<le> 4"
proof -
  assume "distinct ms"
  moreover have "set ms \<subseteq> {ShiftKey, CtrlKey, AltKey, MetaKey}" using key_modifier.exhaust by auto
  then have "card (set ms) \<le> card {ShiftKey, CtrlKey, AltKey, MetaKey}" by (rule card_mono [rotated]) simp
  ultimately show ?thesis by (simp add: distinct_card)
qed

lemma modifiers_Some: "modifiers v = Some ms \<longleftrightarrow> v = Some (JArr (map modifierText ms)) \<and> distinct ms"
  using distinct_modifiers [of ms] by (cases v rule: modifiers.cases) (auto simp: modifierLoop_Some)

lemmas check_iffs = isBoundedString_iff isClipboardText_iff isCoordinate_iff isScrollDelta_iff
  isSequence_iff mouseButton_Some pressOf_Some modifiers_Some

section \<open>Round trip\<close>

lemma decode_eventJson:
  "decodeInputEvent (Some (eventJson e)) = (if validEvent e then Some e else None)"
proof (cases e)
  case (Press a x y b)
  have "mouseButton (Some (buttonText b)) = Some b" by (simp add: mouseButton_Some)
  with Press show ?thesis
    by (cases a) (auto simp: decodeInputEvent_def decodeButtonEvent_def pressText_def hasOnlyKeys_def)
next
  case (Key a code key ms)
  have "pressOf (Some (pressText a)) = Some a" by (simp add: pressOf_Some)
  moreover have "modifiers (Some (JArr (map modifierText ms))) = (if distinct ms then Some ms else None)"
    using modifiers_Some [of "Some (JArr (map modifierText ms))"]
    by (cases "modifiers (Some (JArr (map modifierText ms)))") auto
  ultimately show ?thesis
    using Key by (auto simp: decodeInputEvent_def decodeKeyEvent_def hasOnlyKeys_def boundedId_def
        MAX_CODE_LENGTH_def MAX_KEY_LENGTH_def split: option.splits)
qed (auto simp: decodeInputEvent_def hasOnlyKeys_def MAX_SCROLL_DELTA_def)

lemma decode_messageFields:
  "decodeFields (messageFields m) = (if validMessage m then Some m else None)"
  by (cases m) (auto simp: decodeFields_def decodeRequest_def header_def hasOnlyKeys_def boundedId_def
      MAX_ID_LENGTH_def MAX_CLIPBOARD_TEXT_BYTES_def decode_eventJson Let_def)

section \<open>Only valid messages\<close>

lemma decodeKeyEvent_valid: "decodeKeyEvent fs = Some e \<Longrightarrow> validEvent e"
  by (auto simp: decodeKeyEvent_def Let_def check_iffs MAX_CODE_LENGTH_def MAX_KEY_LENGTH_def
      split: option.splits if_splits elim!: jstring.elims)

lemma decodeButtonEvent_valid: "decodeButtonEvent a fs = Some e \<Longrightarrow> validEvent e"
  by (auto simp: decodeButtonEvent_def Let_def check_iffs split: option.splits if_splits)

lemma decodeInputEvent_valid: "decodeInputEvent v = Some e \<Longrightarrow> validEvent e"
  by (auto simp: decodeInputEvent_def Let_def check_iffs decodeKeyEvent_valid decodeButtonEvent_valid
      split: option.splits json.splits if_splits)

lemma decodeRequest_Some:
  "decodeRequest msg fs = Some m \<longleftrightarrow>
    (\<exists>i. m = msg i \<and> boundedId 160 i \<and> map_of fs ''requestId'' = Some (JStr i) \<and>
      set (map fst fs) \<subseteq> {''v'', ''type'', ''requestId''})"
  by (auto simp: decodeRequest_def check_iffs MAX_ID_LENGTH_def hasOnlyKeys_def list_all_iff)

lemma decodeFields_valid: "decodeFields fs = Some m \<Longrightarrow> validMessage m"
  by (auto simp: decodeFields_def Let_def check_iffs decodeRequest_Some MAX_ID_LENGTH_def decodeInputEvent_valid
      split: if_splits)

lemma decodeFields_keys: "decodeFields fs = Some m \<Longrightarrow> set (map fst fs) \<subseteq> set (map fst (messageFields m))"
  by (auto simp: decodeFields_def Let_def decodeRequest_Some hasOnlyKeys_def list_all_iff header_def
      split: if_splits)

section \<open>Sizes\<close>

lemma charBytes_le: "charBytes c \<le> 6"
  by (simp add: charBytes_def Let_def)

lemma strBytes_le: "strBytes s \<le> 2 + 6 * length s"
proof (induction s)
  case (Cons c s)
  with charBytes_le [of c] show ?case by (simp add: strBytes_def)
qed (simp add: strBytes_def)

lemma strBytes_id: "boundedId n s \<Longrightarrow> strBytes s \<le> 2 + 6 * n"
  using strBytes_le [of s] by (auto simp: boundedId_def intro: order_trans)

text \<open>Text that JSON does not escape takes as many bytes as in UTF-8.\<close>

definition unescaped :: "string \<Rightarrow> bool" where
  "unescaped s = list_all (\<lambda>c. 32 \<le> (of_char c :: nat) \<and> of_char c \<noteq> (34 :: nat) \<and> of_char c \<noteq> (92 :: nat)) s"

lemma strBytes_unescaped: "unescaped s \<Longrightarrow> strBytes s = 2 + utf8Length s"
  unfolding unescaped_def
  by (induction s) (auto simp: strBytes_def utf8Length_def charBytes_def Let_def)

lemma strBytes_Nil [simp]: "strBytes [] = 2"
  and strBytes_Cons [simp]: "strBytes (c # s) = charBytes c + strBytes s"
  by (simp_all add: strBytes_def)

lemma modifiers_bytes: "distinct ms \<Longrightarrow> jsonBytes N (JArr (map modifierText ms)) \<le> 40"
proof -
  have "sum_list (map (jsonBytes N) (map modifierText ms)) \<le> 7 * length ms" for ms
  proof (induction ms)
    case (Cons m ms)
    have "jsonBytes N (modifierText m) \<le> 7" by (cases m) (simp_all add: modifierText_def charBytes_def)
    with Cons show ?case by simp
  qed simp
  then have "joined (map (jsonBytes N) (map modifierText ms)) \<le> 2 + 7 * length ms + length ms"
    unfolding joined_def by (intro add_mono) auto
  moreover assume "distinct ms"
  then have "length ms \<le> 4" by (rule distinct_modifiers)
  ultimately show ?thesis by simp
qed

lemma event_bytes:
  assumes "\<And>q. N q \<le> 25" and "validEvent e"
  shows "jsonBytes N (eventJson e) \<le> 1000"
proof (cases e)
  case (Move x y)
  then show ?thesis using assms(1) [of x] assms(1) [of y] by (simp add: joined_def charBytes_def)
next
  case (Press a x y b)
  then show ?thesis using assms(1) [of x] assms(1) [of y]
    by (cases a; cases b) (simp_all add: joined_def charBytes_def pressText_def buttonText_def)
next
  case (Scroll x y dx dy)
  then show ?thesis using assms(1) [of x] assms(1) [of y] assms(1) [of dx] assms(1) [of dy]
    by (simp add: joined_def charBytes_def)
next
  case (Key a code key ms)
  have 1: "strBytes code \<le> 386" using assms(2) Key strBytes_id [of 64 code] by simp
  have 2: "strBytes k \<le> 386" if "key = Some k" for k
    using assms(2) Key that strBytes_le [of k] by simp
  have 3: "jsonBytes N (JArr (map modifierText ms)) \<le> 40" using assms(2) Key modifiers_bytes [of ms N] by simp
  have 4: "jsonBytes N (pressText a) \<le> 6" by (cases a) (simp_all add: pressText_def charBytes_def)
  show ?thesis
    using Key 1 2 3 4 by (cases key) (simp_all add: joined_def [of "_ # _"] charBytes_def del: jsonBytes.simps(6))
qed (simp add: joined_def charBytes_def)

text \<open>The messages without clipboard text, and those whose text is not escaped.\<close>

fun fits :: "control_message \<Rightarrow> bool" where
  "fits (MsgClipboardPaste _ _ t) = unescaped t"
| "fits (MsgClipboardUpdate _ _ t) = unescaped t"
| "fits _ = True"

fun idOf :: "control_message \<Rightarrow> string" where
  "idOf (MsgRequest i) = i"
| "idOf (MsgDenied i) = i"
| "idOf (MsgWithdrawn i) = i"
| "idOf (MsgStopIntent i) = i"
| "idOf (MsgInput i _ _) = i"
| "idOf (MsgClipboardCopy i _) = i"
| "idOf (MsgClipboardPaste i _ _) = i"
| "idOf (MsgClipboardUpdate i _ _) = i"

fun numberOf :: "control_message \<Rightarrow> int" where
  "numberOf (MsgInput _ n _) = n"
| "numberOf (MsgClipboardCopy _ n) = n"
| "numberOf (MsgClipboardPaste _ n _) = n"
| "numberOf (MsgClipboardUpdate _ n _) = n"
| "numberOf _ = 0"

lemma message_bytes:
  assumes "\<And>q. N q \<le> 25" and "validMessage m" and "fits m"
  shows "jsonBytes N (JObj (messageFields m)) \<le> 8192"
proof -
  have "boundedId 160 (idOf m)" using assms(2) by (cases m) auto
  then have "strBytes (idOf m) \<le> 962" using strBytes_id [of 160 "idOf m"] by simp
  moreover have "jsonBytes N (eventJson e) \<le> 1000" if "m = MsgInput i n e" for i n e
    using event_bytes [of N e] assms(1,2) that by simp
  ultimately show ?thesis
    using assms(2,3) assms(1) [of 2] assms(1) [of "of_int (numberOf m)"]
    by (cases m) (simp_all add: joined_def header_def charBytes_def strBytes_unescaped)
qed

section \<open>The published session\<close>

lemma parse_published:
  assumes "map_of fs ''remoteControl'' = Some (roomStateJson s)"
    and "ss_renewalDueAt s = Some t" and "D (isoText t) = Some t" and "boundedId 160 (isoText t)"
    and "list_all (boundedId 160) [ss_sessionId s, ss_sharerIdentity s, ss_controllerIdentity s, ss_agentIdentity s]"
    and "list_all (boundedId 256) [ss_sharerName s, ss_controllerName s]"
    and "0 < n" and "n \<le> 64000"
  shows "parseRemoteControlSession D (Some \<lparr>jt_length = n, jt_value = Some (JObj fs)\<rparr>) =
    Some \<lparr>ws_sessionId = ss_sessionId s, ws_status = ss_status s, ws_sharerIdentity = ss_sharerIdentity s,
      ws_sharerName = ss_sharerName s, ws_controllerIdentity = ss_controllerIdentity s,
      ws_controllerName = ss_controllerName s, ws_agentIdentity = ss_agentIdentity s,
      ws_agentConnected = ss_agentConnected s, ws_renewalDueAt = isoText t\<rparr>"
  using assms
  by (cases "ss_status s") (simp_all add: parseRemoteControlSession_def roomStateJson_def sessionFields_def
      statusOf_def isoJson_def boundedId_def MAX_ID_LENGTH_def MAX_NAME_LENGTH_def)


text \<open>The text of a date within ten thousand years is short.\<close>

lemma length_padLeft: "n < 10 ^ 10 \<Longrightarrow> w \<le> 10 \<Longrightarrow> length (padLeft w n) \<le> 10"
  using length_decimal [of n 10] by (simp add: padLeft_def)

lemma civil_small:
  assumes "civil z = (y, m, d)" and "0 \<le> z" and "z < 10000000"
  shows "y < 10 ^ 10" "m < 10 ^ 10" "d < 10 ^ 10"
proof -
  define era where "era = (z + 719468) div 146097"
  define doe where "doe = (z + 719468) - era * 146097"
  define yoe where "yoe = (doe - doe div 1460 + doe div 36524 - doe div 146096) div 365"
  define doy where "doy = doe - (365 * yoe + yoe div 4 - yoe div 100)"
  define mp where "mp = (5 * doy + 2) div 153"
  have "doe = (z + 719468) mod 146097" by (simp add: doe_def era_def minus_div_mult_eq_mod)
  then have doe: "0 \<le> doe" "doe < 146097" by simp_all
  have era: "era < 1000" using assms(3) unfolding era_def by linarith
  have "0 \<le> doe div 1460" "doe div 1460 \<le> 101" "0 \<le> doe div 36524" "doe div 36524 \<le> 4"
      "0 \<le> doe div 146096" "doe div 146096 \<le> 1"
    using doe by auto
  then have "-200 < doe - doe div 1460 + doe div 36524 - doe div 146096"
      "doe - doe div 1460 + doe div 36524 - doe div 146096 < 147000"
    using doe by linarith+
  then have yoe: "-1000 < yoe" "yoe < 1000" unfolding yoe_def by linarith+
  then have "-1000 < yoe div 4" "yoe div 4 < 1000" "-1000 < yoe div 100" "yoe div 100 < 1000" by linarith+
  with yoe have doy: "-1000000 < doy" "doy < 1000000" using doe unfolding doy_def by linarith+
  then have mp: "-100000 < mp" "mp < 100000" unfolding mp_def by linarith+
  have eqs: "y = yoe + era * 400 + (if m \<le> 2 then 1 else 0)" "m = (if mp < 10 then mp + 3 else mp - 9)"
      "d = doy - (153 * mp + 2) div 5 + 1"
    using assms(1) unfolding civil_def Let_def era_def [symmetric] doe_def [symmetric] yoe_def [symmetric]
      doy_def [symmetric] mp_def [symmetric] by auto
  show "y < 10 ^ 10" using era yoe eqs(1) by simp
  show "m < 10 ^ 10" using mp eqs(2) by simp
  show "d < 10 ^ 10" using doy mp eqs(3) by simp
qed

lemma nat_small: "(x :: int) < 10 ^ 10 \<Longrightarrow> nat x < 10 ^ 10"
  by simp

lemma isoText_bounded:
  assumes "0 \<le> t" and "t < 253402300800000"
  shows "boundedId 160 (isoText t)"
proof -
  obtain y m d where c: "civil (t div 86400000) = (y, m, d)" by (cases "civil (t div 86400000)") auto
  have "0 \<le> t div 86400000" "t div 86400000 < 10000000" using assms by auto
  note small = civil_small [OF c this]
  define ms where "ms = t mod 86400000"
  have ms: "0 \<le> ms" "ms < 86400000" by (simp_all add: ms_def)
  have le: "length (padLeft w (nat x)) \<le> 10" if "x < 10 ^ 10" "w \<le> 4" for x w
    using that length_padLeft [of "nat x" w] by simp
  have parts: "ms div 3600000 < 10 ^ 10" "ms div 60000 mod 60 < 10 ^ 10" "ms div 1000 mod 60 < 10 ^ 10" "ms mod 1000 < 10 ^ 10"
    using ms by auto
  have "length (isoText t) = 7 + length (padLeft 4 (nat y)) + length (padLeft 2 (nat m)) + length (padLeft 2 (nat d)) +
      length (padLeft 2 (nat (ms div 3600000))) + length (padLeft 2 (nat (ms div 60000 mod 60))) +
      length (padLeft 2 (nat (ms div 1000 mod 60))) + length (padLeft 3 (nat (ms mod 1000)))"
    unfolding isoText_def c Let_def ms_def [symmetric] by simp
  moreover from this have "isoText t \<noteq> []" by force
  ultimately show ?thesis
    using le [OF small(1), of 4] le [OF small(2), of 2] le [OF small(3), of 2] le [OF parts(1), of 2]
      le [OF parts(2), of 2] le [OF parts(3), of 2] le [OF parts(4), of 3]
    unfolding boundedId_def by simp
qed

end
