(* ===== verification/ProtocolProperties.thy ===== *)
theory ProtocolProperties
  imports ControlProtocol Demo
begin

text \<open>
  The data messages of Remote Control between browsers and Control Agents, and the session
  the API publishes to the browsers.
\<close>

text \<open>C26. Every message within the limits of the protocol can be sent and arrives unchanged: the
  encoder never exceeds the packet limit, except for clipboard text that JSON has to escape,
  and the receiver decodes the very message.\<close>

theorem message_roundtrip:
  assumes "\<forall>q. N q \<le> 25" and "validMessage m" and "fits m"
  shows "\<exists>p. encodeRemoteControlMessage N m = Inr p \<and> decodeRemoteControlMessage p = Some m"
proof -
  have "jsonBytes N (JObj (messageFields m)) \<le> 8192" using message_bytes assms by blast
  moreover have "0 < jsonBytes N (JObj (messageFields m))" by (simp add: joined_def)
  moreover have "map_of (messageFields m) ''v'' = Some (JNum 2)" by (cases m) (simp_all add: header_def)
  ultimately show ?thesis
    using assms(2) by (simp add: encodeRemoteControlMessage_def decodeRemoteControlMessage_def Let_def
        decode_messageFields protocol_limits)
qed

theorem message_roundtrip_witness:
  "\<exists>p. encodeRemoteControlMessage (\<lambda>_. 4) (MsgInput ''s1'' 7 (Key Down ''KeyA'' (Some ''a'') [ShiftKey])) = Inr p \<and>
    decodeRemoteControlMessage p = Some (MsgInput ''s1'' 7 (Key Down ''KeyA'' (Some ''a'') [ShiftKey]))"
  by (rule message_roundtrip) (simp_all add: boundedId_def)

text \<open>C27. Whatever bytes arrive, a message that the decoder lets through is within the limits: the
  packet has at most 8192 bytes, pointer positions are on the screen, scroll steps, ids, key
  names and clipboard text are bounded, no modifier is repeated, and the packet has no
  property that the message does not have.\<close>

theorem decoder_bounds:
  assumes "decodeRemoteControlMessage p = Some m"
  shows "0 < jt_length p \<and> jt_length p \<le> 8192 \<and> validMessage m \<and>
    (\<exists>fs. jt_value p = Some (JObj fs) \<and> set (map fst fs) \<subseteq> set (map fst (messageFields m)))"
  using assms unfolding decodeRemoteControlMessage_def
  by (auto simp: protocol_limits decodeFields_valid simp del: set_map dest!: decodeFields_keys
      split: if_splits option.splits json.splits)

theorem decoder_bounds_witness:
  "decodeRemoteControlMessage \<lparr>jt_length = 70, jt_value = Some (JObj [(''requestId'', JStr ''r1''), (''v'', JNum 2),
      (''type'', JStr ''remote-control:request'')])\<rparr> = Some (MsgRequest ''r1'') \<and> validMessage (MsgRequest ''r1'')"
proof -
  let ?p = "\<lparr>jt_length = 70, jt_value = Some (JObj [(''requestId'', JStr ''r1''), (''v'', JNum 2),
      (''type'', JStr ''remote-control:request'')])\<rparr>"
  have "decodeRemoteControlMessage ?p = Some (MsgRequest ''r1'')"
    by (simp add: decodeRemoteControlMessage_def decodeFields_def decodeRequest_def hasOnlyKeys_def protocol_limits)
  with decoder_bounds [OF this] show ?thesis by simp
qed

text \<open>The browser reads the session that the API publishes: the metadata which the API hands to
  LiveKit for the room is read back by the browser with the same people, status and
  deadline, as long as ids have at most 160 and names at most 256 characters and the whole
  metadata at most 64000.\<close>

theorem published_session_read:
  assumes "lk_listRooms E (Some [room]) w = (Inr infos, w1)"
    and "(case infos of [] \<Rightarrow> JObj [] | info # _ \<Rightarrow> parseMetadata (ro_metadata info)) = JObj fs"
    and "ss_renewalDueAt s = Some t" and "0 \<le> t" and "t < 253402300800000" and "D (isoText t) = Some t"
    and "list_all (boundedId 160) [ss_sessionId s, ss_sharerIdentity s, ss_controllerIdentity s, ss_agentIdentity s]"
    and "list_all (boundedId 256) [ss_sharerName s, ss_controllerName s]"
    and "0 < n" and "n \<le> 64000"
  shows "\<exists>meta. setRemoteControlState E room (Some s) w = lk_updateRoomMetadata E room (Metadata meta) w1 \<and>
    parseRemoteControlSession D (Some \<lparr>jt_length = n, jt_value = Some meta\<rparr>) =
      Some \<lparr>ws_sessionId = ss_sessionId s, ws_status = ss_status s, ws_sharerIdentity = ss_sharerIdentity s,
        ws_sharerName = ss_sharerName s, ws_controllerIdentity = ss_controllerIdentity s,
        ws_controllerName = ss_controllerName s, ws_agentIdentity = ss_agentIdentity s,
        ws_agentConnected = ss_agentConnected s, ws_renewalDueAt = isoText t\<rparr>"
proof -
  let ?fs = "upd_field ''serverTime'' (JNum (of_int (clock w1))) (upd_field ''remoteControl'' (roomStateJson s) fs)"
  have "map_of ?fs ''remoteControl'' = Some (roomStateJson s)" by (simp add: map_of_upd_field)
  then have "parseRemoteControlSession D (Some \<lparr>jt_length = n, jt_value = Some (JObj ?fs)\<rparr>) =
      Some \<lparr>ws_sessionId = ss_sessionId s, ws_status = ss_status s, ws_sharerIdentity = ss_sharerIdentity s,
        ws_sharerName = ss_sharerName s, ws_controllerIdentity = ss_controllerIdentity s,
        ws_controllerName = ss_controllerName s, ws_agentIdentity = ss_agentIdentity s,
        ws_agentConnected = ss_agentConnected s, ws_renewalDueAt = isoText t\<rparr>"
    using assms(3) assms(6) isoText_bounded [OF assms(4,5)] assms(7-10) by (rule parse_published)
  moreover have "setRemoteControlState E room (Some s) w = lk_updateRoomMetadata E room (Metadata (JObj ?fs)) w1"
    using assms(1,2) by (simp add: setRemoteControlState_def mutateRoomMetadata_def andThen_def Let_def lift_def)
  ultimately show ?thesis by blast
qed

theorem published_session_read_witness:
  "\<exists>meta. setRemoteControlState demoEnv ''abc-defg-hij'' (Some (toSessionSummary demoGrant)) activeWorld =
      lk_updateRoomMetadata demoEnv ''abc-defg-hij'' (Metadata meta) activeWorld \<and>
    map_option ws_sharerIdentity (parseRemoteControlSession (\<lambda>_. Some 1800900)
      (Some \<lparr>jt_length = 400, jt_value = Some meta\<rparr>)) = Some ''ann''"
proof -
  have "lk_listRooms demoEnv (Some [''abc-defg-hij'']) activeWorld =
      (Inr [\<lparr>ro_name = ''abc-defg-hij'', ro_sid = ''RM1'', ro_metadata = NoMetadata\<rparr>], activeWorld)"
    by (simp add: demoEnv_def)
  from published_session_read [OF this, of "[]" "toSessionSummary demoGrant" 1800900 "\<lambda>_. Some 1800900" 400]
  show ?thesis by (force simp: toSessionSummary_def demoGrant_def boundedId_def)
qed

end
