(* ===== verification/CallLayout.thy ===== *)
theory CallLayout
  imports Json
begin

text \<open>
  The pure layout rules of the call screen: pages of participants, the promotion of a speaker,
  the self view preference (\<^verbatim>\<open>apps/web/src/components/call/participantLayout.ts\<close>) and the
  picture-in-picture window (\<^verbatim>\<open>pictureInPictureLayout.ts\<close>). Counts and indices are naturals,
  because the callers pass array lengths and page positions; the size of the window is in
  whole pixels.
\<close>

section \<open>Self view\<close>

datatype self_view_mode = ModeAuto | ModeFloat | ModeGrid
datatype self_view_corner = TopLeft | TopRight | BottomLeft | BottomRight

record self_view_preference =
  sv_mode :: self_view_mode
  sv_corner :: self_view_corner
  sv_minimized :: bool

definition DEFAULT_SELF_VIEW_PREFERENCE :: self_view_preference where
  "DEFAULT_SELF_VIEW_PREFERENCE = \<lparr>sv_mode = ModeAuto, sv_corner = BottomLeft, sv_minimized = False\<rparr>"

definition modeOf :: "json option \<Rightarrow> self_view_mode" where
  "modeOf v = (if v = Some (JStr ''float'') then ModeFloat else if v = Some (JStr ''grid'') then ModeGrid else ModeAuto)"

definition cornerOf :: "json option \<Rightarrow> self_view_corner" where
  "cornerOf v =
     (if v = Some (JStr ''tl'') then TopLeft else if v = Some (JStr ''tr'') then TopRight
      else if v = Some (JStr ''br'') then BottomRight else BottomLeft)"

text \<open>
  The stored text is \<open>None\<close> when there is none or it is empty, and \<open>Some r\<close> with what
  \<^verbatim>\<open>JSON.parse\<close> gives; reading a property of \<^verbatim>\<open>null\<close> throws, which the catch handles too.
\<close>

definition parseSelfViewPreference :: "json option option \<Rightarrow> self_view_preference" where
  "parseSelfViewPreference stored =
     (case stored of
        Some (Some parsed) \<Rightarrow>
          (case (jget ''version'' parsed, jget ''mode'' parsed, jget ''corner'' parsed, jget ''minimized'' parsed) of
             (Inr version, Inr mode, Inr corner, Inr minimized) \<Rightarrow>
               if version \<noteq> None \<and> version \<noteq> Some JNull \<and> version \<noteq> Some (JNum 1)
               then DEFAULT_SELF_VIEW_PREFERENCE
               else \<lparr>sv_mode = modeOf mode, sv_corner = cornerOf corner, sv_minimized = (minimized = Some (JBool True))\<rparr>
           | _ \<Rightarrow> DEFAULT_SELF_VIEW_PREFERENCE)
      | _ \<Rightarrow> DEFAULT_SELF_VIEW_PREFERENCE)"

fun selfViewShouldGrid :: "self_view_mode \<Rightarrow> nat \<Rightarrow> bool" where
  "selfViewShouldGrid ModeGrid remoteCount = True"
| "selfViewShouldGrid ModeFloat remoteCount = False"
| "selfViewShouldGrid ModeAuto remoteCount = (remoteCount > 1)"

section \<open>Pages\<close>

definition pageCapacity :: "bool \<Rightarrow> nat" where
  "pageCapacity portrait = (if portrait then 4 else 8)"

definition centerLastRow :: "'a list \<Rightarrow> nat \<Rightarrow> ('a \<times> nat) list" where
  "centerLastRow items columns =
     (let n = length items; remainder = n mod columns; offset = (columns - remainder) div 2 in
      if columns \<le> 1 \<or> remainder = 0 then zip items [0..<n]
      else map (\<lambda>(item, index). (item, index + (if index \<ge> n - remainder then offset else 0))) (zip items [0..<n]))"

record 'a participant_page =
  pg_items :: "'a list"
  pg_pageIndex :: nat
  pg_pageCount :: nat

text \<open>\<^verbatim>\<open>Math.ceil(n / capacity)\<close> and \<^verbatim>\<open>slice(start, end)\<close>.\<close>

definition ceilDiv :: "nat \<Rightarrow> nat \<Rightarrow> nat" where
  "ceilDiv n k = (n + k - 1) div k"

definition slice :: "nat \<Rightarrow> nat \<Rightarrow> 'a list \<Rightarrow> 'a list" where
  "slice start stop xs = take (stop - start) (drop start xs)"

definition buildParticipantPages :: "'a list \<Rightarrow> bool \<Rightarrow> 'a participant_page list" where
  "buildParticipantPages items portrait =
     (let capacity = pageCapacity portrait; pageCount = max 1 (ceilDiv (length items) capacity) in
      map (\<lambda>pageIndex. \<lparr>pg_items = slice (pageIndex * capacity) ((pageIndex + 1) * capacity) items,
             pg_pageIndex = pageIndex, pg_pageCount = pageCount\<rparr>) [0..<pageCount])"

definition reconcilePageIndex :: "int \<Rightarrow> int \<Rightarrow> int" where
  "reconcilePageIndex pageIndex pageCount = max 0 (min pageIndex (max 0 (pageCount - 1)))"

section \<open>Speakers\<close>

record speaker =
  sk_identity :: string
  sk_speaking :: bool
  sk_lastSpokeAt :: "int option"
  sk_speechStartedAt :: "int option"

definition lastSpoke :: "speaker \<Rightarrow> int" where
  "lastSpoke s = (case sk_lastSpokeAt s of None \<Rightarrow> 0 | Some t \<Rightarrow> t)"

text \<open>The sort is stable, and the first of the sorted candidates is evicted.\<close>

definition promoteSpeakingParticipant ::
    "speaker list \<Rightarrow> speaker \<Rightarrow> string set \<Rightarrow> speaker list \<times> speaker option" where
  "promoteSpeakingParticipant visible incoming protected =
     (if \<exists>item \<in> set visible. sk_identity item = sk_identity incoming then (visible, None)
      else
        case sort_key lastSpoke
               (filter (\<lambda>item. sk_identity item \<notin> protected \<and> \<not> sk_speaking item) visible) of
          [] \<Rightarrow> (visible, None)
        | evicted # _ \<Rightarrow>
            (map (\<lambda>item. if sk_identity item = sk_identity evicted then incoming else item) visible, Some evicted))"

text \<open>
  Speakers by the start of their speech, those without one last: \<^verbatim>\<open>Infinity - Infinity\<close> is \<^verbatim>\<open>NaN\<close>,
  which the sort treats as equal.
\<close>

definition speakingOrder :: "speaker list \<Rightarrow> speaker list" where
  "speakingOrder items =
     (let speaking = filter sk_speaking items in
      sort_key (\<lambda>s. the (sk_speechStartedAt s)) (filter (\<lambda>s. sk_speechStartedAt s \<noteq> None) speaking) @
      filter (\<lambda>s. sk_speechStartedAt s = None) speaking)"

section \<open>Picture in picture\<close>

datatype pip_layout = Stack | Single | Pair_Layout | Trio | Grid | Primary

text \<open>\<^verbatim>\<open>width / Math.max(height, 1) > 1.85\<close>, cross-multiplied.\<close>

definition selectPictureInPictureLayout :: "int \<Rightarrow> int \<Rightarrow> int \<Rightarrow> pip_layout" where
  "selectPictureInPictureLayout width height participantCount =
     (if participantCount \<le> 0 then Stack
      else if height < 280 \<or> 100 * width > 185 * max height 1 then Primary
      else if participantCount = 1 then Single
      else if participantCount = 2 \<and> width \<ge> 430 \<and> height \<ge> 360 then Pair_Layout
      else if participantCount = 3 \<and> width \<ge> 430 \<and> height \<ge> 360 then Trio
      else if width \<ge> 430 \<and> height \<ge> 360 then Grid
      else Stack)"

record track_ref =
  tk_identity :: string
  tk_isLocal :: bool
  tk_sid :: string

text \<open>
  The map by identity, as the list of its values in insertion order: a remote track of an
  identity already present is skipped, a local one replaces the value in place.
\<close>

fun uniqueTracks :: "track_ref list \<Rightarrow> track_ref list \<Rightarrow> track_ref list" where
  "uniqueTracks acc [] = acc"
| "uniqueTracks acc (t # ts) =
     (if \<exists>u \<in> set acc. tk_identity u = tk_identity t
      then if \<not> tk_isLocal t then uniqueTracks acc ts
           else uniqueTracks (map (\<lambda>u. if tk_identity u = tk_identity t then t else u) acc) ts
      else uniqueTracks (acc @ [t]) ts)"

definition addTrack :: "track_ref option \<Rightarrow> track_ref list \<Rightarrow> track_ref list" where
  "addTrack t ordered =
     (case t of
        None \<Rightarrow> ordered
      | Some t \<Rightarrow> if \<exists>u \<in> set ordered. tk_identity u = tk_identity t then ordered else ordered @ [t])"

definition trackOf :: "track_ref list \<Rightarrow> string option \<Rightarrow> track_ref option" where
  "trackOf remotes identity = find (\<lambda>t. Some (tk_identity t) = identity) remotes"

text \<open>The result is the tracks shown and the number of those left out.\<close>

definition orderPictureInPictureTracks ::
    "track_ref list \<Rightarrow> string option \<Rightarrow> string option \<Rightarrow> string list option \<Rightarrow> nat \<Rightarrow> track_ref list \<times> nat" where
  "orderPictureInPictureTracks tracks pinned activeIdentity speakingIdentities limit =
     (let self = find tk_isLocal tracks;
          remotes = filter (\<lambda>t. \<not> tk_isLocal t) (uniqueTracks [] tracks);
          speaking = (case speakingIdentities of
                        Some ids \<Rightarrow> ids
                      | None \<Rightarrow> if truthy activeIdentity then [the activeIdentity] else []);
          ordered = addTrack (trackOf remotes pinned) [];
          ordered = fold (\<lambda>i. addTrack (trackOf remotes (Some i))) speaking ordered;
          ordered = fold (\<lambda>t. addTrack (Some t)) remotes ordered;
          ordered = addTrack self ordered
      in (take limit ordered, length ordered - limit))"

section \<open>Lemmas\<close>

lemma concat_slices:
  "concat (map (\<lambda>i. slice (i * c) ((i + 1) * c) xs) [0..<n]) = take (n * c) xs"
proof (induction n)
  case (Suc n)
  then show ?case by (simp add: slice_def take_add [symmetric] add.commute)
qed simp

lemma ceilDiv_covers: "0 < k \<Longrightarrow> n \<le> ceilDiv n k * k"
proof -
  assume "0 < k"
  then have "n + k - 1 < ((n + k - 1) div k + 1) * k" 
    by (metis Suc_eq_plus1 dividend_less_div_times mult_Suc add.commute)
  with \<open>0 < k\<close> show ?thesis by (simp add: ceilDiv_def)
qed

lemma ceilDiv_least: "0 < k \<Longrightarrow> n \<le> m * k \<Longrightarrow> ceilDiv n k \<le> m"
proof -
  assume a: "0 < k" "n \<le> m * k"
  then have "n + k - 1 < (m + 1) * k" by simp
  then have "(n + k - 1) div k < m + 1" by (simp add: less_mult_imp_div_less)
  then show ?thesis by (simp add: ceilDiv_def)
qed

lemma pageCapacity_pos [simp]: "0 < pageCapacity p"
  by (simp add: pageCapacity_def)

lemma distinct_map_finer:
  "distinct (map f xs) \<Longrightarrow> \<forall>x \<in> set xs. \<forall>z \<in> set xs. h x = h z \<longrightarrow> f x = f z \<Longrightarrow> distinct (map h xs)"
proof (induction xs)
  case (Cons x xs)
  have "f x \<notin> f ` set xs" using Cons.prems(1) by simp
  moreover have "f x = f z" if "z \<in> set xs" "h x = h z" for z
    using Cons.prems(2) that by (meson list.set_intros)
  ultimately have "h x \<notin> h ` set xs" by blast
  moreover have "distinct (map h xs)"
  proof (rule Cons.IH)
    show "distinct (map f xs)" using Cons.prems(1) by simp
    show "\<forall>x \<in> set xs. \<forall>z \<in> set xs. h x = h z \<longrightarrow> f x = f z" using Cons.prems(2) by (meson list.set_intros(2))
  qed
  ultimately show ?case by simp
qed simp

lemma distinct_replace:
  assumes "distinct (map f xs)" and "f y \<notin> f ` set xs"
  shows "distinct (map f (map (\<lambda>x. if f x = k then y else x) xs))"
proof -
  have ne: "f y \<noteq> f x" if "x \<in> set xs" for x
    using assms(2) that by blast
  have "f x = f z" if "x \<in> set xs" "z \<in> set xs" "f (if f x = k then y else x) = f (if f z = k then y else z)" for x z
    using ne [OF that(1)] ne [OF that(2)] that(3) by (cases "f x = k"; cases "f z = k") simp_all
  then show ?thesis unfolding map_map comp_def by (intro distinct_map_finer [OF assms(1)]) blast
qed

lemma distinct_addTrack: "distinct (map tk_identity ts) \<Longrightarrow> distinct (map tk_identity (addTrack t ts))"
  by (auto simp: addTrack_def split: option.splits)

lemma distinct_fold:
  "distinct (map tk_identity ts) \<Longrightarrow> distinct (map tk_identity (fold (\<lambda>x. addTrack (f x)) xs ts))"
  by (induction xs arbitrary: ts) (simp_all add: distinct_addTrack)

lemma prefix_addTrack: "ts \<noteq> [] \<Longrightarrow> addTrack t ts \<noteq> [] \<and> hd (addTrack t ts) = hd ts"
  by (auto simp: addTrack_def split: option.splits)

lemma prefix_fold:
  "ts \<noteq> [] \<Longrightarrow> fold (\<lambda>x. addTrack (f x)) xs ts \<noteq> [] \<and> hd (fold (\<lambda>x. addTrack (f x)) xs ts) = hd ts"
proof (induction xs arbitrary: ts)
  case (Cons x xs)
  then show ?case using prefix_addTrack [OF Cons.prems, of "f x"] by simp
qed simp

lemma ids_addTrack:
  "tk_identity ` set (addTrack t ts) = tk_identity ` set ts \<union> tk_identity ` set_option t"
  by (auto simp: addTrack_def split: option.splits) (metis imageI)

lemma ids_fold_tracks:
  "tk_identity ` set (fold (\<lambda>t. addTrack (Some t)) us ts) = tk_identity ` set ts \<union> tk_identity ` set us"
  by (induction us arbitrary: ts) (auto simp: ids_addTrack)

lemma trackOf_mem: "set_option (trackOf rs i) \<subseteq> set rs"
  by (auto simp: trackOf_def dest: find_Some_mem)

lemma ids_fold_ids:
  "tk_identity ` set (fold (\<lambda>i. addTrack (trackOf rs (Some i))) ids ts) \<subseteq> tk_identity ` set ts \<union> tk_identity ` set rs"
proof (induction ids arbitrary: ts)
  case (Cons i ids)
  have "tk_identity ` set (addTrack (trackOf rs (Some i)) ts) \<subseteq> tk_identity ` set ts \<union> tk_identity ` set rs"
    unfolding ids_addTrack using trackOf_mem [of rs "Some i"] by blast
  with Cons [of "addTrack (trackOf rs (Some i)) ts"] show ?case by auto
qed simp

section \<open>Properties\<close>

text \<open>The reference: cut off a page's worth of people until nobody is left.\<close>

function chunks :: "nat \<Rightarrow> 'a list \<Rightarrow> 'a list list" where
  "chunks c xs = (if c = 0 \<or> xs = [] then [] else take c xs # chunks c (drop c xs))"
  by pat_completeness auto
termination by (relation "measure (\<lambda>(_, xs). length xs)") auto

declare chunks.simps [simp del]

lemma ceilDiv_drop:
  assumes "0 < c" and "xs \<noteq> []"
  shows "ceilDiv (length xs) c = Suc (ceilDiv (length (drop c xs)) c)"
proof (cases "c \<le> length xs")
  case True
  then have "length xs + c - 1 = (length xs - c + c - 1) + c" using assms(1) by arith
  then have "(length xs + c - 1) div c = Suc ((length xs - c + c - 1) div c)" using assms(1) by (metis Suc_eq_plus1 div_add_self2 not_less_zero)
  then show ?thesis by (simp only: ceilDiv_def length_drop)
next
  case False
  have l: "0 < length xs" using assms(2) by simp
  then have "length xs + c - 1 = (length xs - 1) + c" "length xs - 1 < c" using False by arith+
  then have "(length xs + c - 1) div c = Suc 0" using assms(1) by (metis Suc_eq_plus1 div_add_self2 div_less add_0 not_less_zero)
  moreover have "(length (drop c xs) + c - 1) div c = 0" using False assms(1) by simp
  ultimately show ?thesis by (simp only: ceilDiv_def)
qed

lemma slices_chunks:
  assumes "0 < c"
  shows "map (\<lambda>i. slice (i * c) ((i + 1) * c) xs) [0..<ceilDiv (length xs) c] = chunks c xs"
proof (induction "length xs" arbitrary: xs rule: less_induct)
  case less
  show ?case
  proof (cases "xs = []")
    case True
    then show ?thesis using assms by (simp add: chunks.simps ceilDiv_def)
  next
    case False
    have "map (\<lambda>i. slice (i * c) ((i + 1) * c) xs) [0..<Suc n] =
        take c xs # map (\<lambda>i. slice (i * c) ((i + 1) * c) (drop c xs)) [0..<n]" for n
    proof -
      have "[0..<Suc n] = 0 # map Suc [0..<n]" by (simp add: upt_conv_Cons map_Suc_upt del: upt_Suc)
      then show ?thesis by (simp add: slice_def add.commute del: upt_Suc)
    qed
    moreover have "length (drop c xs) < length xs" using False assms by simp
    ultimately show ?thesis
      using less [of "drop c xs"] False assms by (subst chunks.simps) (simp add: ceilDiv_drop del: upt_Suc length_drop)
  qed
qed

text \<open>C28. Splitting the roster into pages is cutting it up. The pages are those the reference gives: four or eight
  people at a time until nobody is left, and one empty page for an empty roster; each page knows its index and
  the number of pages; and every page index the screen may hold is brought into range, and kept when it was.\<close>

theorem pages_partition:
  shows "map pg_items (buildParticipantPages items portrait) =
      (if items = [] then [[]] else chunks (pageCapacity portrait) items) \<and>
    map pg_pageIndex (buildParticipantPages items portrait) = [0..<length (buildParticipantPages items portrait)] \<and>
    (\<forall>p \<in> set (buildParticipantPages items portrait). pg_pageCount p = length (buildParticipantPages items portrait)) \<and>
    concat (map pg_items (buildParticipantPages items portrait)) = items \<and>
    (0 < n \<longrightarrow> 0 \<le> reconcilePageIndex i n \<and> reconcilePageIndex i n < n) \<and>
    (0 \<le> i \<and> i < n \<longrightarrow> reconcilePageIndex i n = i)"
proof -
  let ?c = "pageCapacity portrait" and ?n = "max 1 (ceilDiv (length items) (pageCapacity portrait))"
  have "length items \<le> ?n * ?c"
    using ceilDiv_covers [of ?c "length items"] by (metis max.cobounded2 mult_le_mono1 order_trans pageCapacity_pos)
  then have "concat (map pg_items (buildParticipantPages items portrait)) = items"
    by (simp add: buildParticipantPages_def Let_def comp_def concat_slices del: One_nat_def)
  moreover have "map pg_items (buildParticipantPages items portrait) = (if items = [] then [[]] else chunks ?c items)"
  proof (cases "items = []")
    case True
    then show ?thesis using pageCapacity_pos [of portrait] by (simp add: buildParticipantPages_def Let_def slice_def ceilDiv_def)
  next
    case False
    then have "?n = ceilDiv (length items) ?c" using ceilDiv_drop [OF pageCapacity_pos False] by simp
    then show ?thesis using False slices_chunks [OF pageCapacity_pos, of portrait items]
      by (simp add: buildParticipantPages_def Let_def comp_def del: One_nat_def)
  qed
  ultimately show ?thesis by (auto simp: buildParticipantPages_def Let_def comp_def reconcilePageIndex_def)
qed

theorem pages_partition_witness:
  "reconcilePageIndex 7 3 = 2 \<and> 0 \<le> reconcilePageIndex 7 3 \<and> reconcilePageIndex 7 3 < 3 \<and>
    concat (map pg_items (buildParticipantPages [1 :: nat, 2, 3, 4, 5] True)) = [1, 2, 3, 4, 5]"
  using pages_partition [of "[1 :: nat, 2, 3, 4, 5]" True 3 7] by (auto simp: reconcilePageIndex_def)

text \<open>Promoting a speaker keeps the page: nobody is shown twice, the number of people shown
  does not change, people who speak or are protected stay, and only the one among the
  others who has been silent longest makes room.\<close>

theorem promotion_fair:
  assumes "distinct (map sk_identity visible)"
    and "promoteSpeakingParticipant visible incoming keep = (visible', evicted)"
  shows "length visible' = length visible \<and> distinct (map sk_identity visible') \<and>
    (\<forall>s \<in> set visible. sk_speaking s \<or> sk_identity s \<in> keep \<longrightarrow> s \<in> set visible') \<and>
    (\<forall>e. evicted = Some e \<longrightarrow> e \<in> set visible \<and> incoming \<in> set visible' \<and> e \<notin> set visible' \<and>
      (\<forall>s \<in> set visible. \<not> sk_speaking s \<and> sk_identity s \<notin> keep \<longrightarrow> lastSpoke e \<le> lastSpoke s))"
proof (cases "\<exists>item \<in> set visible. sk_identity item = sk_identity incoming")
  case True
  then show ?thesis using assms by (auto simp: promoteSpeakingParticipant_def)
next
  case new: False
  define cands where "cands = filter (\<lambda>item. sk_identity item \<notin> keep \<and> \<not> sk_speaking item) visible"
  show ?thesis
  proof (cases "sort_key lastSpoke cands")
    case Nil
    then show ?thesis using assms new by (simp add: promoteSpeakingParticipant_def cands_def)
  next
    case (Cons e es)
    then have res: "visible' = map (\<lambda>item. if sk_identity item = sk_identity e then incoming else item) visible"
        "evicted = Some e"
      using assms(2) new by (simp_all add: promoteSpeakingParticipant_def cands_def)
    have "set (sort_key lastSpoke cands) = set cands" by simp
    then have mem: "e \<in> set cands" and cands: "set cands = insert e (set es)" using Cons by auto
    have "sorted (map lastSpoke (sort_key lastSpoke cands))" by simp
    then have least: "\<forall>s \<in> set cands. lastSpoke e \<le> lastSpoke s" using Cons cands by auto
    have e: "e \<in> set visible" "sk_identity e \<notin> keep" "\<not> sk_speaking e" using mem by (auto simp: cands_def)
    have only: "s = e" if "s \<in> set visible" "sk_identity s = sk_identity e" for s
      using assms(1) e(1) that by (auto simp: distinct_map inj_on_def)
    have "distinct (map sk_identity visible')"
      unfolding res(1) using assms(1) new by (intro distinct_replace) auto
    moreover have "s \<in> set visible'" if "s \<in> set visible" "sk_speaking s \<or> sk_identity s \<in> keep" for s
      unfolding res(1) using that e(2,3) only by (auto simp: image_iff)
    moreover have "incoming \<in> set visible'" unfolding res(1) using e(1) by force
    moreover have "e \<notin> set visible'" unfolding res(1) using new e(1) by auto
    ultimately show ?thesis using res e(1) least by (auto simp: cands_def)
  qed
qed

theorem promotion_fair_witness:
  "\<exists>visible' evicted. promoteSpeakingParticipant
      [\<lparr>sk_identity = ''a'', sk_speaking = True, sk_lastSpokeAt = None, sk_speechStartedAt = None\<rparr>,
       \<lparr>sk_identity = ''b'', sk_speaking = False, sk_lastSpokeAt = None, sk_speechStartedAt = None\<rparr>]
      \<lparr>sk_identity = ''c'', sk_speaking = True, sk_lastSpokeAt = None, sk_speechStartedAt = None\<rparr> {} =
      (visible', evicted) \<and> length visible' = 2 \<and> distinct (map sk_identity visible')"
  using promotion_fair [of "[\<lparr>sk_identity = ''a'', sk_speaking = True, sk_lastSpokeAt = None, sk_speechStartedAt = None\<rparr>,
       \<lparr>sk_identity = ''b'', sk_speaking = False, sk_lastSpokeAt = None, sk_speechStartedAt = None\<rparr>]"
      "\<lparr>sk_identity = ''c'', sk_speaking = True, sk_lastSpokeAt = None, sk_speechStartedAt = None\<rparr>" "{}"]
  by (cases "promoteSpeakingParticipant
      [\<lparr>sk_identity = ''a'', sk_speaking = True, sk_lastSpokeAt = None, sk_speechStartedAt = None\<rparr>,
       \<lparr>sk_identity = ''b'', sk_speaking = False, sk_lastSpokeAt = None, sk_speechStartedAt = None\<rparr>]
      \<lparr>sk_identity = ''c'', sk_speaking = True, sk_lastSpokeAt = None, sk_speechStartedAt = None\<rparr> {}") auto

text \<open>The picture-in-picture window shows each person once, at most as many as fit, and counts
  exactly those it leaves out; whoever is pinned comes first.\<close>

theorem pip_each_once:
  assumes "orderPictureInPictureTracks tracks pinned active speaking limit = (shown, omitted)"
  defines "remotes \<equiv> filter (\<lambda>t. \<not> tk_isLocal t) (uniqueTracks [] tracks)"
  shows "distinct (map tk_identity shown) \<and> length shown \<le> limit \<and>
    length shown + omitted =
      card (tk_identity ` set remotes \<union> tk_identity ` set_option (find tk_isLocal tracks)) \<and>
    (\<forall>t. trackOf remotes pinned = Some t \<and> 0 < limit \<longrightarrow> shown \<noteq> [] \<and> hd shown = t)"
proof -
  define ids where "ids = (case speaking of Some ids \<Rightarrow> ids | None \<Rightarrow> if truthy active then [the active] else [])"
  define a where "a = addTrack (trackOf remotes pinned) []"
  define b where "b = fold (\<lambda>i. addTrack (trackOf remotes (Some i))) ids a"
  define c where "c = fold (\<lambda>t. addTrack (Some t)) remotes b"
  define d where "d = addTrack (find tk_isLocal tracks) c"
  have res: "shown = take limit d" "omitted = length d - limit"
    using assms(1) unfolding orderPictureInPictureTracks_def Let_def remotes_def [symmetric]
      ids_def [symmetric] a_def [symmetric] b_def [symmetric] c_def [symmetric] d_def [symmetric] by auto
  have "distinct (map tk_identity d)"
    unfolding d_def c_def b_def a_def by (intro distinct_addTrack distinct_fold) simp
  moreover have "tk_identity ` set d = tk_identity ` set remotes \<union> tk_identity ` set_option (find tk_isLocal tracks)"
    using ids_fold_ids [of remotes ids a] trackOf_mem [of remotes pinned]
    unfolding d_def c_def ids_addTrack ids_fold_tracks b_def a_def by auto
  moreover have "hd d = t \<and> d \<noteq> []" if "trackOf remotes pinned = Some t" for t
    using that prefix_fold [of a _ ids] prefix_fold [of b Some remotes] prefix_addTrack [of c "find tk_isLocal tracks"]
    unfolding d_def c_def b_def by (simp add: a_def addTrack_def [of "Some t"])
  ultimately show ?thesis
    unfolding res using distinct_card [of "map tk_identity d"]
    by (auto simp: take_map [symmetric] hd_take distinct_take)
qed

theorem pip_each_once_witness:
  "\<exists>shown omitted. orderPictureInPictureTracks [\<lparr>tk_identity = ''a'', tk_isLocal = True, tk_sid = ''t1''\<rparr>,
      \<lparr>tk_identity = ''b'', tk_isLocal = False, tk_sid = ''t2''\<rparr>] (Some ''b'') None None 1 = (shown, omitted) \<and>
    length shown \<le> 1 \<and> hd shown = \<lparr>tk_identity = ''b'', tk_isLocal = False, tk_sid = ''t2''\<rparr>"
proof -
  let ?ts = "[\<lparr>tk_identity = ''a'', tk_isLocal = True, tk_sid = ''t1''\<rparr>, \<lparr>tk_identity = ''b'', tk_isLocal = False, tk_sid = ''t2''\<rparr>]"
  obtain shown omitted where r: "orderPictureInPictureTracks ?ts (Some ''b'') None None 1 = (shown, omitted)"
    by fastforce
  from pip_each_once [OF this] show ?thesis using r by (auto simp: trackOf_def)
qed

end
