(* ===== verification/Recordings.thy ===== *)
theory Recordings
  imports Cloud
begin

text \<open>
  \<^verbatim>\<open>RecordingRepository\<close> (\<^verbatim>\<open>rooms/recordings.repo.ts\<close>), the entry points of
  \<^verbatim>\<open>RecordingDeliveryService\<close> that other services call, and \<^verbatim>\<open>RecordingsService\<close>
  (\<^verbatim>\<open>rooms/recordings.service.ts\<close>): starting and stopping room recordings, their egress
  life cycle, and the consents to receive a copy.
\<close>

section \<open>Repository\<close>

definition insertRecording :: "recording_row \<Rightarrow> database \<Rightarrow> (exn + recording_row) \<times> database" where
  "insertRecording r d =
     (if \<exists>r' \<in> set (recordings d). rec_id r' = rec_id r \<or> rec_egressId r' = rec_egressId r
      then (Inl (PrismaError ''P2002''), d)
      else if \<not> (\<exists>room \<in> set (rooms d). rm_id room = rec_roomId r) then (Inl (PrismaError ''P2003''), d)
      else (Inr r, d\<lparr>recordings := recordings d @ [r]\<rparr>))"

definition recCreate ::
    "'lk env \<Rightarrow> string \<Rightarrow> string \<Rightarrow> string \<Rightarrow> string option \<Rightarrow> bool \<Rightarrow> ('lk, recording_row) op" where
  "recCreate E egressId roomId objectKey startedByIdentity driveShareAvailable =
     andThen (draw (cuid E)) (\<lambda>i.
       dbcmd (\<lambda>now. insertRecording
         \<lparr>rec_id = i, rec_egressId = egressId, rec_roomId = roomId, rec_status = RecStarting,
          rec_objectKey = objectKey, rec_startedByIdentity = startedByIdentity,
          rec_sizeBytes = None, rec_durationMs = None, rec_error = None, rec_startedAt = now,
          rec_endedAt = None, rec_localExpiresAt = None, rec_localDeleteAfter = None,
          rec_localDeletedAt = None, rec_driveShareAvailable = driveShareAvailable,
          rec_finalWarningSentAt = None\<rparr>))"

definition recFindByEgressId :: "string \<Rightarrow> ('lk, recording_row option) op" where
  "recFindByEgressId egressId = dbread (\<lambda>_ d. find (\<lambda>r. rec_egressId r = egressId) (recordings d))"

definition recFindById :: "string \<Rightarrow> ('lk, recording_row option) op" where
  "recFindById i = dbread (\<lambda>_ d. find (\<lambda>r. rec_id r = i) (recordings d))"

definition capturing :: "recording_row \<Rightarrow> bool" where
  "capturing r \<longleftrightarrow> rec_status r = RecStarting \<or> rec_status r = RecActive"

definition activeRecordings :: "string \<Rightarrow> database \<Rightarrow> recording_row list" where
  "activeRecordings roomId d = filter (\<lambda>r. rec_roomId r = roomId \<and> capturing r) (recordings d)"

definition listActiveByRoom :: "string \<Rightarrow> ('lk, recording_row list) op" where
  "listActiveByRoom roomId = dbread (\<lambda>_. activeRecordings roomId)"

text \<open>\<^verbatim>\<open>orderBy: { startedAt: 'desc' }\<close>.\<close>

definition newestFirst :: "recording_row list \<Rightarrow> recording_row list" where
  "newestFirst rs = sort_key (\<lambda>r. - rec_startedAt r) rs"

definition recFindActiveByRoom :: "string \<Rightarrow> ('lk, recording_row option) op" where
  "recFindActiveByRoom roomId =
     dbread (\<lambda>_ d. case newestFirst (activeRecordings roomId d) of [] \<Rightarrow> None | r # _ \<Rightarrow> Some r)"

text \<open>\<^verbatim>\<open>include: { delivery: true, recipients: true }\<close>.\<close>

definition withDelivery ::
    "database \<Rightarrow> recording_row \<Rightarrow> recording_row \<times> delivery_row option \<times> recipient_row list" where
  "withDelivery d r =
     (r, find (\<lambda>x. dl_recordingId x = rec_id r) (deliveries d),
      filter (\<lambda>x. rp_recordingId x = rec_id r) (recipients d))"

definition listByRoom ::
    "string \<Rightarrow> ('lk, (recording_row \<times> delivery_row option \<times> recipient_row list) list) op" where
  "listByRoom roomId =
     dbread (\<lambda>_ d. map (withDelivery d) (newestFirst (filter (\<lambda>r. rec_roomId r = roomId) (recordings d))))"

definition listByHostUser ::
    "string \<Rightarrow> ('lk, (string \<times> recording_row \<times> delivery_row option \<times> recipient_row list) list) op" where
  "listByHostUser hostUserId =
     dbread (\<lambda>_ d. List.map_filter (\<lambda>r.
       case find (\<lambda>room. rm_id room = rec_roomId r) (rooms d) of
         None \<Rightarrow> None
       | Some room \<Rightarrow> if rm_hostUserId room = hostUserId then Some (rm_slug room, withDelivery d r) else None)
       (newestFirst (recordings d)))"

definition updateByEgressId ::
    "string \<Rightarrow> (recording_row \<Rightarrow> recording_row) \<Rightarrow> ('lk, recording_row) op" where
  "updateByEgressId egressId f =
     dbcmd (\<lambda>_ d. case updateOne (\<lambda>r. rec_egressId r = egressId) f (recordings d) of
        Inl e \<Rightarrow> (Inl e, d)
      | Inr rows \<Rightarrow> (Inr (f (the (find (\<lambda>r. rec_egressId r = egressId) (recordings d)))),
                    d\<lparr>recordings := rows\<rparr>))"

text \<open>\<^verbatim>\<open>upsert\<close> with an empty update: a recipient that is there stays as it is.\<close>

definition upsertRecipient ::
    "'lk env \<Rightarrow> string \<Rightarrow> string \<Rightarrow> string \<Rightarrow> string option \<Rightarrow> int \<Rightarrow> ('lk, unit) op" where
  "upsertRecipient E recordingId userId email name consentedAt =
     andThen (draw (cuid E)) (\<lambda>i.
       dbcmd (\<lambda>_ d.
         if \<exists>r \<in> set (recipients d). rp_recordingId r = recordingId \<and> rp_userId r = userId
         then (Inr (), d)
         else (Inr (), d\<lparr>recipients := recipients d @
           [\<lparr>rp_id = i, rp_recordingId = recordingId, rp_userId = userId, rp_email = email,
             rp_name = name, rp_consentedAt = consentedAt, rp_status = RecipientPending,
             rp_permissionId = None, rp_error = None\<rparr>]\<rparr>)))"

definition getUser :: "string \<Rightarrow> ('lk, user_row option) op" where
  "getUser userId = dbread (\<lambda>_ d. find (\<lambda>u. us_id u = userId) (users d))"

section \<open>What a finished recording triggers\<close>

text \<open>The retention settings, in hours.\<close>

record retention =
  localRetentionHours :: int
  deliveredRetentionHours :: int

definition hoursMs :: "int \<Rightarrow> int" where
  "hoursMs h = h * 60 * 60 * 1000"

definition onRecordingCompleted :: "'lk env \<Rightarrow> retention \<Rightarrow> string \<Rightarrow> string \<Rightarrow> ('lk, unit) op" where
  "onRecordingCompleted E R recordingId hostUserId =
     andThen dateNow (\<lambda>now.
     let hardDeadline = now + hoursMs (localRetentionHours R) in
     seqE (dbcmd (\<lambda>_ d. (Inr (), d\<lparr>recordings :=
             updateRows (\<lambda>r. rec_id r = recordingId \<and> rec_localExpiresAt r = None)
               (\<lambda>r. r\<lparr>rec_localExpiresAt := Some hardDeadline, rec_localDeleteAfter := Some hardDeadline\<rparr>)
               (recordings d)\<rparr>)))
     (andThen (activeConnection hostUserId) (\<lambda>connection.
        if connection = None then ret ()
        else andThen (draw (cuid E)) (\<lambda>i.
          dbcmd (\<lambda>_ d.
            if \<exists>x \<in> set (deliveries d). dl_recordingId x = recordingId then (Inr (), d)
            else (Inr (), d\<lparr>deliveries := deliveries d @
              [\<lparr>dl_id = i, dl_recordingId = recordingId, dl_status = Queued, dl_attempts = 0,
                dl_nextAttemptAt = now, dl_leaseOwner = None, dl_leaseUntil = None,
                dl_encryptedUploadSession = None, dl_uploadOffsetBytes = 0, dl_driveFileId = None,
                dl_driveUrl = None, dl_deliveredAt = None, dl_lastError = None,
                dl_actionNotifiedAt = None\<rparr>]\<rparr>))))))"

section \<open>Service\<close>

record recording_summary =
  rsu_id :: string
  rsu_status :: recording_status
  rsu_filename :: string
  rsu_sizeBytes :: "int option"
  rsu_durationMs :: "int option"
  rsu_startedAt :: int
  rsu_endedAt :: "int option"
  rsu_error :: "string option"
  rsu_localExpiresAt :: "int option"
  rsu_localDeletedAt :: "int option"
  rsu_deliveryStatus :: "delivery_status option"
  rsu_driveUrl :: "string option"
  rsu_deliveredAt :: "int option"
  rsu_sharesPending :: nat
  rsu_sharesShared :: nat
  rsu_sharesFailed :: nat
  rsu_shareFailures :: "string list"
  rsu_downloadable :: bool
  rsu_downloadToken :: "string option"

text \<open>\<^verbatim>\<open>key.split('/').pop() || key\<close>.\<close>

definition baseName :: "string \<Rightarrow> string" where
  "baseName key =
     (let tail = rev (takeWhile (\<lambda>c. c \<noteq> CHR ''/'') (rev key)) in if tail = [] then key else tail)"

definition timestamp :: "int \<Rightarrow> string" where
  "timestamp now = map (\<lambda>c. if c = CHR '':'' \<or> c = CHR ''.'' then CHR ''-'' else c) (isoText now)"

text \<open>\<^verbatim>\<open>deliveryStatus\<close> is \<open>None\<close> for \<^verbatim>\<open>'not_configured'\<close>.\<close>

definition toRecordingSummary ::
    "'lk env \<Rightarrow> recording_row \<Rightarrow> delivery_row option \<Rightarrow> recipient_row list \<Rightarrow> string \<Rightarrow> int \<Rightarrow> recording_summary" where
  "toRecordingSummary E r delivery rs slug now =
     (let locallyAvailable = (rec_localDeletedAt r = None \<and>
            (case rec_localDeleteAfter r of None \<Rightarrow> True | Some t \<Rightarrow> t > now));
          downloadable = (rec_status r = RecCompleted \<and> locallyAvailable);
          failed = filter (\<lambda>x. rp_status x = RecipientFailed) rs in
      \<lparr>rsu_id = rec_id r, rsu_status = rec_status r, rsu_filename = baseName (rec_objectKey r),
       rsu_sizeBytes = rec_sizeBytes r, rsu_durationMs = rec_durationMs r,
       rsu_startedAt = rec_startedAt r, rsu_endedAt = rec_endedAt r, rsu_error = rec_error r,
       rsu_localExpiresAt = rec_localExpiresAt r, rsu_localDeletedAt = rec_localDeletedAt r,
       rsu_deliveryStatus = map_option dl_status delivery,
       rsu_driveUrl = Option.bind delivery dl_driveUrl,
       rsu_deliveredAt = Option.bind delivery dl_deliveredAt,
       rsu_sharesPending = length (filter (\<lambda>x. rp_status x = RecipientPending) rs),
       rsu_sharesShared = length (filter (\<lambda>x. rp_status x = RecipientShared) rs),
       rsu_sharesFailed = length failed,
       rsu_shareFailures = map (\<lambda>x. if truthy (rp_error x) then the (rp_error x)
                                     else ''Google Drive could not grant access'') failed,
       rsu_downloadable = downloadable,
       rsu_downloadToken = (if downloadable then Some (signDownload E slug (rec_id r) now) else None)\<rparr>)"

definition recRequireRoom :: "string \<Rightarrow> ('lk, room_row) op" where
  "recRequireRoom slug =
     andThen (findBySlug slug) (\<lambda>room.
       case room of None \<Rightarrow> raise (NotFoundException (faultBody ROOM_NOT_FOUND)) | Some r \<Rightarrow> ret r)"

definition requireRecording :: "string \<Rightarrow> string \<Rightarrow> ('lk, room_row \<times> recording_row) op" where
  "requireRecording slug recordingId =
     andThen (recRequireRoom slug) (\<lambda>room.
     andThen (recFindById recordingId) (\<lambda>r.
       case r of
         None \<Rightarrow> raise (NotFoundException (faultBody RECORDING_NOT_FOUND))
       | Some r \<Rightarrow> if rec_roomId r \<noteq> rm_id room
                  then raise (NotFoundException (faultBody RECORDING_NOT_FOUND))
                  else ret (room, r)))"

definition setIndicator :: "'lk env \<Rightarrow> string \<Rightarrow> bool \<Rightarrow> ('lk, unit) op" where
  "setIndicator E slug active = settle (setRecordingActive E slug active)"

definition recSetRecordingState :: "'lk env \<Rightarrow> string \<Rightarrow> string \<Rightarrow> bool \<Rightarrow> ('lk, unit) op" where
  "recSetRecordingState E slug recordingId shareAvailable =
     settle (lkSetRecordingState E slug recordingId shareAvailable)"

text \<open>\<^verbatim>\<open>new Map(participants.map(..))\<close>: the last participant with an identity wins.\<close>

definition seedRecipientsFromCurrentCall :: "'lk env \<Rightarrow> string \<Rightarrow> string \<Rightarrow> bool \<Rightarrow> ('lk, unit) op" where
  "seedRecipientsFromCurrentCall E slug recordingId shareAvailable =
     (if \<not> shareAvailable then ret ()
      else andThen (getRoomSid E slug) (\<lambda>roomSid.
        if \<not> truthy roomSid then ret ()
        else andThen (all2 (listRecordingShareConsents slug (the roomSid)) (listConnectedParticipants E slug))
          (\<lambda>(consents, participants).
           forE (\<lambda>consent.
             case find (\<lambda>p. cp_identity p = sc_identity consent) (rev participants) of
               None \<Rightarrow> ret ()
             | Some participant \<Rightarrow>
                 andThen (getUser (sc_userId consent)) (\<lambda>user.
                   case user of
                     None \<Rightarrow> ret ()
                   | Some u \<Rightarrow>
                       if \<not> matchesAccountBinding E (sc_userId consent) (cp_accountBinding participant)
                       then ret ()
                       else upsertRecipient E recordingId (us_id u) (us_email u) (Some (us_name u))
                              (sc_consentedAt consent))) consents)))"

definition startRecording ::
    "'lk env \<Rightarrow> 'lk cloud \<Rightarrow> string \<Rightarrow> string option \<Rightarrow> ('lk, recording_summary) op" where
  "startRecording E C slug startedByIdentity =
     andThen (recRequireRoom slug) (\<lambda>room.
     andThen (listActiveByRoom (rm_id room)) (\<lambda>active.
     if length active > 0 then raise (ConflictException (faultBody RECORDING_IN_PROGRESS))
     else
       seqE (catchE (ensureBucket C) (\<lambda>_. raise (ServiceUnavailableException (faultBody UPSTREAM_UNAVAILABLE))))
       (andThen (activeConnection (rm_hostUserId room)) (\<lambda>connection.
        let shareAvailable = (connection \<noteq> None) in
        andThen dateNow (\<lambda>now.
        let objectKey = slug @ ''/'' @ timestamp now @ ''.mp4'' in
        andThen (egressStart E slug objectKey) (\<lambda>egressId.
        andThen (recCreate E egressId (rm_id room) objectKey startedByIdentity shareAvailable) (\<lambda>r.
        seqE (recSetRecordingState E slug (rec_id r) shareAvailable)
        (seqE (seedRecipientsFromCurrentCall E slug (rec_id r) shareAvailable)
        (andThen dateNow (\<lambda>now. ret (toRecordingSummary E r None [] slug now)))))))))))"

definition recStart :: "'lk env \<Rightarrow> 'lk cloud \<Rightarrow> string \<Rightarrow> ('lk, recording_summary) op" where
  "recStart E C slug = startRecording E C slug None"

definition startForParticipant :: "'lk env \<Rightarrow> 'lk cloud \<Rightarrow> string \<Rightarrow> string \<Rightarrow> ('lk, recording_summary) op" where
  "startForParticipant E C slug identity = startRecording E C slug (Some identity)"

definition recStop :: "'lk env \<Rightarrow> string \<Rightarrow> string \<Rightarrow> ('lk, recording_summary) op" where
  "recStop E slug recordingId =
     andThen (requireRecording slug recordingId) (\<lambda>(room, r).
     seqE (settle (egressStop E (rec_egressId r)))
     (andThen (recFindByEgressId (rec_egressId r)) (\<lambda>fresh.
      andThen dateNow (\<lambda>now.
        ret (toRecordingSummary E (case fresh of None \<Rightarrow> r | Some f \<Rightarrow> f) None [] slug now)))))"

definition stopAsParticipant :: "'lk env \<Rightarrow> string \<Rightarrow> call_participant \<Rightarrow> ('lk, recording_summary) op" where
  "stopAsParticipant E slug participant =
     andThen (recRequireRoom slug) (\<lambda>room.
     andThen (listActiveByRoom (rm_id room)) (\<lambda>active.
       case find (\<lambda>r. rec_startedByIdentity r = Some (ca_identity participant)) active of
         None \<Rightarrow> raise (ForbiddenException (faultBody NOT_RECORDING_OWNER))
       | Some mine \<Rightarrow> recStop E slug (rec_id mine)))"

definition recList :: "'lk env \<Rightarrow> string \<Rightarrow> ('lk, recording_summary list) op" where
  "recList E slug =
     andThen (recRequireRoom slug) (\<lambda>room.
     andThen (listByRoom (rm_id room)) (\<lambda>rows.
     andThen dateNow (\<lambda>now.
       ret (map (\<lambda>(r, dl, rs). toRecordingSummary E r dl rs slug now) rows))))"

definition recListMine :: "'lk env \<Rightarrow> string \<Rightarrow> ('lk, (string \<times> recording_summary) list) op" where
  "recListMine E hostUserId =
     andThen (listByHostUser hostUserId) (\<lambda>rows.
     andThen dateNow (\<lambda>now.
       ret (map (\<lambda>(slug, r, dl, rs). (slug, toRecordingSummary E r dl rs slug now)) rows)))"

definition recDownload :: "'lk cloud \<Rightarrow> string \<Rightarrow> string \<Rightarrow> ('lk, string \<times> int option \<times> string) op" where
  "recDownload C slug recordingId =
     andThen (requireRecording slug recordingId) (\<lambda>(room, r).
     andThen dateNow (\<lambda>now.
       if rec_status r \<noteq> RecCompleted then raise (ConflictException (faultBody RECORDING_NOT_READY))
       else if rec_localDeletedAt r \<noteq> None \<or>
               (case rec_localDeleteAfter r of None \<Rightarrow> False | Some t \<Rightarrow> t \<le> now)
       then raise (GoneException (faultBody RECORDING_EXPIRED))
       else andThen (s3_getObject C (rec_objectKey r)) (\<lambda>(body, size).
              ret (body, size, baseName (rec_objectKey r)))))"

fun mapStatus :: "egress_status \<Rightarrow> recording_status" where
  "mapStatus EGRESS_STARTING = RecStarting"
| "mapStatus EGRESS_ACTIVE = RecActive"
| "mapStatus EGRESS_ENDING = RecActive"
| "mapStatus EGRESS_COMPLETE = RecCompleted"
| "mapStatus EGRESS_ABORTED = RecAborted"
| "mapStatus _ = RecFailed"

definition hasEnded :: "recording_status \<Rightarrow> bool" where
  "hasEnded st \<longleftrightarrow> st = RecCompleted \<or> st = RecFailed \<or> st = RecAborted"

text \<open>\<^verbatim>\<open>Math.round(n / 1000000)\<close>, halves up.\<close>

definition roundMillions :: "int \<Rightarrow> int" where
  "roundMillions n = (n + 500000) div 1000000"

definition egressUpdate :: "egress_info \<Rightarrow> int \<Rightarrow> recording_row \<Rightarrow> recording_row" where
  "egressUpdate info now r =
     (let st = mapStatus (ei_status info);
          file = (case ei_fileResults info of [] \<Rightarrow> None | f # _ \<Rightarrow> Some f);
          r = r\<lparr>rec_status := st\<rparr>;
          r = (case Option.bind file ef_size of None \<Rightarrow> r | Some n \<Rightarrow> r\<lparr>rec_sizeBytes := Some n\<rparr>);
          r = (case Option.bind file ef_duration of None \<Rightarrow> r
               | Some n \<Rightarrow> r\<lparr>rec_durationMs := Some (roundMillions n)\<rparr>);
          r = (if ei_error info \<noteq> [] then r\<lparr>rec_error := Some (ei_error info)\<rparr> else r)
      in if hasEnded st then r\<lparr>rec_endedAt := Some now\<rparr> else r)"

definition handleEgressEvent :: "'lk env \<Rightarrow> retention \<Rightarrow> egress_info \<Rightarrow> ('lk, unit) op" where
  "handleEgressEvent E R info =
     andThen (recFindByEgressId (ei_egressId info)) (\<lambda>r.
       case r of
         None \<Rightarrow> ret ()
       | Some r \<Rightarrow>
           andThen dateNow (\<lambda>now.
           andThen (updateByEgressId (ei_egressId info) (egressUpdate info now)) (\<lambda>updated.
           let st = mapStatus (ei_status info) in
           seqE (if st = RecCompleted
                 then andThen (findRoomById (rec_roomId r)) (\<lambda>room.
                        case room of
                          None \<Rightarrow> ret ()
                        | Some room \<Rightarrow> onRecordingCompleted E R (rec_id updated) (rm_hostUserId room))
                 else ret ())
             (if ei_roomName info = [] then ret ()
              else if hasEnded st
              then andThen (listActiveByRoom (rec_roomId r)) (\<lambda>stillActive.
                     whenE (length stillActive = 0) (setIndicator E (ei_roomName info) False))
              else setIndicator E (ei_roomName info) True))))"

definition giveRecordingShareConsent ::
    "'lk env \<Rightarrow> string \<Rightarrow> auth_user \<Rightarrow> call_participant \<Rightarrow> ('lk, bool) op" where
  "giveRecordingShareConsent E slug user participant =
     andThen (recRequireRoom slug) (\<lambda>room.
     if ca_role participant = Some ''host'' \<or>
        \<not> matchesAccountBinding E (au_id user) (ca_accountBinding participant)
     then raise (ForbiddenException (faultBody RECORDING_SHARE_NOT_ALLOWED))
     else
       andThen (getRoomSid E slug) (\<lambda>roomSid.
       andThen (getConnectedParticipant E slug (ca_identity participant)) (\<lambda>connected.
       andThen (recFindActiveByRoom (rm_id room)) (\<lambda>active.
       case (connected, active) of
         (Some cp, Some a) \<Rightarrow>
           if \<not> truthy roomSid \<or> \<not> rec_driveShareAvailable a \<or>
              \<not> matchesAccountBinding E (au_id user) (cp_accountBinding cp)
           then raise (ConflictException (faultBody RECORDING_SHARE_UNAVAILABLE))
           else
             andThen (addRecordingShareConsent slug (the roomSid) (au_id user)
                        (ca_identity participant) (the (ca_accountBinding participant))) (\<lambda>consent.
             seqE (upsertRecipient E (rec_id a) (au_id user) (au_email user) (Some (au_name user))
                     (sc_consentedAt consent)) (ret True))
       | _ \<Rightarrow> raise (ConflictException (faultBody RECORDING_SHARE_UNAVAILABLE))))))"

definition rec_onParticipantJoined :: "'lk env \<Rightarrow> string \<Rightarrow> string \<Rightarrow> string \<Rightarrow> ('lk, unit) op" where
  "rec_onParticipantJoined E slug roomSid identity =
     andThen (getRecordingShareConsentByIdentity slug roomSid identity) (\<lambda>consent.
       case consent of
         None \<Rightarrow> ret ()
       | Some consent \<Rightarrow>
           andThen (findBySlug slug) (\<lambda>room.
             case room of
               None \<Rightarrow> ret ()
             | Some room \<Rightarrow>
                 andThen (recFindActiveByRoom (rm_id room)) (\<lambda>active.
                   case active of
                     None \<Rightarrow> ret ()
                   | Some a \<Rightarrow>
                       if \<not> rec_driveShareAvailable a then ret ()
                       else
                         andThen (getUser (sc_userId consent)) (\<lambda>user.
                         andThen (getConnectedParticipant E slug identity) (\<lambda>connected.
                           case (user, connected) of
                             (Some u, Some cp) \<Rightarrow>
                               if \<not> matchesAccountBinding E (sc_userId consent) (cp_accountBinding cp) then ret ()
                               else upsertRecipient E (rec_id a) (us_id u) (us_email u) (Some (us_name u))
                                      (sc_consentedAt consent)
                           | _ \<Rightarrow> ret ())))))"

section \<open>The stored values stay well-kinded\<close>

lemma keeps_wf_rec_repo [keeps_rules]:
  "keeps wf_kv (recCreate E e room key s b)" "keeps wf_kv (recFindByEgressId e)" "keeps wf_kv (recFindById i)"
  "keeps wf_kv (listActiveByRoom room)" "keeps wf_kv (recFindActiveByRoom room)" "keeps wf_kv (listByRoom room)"
  "keeps wf_kv (listByHostUser u)" "keeps wf_kv (updateByEgressId e f)"
  "keeps wf_kv (upsertRecipient E i u m n t)" "keeps wf_kv (getUser u)"
  unfolding recCreate_def recFindByEgressId_def recFindById_def listActiveByRoom_def
    recFindActiveByRoom_def listByRoom_def listByHostUser_def updateByEgressId_def
    upsertRecipient_def getUser_def
  by (auto intro!: keeps_rules)

lemma keeps_wf_rec_helpers [keeps_rules]:
  "keeps wf_kv (onRecordingCompleted E R i u)" "keeps wf_kv (recRequireRoom slug)"
  "keeps wf_kv (requireRecording slug i)"
proof -
  show "keeps wf_kv (onRecordingCompleted E R i u)"
    unfolding onRecordingCompleted_def Let_def by (auto intro!: keeps_rules)
  show r: "keeps wf_kv (recRequireRoom slug)" for slug
    unfolding recRequireRoom_def by (auto intro!: keeps_rules)
  show "keeps wf_kv (requireRecording slug i)"
    unfolding requireRecording_def by (auto intro!: keeps_rules r)
qed

lemma keeps_wf_recordings [keeps_rules]:
  assumes "env_keeps wf_kv E"
  shows "keeps wf_kv (recStop E slug i)" "keeps wf_kv (stopAsParticipant E slug p)"
    "keeps wf_kv (handleEgressEvent E R info)" "keeps wf_kv (giveRecordingShareConsent E slug u p)"
    "keeps wf_kv (rec_onParticipantJoined E slug sid i)"
    "keeps wf_kv (seedRecipientsFromCurrentCall E slug i b)"
proof -
  show s: "keeps wf_kv (recStop E slug i)" for slug i
    using assms unfolding recStop_def by (auto intro!: keeps_rules)
  show "keeps wf_kv (stopAsParticipant E slug p)"
    unfolding stopAsParticipant_def by (auto intro!: keeps_rules s)
  show "keeps wf_kv (handleEgressEvent E R info)"
    using assms unfolding handleEgressEvent_def setIndicator_def Let_def by (auto intro!: keeps_rules)
  show "keeps wf_kv (giveRecordingShareConsent E slug u p)"
    using assms unfolding giveRecordingShareConsent_def by (auto intro!: keeps_rules)
  show "keeps wf_kv (rec_onParticipantJoined E slug sid i)"
    using assms unfolding rec_onParticipantJoined_def by (auto intro!: keeps_rules)
  show "keeps wf_kv (seedRecipientsFromCurrentCall E slug i b)"
    using assms unfolding seedRecipientsFromCurrentCall_def by (auto intro!: keeps_rules)
qed

lemma keeps_wf_startRecording [keeps_rules]:
  "env_keeps wf_kv E \<Longrightarrow> cloud_keeps wf_kv C \<Longrightarrow> keeps wf_kv (startRecording E C slug s)"
  unfolding startRecording_def recSetRecordingState_def Let_def by (auto intro!: keeps_rules)

end
