(* ===== verification/Drive.thy ===== *)
theory Drive
  imports Cloud
begin

text \<open>
  The Google side of recordings: the OAuth flow of \<^verbatim>\<open>StorageConnectionsService\<close>
  (\<^verbatim>\<open>rooms/storage-connections.service.ts\<close>) and \<^verbatim>\<open>GoogleDriveService\<close>
  (\<^verbatim>\<open>rooms/google-drive.service.ts\<close>): the folder, the search for an earlier upload, the
  resumable upload and the verification. The answers of Google are JSON values; where the
  code reads a text field, a value of another type reads as \<^verbatim>\<open>undefined\<close>. The upload loop asks
  Google after every chunk where to go on and may never end, so its result is an option:
  \<open>None\<close> when it does not return.
\<close>

section \<open>Connecting a Drive\<close>

definition requireGoogleClientId :: "'lk cloud \<Rightarrow> ('lk, string) op" where
  "requireGoogleClientId C =
     (if truthy (googleClientId C) then ret (the (googleClientId C)) else raise (InternalServerErrorException TextBody))"

definition requireGoogleClientSecret :: "'lk cloud \<Rightarrow> ('lk, string) op" where
  "requireGoogleClientSecret C =
     (if truthy (googleClientSecret C) then ret (the (googleClientSecret C))
      else raise (InternalServerErrorException TextBody))"

definition requireRedirectUri :: "'lk cloud \<Rightarrow> ('lk, string) op" where
  "requireRedirectUri C =
     (if truthy (driveRedirectUri C) then ret (the (driveRedirectUri C)) else raise (InternalServerErrorException TextBody))"

definition oauthStateKey :: "string \<Rightarrow> string" where
  "oauthStateKey state = ''huddle:google-drive-oauth:'' @ state"

text \<open>The authorization URL, as its query.\<close>

definition beginGoogleDrive :: "'lk env \<Rightarrow> 'lk cloud \<Rightarrow> string \<Rightarrow> ('lk, (string \<times> string) list) op" where
  "beginGoogleDrive E C userId =
     andThen (requireGoogleClientId C) (\<lambda>clientId.
     andThen (requireRedirectUri C) (\<lambda>redirectUri.
     andThen (randomBytes E 32) (\<lambda>bs.
     let state = toBase64url bs in
     andThen (redisSet (oauthStateKey state) (VStr userId) (Some (10 * 60)) NX) (\<lambda>stored.
       if \<not> stored then raise (InternalServerErrorException TextBody)
       else ret [(''client_id'', clientId), (''redirect_uri'', redirectUri), (''response_type'', ''code''),
                 (''scope'', ''https://www.googleapis.com/auth/drive.file''), (''access_type'', ''offline''),
                 (''prompt'', ''consent''), (''state'', state)]))))"

text \<open>\<^verbatim>\<open>response.json().catch(() => ({}))\<close>, and a text field of a JSON object.\<close>

definition jsonOrEmpty :: "http_response \<Rightarrow> json" where
  "jsonOrEmpty r = (case hr_json r of None \<Rightarrow> JObj [] | Some j \<Rightarrow> j)"

definition textField :: "string \<Rightarrow> json \<Rightarrow> exn + string option" where
  "textField key j = bindR (jget key j) (\<lambda>v. Inr (jstring v))"

definition exchangeCode :: "'lk cloud \<Rightarrow> string \<Rightarrow> ('lk, json) op" where
  "exchangeCode C code =
     andThen (requireGoogleClientId C) (\<lambda>clientId.
     andThen (requireGoogleClientSecret C) (\<lambda>clientSecret.
     andThen (requireRedirectUri C) (\<lambda>redirectUri.
     andThen (google_fetch C (TokenGrant [(''code'', code), (''client_id'', clientId),
        (''client_secret'', clientSecret), (''redirect_uri'', redirectUri),
        (''grant_type'', ''authorization_code'')])) (\<lambda>response.
     let j = jsonOrEmpty response in
       if \<not> responseOk response
       then andThen (lift (textField ''error_description'' j)) (\<lambda>_. raise (BadRequestException TextBody))
       else ret j))))"

definition googleJson :: "'lk cloud \<Rightarrow> string \<Rightarrow> ('lk, json) op" where
  "googleJson C accessToken =
     andThen (google_fetch C (AboutUser accessToken)) (\<lambda>response.
       if \<not> responseOk response then raise (BadRequestException TextBody)
       else case hr_json response of None \<Rightarrow> raise (JsError ''SyntaxError'') | Some j \<Rightarrow> ret j)"

text \<open>\<^verbatim>\<open>identity.user?.emailAddress ?? null\<close>.\<close>

definition emailOf :: "json \<Rightarrow> exn + string option" where
  "emailOf j =
     bindR (jget ''user'' j) (\<lambda>u. case u of
        None \<Rightarrow> Inr None | Some JNull \<Rightarrow> Inr None | Some v \<Rightarrow> textField ''emailAddress'' v)"

definition upsertConnection ::
    "string \<Rightarrow> string \<Rightarrow> string option \<Rightarrow> string \<Rightarrow> string \<Rightarrow> int \<Rightarrow> connection_row list \<Rightarrow> connection_row list" where
  "upsertConnection i userId email created updated now rows =
     (if \<exists>c \<in> set rows. cs_userId c = userId
      then updateRows (\<lambda>c. cs_userId c = userId) (\<lambda>c. c\<lparr>cs_providerEmail := email,
             cs_encryptedRefreshToken := Some updated, cs_driveFolderId := None, cs_status := Connected,
             cs_backfillRequestedAt := None, cs_disconnectedAt := None\<rparr>) rows
      else rows @ [\<lparr>cs_id = i, cs_userId = userId, cs_providerEmail = email,
             cs_encryptedRefreshToken = Some created, cs_driveFolderId = None, cs_status = Connected,
             cs_disconnectedAt = None, cs_backfillRequestedAt = None, cs_createdAt = now\<rparr>])"

text \<open>\<^verbatim>\<open>tokens.refresh_token ?? (existing?.encryptedRefreshToken ? decrypt(..) : null)\<close>.\<close>

definition refreshTokenOf :: "'lk cloud \<Rightarrow> connection_row option \<Rightarrow> string option \<Rightarrow> ('lk, string option) op" where
  "refreshTokenOf C existing granted =
     (case granted of
        Some t \<Rightarrow> ret (Some t)
      | None \<Rightarrow>
          let sealed = Option.bind existing cs_encryptedRefreshToken in
          if truthy sealed then andThen (decryptOf C (the sealed)) (\<lambda>t. ret (Some t)) else ret None)"

text \<open>Both branches of the upsert are built before it runs, so the token is sealed twice.\<close>

definition storeConnection ::
    "'lk env \<Rightarrow> 'lk cloud \<Rightarrow> string \<Rightarrow> json \<Rightarrow> string \<Rightarrow> ('lk, unit) op" where
  "storeConnection E C userId identity refreshToken =
     andThen (lift (emailOf identity)) (\<lambda>email.
     andThen (encryptSecret E (cipher C) (encryptionKey C) refreshToken) (\<lambda>created.
     andThen (encryptSecret E (cipher C) (encryptionKey C) refreshToken) (\<lambda>updated.
     andThen (draw (cuid E)) (\<lambda>i.
       dbcmd (\<lambda>now d. (Inr (),
         d\<lparr>connections := upsertConnection i userId email created updated now (connections d)\<rparr>))))))"

definition connectDrive :: "'lk env \<Rightarrow> 'lk cloud \<Rightarrow> string \<Rightarrow> string \<Rightarrow> ('lk, unit) op" where
  "connectDrive E C userId code =
     andThen (exchangeCode C code) (\<lambda>tokens.
     andThen (lift (textField ''access_token'' tokens)) (\<lambda>accessToken.
       if \<not> truthy accessToken then raise (BadRequestException TextBody)
       else
         andThen (googleJson C (the accessToken)) (\<lambda>identity.
         andThen (getConnection userId) (\<lambda>existing.
         andThen (lift (textField ''refresh_token'' tokens)) (\<lambda>granted.
         andThen (refreshTokenOf C existing granted) (\<lambda>refreshToken.
           if \<not> truthy refreshToken then raise (BadRequestException TextBody)
           else storeConnection E C userId identity (the refreshToken)))))))"

definition completeGoogleDrive :: "'lk env \<Rightarrow> 'lk cloud \<Rightarrow> string \<Rightarrow> string \<Rightarrow> ('lk, string) op" where
  "completeGoogleDrive E C state code =
     andThen (redisGetdel (oauthStateKey state)) (\<lambda>found.
     let userId = (case found of Some (VStr s) \<Rightarrow> s | _ \<Rightarrow> []) in
     if userId = [] then raise (BadRequestException TextBody)
     else seqE (connectDrive E C userId code) (ret userId))"

definition refreshAccessToken :: "'lk cloud \<Rightarrow> connection_row \<Rightarrow> ('lk, string) op" where
  "refreshAccessToken C connection =
     (if \<not> truthy (cs_encryptedRefreshToken connection) then raise (JsError ''DriveAuthorizationError'')
      else
        andThen (requireGoogleClientId C) (\<lambda>clientId.
        andThen (requireGoogleClientSecret C) (\<lambda>clientSecret.
        andThen (decryptOf C (the (cs_encryptedRefreshToken connection))) (\<lambda>refreshToken.
        andThen (google_fetch C (TokenGrant [(''client_id'', clientId), (''client_secret'', clientSecret),
           (''refresh_token'', refreshToken), (''grant_type'', ''refresh_token'')])) (\<lambda>response.
        let j = jsonOrEmpty response in
        andThen (if responseOk response then lift (textField ''access_token'' j) else ret None) (\<lambda>accessToken.
          if truthy accessToken then ret (the accessToken)
          else
            andThen (lift (textField ''error'' j)) (\<lambda>err.
              if err = Some ''invalid_grant'' \<or> hr_status response = 400 \<or> hr_status response = 401
              then raise (JsError ''DriveAuthorizationError'')
              else raise (JsError ''Google token refresh failed''))))))))"

section \<open>Requests of the Drive API\<close>

definition DRIVE_CHUNK_BYTES :: int where
  "DRIVE_CHUNK_BYTES = 8 * 1024 * 1024"

record drive_file =
  df_id :: "string option"
  df_size :: "string option"
  df_trashed :: "json option"
  df_webViewLink :: "string option"

text \<open>Reading the fields of \<^verbatim>\<open>null\<close> throws.\<close>

fun driveFile :: "json \<Rightarrow> exn + drive_file" where
  "driveFile JNull = Inl typeError"
| "driveFile (JObj fs) =
     Inr \<lparr>df_id = jstring (map_of fs ''id''), df_size = jstring (map_of fs ''size''),
          df_trashed = map_of fs ''trashed'', df_webViewLink = jstring (map_of fs ''webViewLink'')\<rparr>"
| "driveFile _ = Inr \<lparr>df_id = None, df_size = None, df_trashed = None, df_webViewLink = None\<rparr>"

fun driveFiles :: "json \<Rightarrow> exn + drive_file list" where
  "driveFiles JNull = Inl typeError"
| "driveFiles (JObj fs) = (case map_of fs ''files'' of Some (JArr js) \<Rightarrow> mapR driveFile js | _ \<Rightarrow> Inr [])"
| "driveFiles _ = Inr []"

text \<open>\<^verbatim>\<open>value?.key\<close>, and the first element of an array.\<close>

fun chain :: "string \<Rightarrow> json option \<Rightarrow> json option" where
  "chain key (Some (JObj fs)) = map_of fs key"
| "chain key _ = None"

fun firstOf :: "json option \<Rightarrow> json option" where
  "firstOf (Some (JArr (j # _))) = Some j"
| "firstOf _ = None"

text \<open>\<^verbatim>\<open>DriveApiError\<close>, with its status and its reason, the empty text for none.\<close>

definition apiError :: "http_response \<Rightarrow> exn" where
  "apiError r =
     (if hr_json r = Some JNull then typeError
      else
        let err = chain ''error'' (hr_json r);
            reason = jstring (chain ''reason'' (firstOf (chain ''errors'' err)))
        in ServiceError (hr_status r)
             (case reason of Some s \<Rightarrow> s
              | None \<Rightarrow> (case jstring (chain ''message'' err) of Some s \<Rightarrow> s | None \<Rightarrow> [])))"

definition driveRequest :: "'lk cloud \<Rightarrow> google_request \<Rightarrow> ('lk, json) op" where
  "driveRequest C req =
     andThen (google_fetch C req) (\<lambda>response.
       if \<not> responseOk response then raise (apiError response)
       else case hr_json response of None \<Rightarrow> raise (JsError ''SyntaxError'') | Some j \<Rightarrow> ret j)"

text \<open>\<^verbatim>\<open>String(recording.sizeBytes)\<close>.\<close>

definition sizeText :: "int option \<Rightarrow> string" where
  "sizeText n =
     (case n of None \<Rightarrow> ''null'' | Some n \<Rightarrow> if n < 0 then ''-'' @ decimal (nat (- n)) else decimal (nat n))"

definition isExact :: "recording_row \<Rightarrow> drive_file \<Rightarrow> bool" where
  "isExact recording f \<longleftrightarrow>
     df_trashed f \<noteq> Some (JBool True) \<and> df_size f = Some (sizeText (rec_sizeBytes recording))"

definition makeFolder :: "'lk cloud \<Rightarrow> connection_row \<Rightarrow> string \<Rightarrow> ('lk, string \<times> bool) op" where
  "makeFolder C connection accessToken =
     andThen (driveRequest C (CreateFolder accessToken)) (\<lambda>j.
     andThen (lift (driveFile j)) (\<lambda>created.
       if \<not> truthy (df_id created) then raise (JsError ''Google Drive did not create the folder'')
       else seqE (updateFolder (cs_id connection) (the (df_id created))) (ret (the (df_id created), True))))"

text \<open>The folder the connection remembers, while it exists.\<close>

definition currentFolder :: "'lk cloud \<Rightarrow> connection_row \<Rightarrow> string \<Rightarrow> ('lk, string option) op" where
  "currentFolder C connection accessToken =
     (if truthy (cs_driveFolderId connection)
      then catchE
        (andThen (driveRequest C (GetFile (the (cs_driveFolderId connection)) ''id,trashed'' accessToken)) (\<lambda>j.
         andThen (lift (driveFile j)) (\<lambda>current.
           ret (if truthy (df_id current) \<and> \<not> jtruthy (df_trashed current) then df_id current else None))))
        (\<lambda>err. case err of
           ServiceError status _ \<Rightarrow> if status \<noteq> 404 \<and> status \<noteq> 403 then raise err else ret None
         | _ \<Rightarrow> raise err)
      else ret None)"

definition ensureFolder :: "'lk cloud \<Rightarrow> connection_row \<Rightarrow> string \<Rightarrow> ('lk, string \<times> bool) op" where
  "ensureFolder C connection accessToken =
     andThen (currentFolder C connection accessToken) (\<lambda>current.
       case current of
         Some i \<Rightarrow> ret (i, False)
       | None \<Rightarrow>
           andThen (driveRequest C (SearchFiles
             ''name = 'Huddle Recordings' and mimeType = 'application/vnd.google-apps.folder' and trashed = false''
             1 ''files(id,name,trashed)'' accessToken)) (\<lambda>j.
           andThen (lift (driveFiles j)) (\<lambda>found.
             case found of
               [] \<Rightarrow> makeFolder C connection accessToken
             | f # _ \<Rightarrow>
                 if truthy (df_id f)
                 then seqE (updateFolder (cs_id connection) (the (df_id f))) (ret (the (df_id f), True))
                 else makeFolder C connection accessToken)))"

definition escapeQuotes :: "string \<Rightarrow> string" where
  "escapeQuotes s = concat (map (\<lambda>c. if c = CHR 39 then [CHR 92, CHR 39] else [c]) s)"

definition findVerifiedExisting :: "'lk cloud \<Rightarrow> recording_row \<Rightarrow> string \<Rightarrow> ('lk, drive_file option) op" where
  "findVerifiedExisting C recording accessToken =
     andThen (driveRequest C (SearchFiles
       (''appProperties has { key='huddleRecordingId' and value='' @ [CHR 39] @ escapeQuotes (rec_id recording) @
        [CHR 39] @ '' } and trashed = false'') 100 ''files(id,size,trashed,webViewLink)'' accessToken)) (\<lambda>j.
     andThen (lift (driveFiles j)) (\<lambda>found.
       ret (find (\<lambda>f. truthy (df_id f) \<and> isExact recording f) found)))"

definition verifyFile :: "'lk cloud \<Rightarrow> recording_row \<Rightarrow> string \<Rightarrow> string \<Rightarrow> ('lk, drive_file) op" where
  "verifyFile C recording fileId accessToken =
     andThen (driveRequest C (GetFile fileId ''id,size,trashed,webViewLink'' accessToken)) (\<lambda>j.
     andThen (lift (driveFile j)) (\<lambda>f.
       if \<not> truthy (df_id f) \<or> \<not> isExact recording f
       then raise (JsError ''Google Drive delivery verification failed'') else ret f))"

definition shareReader :: "'lk cloud \<Rightarrow> string \<Rightarrow> string \<Rightarrow> string \<Rightarrow> ('lk, string option) op" where
  "shareReader C fileId email accessToken =
     andThen (driveRequest C (CreatePermission fileId email accessToken)) (\<lambda>j. lift (textField ''id'' j))"

section \<open>The resumable upload\<close>

text \<open>\<^verbatim>\<open>Number(null)\<close> is 0.\<close>

definition uploadSize :: "recording_row \<Rightarrow> int" where
  "uploadSize recording = (case rec_sizeBytes recording of None \<Rightarrow> 0 | Some n \<Rightarrow> n)"

text \<open>A match of \<^verbatim>\<open>/-(\d+)$/\<close>.\<close>

definition rangeLast :: "string \<Rightarrow> nat option" where
  "rangeLast s =
     (let ds = rev (takeWhile isDigit (rev s)); before = dropWhile isDigit (rev s) in
      if ds \<noteq> [] \<and> before \<noteq> [] \<and> hd before = CHR ''-'' then Some (digitsValue ds) else None)"

definition nextOffset :: "string option \<Rightarrow> int \<Rightarrow> int" where
  "nextOffset header stop =
     (case Option.bind header rangeLast of Some n \<Rightarrow> int n + 1 | None \<Rightarrow> stop + 1)"

datatype chunk_result = GoOn int | Finished drive_file

text \<open>One pass of the loop, for \<open>offset < bytes\<close>.\<close>

definition putNextChunk ::
    "'lk cloud \<Rightarrow> ('lk, unit) op \<Rightarrow> (string option \<Rightarrow> int \<Rightarrow> ('lk, unit) op) \<Rightarrow> recording_row \<Rightarrow> string \<Rightarrow> string \<Rightarrow>
      int \<Rightarrow> int \<Rightarrow> ('lk, chunk_result) op" where
  "putNextChunk C heartbeat onSession recording accessToken sessionUrl bytes offset =
     seqE heartbeat
     (let stop = min (offset + DRIVE_CHUNK_BYTES) bytes - 1 in
      andThen (s3_getObjectRange C (rec_objectKey recording) offset stop) (\<lambda>len.
        if len \<noteq> stop - offset + 1 then raise (JsError ''Object storage returned an incomplete recording range'')
        else
          andThen (google_fetch C (PutChunk sessionUrl accessToken offset stop bytes)) (\<lambda>response.
            if hr_status response = 308
            then let next = nextOffset (hr_range response) stop in
                 seqE (onSession (Some sessionUrl) next) (ret (GoOn next))
            else if hr_status response = 404 \<or> hr_status response = 410
            then seqE (onSession None 0) (raise (ServiceError (hr_status response) ''resumable session expired''))
            else if \<not> responseOk response then raise (apiError response)
            else
              (case hr_json response of
                 None \<Rightarrow> raise (JsError ''SyntaxError'')
               | Some j \<Rightarrow>
                   andThen (lift (driveFile j)) (\<lambda>f.
                     if \<not> truthy (df_id f) \<or> \<not> isExact recording f
                     then raise (JsError ''Google Drive did not verify the completed recording size'')
                     else seqE (onSession None bytes) (ret (Finished f)))))))"

partial_function (option) uploadLoop ::
    "(int \<Rightarrow> ('lk, chunk_result) op) \<Rightarrow> int \<Rightarrow> int \<Rightarrow> 'lk world \<Rightarrow> ((exn + drive_file) \<times> 'lk world) option" where
  "uploadLoop step bytes offset w =
     (if offset < bytes
      then (case step offset w of
              (Inl e, w1) \<Rightarrow> Some (Inl e, w1)
            | (Inr (Finished f), w1) \<Rightarrow> Some (Inr f, w1)
            | (Inr (GoOn next), w1) \<Rightarrow> uploadLoop step bytes next w1)
      else Some (Inl (JsError ''Google Drive upload ended without a file result''), w))"

text \<open>The session to go on with: the stored one, or a new one.\<close>

definition openSession ::
    "'lk cloud \<Rightarrow> (string option \<Rightarrow> int \<Rightarrow> ('lk, unit) op) \<Rightarrow> recording_row \<Rightarrow> string \<Rightarrow> string \<Rightarrow> string option \<Rightarrow>
      int \<Rightarrow> ('lk, string \<times> int) op" where
  "openSession C onSession recording folderId accessToken sessionUrl offset =
     (if truthy sessionUrl then ret (the sessionUrl, offset)
      else
        andThen (google_fetch C (OpenUpload accessToken (uploadSize recording)
          (let name = last (splitOn (CHR ''/'') (rec_objectKey recording)) in if name = [] then ''recording.mp4'' else name)
          folderId (rec_id recording))) (\<lambda>response.
          if \<not> responseOk response then raise (apiError response)
          else if \<not> truthy (hr_location response)
          then raise (JsError ''Google Drive did not return a resumable upload session'')
          else seqE (onSession (hr_location response) 0) (ret (the (hr_location response), 0))))"

definition upload ::
    "'lk cloud \<Rightarrow> ('lk, unit) op \<Rightarrow> (string option \<Rightarrow> int \<Rightarrow> ('lk, unit) op) \<Rightarrow> recording_row \<Rightarrow> string \<Rightarrow> string \<Rightarrow>
      string option \<Rightarrow> int \<Rightarrow> 'lk world \<Rightarrow> ((exn + drive_file) \<times> 'lk world) option" where
  "upload C heartbeat onSession recording folderId accessToken sessionUrl offset w =
     (let bytes = uploadSize recording in
      if bytes < 0 \<or> bytes > 9007199254740991
      then Some (Inl (JsError ''Recording size is unavailable for Drive verification''), w)
      else case openSession C onSession recording folderId accessToken sessionUrl offset w of
        (Inl e, w1) \<Rightarrow> Some (Inl e, w1)
      | (Inr (url, start), w1) \<Rightarrow>
          uploadLoop (putNextChunk C heartbeat onSession recording accessToken url bytes) bytes start w1)"

section \<open>Lemmas\<close>

lemma well_kinded_oauth [simp]: "well_kinded (oauthStateKey state) (VStr s)"
  by (auto simp: well_kinded_def pre_def oauthStateKey_def)

lemma keeps_wf_oauth [keeps_rules]:
  "keeps wf_kv (beginGoogleDrive E C u)"
  unfolding beginGoogleDrive_def requireGoogleClientId_def requireRedirectUri_def Let_def
  by (intro keeps_rules) auto

lemma upsertConnection_stored:
  "\<exists>c \<in> set (upsertConnection i u email s s' now rows). cs_userId c = u \<and> cs_status c = Connected \<and>
    (cs_encryptedRefreshToken c = Some s \<or> cs_encryptedRefreshToken c = Some s')"
proof (cases "\<exists>c \<in> set rows. cs_userId c = u")
  case True
  then obtain c where "c \<in> set rows" "cs_userId c = u" by blast
  then have "c\<lparr>cs_providerEmail := email, cs_encryptedRefreshToken := Some s', cs_driveFolderId := None,
      cs_status := Connected, cs_backfillRequestedAt := None, cs_disconnectedAt := None\<rparr> \<in>
      set (upsertConnection i u email s s' now rows)"
    using True by (auto simp: upsertConnection_def updateRows_def image_iff)
  then show ?thesis by (rule bexI [rotated]) (simp add: \<open>cs_userId c = u\<close>)
qed (simp add: upsertConnection_def)

lemma sealText_ne: "sealText G k iv v \<noteq> []"
  by (simp add: sealText_def split: prod.split)

lemma encryptSecret_ne: "encryptSecret E G k v w = (Inr s, w1) \<Longrightarrow> s \<noteq> []"
  by (auto simp: encryptSecret_def sealText_ne elim!: andThen_InrE)

lemma connectDrive_stored:
  assumes "connectDrive E C u code w = (Inr x, w1)"
  shows "\<exists>c \<in> set (connections (dbase w1)). cs_userId c = u \<and> cs_status c = Connected \<and>
    truthy (cs_encryptedRefreshToken c)"
proof -
  obtain identity rt w0 where "storeConnection E C u identity rt w0 = (Inr x, w1)"
    using assms unfolding connectDrive_def
    by (auto elim!: andThen_InrE [where m = "exchangeCode C code"] andThen_InrE [where m = "googleJson C t" for t]
        andThen_InrE [where m = "getConnection u"] andThen_InrE [where m = "lift r" for r]
        andThen_InrE [where m = "refreshTokenOf C e g" for e g] split: if_splits)
  then obtain i email s s' now rows where ne: "s \<noteq> []" "s' \<noteq> []"
      and rows: "connections (dbase w1) = upsertConnection i u email s s' now rows"
    unfolding storeConnection_def
    by (auto elim!: andThen_InrE dbcmd_InrE dest!: encryptSecret_ne)
  show ?thesis
    unfolding rows using upsertConnection_stored [of i u email s s' now rows] ne by fastforce
qed

end
