(* ===== verification/Delivery.thy ===== *)
theory Delivery
  imports Recordings Drive
begin

text \<open>
  \<^verbatim>\<open>RecordingDeliveryService\<close> (\<^verbatim>\<open>rooms/recording-delivery.service.ts\<close>): the durable delivery
  jobs of recordings, their leases and retries, sharing with the recipients, and the
  retention of the local copies. \<open>owner\<close> is the worker's own name, which a lease carries.
  One delivery from end to end (\<^verbatim>\<open>deliver\<close>, \<^verbatim>\<open>runCycle\<close>) is in \<open>DeliveryRun\<close>.
\<close>

definition RETRY_MINUTES :: "nat list" where
  "RETRY_MINUTES = [1, 5, 15, 60, 180]"

definition LEASE_MS :: int where
  "LEASE_MS = 2 * 60 * 1000"

section \<open>Errors as text\<close>

definition nonSpace :: "char \<Rightarrow> bool" where
  "nonSpace c \<longleftrightarrow> \<not> white c"

text \<open>The length of a match of \<^verbatim>\<open>https?:\/\/\S+\<close> at the start of a text.\<close>

definition urlAt :: "string \<Rightarrow> nat option" where
  "urlAt s =
     (let p = (if take 8 s = ''https://'' then 8 else if take 7 s = ''http://'' then 7 else 0);
          n = length (takeWhile nonSpace (drop p s))
      in if p = 0 \<or> n = 0 then None else Some (p + n))"

function redactUrls :: "string \<Rightarrow> string" where
  "redactUrls s =
     (case s of
        [] \<Rightarrow> []
      | c # cs \<Rightarrow>
          (case urlAt s of
             None \<Rightarrow> c # redactUrls cs
           | Some n \<Rightarrow> ''[redacted]'' @ redactUrls (drop n s)))"
  by pat_completeness auto
termination
  by (relation "measure length") (auto simp: urlAt_def Let_def split: if_splits)

declare redactUrls.simps [simp del]

text \<open>\<open>message\<close> is the text of an error, which comes from the library that threw it.\<close>

definition sanitizeError :: "(exn \<Rightarrow> string) \<Rightarrow> exn \<Rightarrow> string" where
  "sanitizeError message err = take 240 (redactUrls (message err))"

definition isDriveAuthorizationError :: "exn \<Rightarrow> bool" where
  "isDriveAuthorizationError err \<longleftrightarrow> err = JsError ''DriveAuthorizationError''"

fun requiresAction :: "exn \<Rightarrow> bool" where
  "requiresAction (ServiceError _ reason) =
     (reason = ''storageQuotaExceeded'' \<or> reason = ''dailyLimitExceeded'' \<or> reason = ''domainPolicy'')"
| "requiresAction _ = False"

section \<open>Joins\<close>

definition recordingOf :: "database \<Rightarrow> delivery_row \<Rightarrow> recording_row option" where
  "recordingOf d x = find (\<lambda>r. rec_id r = dl_recordingId x) (recordings d)"

definition hostOf :: "database \<Rightarrow> recording_row \<Rightarrow> string option" where
  "hostOf d r = map_option rm_hostUserId (find (\<lambda>room. rm_id room = rec_roomId r) (rooms d))"

definition hostEmailOf :: "database \<Rightarrow> recording_row \<Rightarrow> string option" where
  "hostEmailOf d r =
     Option.bind (hostOf d r) (\<lambda>h. map_option us_email (find (\<lambda>u. us_id u = h) (users d)))"

section \<open>Queueing\<close>

text \<open>\<^verbatim>\<open>upsert\<close> of the job of a recording in the backfill.\<close>

definition requeue :: "string \<Rightarrow> int \<Rightarrow> string \<Rightarrow> delivery_row list \<Rightarrow> delivery_row list" where
  "requeue recordingId now i rows =
     (if \<exists>x \<in> set rows. dl_recordingId x = recordingId
      then updateRows (\<lambda>x. dl_recordingId x = recordingId)
             (\<lambda>x. x\<lparr>dl_status := Queued, dl_nextAttemptAt := now, dl_lastError := None\<rparr>) rows
      else rows @ [\<lparr>dl_id = i, dl_recordingId = recordingId, dl_status = Queued, dl_attempts = 0,
                dl_nextAttemptAt = now, dl_leaseOwner = None, dl_leaseUntil = None,
                dl_encryptedUploadSession = None, dl_uploadOffsetBytes = 0, dl_driveFileId = None,
                dl_driveUrl = None, dl_deliveredAt = None, dl_lastError = None,
                dl_actionNotifiedAt = None\<rparr>])"

definition queueable :: "string \<Rightarrow> int \<Rightarrow> database \<Rightarrow> recording_row list" where
  "queueable hostUserId now d =
     filter (\<lambda>r. rec_status r = RecCompleted \<and> rec_localDeletedAt r = None \<and>
       (case rec_localDeleteAfter r of None \<Rightarrow> False | Some t \<Rightarrow> t > now) \<and>
       hostOf d r = Some hostUserId \<and>
       map_option dl_status (find (\<lambda>x. dl_recordingId x = rec_id r) (deliveries d)) \<noteq> Some Delivered)
     (recordings d)"

definition queueBackfill :: "'lk env \<Rightarrow> string \<Rightarrow> ('lk, nat) op" where
  "queueBackfill E hostUserId =
     andThen (activeConnection hostUserId) (\<lambda>connection.
       case connection of
         None \<Rightarrow> ret 0
       | Some c \<Rightarrow>
           andThen (dbcmd (\<lambda>now d.
             let P = (\<lambda>x. cs_id x = cs_id c \<and> cs_backfillRequestedAt x = None \<and> cs_status x = Connected) in
             (Inr (countRows P (connections d)),
              d\<lparr>connections := updateRows P (\<lambda>x. x\<lparr>cs_backfillRequestedAt := Some now\<rparr>) (connections d)\<rparr>)))
           (\<lambda>claimed.
             if claimed \<noteq> 1 then ret 0
             else andThen dateNow (\<lambda>now.
               andThen (dbread (\<lambda>_. queueable hostUserId now)) (\<lambda>rs.
               seqE (allE (map (\<lambda>r. andThen (draw (cuid E)) (\<lambda>i.
                       dbcmd (\<lambda>_ d. (Inr (), d\<lparr>deliveries := requeue (rec_id r) now i (deliveries d)\<rparr>)))) rs))
                 (ret (length rs))))))"

definition resumeActionRequired :: "string \<Rightarrow> ('lk, unit) op" where
  "resumeActionRequired hostUserId =
     dbcmd (\<lambda>now d. (Inr (), d\<lparr>deliveries := updateRows
       (\<lambda>x. dl_status x = ActionRequired \<and>
            (case recordingOf d x of
               None \<Rightarrow> False
             | Some r \<Rightarrow> hostOf d r = Some hostUserId \<and> rec_localDeletedAt r = None))
       (\<lambda>x. x\<lparr>dl_status := Queued, dl_nextAttemptAt := now, dl_lastError := None, dl_actionNotifiedAt := None\<rparr>)
       (deliveries d)\<rparr>))"

section \<open>Leases\<close>

definition workable :: "delivery_row \<Rightarrow> bool" where
  "workable x \<longleftrightarrow> dl_status x = Queued \<or> dl_status x = Uploading"

text \<open>\<^verbatim>\<open>OR: [{ leaseUntil: null }, { leaseUntil: { lt: now } }]\<close>.\<close>

definition leaseFree :: "int \<Rightarrow> delivery_row \<Rightarrow> bool" where
  "leaseFree now x \<longleftrightarrow> (case dl_leaseUntil x of None \<Rightarrow> True | Some t \<Rightarrow> t < now)"

definition candidates :: "int \<Rightarrow> string list \<Rightarrow> database \<Rightarrow> delivery_row list" where
  "candidates now blocked d =
     sort_key dl_nextAttemptAt (filter (\<lambda>x. workable x \<and> dl_nextAttemptAt x \<le> now \<and> leaseFree now x \<and>
       (case recordingOf d x of
          None \<Rightarrow> False
        | Some r \<Rightarrow> rec_localDeletedAt r = None \<and>
                   (case hostOf d r of None \<Rightarrow> False | Some h \<Rightarrow> h \<notin> set blocked))) (deliveries d))"

text \<open>The conditional update that takes the lease; the number of rows it changed.\<close>

definition takeLease :: "string \<Rightarrow> int \<Rightarrow> string \<Rightarrow> database \<Rightarrow> nat \<times> database" where
  "takeLease owner now i d =
     (let P = (\<lambda>x. dl_id x = i \<and> workable x \<and> leaseFree now x) in
      (countRows P (deliveries d),
       d\<lparr>deliveries := updateRows P (\<lambda>x. x\<lparr>dl_status := Uploading, dl_leaseOwner := Some owner,
           dl_leaseUntil := Some (now + LEASE_MS)\<rparr>) (deliveries d)\<rparr>))"

definition claimNextDelivery :: "string \<Rightarrow> ('lk, string option) op" where
  "claimNextDelivery owner =
     andThen dateNow (\<lambda>now.
     andThen (dbread (\<lambda>_ d. map ad_userId (deletions d))) (\<lambda>blocked.
     andThen (dbread (\<lambda>_. candidates now blocked)) (\<lambda>cands.
       case cands of
         [] \<Rightarrow> ret None
       | candidate # _ \<Rightarrow>
           andThen (dbcmd (\<lambda>_ d. (Inr (fst (takeLease owner now (dl_id candidate) d)),
                                  snd (takeLease owner now (dl_id candidate) d)))) (\<lambda>claimed.
             ret (if claimed = 1 then Some (dl_id candidate) else None)))))"

definition heartbeat :: "string \<Rightarrow> string \<Rightarrow> ('lk, unit) op" where
  "heartbeat owner i =
     andThen (dbread (\<lambda>_ d. find (\<lambda>x. dl_id x = i) (deliveries d))) (\<lambda>delivery.
     andThen (case delivery of
                None \<Rightarrow> ret False
              | Some x \<Rightarrow> dbread (\<lambda>_ d.
                  case Option.bind (recordingOf d x) (hostOf d) of
                    None \<Rightarrow> False
                  | Some h \<Rightarrow> \<exists>a \<in> set (deletions d). ad_userId a = h)) (\<lambda>pendingDeletion.
       if pendingDeletion then raise (JsError ''Account deletion has stopped recording delivery'')
       else dbcmd (\<lambda>now d. (Inr (), d\<lparr>deliveries :=
              updateRows (\<lambda>x. dl_id x = i \<and> dl_leaseOwner x = Some owner)
                (\<lambda>x. x\<lparr>dl_leaseUntil := Some (now + LEASE_MS)\<rparr>) (deliveries d)\<rparr>))))"

section \<open>Failures\<close>

definition updateDelivery :: "string \<Rightarrow> (delivery_row \<Rightarrow> delivery_row) \<Rightarrow> ('lk, unit) op" where
  "updateDelivery i f =
     dbcmd (\<lambda>_ d. case updateOne (\<lambda>x. dl_id x = i) f (deliveries d) of
        Inl e \<Rightarrow> (Inl e, d) | Inr rows \<Rightarrow> (Inr (), d\<lparr>deliveries := rows\<rparr>))"

text \<open>\<^verbatim>\<open>RecordingNoticeService.send\<close>: nothing without a mail host, and never an error.\<close>

definition sendNotice :: "'lk cloud \<Rightarrow> ('lk, unit) op \<Rightarrow> ('lk, unit) op" where
  "sendNotice C send = (if truthy (smtpHost C) then settle send else ret ())"

definition deliveryActionRequired :: "'lk cloud \<Rightarrow> string \<Rightarrow> string \<Rightarrow> string \<Rightarrow> ('lk, unit) op" where
  "deliveryActionRequired C i hostEmail reason =
     andThen (dbread (\<lambda>_ d. find (\<lambda>x. dl_id x = i) (deliveries d))) (\<lambda>current.
     seqE (updateDelivery i (\<lambda>x. x\<lparr>dl_status := ActionRequired, dl_lastError := Some reason,
             dl_leaseOwner := None, dl_leaseUntil := None\<rparr>))
       (if Option.bind current dl_actionNotifiedAt = None
        then seqE (sendNotice C (mail_actionRequired C hostEmail))
               (andThen dateNow (\<lambda>now. updateDelivery i (\<lambda>x. x\<lparr>dl_actionNotifiedAt := Some now\<rparr>)))
        else ret ()))"

text \<open>Minutes until the next attempt, when \<open>attempts\<close> have failed.\<close>

definition retryDelay :: "nat \<Rightarrow> nat" where
  "retryDelay attempts =
     (let minutes = RETRY_MINUTES ! min (attempts - 1) (length RETRY_MINUTES - 1)
      in if attempts > length RETRY_MINUTES then 360 else minutes)"

definition handleDeliveryError ::
    "'lk cloud \<Rightarrow> (exn \<Rightarrow> string) \<Rightarrow> delivery_row \<Rightarrow> string \<Rightarrow> string \<Rightarrow> exn \<Rightarrow> ('lk, unit) op" where
  "handleDeliveryError C message delivery hostEmail connectionId err =
     (if isDriveAuthorizationError err \<or> requiresAction err
      then seqE (markActionRequired connectionId)
             (deliveryActionRequired C (dl_id delivery) hostEmail (sanitizeError message err))
      else
        let attempts = dl_attempts delivery + 1; delay = retryDelay attempts in
        andThen dateNow (\<lambda>now.
          updateDelivery (dl_id delivery) (\<lambda>x. x\<lparr>dl_status := Queued, dl_attempts := attempts,
            dl_nextAttemptAt := now + int delay * 60 * 1000,
            dl_lastError := Some (sanitizeError message err),
            dl_leaseOwner := None, dl_leaseUntil := None\<rparr>)))"

section \<open>Sharing\<close>

definition updateRecipient :: "string \<Rightarrow> (recipient_row \<Rightarrow> recipient_row) \<Rightarrow> ('lk, unit) op" where
  "updateRecipient i f =
     dbcmd (\<lambda>_ d. case updateOne (\<lambda>x. rp_id x = i) f (recipients d) of
        Inl e \<Rightarrow> (Inl e, d) | Inr rows \<Rightarrow> (Inr (), d\<lparr>recipients := rows\<rparr>))"

definition shareRecipients ::
    "'lk cloud \<Rightarrow> (exn \<Rightarrow> string) \<Rightarrow> string \<Rightarrow> string \<Rightarrow> string \<Rightarrow> ('lk, unit) op" where
  "shareRecipients C message recordingId driveFileId accessToken =
     andThen (dbread (\<lambda>_ d. filter (\<lambda>x. rp_recordingId x = recordingId \<and> rp_status x = RecipientPending)
                (recipients d))) (\<lambda>rs.
       forE (\<lambda>recipient.
         catchE
           (andThen (shareReader C driveFileId (rp_email recipient) accessToken) (\<lambda>permissionId.
              updateRecipient (rp_id recipient)
                (\<lambda>x. x\<lparr>rp_status := RecipientShared, rp_permissionId := permissionId, rp_error := None\<rparr>)))
           (\<lambda>err. updateRecipient (rp_id recipient)
              (\<lambda>x. x\<lparr>rp_status := RecipientFailed, rp_error := Some (sanitizeError message err)\<rparr>))) rs)"

section \<open>Retention\<close>

definition initializeExistingGrace :: "retention \<Rightarrow> ('lk, unit) op" where
  "initializeExistingGrace R =
     andThen (gets (\<lambda>w. graceInitialized (proc w))) (\<lambda>done.
       if done then ret ()
       else seqE (dbcmd (\<lambda>now d. (Inr (), d\<lparr>recordings := updateRows
                (\<lambda>r. rec_status r = RecCompleted \<and> rec_localExpiresAt r = None \<and> rec_localDeletedAt r = None)
                (\<lambda>r. r\<lparr>rec_localExpiresAt := Some (now + hoursMs (localRetentionHours R)),
                       rec_localDeleteAfter := Some (now + hoursMs (localRetentionHours R))\<rparr>)
                (recordings d)\<rparr>)))
              (modify (\<lambda>w. w\<lparr>proc := (proc w)\<lparr>graceInitialized := True\<rparr>\<rparr>)))"

definition updateRecording :: "string \<Rightarrow> (recording_row \<Rightarrow> recording_row) \<Rightarrow> ('lk, unit) op" where
  "updateRecording i f =
     dbcmd (\<lambda>_ d. case updateOne (\<lambda>r. rec_id r = i) f (recordings d) of
        Inl e \<Rightarrow> (Inl e, d) | Inr rows \<Rightarrow> (Inr (), d\<lparr>recordings := rows\<rparr>))"

definition expiringSoon :: "int \<Rightarrow> database \<Rightarrow> (recording_row \<times> string) list" where
  "expiringSoon now d =
     List.map_filter (\<lambda>r. map_option (Pair r) (hostEmailOf d r))
       (filter (\<lambda>r. rec_status r = RecCompleted \<and> rec_localDeletedAt r = None \<and>
          rec_finalWarningSentAt r = None \<and>
          (case rec_localExpiresAt r of None \<Rightarrow> False
           | Some t \<Rightarrow> t > now \<and> t \<le> now + 24 * 60 * 60 * 1000) \<and>
          map_option dl_status (find (\<lambda>x. dl_recordingId x = rec_id r) (deliveries d)) \<noteq> Some Delivered)
        (recordings d))"

definition sendFinalExpiryReminders :: "'lk cloud \<Rightarrow> ('lk, unit) op" where
  "sendFinalExpiryReminders C =
     andThen (dbread expiringSoon) (\<lambda>rs.
       forE (\<lambda>(r, email).
         seqE (sendNotice C (mail_expiryReminder C email))
           (andThen dateNow (\<lambda>now. updateRecording (rec_id r) (\<lambda>x. x\<lparr>rec_finalWarningSentAt := Some now\<rparr>)))) rs)"

definition dueForDeletion :: "int \<Rightarrow> database \<Rightarrow> (recording_row \<times> delivery_row option) list" where
  "dueForDeletion now d =
     map (\<lambda>r. (r, find (\<lambda>x. dl_recordingId x = rec_id r) (deliveries d)))
       (take 10 (filter (\<lambda>r. rec_status r = RecCompleted \<and> rec_localDeletedAt r = None \<and>
          (case rec_localDeleteAfter r of None \<Rightarrow> False | Some t \<Rightarrow> t \<le> now)) (recordings d)))"

text \<open>The transaction that marks one copy deleted, and its job undelivered if it was not done.\<close>

definition markDeleted :: "recording_row \<Rightarrow> delivery_row option \<Rightarrow> int \<Rightarrow> database \<Rightarrow> (exn + unit) \<times> database" where
  "markDeleted r delivery now d =
     (case updateOne (\<lambda>x. rec_id x = rec_id r) (\<lambda>x. x\<lparr>rec_localDeletedAt := Some now\<rparr>) (recordings d) of
        Inl e \<Rightarrow> (Inl e, d)
      | Inr rows \<Rightarrow>
          (case delivery of
             None \<Rightarrow> (Inr (), d\<lparr>recordings := rows\<rparr>)
           | Some x \<Rightarrow>
               if dl_status x = Delivered then (Inr (), d\<lparr>recordings := rows\<rparr>)
               else (case updateOne (\<lambda>y. dl_id y = dl_id x)
                       (\<lambda>y. y\<lparr>dl_status := ExpiredUndelivered, dl_leaseOwner := None, dl_leaseUntil := None\<rparr>)
                       (deliveries d) of
                       Inl e \<Rightarrow> (Inl e, d)
                     | Inr ds \<Rightarrow> (Inr (), d\<lparr>recordings := rows, deliveries := ds\<rparr>))))"

definition deleteExpiredLocalCopies :: "'lk cloud \<Rightarrow> ('lk, unit) op" where
  "deleteExpiredLocalCopies C =
     andThen (dbread dueForDeletion) (\<lambda>due.
       forE (\<lambda>(r, delivery).
         settle (seqE (s3_deleteObject C (rec_objectKey r)) (dbcmd (markDeleted r delivery)))) due)"

definition retentionPreview :: "retention \<Rightarrow> ('lk, nat \<times> int \<times> int) op" where
  "retentionPreview R =
     dbread (\<lambda>_ d.
       let rs = filter (\<lambda>r. rec_status r = RecCompleted \<and> rec_localDeletedAt r = None) (recordings d) in
       (length rs, sum_list (map (\<lambda>r. case rec_sizeBytes r of None \<Rightarrow> 0 | Some n \<Rightarrow> n) rs),
        localRetentionHours R))"

section \<open>Lemmas\<close>

text \<open>
  A lease taken at \<open>now\<close> cannot be taken again before it runs out, by any worker, unless
  the job was put back in the meantime.
\<close>

lemma takeLease_excludes:
  assumes "distinct (map dl_id (deliveries d))" and "fst (takeLease a now i d) = 1"
    and "now \<le> t" and "t \<le> now + LEASE_MS"
  shows "fst (takeLease b t i (snd (takeLease a now i d))) = 0"
proof -
  let ?P = "\<lambda>x. dl_id x = i \<and> workable x \<and> leaseFree now x"
  let ?f = "\<lambda>x. x\<lparr>dl_status := Uploading, dl_leaseOwner := Some a, dl_leaseUntil := Some (now + LEASE_MS)\<rparr>"
  from assms(2) have "0 < countRows ?P (deliveries d)" by (simp add: takeLease_def Let_def)
  then obtain x where x: "x \<in> set (deliveries d)" "?P x" by (auto simp: countRows_pos)
  have "\<not> leaseFree t y" if y: "y \<in> set (updateRows ?P ?f (deliveries d))" "dl_id y = i" for y
  proof -
    from y(1) obtain r where r: "r \<in> set (deliveries d)" "y = (if ?P r then ?f r else r)"
      unfolding set_updateRows by blast
    with y(2) have "dl_id r = i" by (auto split: if_splits)
    with x r assms(1) have "r = x" by (auto simp: distinct_map inj_on_def)
    with x r show ?thesis using assms(4) by (simp add: leaseFree_def)
  qed
  then show ?thesis by (auto simp: takeLease_def Let_def countRows_0)
qed

lemma takeLease_count:
  assumes "distinct (map dl_id (deliveries d))"
  shows "fst (takeLease a now i d) \<le> 1"
  using countRows_le_1 [OF assms, of "\<lambda>x. dl_id x = i \<and> workable x \<and> leaseFree now x" i]
  by (simp add: takeLease_def Let_def)

lemma retryDelay_values:
  "retryDelay 1 = 1" "retryDelay 2 = 5" "retryDelay 3 = 15" "retryDelay 4 = 60" "retryDelay 5 = 180"
  "5 < n \<Longrightarrow> retryDelay n = 360"
  by (simp_all add: retryDelay_def RETRY_MINUTES_def Let_def)

lemma retryDelay_mono: "0 < m \<Longrightarrow> m \<le> n \<Longrightarrow> retryDelay m \<le> retryDelay n"
proof -
  assume mn: "0 < m" "m \<le> n"
  have cases: "k \<in> {1, 2, 3, 4, 5} \<or> 5 < k" if "0 < k" for k :: nat using that by auto
  from cases [of m] cases [of n] mn show ?thesis
    by (auto simp: retryDelay_values retryDelay_values(1) [simplified])
qed

lemma length_sanitizeError: "length (sanitizeError message err) \<le> 240"
  by (simp add: sanitizeError_def)

end
