(* ===== verification/DeliveryRun.thy ===== *)
theory DeliveryRun
  imports Delivery
begin

text \<open>
  One cycle of the delivery worker (\<^verbatim>\<open>rooms/recording-delivery.service.ts\<close>): claim a job, upload
  its recording to the Drive of the room's host, verify the file, record the delivery and
  share it. Because the upload may not return, the operations from \<^verbatim>\<open>uploadDelivery\<close> on are
  partial: \<open>None\<close> is a call that never ends.
\<close>

section \<open>Partial operations\<close>

type_synonym ('lk, 'a) partial_op = "'lk world \<Rightarrow> ((exn + 'a) \<times> 'lk world) option"

definition liftP :: "('lk, 'a) op \<Rightarrow> ('lk, 'a) partial_op" where
  "liftP m w = Some (m w)"

definition andThenP :: "('lk, 'a) partial_op \<Rightarrow> ('a \<Rightarrow> ('lk, 'b) partial_op) \<Rightarrow> ('lk, 'b) partial_op" where
  "andThenP m k w =
     (case m w of
        None \<Rightarrow> None
      | Some (Inl e, w1) \<Rightarrow> Some (Inl e, w1)
      | Some (Inr x, w1) \<Rightarrow> k x w1)"

definition catchP :: "('lk, 'a) partial_op \<Rightarrow> (exn \<Rightarrow> ('lk, 'a) partial_op) \<Rightarrow> ('lk, 'a) partial_op" where
  "catchP m h w =
     (case m w of
        None \<Rightarrow> None
      | Some (Inl e, w1) \<Rightarrow> h e w1
      | Some (Inr x, w1) \<Rightarrow> Some (Inr x, w1))"

section \<open>The upload of one job\<close>

definition onSession :: "'lk env \<Rightarrow> 'lk cloud \<Rightarrow> string \<Rightarrow> string \<Rightarrow> string option \<Rightarrow> int \<Rightarrow> ('lk, unit) op" where
  "onSession E C owner i url offset =
     andThen (if truthy url
              then andThen (encryptSecret E (cipher C) (encryptionKey C) (the url)) (\<lambda>s. ret (Some s))
              else ret None) (\<lambda>sealed.
       dbcmd (\<lambda>now d. (Inr (), d\<lparr>deliveries :=
         updateRows (\<lambda>x. dl_id x = i \<and> dl_leaseOwner x = Some owner)
           (\<lambda>x. x\<lparr>dl_encryptedUploadSession := sealed, dl_uploadOffsetBytes := offset,
                   dl_leaseUntil := Some (now + LEASE_MS)\<rparr>) (deliveries d)\<rparr>)))"

definition uploadDelivery ::
    "'lk env \<Rightarrow> 'lk cloud \<Rightarrow> string \<Rightarrow> delivery_row \<Rightarrow> recording_row \<Rightarrow> connection_row \<Rightarrow> string \<Rightarrow>
      ('lk, drive_file) partial_op" where
  "uploadDelivery E C owner delivery recording connection accessToken =
     andThenP (liftP (ensureFolder C connection accessToken)) (\<lambda>(folder, _).
     andThenP (liftP (if truthy (dl_encryptedUploadSession delivery)
                      then andThen (decryptOf C (the (dl_encryptedUploadSession delivery))) (\<lambda>s. ret (Some s))
                      else ret None)) (\<lambda>sessionUrl.
       upload C (heartbeat owner (dl_id delivery)) (onSession E C owner (dl_id delivery)) recording folder
         accessToken sessionUrl (dl_uploadOffsetBytes delivery)))"

section \<open>One delivery\<close>

text \<open>The earlier of the copy's own expiry and the retention after a delivery.\<close>

definition deleteAfter :: "retention \<Rightarrow> recording_row \<Rightarrow> int \<Rightarrow> int" where
  "deleteAfter R recording deliveredAt =
     (let retainedUntil = deliveredAt + hoursMs (deliveredRetentionHours R) in
      case rec_localExpiresAt recording of
        Some t \<Rightarrow> if t < retainedUntil then t else retainedUntil
      | None \<Rightarrow> retainedUntil)"

text \<open>
  The transaction: both rows change, or, when one is gone, neither. The ids of Drive are made
  of letters, digits and dashes, so \<^verbatim>\<open>encodeURIComponent\<close> leaves them as they are.
\<close>

definition recordDelivery ::
    "retention \<Rightarrow> string \<Rightarrow> recording_row \<Rightarrow> drive_file \<Rightarrow> int \<Rightarrow> database \<Rightarrow> (exn + unit) \<times> database" where
  "recordDelivery R i recording verified deliveredAt d =
     (case updateOne (\<lambda>x. dl_id x = i)
             (\<lambda>x. x\<lparr>dl_status := Delivered, dl_driveFileId := df_id verified,
                dl_driveUrl := Some (case df_webViewLink verified of
                   Some link \<Rightarrow> link
                 | None \<Rightarrow> ''https://drive.google.com/open?id='' @ the (df_id verified)),
                dl_deliveredAt := Some deliveredAt, dl_lastError := None, dl_encryptedUploadSession := None,
                dl_leaseOwner := None, dl_leaseUntil := None\<rparr>) (deliveries d) of
        Inl e \<Rightarrow> (Inl e, d)
      | Inr ds \<Rightarrow>
          (case updateOne (\<lambda>r. rec_id r = rec_id recording)
                  (\<lambda>r. r\<lparr>rec_localDeleteAfter := Some (deleteAfter R recording deliveredAt)\<rparr>) (recordings d) of
             Inl e \<Rightarrow> (Inl e, d)
           | Inr rs \<Rightarrow> (Inr (), d\<lparr>deliveries := ds, recordings := rs\<rparr>)))"

text \<open>What follows the upload: verify the file on Drive, record the delivery, share it.\<close>

definition finishDelivery ::
    "'lk cloud \<Rightarrow> retention \<Rightarrow> (exn \<Rightarrow> string) \<Rightarrow> string \<Rightarrow> recording_row \<Rightarrow> string \<Rightarrow> drive_file \<Rightarrow> ('lk, unit) op" where
  "finishDelivery C R message i recording accessToken f =
     andThen (verifyFile C recording (the (df_id f)) accessToken) (\<lambda>verified.
     andThen dateNow (\<lambda>deliveredAt.
     seqE (dbcmd (\<lambda>_. recordDelivery R i recording verified deliveredAt))
       (shareRecipients C message (rec_id recording) (the (df_id verified)) accessToken)))"

text \<open>\<^verbatim>\<open>findUnique\<close> with the recording, its room and the room's host.\<close>

definition jobOf :: "string \<Rightarrow> database \<Rightarrow> (delivery_row \<times> recording_row \<times> string \<times> string) option" where
  "jobOf i d =
     (case find (\<lambda>x. dl_id x = i) (deliveries d) of
        None \<Rightarrow> None
      | Some x \<Rightarrow>
          (case recordingOf d x of
             None \<Rightarrow> None
           | Some r \<Rightarrow>
               (case (hostOf d r, hostEmailOf d r) of
                  (Some h, Some email) \<Rightarrow> Some (x, r, h, email)
                | _ \<Rightarrow> None)))"

definition deliverJob ::
    "'lk env \<Rightarrow> 'lk cloud \<Rightarrow> retention \<Rightarrow> (exn \<Rightarrow> string) \<Rightarrow> string \<Rightarrow> delivery_row \<Rightarrow> recording_row \<Rightarrow>
      string \<Rightarrow> string \<Rightarrow> ('lk, unit) partial_op" where
  "deliverJob E C R message owner delivery recording host email =
     (if dl_leaseOwner delivery \<noteq> Some owner \<or> rec_localDeletedAt recording \<noteq> None then liftP (ret ())
      else
        andThenP (liftP (activeConnection host)) (\<lambda>connection.
          case connection of
            None \<Rightarrow> liftP (deliveryActionRequired C (dl_id delivery) email ''Google Drive is disconnected'')
          | Some c \<Rightarrow>
              catchP
                (andThenP (liftP (refreshAccessToken C c)) (\<lambda>accessToken.
                 andThenP (liftP (findVerifiedExisting C recording accessToken)) (\<lambda>existing.
                 andThenP (case existing of
                             Some f \<Rightarrow> liftP (ret f)
                           | None \<Rightarrow> uploadDelivery E C owner delivery recording c accessToken) (\<lambda>f.
                   liftP (finishDelivery C R message (dl_id delivery) recording accessToken f)))))
                (\<lambda>err. liftP (handleDeliveryError C message delivery email (cs_id c) err))))"

definition deliver ::
    "'lk env \<Rightarrow> 'lk cloud \<Rightarrow> retention \<Rightarrow> (exn \<Rightarrow> string) \<Rightarrow> string \<Rightarrow> string \<Rightarrow> ('lk, unit) partial_op" where
  "deliver E C R message owner i =
     andThenP (liftP (dbread (\<lambda>_. jobOf i))) (\<lambda>job.
       case job of
         None \<Rightarrow> liftP (ret ())
       | Some (delivery, recording, host, email) \<Rightarrow> deliverJob E C R message owner delivery recording host email)"

definition runCycle ::
    "'lk env \<Rightarrow> 'lk cloud \<Rightarrow> retention \<Rightarrow> (exn \<Rightarrow> string) \<Rightarrow> string \<Rightarrow> ('lk, unit) partial_op" where
  "runCycle E C R message owner =
     andThenP (liftP (initializeExistingGrace R)) (\<lambda>_.
     andThenP (liftP (sendFinalExpiryReminders C)) (\<lambda>_.
     andThenP (liftP (deleteExpiredLocalCopies C)) (\<lambda>_.
     andThenP (liftP (claimNextDelivery owner)) (\<lambda>claimed.
       case claimed of None \<Rightarrow> liftP (ret ()) | Some i \<Rightarrow> deliver E C R message owner i))))"

section \<open>Termination\<close>

text \<open>
  The loop of an upload returns unless its passes go on for ever: \<open>passes step bytes off W\<close> is an endless sequence of
  passes, each for the offset that the answer to the one before it gave.
\<close>

definition passes :: "(int \<Rightarrow> ('lk, chunk_result) op) \<Rightarrow> int \<Rightarrow> (nat \<Rightarrow> int) \<Rightarrow> (nat \<Rightarrow> 'lk world) \<Rightarrow> bool" where
  "passes step bytes off W \<longleftrightarrow>
     (\<forall>k. off k < bytes \<and> step (off k) (W k) = (Inr (GoOn (off (Suc k))), W (Suc k)))"

lemma uploadLoop_None:
  assumes "uploadLoop step bytes offset w = None"
  shows "offset < bytes \<and> (\<exists>m w1. step offset w = (Inr (GoOn m), w1) \<and> uploadLoop step bytes m w1 = None)"
  using assms by (subst (asm) uploadLoop.simps) (auto split: if_splits prod.splits sum.splits chunk_result.splits)

lemma endless_passes:
  assumes "uploadLoop step bytes offset w = None"
  shows "\<exists>off W. passes step bytes off W \<and> off 0 = offset \<and> W 0 = w"
proof -
  define go where "go s = (case step (fst s) (snd s) of (Inr (GoOn m), w1) \<Rightarrow> (m, w1) | _ \<Rightarrow> s)" for s
  define st where "st k = (go ^^ k) (offset, w)" for k
  have st: "st (Suc k) = go (st k)" for k by (simp add: st_def)
  have none: "uploadLoop step bytes (fst (st k)) (snd (st k)) = None" for k
  proof (induction k)
    case (Suc k)
    from uploadLoop_None [OF this] show ?case by (auto simp: st go_def)
  qed (simp add: st_def assms)
  have "fst (st k) < bytes \<and> step (fst (st k)) (snd (st k)) = (Inr (GoOn (fst (st (Suc k)))), snd (st (Suc k)))" for k
    using uploadLoop_None [OF none [of k]] by (auto simp: st go_def)
  then have "passes step bytes (\<lambda>k. fst (st k)) (\<lambda>k. snd (st k))" by (simp add: passes_def)
  then show ?thesis
    by (intro exI [of _ "\<lambda>k. fst (st k)"] exI [of _ "\<lambda>k. snd (st k)"]) (simp add: st_def)
qed

lemma passes_endless:
  assumes "passes step bytes off W"
  shows "uploadLoop step bytes (off 0) (W 0) = None"
proof -
  have "st = step \<longrightarrow> b = bytes \<longrightarrow> (\<forall>k. o' = off k \<longrightarrow> w \<noteq> W k)" if "uploadLoop st b o' w = Some rw" for st b o' w rw
  proof (rule uploadLoop.raw_induct [OF _ that])
    fix loop st b o' w rw
    assume 1: "\<And>st b o' w rw. loop st b o' w = Some rw \<Longrightarrow> st = step \<longrightarrow> b = bytes \<longrightarrow> (\<forall>k. o' = off k \<longrightarrow> w \<noteq> W k)"
      "(if o' < b then case st o' w of (Inl e, w1) \<Rightarrow> Some (Inl e, w1) | (Inr (GoOn m), w1) \<Rightarrow> loop st b m w1
        | (Inr (Finished f), w1) \<Rightarrow> Some (Inr f, w1)
        else Some (Inl (JsError ''Google Drive upload ended without a file result''), w)) = Some rw"
    show "st = step \<longrightarrow> b = bytes \<longrightarrow> (\<forall>k. o' = off k \<longrightarrow> w \<noteq> W k)"
    proof (intro impI allI notI)
      fix k assume k: "st = step" "b = bytes" "o' = off k" "w = W k"
      have p: "off k < bytes" "step (off k) (W k) = (Inr (GoOn (off (Suc k))), W (Suc k))"
        using assms by (simp_all add: passes_def)
      then have "loop step bytes (off (Suc k)) (W (Suc k)) = Some rw" using 1(2) by (simp add: k p)
      from 1(1) [OF this] show False by blast
    qed
  qed
  then show ?thesis by (cases "uploadLoop step bytes (off 0) (W 0)") blast+
qed

text \<open>As every offset is below the size, endlessly many passes of such a sequence make no progress.\<close>

lemma passes_stand_still:
  assumes "passes step bytes off W"
  shows "\<exists>k \<ge> n. off (Suc k) \<le> off k"
proof (rule ccontr)
  assume "\<not> (\<exists>k \<ge> n. off (Suc k) \<le> off k)"
  then have up: "off k < off (Suc k)" if "n \<le> k" for k using that by (meson not_le)
  have "off n + int j \<le> off (n + j)" for j
  proof (induction j)
    case (Suc j)
    then show ?case using up [of "n + j"] by simp
  qed simp
  from this [of "nat (bytes - off n)"] have "bytes \<le> off (n + nat (bytes - off n))" by (simp split: if_splits)
  with assms show False unfolding passes_def by (meson not_le)
qed

text \<open>
  An upload of the worker stalls: its passes go on for ever, and again and again Google's answer to a chunk does
  not move the offset on.
\<close>

definition stalled :: "'lk env \<Rightarrow> 'lk cloud \<Rightarrow> string \<Rightarrow> bool" where
  "stalled E C owner \<longleftrightarrow> (\<exists>i recording tok url bytes off W.
     passes (putNextChunk C (heartbeat owner i) (onSession E C owner i) recording tok url bytes) bytes off W \<and>
     (\<forall>n. \<exists>k \<ge> n. off (Suc k) \<le> off k))"

lemma upload_returns:
  assumes "\<not> stalled E C owner"
  shows "\<exists>r. upload C (heartbeat owner i) (onSession E C owner i) recording folder tok session offset w = Some r"
proof -
  have "\<exists>r. uploadLoop (putNextChunk C (heartbeat owner i) (onSession E C owner i) recording tok url bytes) bytes start w1 = Some r"
    for url bytes start w1
  proof (rule ccontr)
    assume "\<not> ?thesis"
    then have "uploadLoop (putNextChunk C (heartbeat owner i) (onSession E C owner i) recording tok url bytes) bytes start w1 = None"
      by (meson not_None_eq)
    from endless_passes [OF this] passes_stand_still assms show False unfolding stalled_def by metis
  qed
  then show ?thesis
    unfolding upload_def Let_def by (auto split: prod.splits sum.splits)
qed

text \<open>Conversely, an upload that goes on with a stored session and stalls never returns: the code does not count the passes.\<close>

lemma stalled_upload_hangs:
  assumes "passes (putNextChunk C hb os recording tok url (uploadSize recording)) (uploadSize recording) off W"
    and "url \<noteq> []" and "uploadSize recording \<in> {0..9007199254740991}"
  shows "upload C hb os recording folder tok (Some url) (off 0) (W 0) = None"
  using assms passes_endless [OF assms(1)] by (simp add: upload_def openSession_def ret_def)

text \<open>No upload stalls when the last byte that an answer acknowledges is never before the chunk it answers.\<close>

definition advances :: "'lk cloud \<Rightarrow> bool" where
  "advances C \<longleftrightarrow>
     (\<forall>url tok start stop bytes w resp w1. google_fetch C (PutChunk url tok start stop bytes) w = (Inr resp, w1) \<longrightarrow>
        hr_status resp = 308 \<longrightarrow> (\<forall>n. Option.bind (hr_range resp) rangeLast = Some n \<longrightarrow> start \<le> int n))"

lemma chunk_advances:
  assumes "advances C" and "offset < bytes"
    and "putNextChunk C hb os recording tok url bytes offset w = (Inr (GoOn m), w1)"
  shows "offset < m"
proof -
  define stop where "stop = min (offset + DRIVE_CHUNK_BYTES) bytes - 1"
  have stop: "offset \<le> stop" using assms(2) by (simp add: stop_def DRIVE_CHUNK_BYTES_def)
  from assms(3) obtain resp w2 w3 where "google_fetch C (PutChunk url tok offset stop bytes) w2 = (Inr resp, w3)"
      "hr_status resp = 308" "m = nextOffset (hr_range resp) stop"
    unfolding putNextChunk_def Let_def stop_def [symmetric]
    by (auto elim!: seqE_InrE andThen_InrE split: if_splits option.splits)
  with assms(1) stop show ?thesis
    unfolding advances_def nextOffset_def by (auto split: option.splits) force+
qed

lemma advances_not_stalled: "advances C \<Longrightarrow> \<not> stalled E C owner"
  unfolding stalled_def passes_def by (metis chunk_advances not_le)

text \<open>Partial operations that always return.\<close>

definition returns :: "('lk, 'a) partial_op \<Rightarrow> bool" where
  "returns m \<longleftrightarrow> (\<forall>w. \<exists>r. m w = Some r)"

named_theorems returns_rules "partial operations that always return"

lemma returns_liftP [returns_rules]: "returns (liftP m)"
  by (simp add: returns_def liftP_def)

lemma returns_andThenP [returns_rules]: "returns m \<Longrightarrow> (\<And>x. returns (k x)) \<Longrightarrow> returns (andThenP m k)"
  unfolding returns_def andThenP_def
  by (auto split: option.splits prod.splits sum.splits)

lemma returns_catchP [returns_rules]: "returns m \<Longrightarrow> (\<And>e. returns (h e)) \<Longrightarrow> returns (catchP m h)"
  unfolding returns_def catchP_def
  by (auto split: option.splits prod.splits sum.splits)

lemma returns_cases [returns_rules]:
  "(b \<Longrightarrow> returns m) \<Longrightarrow> (\<not> b \<Longrightarrow> returns n) \<Longrightarrow> returns (if b then m else n)"
  "returns p \<Longrightarrow> (\<And>y. returns (f y)) \<Longrightarrow> returns (case x of None \<Rightarrow> p | Some y \<Rightarrow> f y)"
  "(\<And>a b. returns (g a b)) \<Longrightarrow> returns (case z of (a, b) \<Rightarrow> g a b)"
  by (auto split: option.splits prod.splits)

lemma returns_upload [returns_rules]:
  "\<not> stalled E C owner \<Longrightarrow> returns (upload C (heartbeat owner i) (onSession E C owner i) recording folder tok session offset)"
  unfolding returns_def using upload_returns by blast

lemma returns_deliver [returns_rules]: "\<not> stalled E C owner \<Longrightarrow> returns (deliver E C R message owner i)"
  unfolding deliver_def deliverJob_def uploadDelivery_def by (intro returns_rules) simp_all

lemma returns_runCycle: "\<not> stalled E C owner \<Longrightarrow> returns (runCycle E C R message owner)"
  unfolding runCycle_def by (intro returns_rules)

section \<open>What an upload leaves alone\<close>

definition keepsP :: "('lk world \<Rightarrow> bool) \<Rightarrow> ('lk, 'a) partial_op \<Rightarrow> bool" where
  "keepsP I m \<longleftrightarrow> (\<forall>w r w1. I w \<longrightarrow> m w = Some (r, w1) \<longrightarrow> I w1)"

named_theorems keepsP_rules "invariants of partial operations"

lemma keepsP_liftP [keepsP_rules]: "keeps I m \<Longrightarrow> keepsP I (liftP m)"
  unfolding keeps_def keepsP_def liftP_def by (metis option.inject snd_conv)

lemma partial_cases:
  assumes "(case r of None \<Rightarrow> None | Some (Inl e, w) \<Rightarrow> f e w | Some (Inr x, w) \<Rightarrow> g x w) = Some z"
  obtains e w where "r = Some (Inl e, w)" and "f e w = Some z" | x w where "r = Some (Inr x, w)" and "g x w = Some z"
  using assms by (auto split: option.splits sum.splits)

lemma keepsP_D: "keepsP I m \<Longrightarrow> I w \<Longrightarrow> m w = Some (r, w1) \<Longrightarrow> I w1"
  unfolding keepsP_def by blast

lemma keepsP_andThenP [keepsP_rules]:
  assumes "keepsP I m" and "\<And>x. keepsP I (k x)"
  shows "keepsP I (andThenP m k)"
proof -
  have "I w1" if "I w" "andThenP m k w = Some (r, w1)" for w r w1
    using that(2) unfolding andThenP_def
  proof (cases rule: partial_cases)
    case (1 e w2)
    then show ?thesis using keepsP_D [OF assms(1) that(1)] by blast
  next
    case (2 x w2)
    then have "I w2" using keepsP_D [OF assms(1) that(1)] by blast
    then show ?thesis using keepsP_D [OF assms(2)] 2(2) by blast
  qed
  then show ?thesis unfolding keepsP_def by blast
qed

lemma keepsP_catchP [keepsP_rules]:
  assumes "keepsP I m" and "\<And>e. keepsP I (h e)"
  shows "keepsP I (catchP m h)"
proof -
  have "I w1" if "I w" "catchP m h w = Some (r, w1)" for w r w1
    using that(2) unfolding catchP_def
  proof (cases rule: partial_cases)
    case (1 e w2)
    then have "I w2" using keepsP_D [OF assms(1) that(1)] by blast
    then show ?thesis using keepsP_D [OF assms(2)] 1(2) by blast
  next
    case (2 x w2)
    then show ?thesis using keepsP_D [OF assms(1) that(1)] by blast
  qed
  then show ?thesis unfolding keepsP_def by blast
qed

lemma keepsP_cases [keepsP_rules]:
  "(b \<Longrightarrow> keepsP I m) \<Longrightarrow> (\<not> b \<Longrightarrow> keepsP I n) \<Longrightarrow> keepsP I (if b then m else n)"
  "keepsP I p \<Longrightarrow> (\<And>y. keepsP I (f y)) \<Longrightarrow> keepsP I (case x of None \<Rightarrow> p | Some y \<Rightarrow> f y)"
  "(\<And>a b. keepsP I (g a b)) \<Longrightarrow> keepsP I (case z of (a, b) \<Rightarrow> g a b)"
  by (auto split: option.splits prod.splits)

lemma keepsP_uploadLoop:
  assumes "\<And>o'. keeps I (step o')"
  shows "keepsP I (uploadLoop step bytes offset)"
proof -
  have "(\<forall>o'. keeps I (st o')) \<longrightarrow> I w \<longrightarrow> I (snd rw)" if "uploadLoop st b off w = Some rw" for st b off w rw
  proof (rule uploadLoop.raw_induct [OF _ that])
    fix loop st b off w rw
    assume 1: "\<And>st b off w rw. loop st b off w = Some rw \<Longrightarrow> (\<forall>o'. keeps I (st o')) \<longrightarrow> I w \<longrightarrow> I (snd rw)"
      "(if off < b then case st off w of (Inl e, w1) \<Rightarrow> Some (Inl e, w1) | (Inr (GoOn m), w1) \<Rightarrow> loop st b m w1
        | (Inr (Finished f), w1) \<Rightarrow> Some (Inr f, w1)
        else Some (Inl (JsError ''Google Drive upload ended without a file result''), w)) = Some rw"
    obtain r w1 where r: "st off w = (r, w1)" by fastforce
    have "I w \<Longrightarrow> I w1" if "\<forall>o'. keeps I (st o')" using that r unfolding keeps_def by (metis snd_conv)
    with 1(2) r 1(1) [of st b _ w1 rw] show "(\<forall>o'. keeps I (st o')) \<longrightarrow> I w \<longrightarrow> I (snd rw)"
      by (auto split: if_splits sum.splits chunk_result.splits)
  qed
  with assms show ?thesis by (fastforce simp: keepsP_def)
qed

section \<open>A job that is not delivered\<close>

definition undelivered :: "string \<Rightarrow> 'lk world \<Rightarrow> bool" where
  "undelivered i w \<longleftrightarrow> (\<forall>x \<in> set (deliveries (dbase w)). dl_id x = i \<longrightarrow> dl_status x \<noteq> Delivered)"

lemma undelivered_simps [simp]:
  "undelivered i (tick w) = undelivered i w" "undelivered i (w\<lparr>draws := n\<rparr>) = undelivered i w"
  by (simp_all add: undelivered_def)

lemma keeps_und_dbcmd:
  assumes "\<And>now d. \<forall>x \<in> set (deliveries d). dl_id x = i \<longrightarrow> dl_status x \<noteq> Delivered \<Longrightarrow>
    \<forall>x \<in> set (deliveries (snd (q now d))). dl_id x = i \<longrightarrow> dl_status x \<noteq> Delivered"
  shows "keeps (undelivered i) (dbcmd q)"
  using assms by (intro keeps_dbcmd) (simp_all add: undelivered_def)

lemma keeps_und_dbread [keeps_rules]: "keeps (undelivered i) (dbread f)"
  by (rule keeps_und_dbcmd) simp

lemma keeps_und_draw [keeps_rules]: "keeps (undelivered i) (draw f)"
  by (rule keeps_draw) simp

lemma keeps_und_rows [keeps_rules]:
  assumes "\<And>x. dl_id (f x) = dl_id x" and "\<And>x. dl_status x \<noteq> Delivered \<Longrightarrow> dl_status (f x) \<noteq> Delivered"
  shows "keeps (undelivered i) (dbcmd (\<lambda>now d. (Inr (), d\<lparr>deliveries := updateRows P f (deliveries d)\<rparr>)))"
    and "keeps (undelivered i) (updateDelivery j f)"
  unfolding updateDelivery_def
  using assms by (auto intro!: keeps_und_dbcmd simp: set_updateRows updateOne_def split: if_splits)

lemma keeps_und_heartbeat [keeps_rules]: "keeps (undelivered i) (heartbeat owner j)"
  unfolding heartbeat_def
  by (auto intro!: keeps_rules keeps_und_dbcmd simp: set_updateRows split: if_splits)

lemma keeps_und_onSession [keeps_rules]: "keeps (undelivered i) (onSession E C owner j url n)"
  unfolding onSession_def encryptSecret_def
  by (auto intro!: keeps_rules keeps_und_dbcmd simp: set_updateRows split: if_splits)

lemma keeps_und_updateConnection [keeps_rules]:
  "keeps (undelivered i) (updateConnection j f)" "keeps (undelivered i) (updateFolder j s)"
  "keeps (undelivered i) (markActionRequired j)" "keeps (undelivered i) (updateRecipient j g)"
  unfolding updateConnection_def updateFolder_def markActionRequired_def updateRecipient_def
  by (auto intro!: keeps_und_dbcmd split: sum.splits)

lemma keeps_und_requests [keeps_rules]:
  assumes "cloud_keeps (undelivered i) C"
  shows "keeps (undelivered i) (driveRequest C q)" "keeps (undelivered i) (refreshAccessToken C c)"
    "keeps (undelivered i) (findVerifiedExisting C r tok)" "keeps (undelivered i) (ensureFolder C c tok)"
proof -
  show req: "keeps (undelivered i) (driveRequest C q)" for q
    using assms unfolding driveRequest_def by (intro keeps_rules)
  show "keeps (undelivered i) (refreshAccessToken C c)"
    using assms unfolding refreshAccessToken_def requireGoogleClientId_def requireGoogleClientSecret_def Let_def
    by (intro keeps_rules)
  show "keeps (undelivered i) (findVerifiedExisting C r tok)"
    unfolding findVerifiedExisting_def by (intro keeps_rules req)
  show "keeps (undelivered i) (ensureFolder C c tok)"
    unfolding ensureFolder_def currentFolder_def makeFolder_def
    by (auto intro!: keeps_rules req split: exn.split list.split)
qed

lemma keeps_und_chunk [keeps_rules]:
  assumes "cloud_keeps (undelivered i) C"
  shows "keeps (undelivered i) (putNextChunk C (heartbeat owner j) (onSession E C owner j) r tok url bytes offset)"
    "keeps (undelivered i) (openSession C (onSession E C owner j) r folder tok session start)"
  using assms unfolding putNextChunk_def openSession_def Let_def by (auto intro!: keeps_rules)

lemma keepsP_und_upload [keepsP_rules]:
  assumes "cloud_keeps (undelivered i) C"
  shows "keepsP (undelivered i) (uploadDelivery E C owner delivery r c tok)"
proof -
  have "keepsP (undelivered i) (upload C (heartbeat owner j) (onSession E C owner j) r folder tok session offset)"
    for j folder session offset
  proof -
    have eq: "upload C (heartbeat owner j) (onSession E C owner j) r folder tok session offset =
      (if uploadSize r < 0 \<or> uploadSize r > 9007199254740991
       then liftP (raise (JsError ''Recording size is unavailable for Drive verification''))
       else andThenP (liftP (openSession C (onSession E C owner j) r folder tok session offset)) (\<lambda>(url, start).
         uploadLoop (putNextChunk C (heartbeat owner j) (onSession E C owner j) r tok url (uploadSize r)) (uploadSize r) start))"
      by (auto simp: upload_def andThenP_def liftP_def fun_eq_iff Let_def split: prod.splits sum.splits)
    show ?thesis
      unfolding eq using assms by (intro keepsP_rules keeps_rules keepsP_uploadLoop)
  qed
  then show ?thesis
    using assms unfolding uploadDelivery_def by (intro keepsP_rules keeps_rules)
qed

text \<open>Drive never confirms a copy of the exact size.\<close>

definition unconfirmed :: "'lk cloud \<Rightarrow> recording_row \<Rightarrow> bool" where
  "unconfirmed C r \<longleftrightarrow>
     (\<forall>fid tok w resp w1 j f. google_fetch C (GetFile fid ''id,size,trashed,webViewLink'' tok) w = (Inr resp, w1) \<longrightarrow>
        responseOk resp \<longrightarrow> hr_json resp = Some j \<longrightarrow> driveFile j = Inr f \<longrightarrow> truthy (df_id f) \<longrightarrow> \<not> isExact r f)"

lemma unconfirmed_verify: "unconfirmed C r \<Longrightarrow> verifyFile C r fid tok w \<noteq> (Inr f, w1)"
  unfolding unconfirmed_def verifyFile_def driveRequest_def
  by (auto elim!: andThen_InrE split: if_splits option.splits) blast

lemma keeps_und_finish [keeps_rules]:
  assumes "cloud_keeps (undelivered i) C" and "unconfirmed C r"
  shows "keeps (undelivered i) (finishDelivery C R message j r tok f)"
proof (rule keepsI)
  fix w :: "'a world" assume w: "undelivered i w"
  have "keeps (undelivered i) (verifyFile C r (the (df_id f)) tok)"
    using assms(1) unfolding verifyFile_def by (intro keeps_rules)
  with w have "undelivered i (snd (verifyFile C r (the (df_id f)) tok w))" by (simp add: keeps_def)
  moreover obtain e w1 where "verifyFile C r (the (df_id f)) tok w = (Inl e, w1)"
    using unconfirmed_verify [OF assms(2)] by (metis old.prod.exhaust sumE)
  ultimately show "undelivered i (snd (finishDelivery C R message j r tok f w))"
    by (simp add: finishDelivery_def andThen_def)
qed

lemma keeps_und_failures [keeps_rules]:
  assumes "cloud_keeps (undelivered i) C"
  shows "keeps (undelivered i) (deliveryActionRequired C j email reason)"
    "keeps (undelivered i) (handleDeliveryError C message x email c err)"
proof -
  show act: "keeps (undelivered i) (deliveryActionRequired C j email reason)" for j reason
    using assms unfolding deliveryActionRequired_def sendNotice_def by (auto intro!: keeps_rules)
  show "keeps (undelivered i) (handleDeliveryError C message x email c err)"
    using assms unfolding handleDeliveryError_def Let_def by (auto intro!: keeps_rules act)
qed

lemma deliver_unconfirmed:
  assumes "cloud_keeps (undelivered i) C" and "undelivered i w" and "jobOf i (dbase w) = Some (x, r, h, email)"
    and "unconfirmed C r" and "deliver E C R message owner i w = Some (res, w1)"
  shows "undelivered i w1"
proof -
  have keeps: "keepsP (undelivered i) (deliverJob E C R message owner x r h email)"
    using assms(1,4) unfolding deliverJob_def activeConnection_def getConnection_def
    by (intro keepsP_rules keeps_rules)
  have "undelivered i ((tick w)\<lparr>dbase := dbase w\<rparr>)" using assms(2) by (simp add: undelivered_def)
  from keepsP_D [OF keeps this] assms(2,3,5) show ?thesis
    by (auto simp: deliver_def andThenP_def liftP_def dbcmd_def split: if_splits)
qed

section \<open>Unknown sizes\<close>

text \<open>A recording without a known size passes the size check as an empty one and then never gets a file.\<close>

lemma upload_unknown:
  assumes "rec_sizeBytes r = None \<or> rec_sizeBytes r = Some 0" and "0 \<le> offset"
    and "upload C hb os r folder tok session offset w = Some (res, w1)"
  shows "isl res"
proof -
  have "isl res" if "uploadLoop step 0 start w2 = Some (res, w1)" "0 \<le> start" for step start w2
    using that by (subst (asm) uploadLoop.simps) auto
  moreover have "0 \<le> start" if "openSession C os r folder tok session offset w = (Inr (url, start), w2)" for url start w2
    using that assms(2) unfolding openSession_def by (auto elim!: andThen_InrE seqE_InrE split: if_splits)
  ultimately show ?thesis
    using assms(1,3) unfolding upload_def Let_def uploadSize_def
    by (auto split: prod.splits sum.splits option.splits if_splits)
qed

end
