(* ===== verification/RoomProperties.thy ===== *)
theory RoomProperties
  imports Demo Guards
begin

text \<open>
  Meetings: who may enter a room and how, and that maintenance keeps everybody out.
\<close>

section \<open>Maintenance and join tokens\<close>

text \<open>The maintenance row and the time, which no operation on rooms changes.\<close>

definition gate :: "maintenance_row option \<Rightarrow> int \<Rightarrow> 'lk world \<Rightarrow> bool" where
  "gate m now w \<longleftrightarrow> maintenanceState (dbase w) = m \<and> clock w = now"

named_theorems gate_rules "operations that leave the maintenance row alone"

lemma gate_basic [gate_rules]:
  "keeps (gate m now) (rcmd f)" "keeps (gate m now) (draw g)" "keeps (gate m now) (dbread h)"
  by (auto intro!: keeps_rcmd keeps_draw keeps_dbcmd simp: gate_def)

lemma gate_insertRoom [gate_rules]: "keeps (gate m now) (dbcmd (\<lambda>t. insertRoom (r t)))"
  by (rule keeps_dbcmd) (auto simp: gate_def insertRoom_def)

lemma gate_env [gate_rules]: "quiet E \<Longrightarrow> env_keeps (gate m now) E"
  by (rule quiet_env_keeps) (auto simp: gate_def)

lemma gate_mint [gate_rules]: "quiet E \<Longrightarrow> keeps (gate m now) (mintToken E opts)"
  by (auto intro!: keeps_mintToken gate_rules)

lemma gate_create [gate_rules]: "keeps (gate m now) (createLoop E st h n)"
proof (induction n)
  case (Suc n)
  have "keeps (gate m now) (tryCreate E st h)"
    unfolding tryCreate_def roomCode_def by (auto intro!: keeps_rules gate_rules)
  with Suc show ?case by (auto intro!: keeps_rules)
qed (auto intro!: keeps_rules)

lemma gate_rooms [gate_rules]:
  "keeps (gate m now) (requireRoom slug)" "keeps (gate m now) (requireKnock slug i)"
  "keeps (gate m now) (makeIdentity E name)" "keeps (gate m now) (getDirectRejoinGrant room u)"
  unfolding requireRoom_def findBySlug_def requireKnock_def getKnock_def makeIdentity_def getDirectRejoinGrant_def
  by (auto intro!: keeps_rules gate_rules)

lemma gate_grants [gate_rules]:
  "keeps (gate m now) (addDirectRejoinGrant E room sid u i)" "keeps (gate m now) (removeDirectRejoinGrant g)"
  "keeps (gate m now) (requireDirectRejoinGrant slug u)"
  unfolding addDirectRejoinGrant_def removeDirectRejoinGrant_def requireDirectRejoinGrant_def Let_def
  by (auto intro!: keeps_rules gate_rules)

lemma gate_admission [gate_rules]: "quiet E \<Longrightarrow> keeps (gate m now) (admissionGrant E slug k)"
  unfolding admissionGrant_def ensureLivekitRoom_def Let_def by (auto intro!: keeps_rules gate_rules)

lemma keeps_Inr: "keeps I m \<Longrightarrow> I w \<Longrightarrow> m w = (r, w') \<Longrightarrow> I w'"
  unfolding keeps_def by (metis snd_conv)

text \<open>\<open>blocks I m\<close>: from a world of \<open>I\<close>, \<open>m\<close> always ends in an error.\<close>

definition blocks :: "('w \<Rightarrow> bool) \<Rightarrow> ('w, 'a) act \<Rightarrow> bool" where
  "blocks I m \<longleftrightarrow> (\<forall>w. I w \<longrightarrow> isl (fst (m w)))"

lemma blocks_raise: "blocks I (raise e)"
  by (simp add: blocks_def)

lemma blocks_now: "blocks I m \<Longrightarrow> blocks I (andThen m k)"
  unfolding blocks_def andThen_def by (auto split: prod.splits sum.splits)

lemma blocks_then: "keeps I m \<Longrightarrow> (\<And>x. blocks I (k x)) \<Longrightarrow> blocks I (andThen m k)"
  unfolding blocks_def keeps_def andThen_def by (auto split: prod.splits sum.splits)

lemma blocks_seqE: "keeps I m \<Longrightarrow> blocks I n \<Longrightarrow> blocks I (seqE m n)"
  by (simp add: seqE_def blocks_then)

lemma blocks_catchE: "blocks I m \<Longrightarrow> keeps I m \<Longrightarrow> (\<And>e. blocks I (h e)) \<Longrightarrow> blocks I (catchE m h)"
  unfolding blocks_def keeps_def catchE_def by (auto split: prod.splits sum.splits)

lemma blocks_if: "(b \<Longrightarrow> blocks I m) \<Longrightarrow> (\<not> b \<Longrightarrow> blocks I n) \<Longrightarrow> blocks I (if b then m else n)"
  by simp

lemma blocks_prod: "(\<And>a b. blocks I (f a b)) \<Longrightarrow> blocks I (case p of (a, b) \<Rightarrow> f a b)"
  by (cases p) simp

lemma blocks_mint: "phaseAt m now \<noteq> PhaseOff \<Longrightarrow> blocks (gate m now) (mintToken E opts)"
  unfolding blocks_def
proof (intro allI impI)
  fix w :: "'a world" assume p: "phaseAt m now \<noteq> PhaseOff" and g: "gate m now w"
  show "isl (fst (mintToken E opts w))"
  proof (cases "fst (mintToken E opts w)")
    case (Inr t)
    then have "mintToken E opts w = (Inr t, snd (mintToken E opts w))" by (simp add: prod_eq_iff)
    from mintToken_open(1) [OF this] p g show ?thesis by (simp add: gate_def)
  qed simp
qed

lemma blocks_mintHostJoin:
  assumes "quiet E" and "phaseAt m now \<noteq> PhaseOff"
  shows "blocks (gate m now) (mintHostJoin E room u)"
  unfolding mintHostJoin_def
  by (intro blocks_then [OF gate_rooms(3)] blocks_then [OF keeps_livekit_rooms(3) [OF gate_env [OF assms(1)]]]
      blocks_now [OF blocks_mint [OF assms(2)]])

text \<open>While maintenance is scheduled or active nobody gets a token to enter a meeting: not the
  creator of a new room, not the host of a room, no guest who rejoins directly, and no
  waiting guest is admitted.\<close>

theorem maintenance_blocks_joins:
  assumes "quiet E" and "phaseAt (maintenanceState (dbase w)) (clock w) \<noteq> PhaseOff"
    and "knock_at w slug i = Some k" and "kn_status k = Pending"
  shows "isl (fst (createRoom E u st w)) \<and> isl (fst (hostJoin E slug u w)) \<and>
    isl (fst (directRejoin E slug u w)) \<and> isl (fst (admitOnce E slug i w))"
proof (intro conjI)
  let ?g = "gate (maintenanceState (dbase w)) (clock w)"
  have g: "?g w" by (simp add: gate_def)
  note env = gate_env [OF assms(1)] and host = blocks_mintHostJoin [OF assms(1,2)]
    and mint = blocks_mint [OF assms(2)]
  have "blocks ?g (createRoom E u st)"
    unfolding createRoom_def roomCreate_def
    by (intro blocks_then [OF keeps_gets] blocks_if blocks_raise blocks_then [OF gate_create] host)
  then show "isl (fst (createRoom E u st w))" using g by (simp add: blocks_def)
  have "blocks ?g (hostJoin E slug u)"
    unfolding hostJoin_def by (intro blocks_then [OF gate_rooms(1)] blocks_if blocks_raise host)
  then show "isl (fst (hostJoin E slug u w))" using g by (simp add: blocks_def)
  have "blocks ?g (directRejoin E slug u)"
    unfolding directRejoin_def
    by (intro blocks_then [OF gate_rooms(1)] blocks_then [OF gate_grants(3)] blocks_if blocks_raise
        blocks_then [OF keeps_livekit_rooms(4) [OF env]] blocks_seqE [OF gate_grants(2)] blocks_now [OF mint])
  then show "isl (fst (directRejoin E slug u w))" using g by (simp add: blocks_def)
  have rest: "blocks ?g (andThen (admissionGrant E slug k) (\<lambda>(identity, grant, reused).
         andThen (catchE
                    (mintToken E \<lparr>mo_room = slug, mo_identity = identity, mo_name = kn_name k,
                       mo_host = False, mo_image = kn_image k, mo_accountUserId = kn_userId k,
                       mo_directRejoin = map_option (\<lambda>g. (dr_grantId g, dr_roomSid g)) grant\<rparr>)
                    (\<lambda>err. seqE (case grant of None \<Rightarrow> ret ()
                                 | Some g \<Rightarrow> whenE (\<not> reused) (removeDirectRejoinGrant g))
                             (raise err))) (\<lambda>token.
         andThen (resolveKnock k Admitted (Some (identity, token))) (\<lambda>k. ret (kn_status k)))))"
    by (intro blocks_then [OF gate_admission [OF assms(1)]] blocks_prod blocks_now blocks_catchE mint
        gate_mint [OF assms(1)] blocks_seqE blocks_raise keeps_option keeps_ret keeps_whenE gate_grants)
  show "isl (fst (admitOnce E slug i w))"
  proof (cases "requireKnock slug i w")
    case (Pair r w1)
    have "?g w1" using keeps_Inr [OF gate_rooms(2) g Pair] .
    moreover have "r = Inr k \<or> isl r"
      using Pair assms(3) unfolding requireKnock_def
      by (cases r) (auto elim!: andThen_InrE dest!: getKnock_Inr(1) split: option.splits)
    ultimately show ?thesis
      using Pair rest assms(4) by (cases r) (auto simp: admitOnce_def andThen_def [of "requireKnock _ _"] blocks_def)
  qed
qed

text \<open>The example world with a waiting guest, and the same during maintenance.\<close>

definition demoKnock :: knock where
  "demoKnock = \<lparr>kn_knockId = ''k1'', kn_room = ''abc-defg-hij'', kn_name = ''Gus'', kn_userId = Some ''u2'',
     kn_image = None, kn_status = Pending, kn_requestedAt = 900, kn_identity = None, kn_token = None\<rparr>"

definition knockWorld :: "unit world" where
  "knockWorld = demoWorld [(knockKey ''abc-defg-hij'' ''k1'', VKnock demoKnock)] []"

definition closedWorld :: "unit world" where
  "closedWorld = knockWorld\<lparr>dbase := (dbase knockWorld)\<lparr>maintenanceState :=
     Some \<lparr>mt_enabled = True, mt_startsAt = 300000, mt_message = ''back soon'', mt_actorId = ''owner''\<rparr>\<rparr>\<rparr>"

lemma knockWorld_simps [simp]:
  "faults knockWorld = []" "clock knockWorld = 1000" "faults closedWorld = []" "clock closedWorld = 1000"
  "kn_status demoKnock = Pending" "kn_userId demoKnock = Some ''u2''"
  "phaseAt (maintenanceState (dbase closedWorld)) 1000 = PhaseScheduled"
  by (simp_all add: knockWorld_def closedWorld_def demoKnock_def phaseAt_def)

lemma knockWorld_knock [simp]:
  "knock_at knockWorld ''abc-defg-hij'' ''k1'' = Some demoKnock"
  "knock_at closedWorld ''abc-defg-hij'' ''k1'' = Some demoKnock"
  by code_simp+

theorem maintenance_blocks_joins_witness:
  "isl (fst (hostJoin demoEnv ''abc-defg-hij'' \<lparr>au_id = ''u1'', au_name = ''Ann'', au_email = ''ann@x'', au_image = None\<rparr> closedWorld)) \<and>
   isl (fst (admitOnce demoEnv ''abc-defg-hij'' ''k1'' closedWorld))"
  using maintenance_blocks_joins [OF quiet_demoEnv, of closedWorld "''abc-defg-hij''" "''k1''" demoKnock] by simp

section \<open>Hosts and rooms\<close>

text \<open>Only the account that created a room can join it as its host; every other account is
  refused before anything happens, and the host gets the room's own host key.\<close>

theorem host_join_only_owner:
  assumes "faults w = []" and "roomBySlug slug (dbase w) = Some room"
  shows "(au_id u \<noteq> rm_hostUserId room \<longrightarrow>
      hostJoin E slug u w = (Inl (ForbiddenException (faultBody NOT_HOST)), w)) \<and>
    (\<forall>r w'. hostJoin E slug u w = (Inr r, w') \<longrightarrow> au_id u = rm_hostUserId room \<and>
      hj_room r = slug \<and> hj_hostKey r = rm_hostKey room)"
proof -
  have f: "findBySlug slug w = (Inr (Some room), w)" using assms by (simp add: findBySlug_def dbcmd_ok)
  have run: "hostJoin E slug u w = (if rm_hostUserId room \<noteq> au_id u
      then raise (ForbiddenException (faultBody NOT_HOST)) else mintHostJoin E room u) w"
    by (simp add: hostJoin_def requireRoom_def andThen_def f)
  have "hj_room r = rm_slug room \<and> hj_hostKey r = rm_hostKey room" if "mintHostJoin E room u w = (Inr r, w')" for r w'
    using that unfolding mintHostJoin_def by (auto elim!: andThen_InrE)
  moreover have "rm_slug room = slug" using roomBySlug_Some [OF assms(2)] by simp
  ultimately show ?thesis using run by auto
qed

theorem host_join_only_owner_witness:
  "hostJoin demoEnv ''abc-defg-hij'' \<lparr>au_id = ''u9'', au_name = ''Eve'', au_email = ''e@x'', au_image = None\<rparr> knockWorld =
    (Inl (ForbiddenException (faultBody NOT_HOST)), knockWorld)"
proof -
  have "roomBySlug ''abc-defg-hij'' (dbase knockWorld) = Some demoRoom"
    by (simp add: roomBySlug_def knockWorld_def demoRoom_def)
  from host_join_only_owner [OF knockWorld_simps(1) this, of "\<lparr>au_id = ''u9'', au_name = ''Eve'', au_email = ''e@x'', au_image = None\<rparr>" demoEnv]
  show ?thesis by (simp add: demoRoom_def)
qed

text \<open>A room that is created has a Room Code of the shape abc-defg-hij without the letters
  l and o, which no room had before; it belongs to its creator, and a requested start is
  in the future.\<close>

theorem create_room_fresh:
  assumes "createRoom E u st w = (Inr r, w')" and "quiet E"
  shows "\<exists>room. wellFormedCode (hj_room r) \<and> rm_slug room = hj_room r \<and> rm_hostUserId room = au_id u \<and>
    rooms (dbase w') = rooms (dbase w) @ [room] \<and> hj_room r \<notin> rm_slug ` set (rooms (dbase w)) \<and>
    (\<forall>d. st = Some d \<longrightarrow> (\<exists>t. d = Some t \<and> clock w < t \<and> rm_scheduledStart room = Some t))"
proof -
  from assms(1) obtain room w1 where a: "createLoop E (Option.bind st (\<lambda>d. d)) (au_id u) 5 w = (Inr room, w1)"
    and b: "mintHostJoin E room u w1 = (Inr r, w')" and st: "\<not> (case st of None \<Rightarrow> False | Some d \<Rightarrow> expired_at d (clock w))"
    unfolding createRoom_def roomCreate_def
    by (auto simp: andThen_gets elim!: andThen_InrE [where m = "createLoop _ _ _ _"] split: if_splits)
  note l = createLoop_Inr [OF a]
  have "env_keeps (\<lambda>w. rooms (dbase w) = rs) E" for rs by (rule quiet_env_keeps [OF assms(2)]) simp
  then have "keeps (\<lambda>w. rooms (dbase w) = rs) (mintHostJoin E room u)" for rs
    unfolding mintHostJoin_def makeIdentity_def
    by (auto intro!: keeps_rules keeps_mintToken keeps_dbcmd keeps_draw)
  from keeps_Inr [OF this _ b] have rooms: "rooms (dbase w') = rooms (dbase w1)" by simp
  have "hj_room r = rm_slug room" using b unfolding mintHostJoin_def by (auto elim!: andThen_InrE)
  moreover have "\<exists>t. d = Some t \<and> clock w < t \<and> rm_scheduledStart room = Some t" if "st = Some d" for d
    using that st l by (cases d) auto
  ultimately show ?thesis using l rooms by (intro exI [of _ room]) auto
qed

theorem create_room_fresh_witness:
  "\<exists>r w'. createRoom demoEnv \<lparr>au_id = ''u1'', au_name = ''Ann'', au_email = ''ann@x'', au_image = None\<rparr> None knockWorld = (Inr r, w') \<and>
    wellFormedCode (hj_room r)"
proof -
  let ?r = "createRoom demoEnv \<lparr>au_id = ''u1'', au_name = ''Ann'', au_email = ''ann@x'', au_image = None\<rparr> None knockWorld"
  have "\<not> isl (fst ?r)" by code_simp
  then obtain r w' where r: "?r = (Inr r, w')" using runs by blast
  from create_room_fresh [OF r quiet_demoEnv] r show ?thesis by blast
qed

section \<open>The waiting room\<close>

lemma requireKnock_hit:
  assumes "faults w = []" and "knock_at w slug i = Some k"
  shows "\<exists>w1. requireKnock slug i w = (Inr k, w1) \<and> unchanged w w1 \<and> faults w1 = []"
proof -
  have "fst (get (clock w) (knockKey slug i) (kv w)) = Some (VKnock k)" and r: "kn_room k = slug"
    using assms(2) by (auto simp: knock_at_def split: option.splits stored.splits if_splits)
  then have "\<exists>w1. getKnock slug i w = (Inr (Some k), w1) \<and> faults w1 = []"
    using assms(1) by (simp add: getKnock_def andThen_def rcmd_ok)
  then obtain w1 where g: "getKnock slug i w = (Inr (Some k), w1)" "faults w1 = []" by blast
  then show ?thesis using getKnock_Inr(2) [OF g(1)] by (simp add: requireKnock_def andThen_def)
qed

text \<open>C23. A decision on a waiting guest is final: once a Knock is admitted or denied, admitting and
  denying it again only report the decision and change nothing.\<close>

theorem decided_knock_stays:
  assumes "faults w = []" and "knock_at w slug i = Some k" and "kn_status k \<noteq> Pending"
  shows "\<exists>w'. unchanged w w' \<and> admitOnce E slug i w = (Inr (kn_status k), w') \<and>
    rooms_deny slug i w = (Inr (kn_status k), w') \<and> knock_at w' slug i = Some k"
proof -
  obtain w1 where r: "requireKnock slug i w = (Inr k, w1)" and u: "unchanged w w1"
    using requireKnock_hit [OF assms(1,2)] by blast
  have "knock_at w1 slug i = Some k" using assms(2) by (simp add: knock_at_def unchangedD [OF u])
  with r u assms(3) show ?thesis
    by (intro exI [of _ w1]) (simp add: admitOnce_def rooms_deny_def andThen_def [of "requireKnock _ _"])
qed

definition deniedWorld :: "unit world" where
  "deniedWorld = demoWorld [(knockKey ''abc-defg-hij'' ''k1'', VKnock (demoKnock\<lparr>kn_status := Denied\<rparr>))] []"

theorem decided_knock_stays_witness:
  "\<exists>w'. admitOnce demoEnv ''abc-defg-hij'' ''k1'' deniedWorld = (Inr Denied, w')"
proof -
  have "knock_at deniedWorld ''abc-defg-hij'' ''k1'' = Some (demoKnock\<lparr>kn_status := Denied\<rparr>)" by code_simp
  from decided_knock_stays [OF _ this, of demoEnv] show ?thesis by (auto simp: deniedWorld_def)
qed

lemma expire_ent_other:
  assumes "now \<le> t" and "k' \<noteq> k"
  shows "ent t (expire now k secs r) k' = ent t r k'"
proof -
  let ?r = "cleanupSet now k (cleanupString now k r)"
  have e: "ent t ?r k' = ent t r k'" using assms(1) by simp
  have "ent t (?r\<lparr>setExpiresAt := x\<rparr>) k' = ent t ?r k'" "ent t (?r\<lparr>strings := (strings ?r)(k := y)\<rparr>) k' = ent t ?r k'" for x y
    using assms(2) by (simp_all add: ent_def)
  with e show ?thesis by (auto simp: expire_def Let_def split: option.splits)
qed

lemma addKnock_D:
  assumes "addKnock E room name img user w = (Inr k, w')"
  shows "kn_room k = room \<and> kn_status k = Pending \<and> clock w' = clock w \<and>
    (clock w \<le> t \<longrightarrow> ent t (kv w') (knockKey room (kn_knockId k)) =
      (if t < clock w + 3600000 then Some \<lparr>val = VKnock k, expiresAt = Some (clock w + 3600000)\<rparr> else None))"
  using assms unfolding addKnock_def writeKnock_def Let_def
  by (auto simp: andThen_gets set_ent live_def KNOCK_TTL_SECONDS_def expire_ent_other
      elim!: andThen_InrE seqE_InrE rcmd_InrE)

text \<open>A Knock can be polled with the id it was given: for one hour it answers that it is
  pending, as long as nobody decides it, and from then on that it is not found.\<close>

theorem knock_roundtrip:
  assumes "knockRoom E slug name img user w = (Inr i, w1)" and "faults w1 = []" and "clock w1 \<le> t"
  shows "fst (knockStatus E slug i (w1\<lparr>clock := t\<rparr>)) =
    (if t < clock w1 + 3600000
     then Inr \<lparr>kr_status = Pending, kr_token = None, kr_identity = None, kr_livekitUrl = None, kr_muteOnEntry = None\<rparr>
     else Inl (NotFoundException (faultBody KNOCK_NOT_FOUND)))"
proof -
  from assms(1) obtain r w0 k where r: "requireRoom slug w = (Inr r, w0)" 
    and a: "addKnock E slug (trimOr name []) img user w0 = (Inr k, w1)" and i: "i = kn_knockId k"
    unfolding knockRoom_def Let_def by (auto elim!: andThen_InrE split: if_splits)
  let ?w = "w1\<lparr>clock := t\<rparr>"
  have f: "faults ?w = []" using assms(2) by simp
  note d = addKnock_D [OF a]
  have at: "knock_at ?w slug i = (if t < clock w1 + 3600000 then Some k else None)"
    using d [of t] assms(3) by (simp add: knock_at_def look_def i)
  show ?thesis
  proof (cases "t < clock w1 + 3600000")
    case True
    with at requireKnock_hit [OF f, of slug i k] obtain w2 where "requireKnock slug i ?w = (Inr k, w2)" by auto
    with True d show ?thesis by (simp add: knockStatus_def andThen_def)
  next
    case False
    then have n: "look t (kv w1) (knockKey slug i) = None" using d [of t] assms(3) by (simp add: look_def i)
    have "fst (requireKnock slug i ?w) = Inl (NotFoundException (faultBody KNOCK_NOT_FOUND))"
      using f by (simp add: requireKnock_def getKnock_def andThen_def rcmd_ok n del: look_None)
    with False show ?thesis by (cases "requireKnock slug i ?w") (simp add: knockStatus_def andThen_def)
  qed
qed

theorem knock_roundtrip_witness:
  "\<exists>i w1. knockRoom demoEnv ''abc-defg-hij'' (Some ''Gus'') None None knockWorld = (Inr i, w1) \<and>
    fst (knockStatus demoEnv ''abc-defg-hij'' i (w1\<lparr>clock := 4000000\<rparr>)) = Inl (NotFoundException (faultBody KNOCK_NOT_FOUND))"
proof -
  let ?r = "knockRoom demoEnv ''abc-defg-hij'' (Some ''Gus'') None None knockWorld"
  have ok: "\<not> isl (fst ?r) \<and> faults (snd ?r) = [] \<and> clock (snd ?r) = 1000" by code_simp
  then obtain i w1 where r: "?r = (Inr i, w1)" using runs [of ?r] by blast
  with ok knock_roundtrip [OF r, of 4000000] show ?thesis by auto
qed

section \<open>Direct Rejoin\<close>

text \<open>C24. A guest rejoins without knocking only with a grant of their own account for the running
  instance of the room, under the identity of that grant.\<close>

theorem rejoin_needs_grant:
  assumes "quiet E" and "directRejoin E slug u w = (Inr r, w')"
  shows "\<exists>g w1. rejoin_at w slug (au_id u) = Some g \<and> gj_identity r = dr_identity g \<and> gj_room r = slug \<and>
    calm w w1 \<and> fst (getRoomSid E slug w1) = Inr (Some (dr_roomSid g))"
proof -
  from assms(2) obtain x w1 where a: "requireRoom slug w = (Inr x, w1)"
    and k: "andThen (requireDirectRejoinGrant slug (au_id u)) (\<lambda>grant.
     andThen (getRoomSid E slug) (\<lambda>roomSid.
       if roomSid \<noteq> Some (dr_roomSid grant)
       then seqE (removeDirectRejoinGrant grant) (raise directRejoinNotAllowed)
       else
         andThen (mintToken E \<lparr>mo_room = slug, mo_identity = dr_identity grant,
            mo_name = au_name u, mo_host = False, mo_image = au_image u,
            mo_accountUserId = Some (au_id u),
            mo_directRejoin = Some (dr_grantId grant, dr_roomSid grant)\<rparr>) (\<lambda>token.
         andThen (all2 (getDirectRejoinGrant slug (au_id u)) (getRoomSid E slug))
           (\<lambda>(latestGrant, latestRoomSid).
         if map_option dr_grantId latestGrant \<noteq> Some (dr_grantId grant) \<or>
            latestRoomSid \<noteq> Some (dr_roomSid grant)
         then raise directRejoinNotAllowed
         else andThen (getMuteOnEntry E slug) (\<lambda>muteOnEntry.
                ret \<lparr>gj_room = slug, gj_identity = dr_identity grant, gj_token = token,
                     gj_livekitUrl = livekitUrl E, gj_muteOnEntry = muteOnEntry\<rparr>))))) w1 = (Inr r, w')"
    unfolding directRejoin_def by (rule andThen_InrE)
  from k obtain g w2 where b: "requireDirectRejoinGrant slug (au_id u) w1 = (Inr g, w2)"
    and c: "\<exists>w3. getRoomSid E slug w2 = (Inr (Some (dr_roomSid g)), w3)"
    and r: "gj_identity r = dr_identity g" "gj_room r = slug"
    by (auto elim!: andThen_InrE seqE_InrE split: if_splits prod.splits)
  have c1: "calm w w1" using calm_opD [OF calm_room_reads(4) a] .
  from b obtain w2' where b': "getDirectRejoinGrant slug (au_id u) w1 = (Inr (Some g), w2)"
    unfolding requireDirectRejoinGrant_def by (auto elim!: andThen_InrE split: option.splits)
  have "calm w w2" using calm_trans [OF c1 calm_opD [OF calm_room_reads(5) b']] .
  moreover have "rejoin_at w slug (au_id u) = Some g"
    using getDirectRejoinGrant_Inr(1) [OF b'] calm_views [OF c1] by simp
  ultimately show ?thesis using c r by force
qed

text \<open>The example: a guest with a grant for the running instance.\<close>

definition demoRejoin :: direct_rejoin_grant where
  "demoRejoin = \<lparr>dr_grantId = ''g1'', dr_room = ''abc-defg-hij'', dr_roomSid = ''RM1'', dr_userId = ''u2'',
     dr_identity = ''bob'', dr_createdAt = 900\<rparr>"

definition rejoinWorld :: "unit world" where
  "rejoinWorld = demoWorld [(directRejoinKey ''abc-defg-hij'' ''u2'', VRejoin demoRejoin),
     (directRejoinIdentityKey ''abc-defg-hij'' ''bob'', VStr ''u2'')] []"

definition gus :: auth_user where
  "gus = \<lparr>au_id = ''u2'', au_name = ''Gus'', au_email = ''gus@x'', au_image = None\<rparr>"

theorem rejoin_needs_grant_witness:
  "\<exists>r w' g. directRejoin demoEnv ''abc-defg-hij'' gus rejoinWorld = (Inr r, w') \<and>
    rejoin_at rejoinWorld ''abc-defg-hij'' ''u2'' = Some g \<and> gj_identity r = dr_identity g"
proof -
  have "\<not> isl (fst (directRejoin demoEnv ''abc-defg-hij'' gus rejoinWorld))" by code_simp
  then obtain r w' where r: "directRejoin demoEnv ''abc-defg-hij'' gus rejoinWorld = (Inr r, w')" using runs by blast
  with rejoin_needs_grant [OF quiet_demoEnv r] show ?thesis by (auto simp: gus_def)
qed

lemma removeDirectRejoinGrant_identity:
  assumes "removeDirectRejoinGrant g w = (Inr x, w')" and "rejoin_at w (dr_room g) (dr_userId g) = Some g"
  shows "value_of w' (directRejoinIdentityKey (dr_room g) (dr_identity g)) = None"
proof -
  from assms(1) obtain c w1 where c: "getDirectRejoinGrant (dr_room g) (dr_userId g) w = (Inr c, w1)"
    and k: "(if map_option dr_grantId c \<noteq> Some (dr_grantId g) then ret ()
       else seqE (redisDel [directRejoinKey (dr_room g) (dr_userId g),
                            directRejoinIdentityKey (dr_room g) (dr_identity g)])
              (redisSrem (directRejoinIndexKey (dr_room g)) [dr_userId g])) w1 = (Inr x, w')"
    unfolding removeDirectRejoinGrant_def by (rule andThen_InrE)
  from getDirectRejoinGrant_Inr(1) [OF c] assms(2) k show ?thesis
    by (auto elim!: seqE_InrE rcmd_InrE simp: look_def del_ent)
qed

text \<open>C25. Removing a guest takes back their Direct Rejoin Grant: afterwards they cannot rejoin
  directly, and when they come back with the token they still hold, the webhook treats
  them as not admitted.\<close>

theorem remove_revokes_rejoin:
  assumes "quiet E" and "rejoin_by w slug identity = Some g" and "rooms_remove E slug identity w = (Inr b, w')"
  shows "rejoin_at w' slug (dr_userId g) = None \<and>
    (\<forall>u r w2. au_id u = dr_userId g \<longrightarrow> directRejoin E slug u w' \<noteq> (Inr r, w2)) \<and>
    (\<forall>sid md v w2. isDirectRejoinParticipantValid slug sid identity md w' = (Inr v, w2) \<longrightarrow> \<not> v)"
proof -
  from assms(3) obtain p w1 x w2 where a: "getConnectedParticipant E slug identity w = (Inr p, w1)"
    and r: "revokeDirectRejoinGrantByIdentity slug identity w1 = (Inr x, w2)"
    and m: "removeParticipant E slug identity w2 = (Inr (), w')"
    unfolding rooms_remove_def by (auto elim!: andThen_InrE seqE_InrE split: option.splits)
  note c1 = calm_opD [OF calm_services(2) [OF assms(1)] a] and c2 = calm_opD [OF calm_services(5) [OF assms(1)] m]
  from r obtain y w1' z where g: "getDirectRejoinGrantByIdentity slug identity w1 = (Inr y, w1')"
    and k: "(case y of None \<Rightarrow> ret None | Some g \<Rightarrow> seqE (removeDirectRejoinGrant g) (ret (Some g))) w1' = (Inr x, w2)"
    unfolding revokeDirectRejoinGrantByIdentity_def by (rule andThen_InrE)
  note g = getDirectRejoinGrantByIdentity_Inr [OF g]
  have y: "y = Some g" using g(1) assms(2) calm_views [OF c1] by simp
  with k obtain z where d: "removeDirectRejoinGrant g w1' = (Inr z, w2)" by (auto elim!: seqE_InrE)
  from assms(2) obtain u where u: "rejoin_at w slug u = Some g" and i: "dr_identity g = identity" by (auto simp: rejoin_by_def split: option.splits if_splits)
  note f = rejoin_at_fields [OF u]
  have at: "rejoin_at w1' slug (dr_userId g) = Some g"
    using u f calm_views [OF c1] unchanged_rejoin [OF g(2)] by simp
  with removeDirectRejoinGrant_Inr(1) [OF d, of slug "dr_userId g"] f have none: "rejoin_at w2 slug (dr_userId g) = None" by simp
  then have n: "rejoin_at w' slug (dr_userId g) = None" by (simp add: calm_views [OF c2])
  moreover have "directRejoin E slug v w' \<noteq> (Inr r, w3)" if "au_id v = dr_userId g" for v r w3
    using rejoin_needs_grant [OF assms(1), of slug v w' r w3] n that by auto
  moreover have "\<not> v" if "isDirectRejoinParticipantValid slug sid identity md w' = (Inr v, w3)" for sid md v w3
  proof -
    have "value_of w2 (directRejoinIdentityKey slug identity) = None"
      using removeDirectRejoinGrant_identity [OF d] at i f by simp
    then have "rejoin_by w2 slug identity = None" by (simp add: rejoin_by_def look_def)
    then have "rejoin_by w' slug identity = None" using calm_views(4) [OF c2] by simp
    with that show ?thesis
      unfolding isDirectRejoinParticipantValid_def
      by (auto elim!: andThen_InrE dest!: getDirectRejoinGrantByIdentity_Inr(1) split: prod.splits if_splits)
  qed
  ultimately show ?thesis by blast
qed

theorem remove_revokes_rejoin_witness:
  "\<exists>b w'. rooms_remove demoEnv ''abc-defg-hij'' ''bob'' rejoinWorld = (Inr b, w') \<and>
    rejoin_at w' ''abc-defg-hij'' ''u2'' = None"
proof -
  have "\<not> isl (fst (rooms_remove demoEnv ''abc-defg-hij'' ''bob'' rejoinWorld))" by code_simp
  then obtain b w' where r: "rooms_remove demoEnv ''abc-defg-hij'' ''bob'' rejoinWorld = (Inr b, w')" using runs by blast
  have g: "rejoin_by rejoinWorld ''abc-defg-hij'' ''bob'' = Some demoRejoin" by code_simp
  from remove_revokes_rejoin [OF quiet_demoEnv g r] r show ?thesis by (auto simp: demoRejoin_def)
qed

section \<open>Guards\<close>

text \<open>A request passes the host guard only with the host key of the very room, and the
  participant guard only with a token that LiveKit's signature verifies, of this room, not
  expired, and not of a Control Agent; whoever passes acts under the identity of the token.\<close>

theorem guards_authenticate:
  shows "(hostGuard slug h w = (Inr b, w') \<longrightarrow>
      (\<exists>room. roomBySlug slug (dbase w) = Some room \<and> headerValue h = Some (rm_hostKey room) \<and> rm_hostKey room \<noteq> [])) \<and>
    (participantGuard E slug h w = (Inr p, w'') \<longrightarrow>
      (\<exists>tok cl. headerValue h = Some tok \<and> lk_verify E tok w = (Inr cl, w'') \<and> cl_sub cl = Some (ca_identity p) \<and>
        cl_room cl = Some slug \<and> ca_role p \<noteq> Some ''control-agent'' \<and>
        (\<exists>t. ca_tokenExpiresAt p = Some t \<and> clock w'' < t)))"
  using hostGuard_Inr(1) [of slug h w b w'] participantGuard_Inr [of E slug h w p w''] by blast

theorem guards_authenticate_witness:
  "\<exists>p w''. participantGuard demoEnv ''abc-defg-hij'' (One ''tok'') knockWorld = (Inr p, w'') \<and> ca_identity p = ''ann''"
proof -
  have "\<not> isl (fst (participantGuard demoEnv ''abc-defg-hij'' (One ''tok'') knockWorld))" by code_simp
  then obtain p w'' where r: "participantGuard demoEnv ''abc-defg-hij'' (One ''tok'') knockWorld = (Inr p, w'')" using runs by blast
  with guards_authenticate [of "''abc-defg-hij''" "One ''tok''" knockWorld b knockWorld demoEnv p w'']
  show ?thesis by (auto simp: demoEnv_def)
qed

end
