(* ===== verification/Events.thy ===== *)
theory Events
  imports RcInvariants Delivery
begin

text \<open>
  The two components that drive the others from outside requests: the LiveKit webhook
  (\<^verbatim>\<open>rooms/webhook.controller.ts\<close>) and the maintenance sweep (\<^verbatim>\<open>maintenance/maintenance.worker.ts\<close>).
  The sweep runs under the advisory lock that changes of the maintenance row take too;
  whether the lock was free is an argument. A sweep that is still running makes the next
  tick return at once, so sweeps never overlap.
\<close>

section \<open>Webhook\<close>

definition nonEmpty :: "string \<Rightarrow> string option" where
  "nonEmpty s = (if s = [] then None else Some s)"

definition eventRoom :: "webhook_event \<Rightarrow> webhook_room option" where
  "eventRoom ev =
     (case we_room ev of None \<Rightarrow> None | Some r \<Rightarrow> if wr_name r = [] then None else Some r)"

definition eventIdentity :: "webhook_event \<Rightarrow> string option" where
  "eventIdentity ev = map_option wp_identity (we_participant ev)"

definition onJoined :: "'lk env \<Rightarrow> webhook_event \<Rightarrow> webhook_room \<Rightarrow> ('lk, bool) op" where
  "onJoined E ev room =
     (let identity = eventIdentity ev in
      andThen (if truthy identity
               then andThen maintenanceStatus (\<lambda>st. ret (ms_phase st \<noteq> PhaseOff))
               else ret False) (\<lambda>closed.
      if closed then seqE (removeParticipant E (wr_name room) (the identity)) (ret True)
      else
        andThen (lift (directRejoinMetadata (case we_participant ev of None \<Rightarrow> NoMetadata
                                             | Some p \<Rightarrow> wp_metadata p))) (\<lambda>directRejoin.
        andThen (case directRejoin of
                   None \<Rightarrow> ret True
                 | Some md \<Rightarrow>
                     (case identity of
                        None \<Rightarrow> ret False
                      | Some i \<Rightarrow> isDirectRejoinParticipantValid (wr_name room) (wr_sid room) i md)) (\<lambda>valid.
        if \<not> valid \<and> truthy identity
        then seqE (removeParticipant E (wr_name room) (the identity)) (ret False)
        else
          seqE (stampStartedAt E (wr_name room))
          (seqE (if truthy identity
                 then seqE (rc_onParticipantJoined E (wr_name room) (the identity))
                        (rec_onParticipantJoined E (wr_name room) (wr_sid room) (the identity))
                 else ret ())
            (ret False))))))"

text \<open>\<open>onJoined\<close> returns whether the handler returned early.\<close>

definition webhookReceive :: "'lk env \<Rightarrow> retention \<Rightarrow> string \<Rightarrow> string option \<Rightarrow> ('lk, bool) op" where
  "webhookReceive E R raw authorization =
     andThen (catchE (receiveWebhook E raw authorization)
                (\<lambda>_. raise (UnauthorizedException (faultBody WEBHOOK_UNVERIFIED)))) (\<lambda>ev.
     andThen (case eventRoom ev of
                Some room \<Rightarrow> if we_event ev = ''participant_joined'' then onJoined E ev room else ret False
              | None \<Rightarrow> ret False) (\<lambda>returned.
     if returned then ret True
     else
       seqE (case eventRoom ev of
               None \<Rightarrow> ret ()
             | Some room \<Rightarrow>
                 seqE (if we_event ev = ''participant_left'' \<and> truthy (eventIdentity ev)
                       then rc_onParticipantLeft E (wr_name room) (the (eventIdentity ev)) else ret ())
                 (seqE (if we_event ev = ''participant_left'' \<and> wr_numParticipants room = 0
                        then clearStartedAt E (wr_name room) else ret ())
                   (if we_event ev = ''room_finished''
                    then seqE (rooms_onRoomFinished (wr_name room) (Some (wr_sid room)))
                           (rc_onRoomFinished E (wr_name room))
                    else ret ())))
       (seqE (case we_egressInfo ev of None \<Rightarrow> ret () | Some info \<Rightarrow> handleEgressEvent E R info)
         (ret True))))"

section \<open>Maintenance sweep\<close>

definition upsertCleanup :: "lk_room \<Rightarrow> ('lk, unit) op" where
  "upsertCleanup room =
     dbcmd (\<lambda>_ d. (Inr (),
       if \<exists>c \<in> set (maintenanceCleanup d). mc_roomSid c = ro_sid room then d
       else d\<lparr>maintenanceCleanup := maintenanceCleanup d @ [\<lparr>mc_roomSid = ro_sid room, mc_roomName = ro_name room\<rparr>]\<rparr>))"

definition deleteCleanup :: "string \<Rightarrow> ('lk, unit) op" where
  "deleteCleanup sid =
     dbcmd (\<lambda>_ d.
       if \<exists>c \<in> set (maintenanceCleanup d). mc_roomSid c = sid
       then (Inr (), d\<lparr>maintenanceCleanup := filter (\<lambda>c. mc_roomSid c \<noteq> sid) (maintenanceCleanup d)\<rparr>)
       else (Inl (PrismaError ''P2025''), d))"

definition capturingIn :: "string \<Rightarrow> database \<Rightarrow> recording_row list" where
  "capturingIn slug d =
     filter (\<lambda>r. capturing r \<and>
       map_option rm_slug (find (\<lambda>room. rm_id room = rec_roomId r) (rooms d)) = Some slug) (recordings d)"

definition shutDownRoom :: "'lk env \<Rightarrow> lk_room \<Rightarrow> ('lk, unit) op" where
  "shutDownRoom E room =
     seqE (upsertCleanup room)
     (andThen (dbread (\<lambda>_. capturingIn (ro_name room))) (\<lambda>rs.
      seqE (forE (\<lambda>r. settle (egressStop E (rec_egressId r))) rs)
        (settle (endRoom E (ro_name room)))))"

definition cleanUpRoom :: "'lk env \<Rightarrow> cleanup_row \<Rightarrow> ('lk, unit) op" where
  "cleanUpRoom E item =
     settle (seqE (rc_onRoomFinished E (mc_roomName item))
            (seqE (rooms_onRoomFinished (mc_roomName item) (Some (mc_roomSid item)))
              (deleteCleanup (mc_roomSid item))))"

definition sweepTick :: "'lk env \<Rightarrow> bool \<Rightarrow> ('lk, unit) op" where
  "sweepTick E locked =
     catchE
       (if \<not> locked then ret ()
        else andThen (dbread (\<lambda>_. maintenanceState)) (\<lambda>row.
          case row of
            None \<Rightarrow> ret ()
          | Some st \<Rightarrow>
              andThen dateNow (\<lambda>now.
              let active = (mt_enabled st \<and> mt_startsAt st \<le> now) in
              andThen (listActiveRooms E) (\<lambda>lkRooms.
              seqE (forE (\<lambda>room.
                      if \<not> active
                      then andThen dateNow (\<lambda>now. publishMaintenance E (ro_name room)
                             \<lparr>ms_phase = (if mt_enabled st then PhaseScheduled else PhaseOff),
                              ms_startsAt = (if mt_enabled st then toISOString (mt_startsAt st) else None),
                              ms_message = mt_message st, ms_serverTime = toISOString now\<rparr>)
                      else shutDownRoom E room) lkRooms)
              (andThen (listActiveRooms E) (\<lambda>remaining.
               andThen (dbread (\<lambda>_. maintenanceCleanup)) (\<lambda>pending.
                 forE (\<lambda>item. if list_ex (\<lambda>room. ro_sid room = mc_roomSid item) remaining then ret ()
                              else cleanUpRoom E item) pending)))))))
       (\<lambda>_. ret ())"

section \<open>Lemmas\<close>

lemma keeps_wf_onJoined [keeps_rules]:
  assumes "env_keeps wf_kv E" shows "keeps wf_kv (onJoined E ev room)"
  using assms unfolding onJoined_def Let_def
  by (auto intro!: keeps_rules wfi.event_handlers)

lemma keeps_wf_webhook [keeps_rules]:
  assumes "env_keeps wf_kv E" shows "keeps wf_kv (webhookReceive E R raw auth)"
  using assms unfolding webhookReceive_def
  by (auto intro!: keeps_rules wfi.event_handlers)

lemma keeps_wf_sweep [keeps_rules]:
  assumes "env_keeps wf_kv E" shows "keeps wf_kv (sweepTick E locked)"
proof -
  have "keeps wf_kv (shutDownRoom E room)" "keeps wf_kv (cleanUpRoom E item)" for room item
    using assms unfolding shutDownRoom_def upsertCleanup_def cleanUpRoom_def deleteCleanup_def
    by (auto intro!: keeps_rules wfi.event_handlers)
  then show ?thesis
    using assms unfolding sweepTick_def Let_def by (auto intro!: keeps_rules)
qed

end
