(* ===== verification/AccountDeletion.thy ===== *)
theory AccountDeletion
  imports Events
begin

text \<open>
  \<^verbatim>\<open>AccountDeletionService\<close> (\<^verbatim>\<open>rooms/account-deletion.service.ts\<close>): the durable job that removes
  an account from calls, storage and the database. Login sessions are not part of the
  model, so their deletion is left out; a run that is still busy makes the next tick return
  at once. \<open>message\<close> is the text of an error. The URL parser and the decoding of percent signs
  are the record \<open>url_api\<close>, whose functions give \<open>None\<close> where the originals throw.
\<close>

text \<open>\<^verbatim>\<open>request\<close>: the job is pending, whether or not there was one.\<close>

definition requestDeletion :: "string \<Rightarrow> ('lk, bool) op" where
  "requestDeletion userId =
     seqE (dbcmd (\<lambda>now d.
       if \<exists>a \<in> set (deletions d). ad_userId a = userId
       then (Inr (), d\<lparr>deletions := updateRows (\<lambda>a. ad_userId a = userId)
              (\<lambda>a. a\<lparr>ad_status := DeletionPending, ad_lastError := None, ad_updatedAt := now\<rparr>) (deletions d)\<rparr>)
       else if \<not> (\<exists>u \<in> set (users d). us_id u = userId) then (Inl (PrismaError ''P2003''), d)
       else (Inr (), d\<lparr>deletions := deletions d @ [\<lparr>ad_userId = userId, ad_status = DeletionPending,
              ad_attempts = 0, ad_lastError = None, ad_createdAt = now, ad_updatedAt = now\<rparr>]\<rparr>)))
       (ret True)"

definition claimable :: "int \<Rightarrow> deletion_row \<Rightarrow> bool" where
  "claimable stale a \<longleftrightarrow> ad_status a = DeletionPending \<or>
     (ad_status a = DeletionProcessing \<and> ad_updatedAt a < stale)"

text \<open>\<^verbatim>\<open>ON DELETE CASCADE\<close> from the user to everything that belongs to them.\<close>

definition deleteUser :: "string \<Rightarrow> database \<Rightarrow> (exn + unit) \<times> database" where
  "deleteUser userId d =
     (if \<not> (\<exists>u \<in> set (users d). us_id u = userId) then (Inl (PrismaError ''P2025''), d)
      else
        let goneRooms = map rm_id (filter (\<lambda>r. rm_hostUserId r = userId) (rooms d));
            goneRecs = map rec_id (filter (\<lambda>r. rec_roomId r \<in> set goneRooms) (recordings d)) in
        (Inr (), d\<lparr>users := filter (\<lambda>u. us_id u \<noteq> userId) (users d),
           rooms := filter (\<lambda>r. rm_hostUserId r \<noteq> userId) (rooms d),
           sessions := filter (\<lambda>s. rs_roomId s \<notin> set goneRooms) (sessions d),
           recordings := filter (\<lambda>r. rec_roomId r \<notin> set goneRooms) (recordings d),
           deliveries := filter (\<lambda>x. dl_recordingId x \<notin> set goneRecs) (deliveries d),
           recipients := filter (\<lambda>x. rp_recordingId x \<notin> set goneRecs \<and> rp_userId x \<noteq> userId) (recipients d),
           connections := filter (\<lambda>c. cs_userId c \<noteq> userId) (connections d),
           deletions := filter (\<lambda>a. ad_userId a \<noteq> userId) (deletions d)\<rparr>))"

text \<open>Whether a failed \<^verbatim>\<open>stopEgress\<close> says that the job is not there.\<close>

definition stopEgressUnlessMissing :: "'lk env \<Rightarrow> (exn \<Rightarrow> bool) \<Rightarrow> string \<Rightarrow> ('lk, unit) op" where
  "stopEgressUnlessMissing E missing egressId =
     catchE (egressStop E egressId) (\<lambda>err. if missing err then ret () else raise err)"

section \<open>Avatars\<close>

record url_api =
  ur_pathname :: "string \<Rightarrow> string option"
  ur_decode :: "string \<Rightarrow> string option"

text \<open>The text before the first occurrence of a separator, and the text after it.\<close>

fun breakOn :: "string \<Rightarrow> string \<Rightarrow> string \<times> string option" where
  "breakOn sep [] = (if sep = [] then ([], Some []) else ([], None))"
| "breakOn sep (c # cs) =
     (if take (length sep) (c # cs) = sep then ([], Some (drop (length sep) (c # cs)))
      else case breakOn sep cs of (before, after) \<Rightarrow> (c # before, after))"

definition AVATAR_PATH :: string where
  "AVATAR_PATH = ''/profile/avatar/''"

text \<open>\<^verbatim>\<open>/^[a-f0-9-]+\.webp$/\<close>.\<close>

definition avatarName :: "string \<Rightarrow> bool" where
  "avatarName key \<longleftrightarrow> length key > 5 \<and> drop (length key - 5) key = ''.webp'' \<and>
     list_all (\<lambda>c. c \<in> set ''abcdef0123456789-'') (take (length key - 5) key)"

text \<open>
  The key of a picture that Huddle keeps: \<^verbatim>\<open>split(AVATAR_PATH)[1] ?? ''\<close>, decoded and tested.
\<close>

definition avatarKey :: "url_api \<Rightarrow> string \<Rightarrow> string option" where
  "avatarKey U url =
     (case ur_pathname U url of
        None \<Rightarrow> None
      | Some path \<Rightarrow>
          (let rest = snd (breakOn AVATAR_PATH path) in
           case ur_decode U (case rest of None \<Rightarrow> [] | Some r \<Rightarrow> fst (breakOn AVATAR_PATH r)) of
             None \<Rightarrow> None
           | Some key \<Rightarrow> if rest \<noteq> None \<and> avatarName key then Some key else None))"

definition deleteOwnedAvatar :: "'lk cloud \<Rightarrow> url_api \<Rightarrow> string option \<Rightarrow> ('lk, unit) op" where
  "deleteOwnedAvatar C U url =
     (if \<not> truthy url then ret ()
      else case avatarKey U (the url) of
             None \<Rightarrow> ret ()
           | Some key \<Rightarrow> s3_deleteObject C (''huddle-avatars/'' @ key))"

section \<open>The job\<close>

definition ownedRooms :: "string \<Rightarrow> database \<Rightarrow> (room_row \<times> recording_row list) list" where
  "ownedRooms userId d =
     map (\<lambda>r. (r, filter (\<lambda>x. rec_roomId x = rm_id r) (recordings d)))
       (filter (\<lambda>r. rm_hostUserId r = userId) (rooms d))"

definition uploadRunning :: "string \<Rightarrow> int \<Rightarrow> database \<Rightarrow> bool" where
  "uploadRunning userId now d =
     list_ex (\<lambda>x. dl_status x = Uploading \<and>
       (case dl_leaseUntil x of None \<Rightarrow> False | Some t \<Rightarrow> t > now) \<and>
       Option.bind (recordingOf d x) (hostOf d) = Some userId) (deliveries d)"

definition leaveCalls :: "'lk env \<Rightarrow> string \<Rightarrow> ('lk, unit) op" where
  "leaveCalls E userId =
     andThen (listActiveRooms E) (\<lambda>activeRooms.
     seqE (allE (map (\<lambda>room. removePendingKnocksForUser (ro_name room) userId) activeRooms))
     (seqE (forE (\<lambda>room.
              andThen (listConnectedParticipants E (ro_name room)) (\<lambda>participants.
              forE (\<lambda>p. whenE (matchesAccountBinding E userId (cp_accountBinding p))
                     (rc_onParticipantLeft E (ro_name room) (cp_identity p))) participants)) activeRooms)
       (removeAccountParticipants E userId)))"

definition closeRoom :: "'lk env \<Rightarrow> (exn \<Rightarrow> bool) \<Rightarrow> room_row \<times> recording_row list \<Rightarrow> ('lk, unit) op" where
  "closeRoom E missing = (\<lambda>(room, recs).
     seqE (rc_onRoomFinished E (rm_slug room))
     (seqE (forE (\<lambda>r. whenE (capturing r) (stopEgressUnlessMissing E missing (rec_egressId r))) recs)
     (andThen (listActiveRooms E) (\<lambda>activeRooms.
       whenE (list_ex (\<lambda>x. ro_name x = rm_slug room) activeRooms) (endRoom E (rm_slug room))))))"

text \<open>The part of \<^verbatim>\<open>cleanupAccount\<close> after the account was found, with its picture and its rooms.\<close>

definition eraseAccount ::
    "'lk env \<Rightarrow> 'lk cloud \<Rightarrow> (exn \<Rightarrow> bool) \<Rightarrow> url_api \<Rightarrow> string \<Rightarrow>
      string option \<times> (room_row \<times> recording_row list) list \<Rightarrow> ('lk, unit) op" where
  "eraseAccount E C missing U userId = (\<lambda>(img, owned).
     andThen (dbread (uploadRunning userId)) (\<lambda>uploads.
       if uploads then raise (JsError ''Waiting for an active Drive delivery to stop'')
       else
         seqE (forE (closeRoom E missing) owned)
         (seqE (dbcmd (\<lambda>_ d. (Inr (), d\<lparr>deliveries := updateRows
                  (\<lambda>x. dl_status x \<in> {Queued, Uploading, ActionRequired} \<and>
                       Option.bind (recordingOf d x) (hostOf d) = Some userId)
                  (\<lambda>x. x\<lparr>dl_status := ActionRequired, dl_leaseOwner := None, dl_leaseUntil := None,
                         dl_encryptedUploadSession := None,
                         dl_lastError := Some ''Account deletion in progress''\<rparr>) (deliveries d)\<rparr>)))
         (seqE (forE (\<lambda>(room, recs). forE (\<lambda>r. s3_deleteObject C (rec_objectKey r)) recs) owned)
         (seqE (disconnectForAccountDeletion C userId)
         (seqE (deleteOwnedAvatar C U img)
           (dbcmd (\<lambda>_. deleteUser userId))))))))"

definition dropJob :: "string \<Rightarrow> ('lk, unit) op" where
  "dropJob userId = dbcmd (\<lambda>_ d. (Inr (), d\<lparr>deletions := filter (\<lambda>a. ad_userId a \<noteq> userId) (deletions d)\<rparr>))"

definition cleanupAccount ::
    "'lk env \<Rightarrow> 'lk cloud \<Rightarrow> (exn \<Rightarrow> bool) \<Rightarrow> url_api \<Rightarrow> string \<Rightarrow> ('lk, unit) op" where
  "cleanupAccount E C missing U userId =
     seqE (leaveCalls E userId)
     (andThen (dbread (\<lambda>_ d. map_option (\<lambda>u. (us_image u, ownedRooms userId d))
                 (find (\<lambda>u. us_id u = userId) (users d)))) (\<lambda>user.
      case user of None \<Rightarrow> dropJob userId | Some found \<Rightarrow> eraseAccount E C missing U userId found))"

definition runDeletionCycle ::
    "'lk env \<Rightarrow> 'lk cloud \<Rightarrow> (exn \<Rightarrow> bool) \<Rightarrow> url_api \<Rightarrow> (exn \<Rightarrow> string) \<Rightarrow> ('lk, unit) op" where
  "runDeletionCycle E C missing U message =
     andThen dateNow (\<lambda>t. let stale = t - 60000 in
     andThen (tryE (andThen (dbread (\<lambda>_ d.
                case sort_key ad_createdAt (filter (claimable stale) (deletions d)) of
                  [] \<Rightarrow> None | a # _ \<Rightarrow> Some a)) (\<lambda>job.
              case job of
                None \<Rightarrow> ret None
              | Some a \<Rightarrow>
                  andThen (dbcmd (\<lambda>now d.
                    let P = (\<lambda>x. ad_userId x = ad_userId a \<and> claimable stale x) in
                    (Inr (countRows P (deletions d)),
                     d\<lparr>deletions := updateRows P (\<lambda>x. x\<lparr>ad_status := DeletionProcessing,
                         ad_attempts := ad_attempts x + 1, ad_lastError := None, ad_updatedAt := now\<rparr>)
                       (deletions d)\<rparr>))) (\<lambda>claimed.
                    ret (if claimed = 1 then Some (ad_userId a) else None))))) (\<lambda>claim.
     case claim of
       Inr (Some userId) \<Rightarrow>
         catchE (cleanupAccount E C missing U userId)
           (\<lambda>err. settle (dbcmd (\<lambda>now d. (Inr (), d\<lparr>deletions :=
              updateRows (\<lambda>x. ad_userId x = userId \<and> ad_status x = DeletionProcessing)
                (\<lambda>x. x\<lparr>ad_status := DeletionPending, ad_lastError := Some (take 500 (message err)),
                       ad_updatedAt := now\<rparr>) (deletions d)\<rparr>))))
     | _ \<Rightarrow> ret ()))"

section \<open>Lemmas\<close>

lemma keeps_wf_deletion [keeps_rules]:
  assumes "env_keeps wf_kv E" "cloud_keeps wf_kv C"
  shows "keeps wf_kv (cleanupAccount E C missing U u)"
    and "keeps wf_kv (runDeletionCycle E C missing U message)"
proof -
  have a: "keeps wf_kv (leaveCalls E u)" "keeps wf_kv (closeRoom E missing x)"
    "keeps wf_kv (deleteOwnedAvatar C U url)" "keeps wf_kv (disconnectForAccountDeletion C u)"
    for u x url
    using assms unfolding leaveCalls_def closeRoom_def stopEgressUnlessMissing_def
      deleteOwnedAvatar_def disconnectForAccountDeletion_def
    by (auto intro!: keeps_rules wfi.event_handlers)
  show c: "keeps wf_kv (cleanupAccount E C missing U u)" for u
    using assms unfolding cleanupAccount_def eraseAccount_def dropJob_def by (auto intro!: keeps_rules a)
  show "keeps wf_kv (runDeletionCycle E C missing U message)"
    unfolding runDeletionCycle_def Let_def by (auto intro!: keeps_rules c)
qed

text \<open>After the account is deleted, nothing in the database belongs to it.\<close>

definition belongs :: "string \<Rightarrow> database \<Rightarrow> bool" where
  "belongs userId d \<longleftrightarrow>
     (\<exists>u \<in> set (users d). us_id u = userId) \<or> (\<exists>r \<in> set (rooms d). rm_hostUserId r = userId) \<or>
     (\<exists>c \<in> set (connections d). cs_userId c = userId) \<or> (\<exists>x \<in> set (recipients d). rp_userId x = userId) \<or>
     (\<exists>a \<in> set (deletions d). ad_userId a = userId)"

lemma deleteUser_gone: "fst (deleteUser u d) = Inr () \<Longrightarrow> \<not> belongs u (snd (deleteUser u d))"
  by (auto simp: deleteUser_def belongs_def Let_def split: if_splits)

end
