(* ===== verification/PlatformProperties.thy ===== *)
theory PlatformProperties
  imports RoomProperties AccountDeletion
begin

text \<open>
  Maintenance, recordings, delivery and account deletion.
\<close>

section \<open>Maintenance\<close>

text \<open>Only the configured owner changes maintenance. Enabling it gives five minutes' warning, and
  enabling it again never moves the start; it cannot be disabled while a meeting that it
  ended is still being cleaned up.\<close>

theorem maintenance_change:
  assumes "faults w = []"
  shows "(\<not> isOwner E (Some a) \<longrightarrow> changeMaintenance E b msg a w = (Inl (ForbiddenException TextBody), w)) \<and>
    (isOwner E (Some a) \<and> maintenanceState (dbase w) = None \<longrightarrow>
      (\<exists>st w'. changeMaintenance E True msg a w = (Inr st, w') \<and> ms_phase st = PhaseScheduled \<and>
        ms_startsAt st = Some (clock w + 300000))) \<and>
    (isOwner E (Some a) \<and> maintenanceState (dbase w) = Some m \<and> mt_enabled m \<longrightarrow>
      (\<exists>st w'. changeMaintenance E True msg a w = (Inr st, w') \<and> ms_startsAt st = Some (mt_startsAt m))) \<and>
    (isOwner E (Some a) \<and> maintenanceCleanup (dbase w) \<noteq> [] \<longrightarrow>
      changeMaintenance E False msg a w = (Inl (ConflictException TextBody), w))"
  using assms
  by (auto simp: changeMaintenance_def requireOwner_def seqE_def andThen_def dbcmd_ok changeRow_def Let_def
      maintenanceStatus_def phaseAt_def WARNING_MS_def)

theorem maintenance_change_witness:
  "\<exists>st w'. changeMaintenance demoEnv True None ''owner'' knockWorld = (Inr st, w') \<and> ms_startsAt st = Some 301000"
proof -
  have "isOwner demoEnv (Some ''owner'')" by code_simp
  moreover have "maintenanceState (dbase knockWorld) = None" by (simp add: knockWorld_def)
  ultimately show ?thesis
    using maintenance_change [OF knockWorld_simps(1), of demoEnv "''owner''" True None undefined] by auto
qed

section \<open>Recordings\<close>

text \<open>A room records once at a time: while a recording of the room is starting or active, a
  second one is refused and nothing is started.\<close>

theorem one_recording_at_a_time:
  assumes "faults w = []" and "roomBySlug slug (dbase w) = Some room"
    and "r \<in> set (recordings (dbase w))" and "rec_roomId r = rm_id room" and "capturing r"
  shows "startRecording E C slug who w = (Inl (ConflictException (faultBody RECORDING_IN_PROGRESS)), w)"
proof -
  have "activeRecordings (rm_id room) (dbase w) \<noteq> []"
    using assms(3-5) by (auto simp: activeRecordings_def filter_empty_conv)
  then show ?thesis
    using assms(1,2) by (simp add: startRecording_def recRequireRoom_def findBySlug_def listActiveByRoom_def
        andThen_def dbcmd_ok)
qed

definition demoRecording :: recording_row where
  "demoRecording = \<lparr>rec_id = ''r1'', rec_egressId = ''EG0'', rec_roomId = ''room1'', rec_status = RecActive,
     rec_objectKey = ''abc-defg-hij/a.mp4'', rec_startedByIdentity = None, rec_sizeBytes = None, rec_durationMs = None,
     rec_error = None, rec_startedAt = 500, rec_endedAt = None, rec_localExpiresAt = None, rec_localDeleteAfter = None,
     rec_localDeletedAt = None, rec_driveShareAvailable = False, rec_finalWarningSentAt = None\<rparr>"

definition recordingWorld :: "recording_row \<Rightarrow> unit world" where
  "recordingWorld r = knockWorld\<lparr>dbase := (dbase knockWorld)\<lparr>recordings := [r]\<rparr>\<rparr>"

lemma recordingWorld_simps [simp]:
  "faults (recordingWorld r) = []" "clock (recordingWorld r) = 1000" "recordings (dbase (recordingWorld r)) = [r]"
  "roomBySlug ''abc-defg-hij'' (dbase (recordingWorld r)) = Some demoRoom"
  by (simp_all add: recordingWorld_def knockWorld_def roomBySlug_def demoRoom_def)

theorem one_recording_at_a_time_witness:
  "\<forall>C. startRecording demoEnv C ''abc-defg-hij'' None (recordingWorld demoRecording) =
    (Inl (ConflictException (faultBody RECORDING_IN_PROGRESS)), recordingWorld demoRecording)"
  using one_recording_at_a_time [of "recordingWorld demoRecording" "''abc-defg-hij''" demoRoom demoRecording demoEnv _ None]
  by (simp add: demoRecording_def demoRoom_def capturing_def)

end
