(* ===== verification/CloudProperties.thy ===== *)
theory CloudProperties
  imports DeliveryRun PlatformProperties
begin

text \<open>
  Recordings in the cloud: the delivery to Google Drive, the secrets of a connection, the OAuth
  flow and the download links.
\<close>

section \<open>Example cloud\<close>

text \<open>A cloud whose Drive accepts every chunk and answers with a file of 70 bytes.\<close>

definition demoCipher :: gcm where
  "demoCipher = \<lparr>gcm_seal = (\<lambda>k iv s. ([1], map of_char s)), gcm_open = (\<lambda>k iv t c. Some (map char_of c))\<rparr>"

definition demoCloud :: "unit cloud" where
  "demoCloud =
     \<lparr>s3_headBucket = ret (), s3_createBucket = ret (), s3_getObject = (\<lambda>k. ret (''body'', Some 70)),
      s3_getObjectRange = (\<lambda>k a b. ret (b - a + 1)), s3_deleteObject = (\<lambda>k. ret ()),
      mail_actionRequired = (\<lambda>m. ret ()), mail_expiryReminder = (\<lambda>m. ret ()),
      google_fetch = (\<lambda>q. ret \<lparr>hr_status = 200, hr_json = Some (JObj [(''id'', JStr ''f1''), (''size'', JStr ''70''),
          (''access_token'', JStr ''at''), (''refresh_token'', JStr ''rt'')]),
        hr_location = Some ''https://up'', hr_range = None\<rparr>),
      cipher = demoCipher, encryptionKey = Some (replicate 32 7), googleClientId = Some ''cid'',
      googleClientSecret = Some ''cs'', driveRedirectUri = Some ''https://h/cb'', smtpHost = None\<rparr>"

lemma advances_demoCloud: "advances demoCloud"
  by (simp add: advances_def demoCloud_def)

lemma keeps_demoCloud: "cloud_keeps I demoCloud"
  by (simp add: cloud_keeps_def demoCloud_def keeps_def)

definition demoRetention :: retention where
  "demoRetention = \<lparr>localRetentionHours = 72, deliveredRetentionHours = 24\<rparr>"

definition demoDelivery :: "delivery_status \<Rightarrow> string option \<Rightarrow> delivery_row" where
  "demoDelivery st owner = \<lparr>dl_id = ''d1'', dl_recordingId = ''r1'', dl_status = st, dl_attempts = 0, dl_nextAttemptAt = 0,
     dl_leaseOwner = owner, dl_leaseUntil = None, dl_encryptedUploadSession = None, dl_uploadOffsetBytes = 0,
     dl_driveFileId = None, dl_driveUrl = None, dl_deliveredAt = None, dl_lastError = None, dl_actionNotifiedAt = None\<rparr>"

definition jobWorld :: "int \<Rightarrow> delivery_row \<Rightarrow> unit world" where
  "jobWorld n x =
     (let w = recordingWorld (demoRecording\<lparr>rec_status := RecCompleted, rec_sizeBytes := Some n\<rparr>) in
      w\<lparr>dbase := (dbase w)\<lparr>deliveries := [x]\<rparr>\<rparr>)"

lemma jobWorld_simps [simp]: "deliveries (dbase (jobWorld n x)) = [x]" "faults (jobWorld n x) = []" "clock (jobWorld n x) = 1000"
  by (simp_all add: jobWorld_def Let_def)

section \<open>Delivery\<close>



text \<open>C32. A job is recorded as delivered only when Drive has confirmed a file that is not trashed and
  has exactly the size of the recording: if it never does, the job is not delivered after
  the attempt, however the attempt ends.\<close>

theorem delivered_only_verified:
  assumes "cloud_keeps (undelivered i) C" and "undelivered i w" and "jobOf i (dbase w) = Some (x, r, h, email)"
    and "unconfirmed C r" and "deliver E C R message owner i w = Some (res, w1)"
  shows "undelivered i w1"
  using assms by (rule deliver_unconfirmed)

theorem delivered_only_verified_witness:
  "\<exists>res w1. deliver demoEnv demoCloud demoRetention (\<lambda>_. ''error'') ''worker'' ''d1''
      (jobWorld 71 (demoDelivery Uploading (Some ''worker''))) = Some (res, w1) \<and> undelivered ''d1'' w1"
proof -
  let ?w = "jobWorld 71 (demoDelivery Uploading (Some ''worker''))"
  let ?r = "demoRecording\<lparr>rec_status := RecCompleted, rec_sizeBytes := Some 71\<rparr>"
  obtain res w1 where run: "deliver demoEnv demoCloud demoRetention (\<lambda>_. ''error'') ''worker'' ''d1'' ?w = Some (res, w1)"
    using returns_deliver [OF advances_not_stalled [OF advances_demoCloud]] unfolding returns_def by (metis surj_pair)
  have "unconfirmed demoCloud ?r"
  proof -
    have "sizeText (Some 71) = ''71''" by code_simp
    then show ?thesis unfolding unconfirmed_def isExact_def by (simp add: demoCloud_def)
  qed
  moreover have "jobOf ''d1'' (dbase ?w) = Some (demoDelivery Uploading (Some ''worker''), ?r, ''u1'', ''ann@x'')"
    by (simp add: jobOf_def jobWorld_def Let_def recordingWorld_def knockWorld_def recordingOf_def hostOf_def hostEmailOf_def
        demoDelivery_def demoRecording_def demoRoom_def demoUser_def)
  moreover have "undelivered ''d1'' ?w" by (simp add: undelivered_def demoDelivery_def)
  ultimately have "undelivered ''d1'' w1" using run by - (rule delivered_only_verified [OF keeps_demoCloud])
  with run show ?thesis by blast
qed

text \<open>C33. A job that a worker has claimed is not claimed by any worker, the same one included, for
  the two minutes of the lease.\<close>

theorem claim_excludes:
  assumes "claimNextDelivery a w = (Inr (Some i), w1)" and "distinct (map dl_id (deliveries (dbase w)))"
    and "clock w \<le> t" and "t \<le> clock w + 120000" and "claimNextDelivery b (w1\<lparr>clock := t\<rparr>) = (r, w2)"
  shows "r \<noteq> Inr (Some i)"
proof
  assume r: "r = Inr (Some i)"
  from assms(1) obtain n where n: "fst (takeLease a (clock w) i (dbase w)) = 1"
      "dbase w1 = snd (takeLease a (clock w) i (dbase w))"
    unfolding claimNextDelivery_def
    by (auto elim!: andThen_InrE dbcmd_InrE split: list.splits if_splits)
  from assms(5) r have "fst (takeLease b t i (dbase w1)) = 1"
    unfolding claimNextDelivery_def
    by (auto elim!: andThen_InrE dbcmd_InrE split: list.splits if_splits)
  with takeLease_excludes [OF assms(2) n(1) assms(3)] assms(4) n(2) show False by (simp add: LEASE_MS_def)
qed

theorem claim_excludes_witness:
  "\<exists>w1. claimNextDelivery ''a'' (jobWorld 70 (demoDelivery Queued None)) = (Inr (Some ''d1''), w1) \<and>
    fst (claimNextDelivery ''b'' (w1\<lparr>clock := 60000\<rparr>)) \<noteq> Inr (Some ''d1'')"
proof -
  let ?w = "jobWorld 70 (demoDelivery Queued None)"
  have "fst (claimNextDelivery ''a'' ?w) = Inr (Some ''d1'')" by code_simp
  then obtain w1 where w1: "claimNextDelivery ''a'' ?w = (Inr (Some ''d1''), w1)" by (metis prod.collapse)
  moreover obtain r w2 where r: "claimNextDelivery ''b'' (w1\<lparr>clock := 60000\<rparr>) = (r, w2)" by fastforce
  from claim_excludes [OF w1 _ _ _ this] have "r \<noteq> Inr (Some ''d1'')" by simp
  with r w1 show ?thesis by auto
qed

section \<open>Secrets\<close>

text \<open>What the cipher and the random bytes promise.\<close>

definition gcm_correct :: "gcm \<Rightarrow> bool" where
  "gcm_correct G \<longleftrightarrow> (\<forall>k iv v t c. gcm_seal G k iv v = (t, c) \<longrightarrow>
     t \<noteq> [] \<and> (c = [] \<longrightarrow> v = []) \<and> (\<forall>b \<in> set t \<union> set c. b < 256) \<and> gcm_open G k iv t c = Some v)"

definition random_bytes :: "'lk env \<Rightarrow> bool" where
  "random_bytes E \<longleftrightarrow> (\<forall>i n. length (randBytes E i n) = n \<and> (\<forall>b \<in> set (randBytes E i n). b < 256))"

text \<open>A secret that is stored encrypted can be read again: whatever non-empty text is sealed
  under a key, with whatever random vector, opens to the same text.\<close>

theorem secret_roundtrip:
  assumes "gcm_correct G" and "random_bytes E" and "v \<noteq> []"
  shows "\<exists>s w1. encryptSecret E G (Some k) v w = (Inr s, w1) \<and> decryptSecret G (Some k) s = Inr v"
proof -
  let ?iv = "randBytes E (draws w) 12"
  obtain t c where tc: "gcm_seal G k ?iv v = (t, c)" by fastforce
  with assms(1,3) have ok: "t \<noteq> []" "c \<noteq> []" "\<forall>b \<in> set t. b < 256" "\<forall>b \<in> set c. b < 256" "gcm_open G k ?iv t c = Some v"
    unfolding gcm_correct_def by blast+
  have iv: "?iv \<noteq> []" "\<forall>b \<in> set ?iv. b < 256" using assms(2) unfolding random_bytes_def by (metis length_0_conv zero_neq_numeral, metis)
  have "splitOn (CHR ''.'') (sealText G k ?iv v) = [toBase64url ?iv, toBase64url t, toBase64url c]"
    by (simp add: sealText_def tc splitOn_sep splitOn_free)
  then have "decryptSecret G (Some k) (sealText G k ?iv v) = Inr v"
    using ok iv by (simp add: decryptSecret_def requireKey_def base64_roundtrip)
  then show ?thesis
    by (simp add: encryptSecret_def requireKey_def andThen_def draw_def)
qed

lemma demoCipher_correct: "gcm_correct demoCipher"
  by (auto simp: gcm_correct_def demoCipher_def comp_def)

lemma randBytes_demoEnv: "random_bytes (demoEnv\<lparr>randBytes := \<lambda>i n. replicate n 7\<rparr>)"
  by (simp add: random_bytes_def)

theorem secret_roundtrip_witness:
  "\<exists>s w1. encryptSecret (demoEnv\<lparr>randBytes := \<lambda>i n. replicate n 7\<rparr>) demoCipher (Some [1]) ''rt'' activeWorld = (Inr s, w1) \<and>
    decryptSecret demoCipher (Some [1]) s = Inr ''rt''"
  by (rule secret_roundtrip [OF demoCipher_correct randBytes_demoEnv]) simp

section \<open>Connecting a Drive\<close>

lemma keeps_state:
  fixes key :: string and C :: "'lk cloud"
  defines "I \<equiv> \<lambda>w :: 'lk world. store w key = None"
  assumes "cloud_keeps I C"
  shows "keeps I (connectDrive E C u code)"
proof -
  have draws: "keeps I (draw f)" for f :: "nat \<Rightarrow> 'c"
    unfolding I_def by (rule keeps_draw) (simp add: store_def)
  have db: "keeps I (dbcmd q)" for q :: "int \<Rightarrow> database \<Rightarrow> (exn + 'd) \<times> database"
    unfolding I_def by (rule keeps_dbcmd) (simp_all add: store_def)
  have bytes: "keeps I (randomBytes E n)" for n
    unfolding I_def by (rule keeps_draw) (simp add: store_def)
  show ?thesis
    using assms(2) unfolding connectDrive_def exchangeCode_def googleJson_def refreshTokenOf_def storeConnection_def
      encryptSecret_def getConnection_def requireGoogleClientId_def requireGoogleClientSecret_def requireRedirectUri_def Let_def
    by (intro keeps_rules draws db bytes)
qed

text \<open>C34. The callback of Google connects a Drive to the account that started the flow, and only once:
  the state names that account, and the same state is refused afterwards, whatever code
  comes with it, without any change.\<close>

theorem oauth_state_once:
  assumes "completeGoogleDrive E C state code w = (Inr u, w1)"
    and "cloud_keeps (\<lambda>w. store w (oauthStateKey state) = None) C" and "faults w1 = []"
  shows "map_option val (store w (oauthStateKey state)) = Some (VStr u) \<and>
    (\<exists>c \<in> set (connections (dbase w1)). cs_userId c = u \<and> cs_status c = Connected \<and> truthy (cs_encryptedRefreshToken c)) \<and>
    (\<exists>w2. completeGoogleDrive E C state code' w1 = (Inl (BadRequestException TextBody), w2) \<and> dbase w2 = dbase w1)"
proof -
  obtain v w0 where g: "redisGetdel (oauthStateKey state) w = (Inr v, w0)" and v: "v = Some (VStr u)"
      and run: "connectDrive E C u code w0 = (Inr (), w1)"
    using assms(1) unfolding completeGoogleDrive_def Let_def
    by (auto elim!: andThen_InrE [where m = "rcmd c" for c] seqE_InrE split: if_splits option.splits stored.splits)
  note v = v getdel_InrD [OF g]
  have "store w1 (oauthStateKey state) = None"
    using keepsD [OF keeps_state [OF assms(2)], of w0 E u code] run v(3) by simp
  then obtain w2 where w2: "redisGetdel (oauthStateKey state) w1 = (Inr None, w2)" "dbase w2 = dbase w1"
    using assms(3) by (simp add: rcmd_def store_def look_def)
  then have "completeGoogleDrive E C state code' w1 = (Inl (BadRequestException TextBody), w2)"
    by (simp add: completeGoogleDrive_def andThen_def)
  with w2(2) show ?thesis using v(1,2) connectDrive_stored [OF run] by auto
qed

theorem oauth_state_once_witness:
  "\<exists>w1 w2. completeGoogleDrive demoEnv demoCloud ''s'' ''code'' (demoWorld [(oauthStateKey ''s'', VStr ''u1'')] []) = (Inr ''u1'', w1) \<and>
    completeGoogleDrive demoEnv demoCloud ''s'' ''code'' w1 = (Inl (BadRequestException TextBody), w2)"
proof -
  let ?w = "demoWorld [(oauthStateKey ''s'', VStr ''u1'')] []"
  have "fst (completeGoogleDrive demoEnv demoCloud ''s'' ''code'' ?w) = Inr ''u1'' \<and>
      faults (snd (completeGoogleDrive demoEnv demoCloud ''s'' ''code'' ?w)) = []" by code_simp
  then obtain w1 where "completeGoogleDrive demoEnv demoCloud ''s'' ''code'' ?w = (Inr ''u1'', w1)" "faults w1 = []"
    by (metis prod.collapse)
  from oauth_state_once [OF this(1) keeps_demoCloud this(2)] this(1) show ?thesis by blast
qed

section \<open>Download links\<close>

text \<open>C35. A download link opens exactly the recording it was made for, for five minutes: its token
  passes the guard of that recording until then and not later, it passes for another
  recording only if the signatures collide, and whatever token passes carries the
  signature of the recording with an expiry that has not come.\<close>

theorem download_link:
  assumes "0 \<le> now" and "now < 10 ^ 14" and "now \<le> t"
  shows "(verifyDownload E other room i (signDownload E room i now) t \<longleftrightarrow> t \<le> now + 300000) \<and>
    (verifyDownload E other room' i' (signDownload E room i now) t \<longrightarrow>
      downloadHmac E room' i' (decimal (nat (now + 300000))) = downloadHmac E room i (decimal (nat (now + 300000)))) \<and>
    (verifyDownload E other room i token t \<longrightarrow>
      (\<exists>front e d. token = front @ ''.'' @ downloadHmac E room i d \<and> readNumber other front = Some (e, d) \<and>
        of_int t \<le> e))"
proof -
  let ?n = "nat (now + 300000)"
  have "length (decimal ?n) \<le> 15" using assms(2) by (intro length_decimal) auto
  then have num: "readNumber other (decimal ?n) = Some (of_nat ?n, decimal ?n)"
    using decimal_digits [of ?n] by (simp add: readNumber_def)
  have free: "CHR ''.'' \<notin> set (decimal ?n)" using decimal_digits dot_free_digits by blast
  have "of_nat ?n = (of_int (now + 300000) :: rat)" using assms(1) by (simp add: of_nat_nat)
  then have "(\<not> (of_nat ?n :: rat) < of_int t) \<longleftrightarrow> t \<le> now + 300000" by (metis not_le of_int_less_iff)
  moreover have "verifyDownload E other a b (signDownload E room i now) t \<longleftrightarrow> 
      \<not> (of_nat ?n :: rat) < of_int t \<and> downloadHmac E room i (decimal ?n) = downloadHmac E a b (decimal ?n)" for a b
    using verify_split [OF free, of E other a b _ t] num
    by (simp add: signDownload_def DOWNLOAD_TTL_MS_def Let_def)
  moreover have "\<exists>front e d. token = front @ ''.'' @ downloadHmac E room i d \<and> readNumber other front = Some (e, d) \<and>
        of_int t \<le> e" if ok: "verifyDownload E other room i token t"
  proof -
    let ?p = "\<lambda>c. c \<noteq> CHR ''.''"
    from ok obtain e d where *: "dropWhile ?p token \<noteq> []" "readNumber other (takeWhile ?p token) = Some (e, d)"
        "of_int t \<le> e" "tl (dropWhile ?p token) = downloadHmac E room i d"
      by (auto simp: verifyDownload_def Let_def split: if_splits option.splits)
    have "hd (dropWhile ?p token) = CHR ''.''" using hd_dropWhile [OF *(1)] by simp
    with *(1,4) have "dropWhile ?p token = ''.'' @ downloadHmac E room i d" by (cases "dropWhile ?p token") auto
    then have "token = takeWhile ?p token @ ''.'' @ downloadHmac E room i d"
      using takeWhile_dropWhile_id [of ?p token] by metis
    with *(2,3) show ?thesis by blast
  qed
  ultimately show ?thesis by metis
qed

theorem download_link_witness:
  "verifyDownload demoEnv (\<lambda>_. None) ''room'' ''r1'' (signDownload demoEnv ''room'' ''r1'' 1000) 301000"
  using download_link [of 1000 301000 demoEnv "\<lambda>_. None" "''room''" "''r1''" "[]" "[]" "[]"] by simp

end
