(* ===== verification/ChatFiles.thy ===== *)
theory ChatFiles
  imports Guards Secrets
begin

text \<open>
  \<^verbatim>\<open>ChatFilesService\<close> (\<^verbatim>\<open>rooms/chat-files.service.ts\<close>): files shared in the chat of a call,
  uploaded in parts to a bucket of their own, kept for a day and open only to people who are
  connected to the same call. The S3 client is the record \<open>chat_cloud\<close>, whose operations act on
  the whole world, because other requests run while one is awaited. \<open>jsonText\<close> and \<open>parseJson\<close>
  are the printing and reading of JSON text; the reading fails (\<open>None\<close>) where it throws.
  Sizes are whole numbers below \<^verbatim>\<open>2 ^ 53\<close>, on which the divisions and \<^verbatim>\<open>Math.ceil\<close> of the code are
  exact. A stream is the lengths of its chunks and the error it ends with, if any. The text of
  a download grant is taken byte by byte, which is its UTF-8 form as long as it is ASCII.
\<close>

section \<open>Limits and configuration\<close>

definition DAY :: int where
  "DAY = 86400000"

definition MIN_PART :: int where
  "MIN_PART = 5 * 1024 ^ 2"

definition MAX_CHAT_FILE_BYTES :: int where
  "MAX_CHAT_FILE_BYTES = 5 * 1024 ^ 3 * 10000"

type_synonym stream = "nat list \<times> exn option"

record 'lk chat_cloud =
  cc_headBucket :: "('lk, unit) op"
  cc_createBucket :: "('lk, unit) op"
  cc_putLifecycle :: "('lk, unit) op"
  cc_createUpload :: "string \<Rightarrow> ('lk, string option) op"
  cc_uploadPart :: "string \<Rightarrow> string \<Rightarrow> int \<Rightarrow> int \<Rightarrow> stream \<Rightarrow> ('lk, string option) op"
  cc_completeUpload :: "string \<Rightarrow> string \<Rightarrow> (int \<times> string) list \<Rightarrow> ('lk, unit) op"
  cc_putEmpty :: "string \<Rightarrow> ('lk, unit) op"
  cc_abortUpload :: "string \<Rightarrow> string \<Rightarrow> ('lk, unit) op"
  cc_getObject :: "string \<Rightarrow> ('lk, string) op"
  cc_deleteObject :: "string \<Rightarrow> ('lk, unit) op"
  jsonText :: "json \<Rightarrow> string"
  parseJson :: "string \<Rightarrow> json option"

definition isSafeInteger :: "rat \<Rightarrow> bool" where
  "isSafeInteger n \<longleftrightarrow> of_int \<lfloor>n\<rfloor> = n \<and> \<bar>n\<bar> \<le> 2 ^ 53 - 1"

text \<open>
  The constructor, on the two bucket names and the number that the configured limit spells
  (\<open>Some None\<close> when it is none): the greatest size of a file, or an error.
\<close>

definition chatFilesService :: "string option \<Rightarrow> string option \<Rightarrow> rat option option \<Rightarrow> exn + int" where
  "chatFilesService chatBucket recordingBucket limit =
     (if Some (case chatBucket of None \<Rightarrow> ''huddle-chat'' | Some b \<Rightarrow> b) = recordingBucket
      then Inl (JsError ''S3_CHAT_BUCKET'')
      else case (case limit of None \<Rightarrow> Some (of_int MAX_CHAT_FILE_BYTES) | Some n \<Rightarrow> n) of
        None \<Rightarrow> Inl (JsError ''CHAT_FILE_MAX_BYTES'')
      | Some n \<Rightarrow>
          if \<not> isSafeInteger n \<or> n < 1 \<or> n > of_int MAX_CHAT_FILE_BYTES
          then Inl (JsError ''CHAT_FILE_MAX_BYTES'') else Inr \<lfloor>n\<rfloor>)"

section \<open>Records and the bucket\<close>

definition saveChat :: "chat_file \<Rightarrow> ('lk, unit) op" where
  "saveChat c = seqE (redisSet (chatFileKey (cf_id c)) (VChat c) None Always) (ret ())"

text \<open>The SID of the call, when the person is in it and, if a SID is given, it is that call.\<close>

definition chatConnected :: "'lk env \<Rightarrow> string \<Rightarrow> string \<Rightarrow> string option \<Rightarrow> ('lk, string) op" where
  "chatConnected E room identity roomSid =
     andThen (all2 (getRoomSid E room) (getConnectedParticipant E room identity)) (\<lambda>(sid, current).
       case current of
         None \<Rightarrow> raise (ForbiddenException TextBody)
       | Some p \<Rightarrow>
           if \<not> truthy sid \<or> cp_role p = Some ''control-agent'' \<or> (truthy roomSid \<and> roomSid \<noteq> sid)
           then raise (ForbiddenException TextBody) else ret (the sid))"

fun hasStatus404 :: "exn \<Rightarrow> bool" where
  "hasStatus404 (ServiceError status _) = (status = 404)"
| "hasStatus404 _ = False"

fun hasName :: "string \<Rightarrow> exn \<Rightarrow> bool" where
  "hasName n (ServiceError _ name) = (name = n)"
| "hasName _ _ = False"

definition prepareBucket :: "'lk chat_cloud \<Rightarrow> ('lk, unit) op" where
  "prepareBucket F =
     seqE (catchE (cc_headBucket F) (\<lambda>err.
             if \<not> hasStatus404 err then raise err
             else catchE (cc_createBucket F)
                    (\<lambda>err. if \<not> hasName ''BucketAlreadyOwnedByYou'' err then raise err else ret ())))
       (cc_putLifecycle F)"

definition ensureChatBucket :: "'lk chat_cloud \<Rightarrow> ('lk, unit) op" where
  "ensureChatBucket F =
     andThen (gets (\<lambda>w. chatReady (proc w))) (\<lambda>ready.
       if ready then ret ()
       else seqE (prepareBucket F) (modify (\<lambda>w. w\<lparr>proc := (proc w)\<lparr>chatReady := True\<rparr>\<rparr>)))"

section \<open>Upload\<close>

definition validName :: "string \<Rightarrow> bool" where
  "validName name \<longleftrightarrow> trim name \<noteq> [] \<and> length name \<le> 255 \<and>
     \<not> list_ex (\<lambda>c. (of_char c :: nat) < 32 \<or> of_char c = (127 :: nat)) name"

text \<open>\<^verbatim>\<open>name.split(/[\\/]/).pop() || 'attachment'\<close>.\<close>

definition chatBaseName :: "string \<Rightarrow> string" where
  "chatBaseName name =
     (let s = rev (takeWhile (\<lambda>c. c \<noteq> CHR ''/'' \<and> c \<noteq> CHR 0x5C) (rev name)) in
      if s = [] then ''attachment'' else s)"

definition ceilQuot :: "int \<Rightarrow> int \<Rightarrow> int" where
  "ceilQuot a b = (a + b - 1) div b"

definition partSizeFor :: "int \<Rightarrow> int" where
  "partSizeFor bytes = max MIN_PART (ceilQuot bytes 10000)"

record chat_created =
  cr_id :: string
  cr_partSize :: int
  cr_maxBytes :: int
  cr_expiresAt :: int

definition newChatFile :: "string \<Rightarrow> string \<Rightarrow> string \<Rightarrow> string \<Rightarrow> string \<Rightarrow> int \<Rightarrow> string \<Rightarrow> int \<Rightarrow> chat_file" where
  "newChatFile i room roomSid identity name bytes uploadId now =
     \<lparr>cf_id = i, cf_room = room, cf_roomSid = roomSid, cf_identity = identity, cf_name = chatBaseName name,
      cf_size = bytes, cf_key = ''chat/'' @ roomSid @ ''/'' @ i, cf_uploadId = uploadId,
      cf_partSize = partSizeFor bytes, cf_parts = [], cf_expiresAt = now + DAY, cf_completed = False\<rparr>"

text \<open>\<^verbatim>\<open>create\<close>, whose greatest size \<open>maxBytes\<close> is the constructor's.\<close>

definition chatCreate ::
    "'lk env \<Rightarrow> 'lk chat_cloud \<Rightarrow> int \<Rightarrow> string \<Rightarrow> string \<Rightarrow> string \<Rightarrow> int \<Rightarrow> ('lk, chat_created) op" where
  "chatCreate E F maxBytes room identity name bytes =
     (if \<not> isSafeInteger (of_int bytes) \<or> bytes < 0 \<or> bytes > maxBytes then raise (BadRequestException TextBody)
      else if \<not> validName name then raise (BadRequestException TextBody)
      else
        andThen (chatConnected E room identity None) (\<lambda>roomSid.
        seqE (ensureChatBucket F)
          (andThen (randomUUID E) (\<lambda>i.
           andThen (if bytes = 0 then ret (Some []) else cc_createUpload F (''chat/'' @ roomSid @ ''/'' @ i)) (\<lambda>upload.
             if bytes > 0 \<and> \<not> truthy upload then raise (JsError ''Object storage did not start an upload'')
             else
               andThen dateNow (\<lambda>now.
               let record = newChatFile i room roomSid identity name bytes (the upload) now in
               seqE (catchE
                       (seqE (redisZadd EXPIRY_INDEX (cf_expiresAt record) i) (saveChat record))
                       (\<lambda>err. seqE (if truthy upload then cc_abortUpload F (cf_key record) (the upload) else ret ())
                                (raise err)))
                 (ret \<lparr>cr_id = i, cr_partSize = cf_partSize record, cr_maxBytes = maxBytes,
                       cr_expiresAt = cf_expiresAt record\<rparr>)))))))"

fun parseChat :: "stored \<Rightarrow> exn + chat_file" where
  "parseChat (VChat c) = Inr c"
| "parseChat _ = Inl syntaxError"

definition chatLoad :: "string \<Rightarrow> string \<Rightarrow> ('lk, chat_file) op" where
  "chatLoad room i =
     andThen (redisGet (chatFileKey i)) (\<lambda>raw.
       case present raw of
         None \<Rightarrow> raise (NotFoundException TextBody)
       | Some v \<Rightarrow>
           andThen (lift (parseChat v)) (\<lambda>record.
           andThen dateNow (\<lambda>now.
             if cf_room record \<noteq> room \<or> cf_expiresAt record \<le> now then raise (NotFoundException TextBody)
             else ret record)))"

definition chatOwned :: "'lk env \<Rightarrow> string \<Rightarrow> string \<Rightarrow> string \<Rightarrow> ('lk, chat_file) op" where
  "chatOwned E room i identity =
     andThen (chatLoad room i) (\<lambda>record.
     seqE (chatConnected E room identity (Some (cf_roomSid record)))
       (if cf_identity record \<noteq> identity \<or> cf_completed record then raise (ForbiddenException TextBody)
        else ret record))"

text \<open>The generator \<^verbatim>\<open>bounded\<close>: the chunks it passes on, and the error it ends with.\<close>

fun bounded :: "int \<Rightarrow> int \<Rightarrow> nat list \<Rightarrow> exn option \<Rightarrow> stream" where
  "bounded expected received [] failure =
     ([], case failure of
            Some e \<Rightarrow> Some e
          | None \<Rightarrow> if received \<noteq> expected then Some (BadRequestException TextBody) else None)"
| "bounded expected received (chunk # chunks) failure =
     (if received + int chunk > expected then ([], Some (BadRequestException TextBody))
      else case bounded expected (received + int chunk) chunks failure of (ys, e) \<Rightarrow> (chunk # ys, e))"

definition expectedLength :: "chat_file \<Rightarrow> int \<Rightarrow> int" where
  "expectedLength c number = min (cf_partSize c) (cf_size c - (number - 1) * cf_partSize c)"

text \<open>\<^verbatim>\<open>record.parts[number - 1] = part\<close>, at most one past the end.\<close>

definition putPart :: "int \<Rightarrow> string \<Rightarrow> chat_file \<Rightarrow> chat_file" where
  "putPart number etag c =
     (let k = nat (number - 1); ps = cf_parts c in
      c\<lparr>cf_parts := (if k < length ps then ps[k := (number, etag)] else ps @ [(number, etag)])\<rparr>)"

text \<open>\<open>contentLength\<close> is the number in the header, \<open>None\<close> when it is no whole number.\<close>

definition uploadPart ::
    "'lk env \<Rightarrow> 'lk chat_cloud \<Rightarrow> string \<Rightarrow> string \<Rightarrow> string \<Rightarrow> int \<Rightarrow> int option \<Rightarrow> stream \<Rightarrow> ('lk, int) op" where
  "uploadPart E F room i identity number contentLength body =
     andThen (chatOwned E room i identity) (\<lambda>record.
       if number < 1 \<or> number > 10000 \<or> number > int (length (cf_parts record)) + 1
       then raise (BadRequestException TextBody)
       else
         let expected = expectedLength record number in
         if expected \<le> 0 \<or> contentLength \<noteq> Some expected then raise (BadRequestException TextBody)
         else
           andThen (cc_uploadPart F (cf_key record) (cf_uploadId record) number expected
                      (bounded expected 0 (fst body) (snd body))) (\<lambda>etag.
             if \<not> truthy etag then raise (JsError ''Object storage did not confirm the part'')
             else seqE (saveChat (putPart number (the etag) record)) (ret number)))"

definition chatComplete :: "'lk env \<Rightarrow> 'lk chat_cloud \<Rightarrow> string \<Rightarrow> string \<Rightarrow> string \<Rightarrow> ('lk, string) op" where
  "chatComplete E F room i identity =
     andThen (chatOwned E room i identity) (\<lambda>record.
       if int (length (cf_parts record)) \<noteq> ceilQuot (cf_size record) (cf_partSize record)
       then raise (BadRequestException TextBody)
       else
         seqE (if cf_size record = 0 then cc_putEmpty F (cf_key record)
               else cc_completeUpload F (cf_key record) (cf_uploadId record) (cf_parts record))
           (seqE (saveChat (record\<lparr>cf_completed := True\<rparr>)) (ret (cf_id record))))"

section \<open>Removal\<close>

definition chatRemove :: "'lk chat_cloud \<Rightarrow> chat_file \<Rightarrow> ('lk, unit) op" where
  "chatRemove F record =
     seqE (if \<not> cf_completed record \<and> cf_uploadId record \<noteq> []
           then catchE (cc_abortUpload F (cf_key record) (cf_uploadId record))
                  (\<lambda>err. if \<not> hasName ''NoSuchUpload'' err then raise err else ret ())
           else ret ())
       (seqE (cc_deleteObject F (cf_key record))
         (seqE (redisDel [chatFileKey (cf_id record)]) (redisZrem EXPIRY_INDEX (cf_id record))))"

definition chatCancel :: "'lk env \<Rightarrow> 'lk chat_cloud \<Rightarrow> string \<Rightarrow> string \<Rightarrow> string \<Rightarrow> ('lk, unit) op" where
  "chatCancel E F room i identity = andThen (chatOwned E room i identity) (chatRemove F)"

definition cleanupOne :: "'lk chat_cloud \<Rightarrow> string \<Rightarrow> ('lk, unit) op" where
  "cleanupOne F i =
     andThen (redisGet (chatFileKey i)) (\<lambda>raw.
       case present raw of
         Some v \<Rightarrow> andThen (lift (parseChat v)) (chatRemove F)
       | None \<Rightarrow> redisZrem EXPIRY_INDEX i)"

definition chatCleanup :: "'lk chat_cloud \<Rightarrow> ('lk, unit) op" where
  "chatCleanup F =
     andThen (gets (\<lambda>w. cleaning (proc w))) (\<lambda>busy.
       if busy then ret ()
       else
         seqE (modify (\<lambda>w. w\<lparr>proc := (proc w)\<lparr>cleaning := True\<rparr>\<rparr>))
           (finallyE
             (andThen dateNow (\<lambda>now.
              andThen (redisZrangebyscore EXPIRY_INDEX 0 now 0 100) (forE (cleanupOne F))))
             (modify (\<lambda>w. w\<lparr>proc := (proc w)\<lparr>cleaning := False\<rparr>\<rparr>))))"

section \<open>Download\<close>

definition chatSignature :: "'lk env \<Rightarrow> string \<Rightarrow> string" where
  "chatSignature E payload = hmac E ApiSecret (''chat-download:'' @ payload)"

record chat_info =
  ci_id :: string
  ci_name :: string
  ci_size :: int
  ci_identity :: string
  ci_expiresAt :: int
  ci_downloadToken :: string

definition grantJson :: "string \<Rightarrow> string \<Rightarrow> string \<Rightarrow> string \<Rightarrow> int \<Rightarrow> json" where
  "grantJson i room sid identity e =
     JObj [(''id'', JStr i), (''room'', JStr room), (''sid'', JStr sid), (''identity'', JStr identity),
           (''exp'', JNum (of_int e))]"

definition textBytes :: "string \<Rightarrow> nat list" where
  "textBytes s = map of_char s"

definition chatToken :: "'lk env \<Rightarrow> 'lk chat_cloud \<Rightarrow> json \<Rightarrow> string" where
  "chatToken E F grant =
     (let payload = toBase64url (textBytes (jsonText F grant)) in payload @ ''.'' @ chatSignature E payload)"

definition chatInfo :: "'lk env \<Rightarrow> 'lk chat_cloud \<Rightarrow> string \<Rightarrow> string \<Rightarrow> string \<Rightarrow> ('lk, chat_info) op" where
  "chatInfo E F room i identity =
     andThen (chatLoad room i) (\<lambda>record.
     seqE (chatConnected E room identity (Some (cf_roomSid record)))
       (if \<not> cf_completed record then raise (NotFoundException TextBody)
        else
          andThen dateNow (\<lambda>now.
          ret \<lparr>ci_id = i, ci_name = cf_name record, ci_size = cf_size record, ci_identity = cf_identity record,
               ci_expiresAt = cf_expiresAt record,
               ci_downloadToken = chatToken E F (grantJson i room (cf_roomSid record) identity
                 (min (now + 300000) (cf_expiresAt record)))\<rparr>)))"

text \<open>The fields of a grant, when all have their types; \<open>rat\<close> because the number may be any.\<close>

fun parseGrant :: "json option \<Rightarrow> (string \<times> string \<times> string \<times> string \<times> rat) option" where
  "parseGrant (Some (JObj fs)) =
     (case (map_of fs ''id'', map_of fs ''room'', map_of fs ''sid'', map_of fs ''identity'', map_of fs ''exp'') of
        (Some (JStr i), Some (JStr room), Some (JStr sid), Some (JStr identity), Some (JNum e)) \<Rightarrow>
          Some (i, room, sid, identity, e)
      | _ \<Rightarrow> None)"
| "parseGrant _ = None"

text \<open>The payload and the signature of a token; a third part has to be missing or empty.\<close>

definition tokenParts :: "string \<Rightarrow> (string \<times> string) option" where
  "tokenParts token =
     (case splitOn (CHR ''.'') token of
        payload # signature # rest \<Rightarrow>
          if payload = [] \<or> signature = [] \<or> (rest \<noteq> [] \<and> hd rest \<noteq> []) then None
          else Some (payload, signature)
      | _ \<Rightarrow> None)"

definition chatDownload ::
    "'lk env \<Rightarrow> 'lk chat_cloud \<Rightarrow> string \<Rightarrow> string \<Rightarrow> string \<Rightarrow> ('lk, string \<times> string \<times> int) op" where
  "chatDownload E F room i token =
     (if token = [] \<or> length token > 2048 then raise (ForbiddenException TextBody)
      else case tokenParts token of
        None \<Rightarrow> raise (ForbiddenException TextBody)
      | Some (payload, signature) \<Rightarrow>
          if signature \<noteq> chatSignature E payload then raise (ForbiddenException TextBody)
          else case parseGrant (parseJson F (map char_of (fromBase64 payload))) of
            None \<Rightarrow> raise (ForbiddenException TextBody)
          | Some (gid, groom, gsid, gidentity, e) \<Rightarrow>
              andThen dateNow (\<lambda>now.
                if gid \<noteq> i \<or> groom \<noteq> room \<or> e \<le> of_int now then raise (ForbiddenException TextBody)
                else
                  andThen (chatLoad room i) (\<lambda>record.
                    if \<not> cf_completed record \<or> cf_roomSid record \<noteq> gsid
                    then raise (ForbiddenException TextBody)
                    else
                      seqE (chatConnected E room gidentity (Some (cf_roomSid record)))
                        (andThen (cc_getObject F (cf_key record)) (\<lambda>content.
                           ret (content, cf_name record, cf_size record))))))"

end
