(* ===== verification/ChatProperties.thy ===== *)
theory ChatProperties
  imports ChatFiles Demo
begin

text \<open>
  Files in the chat of a call: the parts of an upload fit the file and the limits of the object
  storage, the stored records stay sound, and a file is open only to people in its call.
\<close>

section \<open>Parts\<close>

lemma less_ceilQuot_iff:
  assumes "0 < b"
  shows "m < ceilQuot a b \<longleftrightarrow> m * b < a"
proof -
  define q where "q = (a + b - 1) div b"
  have "(a + b - 1) mod b < b" "0 \<le> (a + b - 1) mod b" using assms by simp_all
  moreover have "a + b - 1 = q * b + (a + b - 1) mod b" unfolding q_def by (rule div_mult_mod_eq [symmetric])
  moreover have "(q + 1) * b = q * b + b" by (simp add: algebra_simps)
  ultimately have up: "a + b - 1 < (q + 1) * b" and lo: "q * b \<le> a + b - 1" by linarith+
  have "m * b < a" if "m < q"
  proof -
    have "(m + 1) * b \<le> q * b" using that assms by (intro mult_right_mono) auto
    with lo show ?thesis by (simp add: algebra_simps)
  qed
  moreover have "\<not> m * b < a" if "\<not> m < q"
  proof -
    have "q * b \<le> m * b" using that assms by (intro mult_right_mono) auto
    with up show ?thesis by (simp add: algebra_simps)
  qed
  ultimately show ?thesis unfolding ceilQuot_def q_def by blast
qed

lemma partSizeFor_bounds:
  assumes "bytes \<le> MAX_CHAT_FILE_BYTES"
  shows "0 < partSizeFor bytes" "MIN_PART \<le> partSizeFor bytes" "partSizeFor bytes \<le> 5 * 1024 ^ 3"
    "bytes \<le> 10000 * partSizeFor bytes"
proof -
  have "\<not> 5 * 1024 ^ 3 < ceilQuot bytes 10000"
    using assms by (simp add: less_ceilQuot_iff MAX_CHAT_FILE_BYTES_def)
  moreover have "bytes \<le> 10000 * ceilQuot bytes 10000"
    using less_ceilQuot_iff [of 10000 "ceilQuot bytes 10000" bytes] by simp
  ultimately show "0 < partSizeFor bytes" "MIN_PART \<le> partSizeFor bytes"
    "partSizeFor bytes \<le> 5 * 1024 ^ 3" "bytes \<le> 10000 * partSizeFor bytes"
    by (auto simp: partSizeFor_def MIN_PART_def)
qed

definition partCount :: "chat_file \<Rightarrow> nat" where
  "partCount c = nat (ceilQuot (cf_size c) (cf_partSize c))"

lemma part_sum:
  assumes "0 < cf_partSize c" and "m \<le> partCount c" and "0 \<le> cf_size c"
  shows "(\<Sum>j \<leftarrow> [0..<m]. expectedLength c (int j + 1)) = min (cf_size c) (int m * cf_partSize c)"
  using assms(2)
proof (induction m)
  case 0
  then show ?case using assms(3) by simp
next
  case (Suc m)
  then have "int m < ceilQuot (cf_size c) (cf_partSize c)" by (simp add: partCount_def)
  then have "int m * cf_partSize c < cf_size c" using assms(1) by (simp add: less_ceilQuot_iff)
  with Suc assms(1) show ?case by (simp add: expectedLength_def algebra_simps)
qed

text \<open>The parts that an upload asks for fit the file and the limits of the object storage: there are
  at most ten thousand, each has between one byte and five gigabytes, all but the last have at
  least five megabytes, together they have exactly the bytes of the file, and after them no
  further part is taken.\<close>

theorem chat_parts_fit:
  assumes "0 \<le> cf_size c" and "cf_size c \<le> MAX_CHAT_FILE_BYTES" and "cf_partSize c = partSizeFor (cf_size c)"
  shows "partCount c \<le> 10000 \<and>
    (\<Sum>j \<leftarrow> [0..<partCount c]. expectedLength c (int j + 1)) = cf_size c \<and>
    (\<forall>j < partCount c. 0 < expectedLength c (int j + 1) \<and> expectedLength c (int j + 1) \<le> 5 * 1024 ^ 3 \<and>
       (j + 1 < partCount c \<longrightarrow> MIN_PART \<le> expectedLength c (int j + 1))) \<and>
    (\<forall>j \<ge> partCount c. expectedLength c (int j + 1) \<le> 0)"
proof -
  let ?p = "cf_partSize c"
  note p = partSizeFor_bounds [OF assms(2), folded assms(3)]
  have less: "j < partCount c \<longleftrightarrow> int j * ?p < cf_size c" for j
    using less_ceilQuot_iff [OF p(1), of "int j" "cf_size c"] by (auto simp: partCount_def)
  have all: "cf_size c \<le> int (partCount c) * ?p" using less [of "partCount c"] by simp
  have "partCount c \<le> 10000"
  proof (rule ccontr)
    assume "\<not> ?thesis"
    then have "10000 < partCount c" by simp
    then show False using less [of 10000] p(4) by simp
  qed
  moreover have "(\<Sum>j \<leftarrow> [0..<partCount c]. expectedLength c (int j + 1)) = cf_size c"
    using part_sum [OF p(1) order_refl assms(1)] all by simp
  moreover have "0 < expectedLength c (int j + 1) \<and> expectedLength c (int j + 1) \<le> 5 * 1024 ^ 3" if "j < partCount c" for j
    using less [of j] that p(1,3) by (auto simp: expectedLength_def)
  moreover have "MIN_PART \<le> expectedLength c (int j + 1)" if "j + 1 < partCount c" for j
    using less [of "j + 1"] that p(2) by (auto simp: expectedLength_def algebra_simps)
  moreover have "expectedLength c (int j + 1) \<le> 0" if "partCount c \<le> j" for j
    using less [of j] that by (auto simp: expectedLength_def)
  ultimately show ?thesis by blast
qed


section \<open>The records stay sound\<close>

definition wf_chat :: "chat_file \<Rightarrow> bool" where
  "wf_chat c \<longleftrightarrow> 0 \<le> cf_size c \<and> cf_size c \<le> MAX_CHAT_FILE_BYTES \<and> cf_partSize c = partSizeFor (cf_size c) \<and>
     cf_roomSid c \<noteq> [] \<and> map fst (cf_parts c) = map (\<lambda>j. int j + 1) [0..<length (cf_parts c)] \<and>
     (\<forall>p \<in> set (cf_parts c). snd p \<noteq> []) \<and> length (cf_parts c) \<le> partCount c \<and>
     (cf_completed c \<longrightarrow> length (cf_parts c) = partCount c)"

fun sound_value :: "string \<Rightarrow> stored \<Rightarrow> bool" where
  "sound_value k (VChat c) = (k = chatFileKey (cf_id c) \<and> wf_chat c)"
| "sound_value k v = (\<not> pre ''huddle:chat-file:'' k)"

definition chats_sound :: "'lk world \<Rightarrow> bool" where
  "chats_sound w \<longleftrightarrow> holds_kv sound_value w"

definition files_keep :: "('lk world \<Rightarrow> bool) \<Rightarrow> 'lk chat_cloud \<Rightarrow> bool" where
  "files_keep I F \<longleftrightarrow>
     keeps I (cc_headBucket F) \<and> keeps I (cc_createBucket F) \<and> keeps I (cc_putLifecycle F) \<and>
     (\<forall>k. keeps I (cc_createUpload F k)) \<and> (\<forall>k u n l b. keeps I (cc_uploadPart F k u n l b)) \<and>
     (\<forall>k u ps. keeps I (cc_completeUpload F k u ps)) \<and> (\<forall>k. keeps I (cc_putEmpty F k)) \<and>
     (\<forall>k u. keeps I (cc_abortUpload F k u)) \<and> (\<forall>k. keeps I (cc_getObject F k)) \<and>
     (\<forall>k. keeps I (cc_deleteObject F k))"

lemma files_keepD [keeps_rules]:
  assumes "files_keep I F"
  shows "keeps I (cc_headBucket F)" "keeps I (cc_createBucket F)" "keeps I (cc_putLifecycle F)"
    "keeps I (cc_createUpload F k)" "keeps I (cc_uploadPart F k u n l b)" "keeps I (cc_completeUpload F k u ps)"
    "keeps I (cc_putEmpty F k)" "keeps I (cc_abortUpload F k u)" "keeps I (cc_getObject F k)"
    "keeps I (cc_deleteObject F k)"
  using assms unfolding files_keep_def by blast+

lemma keeps_andThenQ:
  assumes "keeps I m" and "\<And>w x w'. I w \<Longrightarrow> m w = (Inr x, w') \<Longrightarrow> Q x" and "\<And>x. Q x \<Longrightarrow> keeps I (k x)"
  shows "keeps I (andThen m k)"
proof (rule keepsI)
  fix w assume "I w"
  then have "I (snd (m w))" using assms(1) by (simp add: keepsD)
  with \<open>I w\<close> show "I (snd (andThen m k w))"
    using assms(2) [OF \<open>I w\<close>] assms(3) by (auto simp: andThen_def keeps_def split: prod.splits sum.splits)
qed

lemma chats_sound_eq: "chats_sound = holds_kv sound_value"
  by (simp add: fun_eq_iff chats_sound_def)

lemmas keeps_chats [keeps_rules] = keeps_holds_kv [where P = sound_value, folded chats_sound_eq]
lemmas keeps_chats_set = keeps_holds_kv_set [where P = sound_value, folded chats_sound_eq]

lemma keeps_chats_modify [keeps_rules]: "keeps chats_sound (modify (\<lambda>w. w\<lparr>proc := f w\<rparr>))"
  by (simp add: keeps_def modify_def chats_sound_def)

lemma keeps_saveChat [keeps_rules]: "wf_chat c \<Longrightarrow> keeps chats_sound (saveChat c)"
  unfolding saveChat_def by (intro keeps_rules keeps_chats_set) simp_all

lemma chats_sound_value: "chats_sound w \<Longrightarrow> value_of w k = Some (VChat c) \<Longrightarrow> wf_chat c \<and> k = chatFileKey (cf_id c)"
  by (auto simp: chats_sound_def holds_kv_def all_stored_def look_def ent_def split: option.splits if_splits)
    (metis sound_value.simps(1))+

lemma present_Some: "present raw = Some v \<Longrightarrow> raw = Some v"
  by (cases "(raw, True)" rule: prod.exhaust) (auto elim: present.elims)

lemma parseChat_Inr: "parseChat v = Inr c \<longleftrightarrow> v = VChat c"
  by (cases v) auto

lemma chatLoad_Inr:
  assumes "chatLoad room i w = (Inr c, w')"
  shows "value_of w (chatFileKey i) = Some (VChat c) \<and> cf_room c = room \<and> clock w < cf_expiresAt c \<and>
    unchanged w w'"
proof -
  obtain raw where raw: "redisGet (chatFileKey i) w = (Inr raw, w')"
    and "present raw = Some (VChat c)" "cf_room c = room" "clock w' < cf_expiresAt c"
    using assms unfolding chatLoad_def
    by (auto elim!: andThen_InrE simp: parseChat_Inr lift_def split: option.splits if_splits)
  then show ?thesis using redisGet_InrD [OF raw] present_Some by (auto simp: unchanged_def)
qed


lemma chatOwned_Inr:
  assumes "chatOwned E room i identity w = (Inr c, w')"
  obtains w1 sid where "chatLoad room i w = (Inr c, w1)"
    and "chatConnected E room identity (Some (cf_roomSid c)) w1 = (Inr sid, w')"
    and "cf_identity c = identity" and "\<not> cf_completed c"
  using assms unfolding chatOwned_def by (auto elim!: andThen_InrE seqE_InrE split: if_splits)

lemma owned_sound:
  "chats_sound w \<Longrightarrow> chatOwned E room i identity w = (Inr c, w') \<Longrightarrow> wf_chat c \<and> \<not> cf_completed c"
  by (elim chatOwned_Inr) (auto dest: chatLoad_Inr chats_sound_value)

lemma wf_newChatFile:
  "0 \<le> bytes \<Longrightarrow> bytes \<le> MAX_CHAT_FILE_BYTES \<Longrightarrow> sid \<noteq> [] \<Longrightarrow> wf_chat (newChatFile i room sid identity name bytes u now)"
  by (simp add: wf_chat_def newChatFile_def)

lemma wf_putPart:
  assumes "wf_chat c" and "\<not> cf_completed c" and "etag \<noteq> []"
    and "1 \<le> number" and "number \<le> int (length (cf_parts c)) + 1" and "0 < expectedLength c number"
  shows "wf_chat (putPart number etag c)"
proof -
  let ?k = "nat (number - 1)" and ?ps = "cf_parts c"
  have k: "number = int ?k + 1" "?k \<le> length ?ps" using assms(4,5) by simp_all
  have p: "0 < cf_partSize c" using assms(1) partSizeFor_bounds(1) by (auto simp: wf_chat_def)
  have "int ?k < ceilQuot (cf_size c) (cf_partSize c)"
    using assms(4,6) p by (simp add: less_ceilQuot_iff [OF p] expectedLength_def)
  then have count: "?k < partCount c" unfolding partCount_def by linarith
  have same: "partCount (putPart number etag c) = partCount c" by (simp add: partCount_def putPart_def Let_def)
  have numbered: "map fst ?ps = map (\<lambda>j. int j + 1) [0..<length ?ps]" using assms(1) by (simp add: wf_chat_def)
  show ?thesis
  proof (cases "?k < length ?ps")
    case True
    then have "map fst ?ps ! ?k = number" using k(1) by (simp add: numbered)
    then have "(map fst ?ps)[?k := number] = map fst ?ps" by (metis list_update_id)
    then have "map fst (?ps[?k := (number, etag)]) = map fst ?ps" by (simp add: map_update)
    with True assms(1-3) numbered same show ?thesis
      by (auto simp: wf_chat_def putPart_def Let_def dest!: set_update_subset_insert [THEN subsetD])
  next
    case False
    with k(2) have "length ?ps = ?k" by simp
    with False assms(1-3) count k(1) same numbered show ?thesis
      by (auto simp: wf_chat_def putPart_def Let_def)
  qed
qed

lemma keeps_chat_reads [keeps_rules]:
  assumes "env_keeps chats_sound E"
  shows "keeps chats_sound (chatConnected E room identity sid)" "keeps chats_sound (chatLoad room i)"
    "keeps chats_sound (chatOwned E room i identity)"
proof -
  show con: "keeps chats_sound (chatConnected E room identity sid)" for identity sid
    unfolding chatConnected_def using assms by (auto intro!: keeps_rules)
  show load: "keeps chats_sound (chatLoad room i)"
    unfolding chatLoad_def by (auto intro!: keeps_rules)
  show "keeps chats_sound (chatOwned E room i identity)"
    unfolding chatOwned_def by (intro keeps_rules con load)
qed

lemma keeps_ensureChatBucket [keeps_rules]:
  "files_keep chats_sound F \<Longrightarrow> keeps chats_sound (ensureChatBucket F)"
  unfolding ensureChatBucket_def prepareBucket_def by (auto intro!: keeps_rules)

lemma keeps_chatRemove [keeps_rules]: "files_keep chats_sound F \<Longrightarrow> keeps chats_sound (chatRemove F c)"
  unfolding chatRemove_def by (auto intro!: keeps_rules)

lemma truthy_iff: "truthy x \<longleftrightarrow> (\<exists>s. x = Some s \<and> s \<noteq> [])"
  by (cases x) auto

lemma connected_sid: "chatConnected E room identity sid w = (Inr s, w') \<Longrightarrow> s \<noteq> []"
  unfolding chatConnected_def by (auto elim!: andThen_InrE simp: truthy_iff split: option.splits if_splits)

lemma keeps_chatCreate:
  assumes "env_keeps chats_sound E" and "files_keep chats_sound F" and "maxBytes \<le> MAX_CHAT_FILE_BYTES"
  shows "keeps chats_sound (chatCreate E F maxBytes room identity name bytes)"
  unfolding chatCreate_def Let_def
  by (intro keeps_if keeps_raise
      keeps_andThenQ [where m = "chatConnected E room identity None" and Q = "\<lambda>s. s \<noteq> []"])
    (use assms in \<open>auto intro!: keeps_rules wf_newChatFile dest: connected_sid\<close>)

lemma keeps_uploadPart:
  assumes "env_keeps chats_sound E" and "files_keep chats_sound F"
  shows "keeps chats_sound (uploadPart E F room i identity number len body)"
  unfolding uploadPart_def Let_def
proof (rule keeps_andThenQ [where Q = "\<lambda>c. wf_chat c \<and> \<not> cf_completed c"])
  show "keeps chats_sound (chatOwned E room i identity)" using assms(1) by (intro keeps_rules)
qed (use assms in \<open>auto intro!: keeps_rules wf_putPart dest: owned_sound elim: truthy.elims\<close>)

lemma keeps_chatComplete:
  assumes "env_keeps chats_sound E" and "files_keep chats_sound F"
  shows "keeps chats_sound (chatComplete E F room i identity)"
  unfolding chatComplete_def
proof (rule keeps_andThenQ [where Q = "\<lambda>c. wf_chat c \<and> \<not> cf_completed c"])
  show "keeps chats_sound (chatOwned E room i identity)" using assms(1) by (intro keeps_rules)
  show "wf_chat c \<and> \<not> cf_completed c" if "chats_sound w" "chatOwned E room i identity w = (Inr c, w')" for w c w'
    using owned_sound that by blast
next
  fix c assume "wf_chat c \<and> \<not> cf_completed c"
  then have "int (length (cf_parts c)) = ceilQuot (cf_size c) (cf_partSize c) \<Longrightarrow> wf_chat (c\<lparr>cf_completed := True\<rparr>)"
    by (auto simp: wf_chat_def partCount_def)
  then show "keeps chats_sound
      (if int (length (cf_parts c)) \<noteq> ceilQuot (cf_size c) (cf_partSize c) then raise (BadRequestException TextBody)
       else seqE (if cf_size c = 0 then cc_putEmpty F (cf_key c)
                  else cc_completeUpload F (cf_key c) (cf_uploadId c) (cf_parts c))
              (seqE (saveChat (c\<lparr>cf_completed := True\<rparr>)) (ret (cf_id c))))"
    using assms by (auto intro!: keeps_rules)
qed

lemma keeps_chatCleanup:
  "files_keep chats_sound F \<Longrightarrow> keeps chats_sound (chatCleanup F)"
  unfolding chatCleanup_def cleanupOne_def by (auto intro!: keeps_rules)

lemma limit_MAX: "chatFilesService b r limit = Inr m \<Longrightarrow> m \<le> MAX_CHAT_FILE_BYTES"
  by (auto simp: chatFilesService_def isSafeInteger_def split: if_splits option.splits)

text \<open>C36. The records of chat files stay sound, whatever fails and whatever other requests do meanwhile
  that keeps them so: the parts are numbered from one without a gap and confirmed, there are never
  more than the file needs, a file counts as complete only with all of them, and a record stands
  under its own key.\<close>

theorem chat_records_sound:
  assumes "env_keeps chats_sound E" and "files_keep chats_sound F"
    and "chatFilesService chatBucket recordingBucket limit = Inr maxBytes" and "chats_sound w"
  shows "chats_sound (snd (chatCreate E F maxBytes room identity name bytes w)) \<and>
    chats_sound (snd (uploadPart E F room i identity number len body w)) \<and>
    chats_sound (snd (chatComplete E F room i identity w)) \<and>
    chats_sound (snd (chatCancel E F room i identity w)) \<and>
    chats_sound (snd (chatInfo E F room i identity w)) \<and>
    chats_sound (snd (chatDownload E F room i token w)) \<and> chats_sound (snd (chatCleanup F w))"
proof -
  have "keeps chats_sound (chatCancel E F room i identity)"
    unfolding chatCancel_def using assms(1,2) by (intro keeps_rules)
  moreover have "keeps chats_sound (chatInfo E F room i identity)"
    unfolding chatInfo_def using assms(1) by (auto intro!: keeps_rules)
  moreover have "keeps chats_sound (chatDownload E F room i token)"
    unfolding chatDownload_def using assms(1,2) by (auto intro!: keeps_rules)
  ultimately show ?thesis
    using assms(1,2) limit_MAX [OF assms(3)]
    by (intro conjI keepsD [where I = chats_sound, OF _ assms(4)] keeps_chatCreate keeps_uploadPart keeps_chatComplete keeps_chatCleanup)
qed


section \<open>Who may download\<close>

text \<open>\<open>in_call\<close>: LiveKit lists the person, who is no Control Agent, in the running call \<open>sid\<close>.\<close>

definition in_call :: "'lk env \<Rightarrow> string \<Rightarrow> string \<Rightarrow> string \<Rightarrow> 'lk world \<Rightarrow> 'lk world \<Rightarrow> bool" where
  "in_call E room identity sid w w' \<longleftrightarrow> (\<exists>w1 p. getRoomSid E room w = (Inr (Some sid), w1) \<and>
     getConnectedParticipant E room identity w1 = (Inr (Some p), w') \<and> cp_role p \<noteq> Some ''control-agent'')"

lemma chatConnected_Inr:
  assumes "chatConnected E room identity (Some sid) w = (Inr s, w')" and "sid \<noteq> []"
  shows "s = sid \<and> in_call E room identity sid w w'"
proof -
  obtain current where "all2 (getRoomSid E room) (getConnectedParticipant E room identity) w = (Inr (Some s, Some current), w')"
    and "cp_role current \<noteq> Some ''control-agent''" and "s = sid"
    using assms unfolding chatConnected_def
    by (auto elim!: andThen_InrE split: option.splits if_splits elim: truthy.elims)
  then show ?thesis by (auto simp: in_call_def all2_Inr_iff)
qed

text \<open>C37. A chat file is handed out only to someone in its call: the token is signed and names the very
  file and room, it has not expired and neither has the file, the upload is complete, and the
  person the token was made for is at that moment in the same call the file was sent to.\<close>

theorem chat_download_guarded:
  assumes "chats_sound w" and "chatDownload E F room i token w = (Inr (content, name, n), w')"
  shows "\<exists>payload sid identity e c w1 w2. tokenParts token = Some (payload, chatSignature E payload) \<and>
    parseGrant (parseJson F (map char_of (fromBase64 payload))) = Some (i, room, sid, identity, e) \<and>
    of_int (clock w) < e \<and> value_of w (chatFileKey i) = Some (VChat c) \<and> cf_completed c \<and> cf_room c = room \<and>
    cf_roomSid c = sid \<and> clock w < cf_expiresAt c \<and> name = cf_name c \<and> n = cf_size c \<and> unchanged w w1 \<and>
    in_call E room identity sid w1 w2 \<and> cc_getObject F (cf_key c) w2 = (Inr content, w')"
proof -
  obtain payload sig where parts: "tokenParts token = Some (payload, sig)"
    using assms(2) unfolding chatDownload_def by (auto split: if_splits option.splits)
  obtain gid groom sid identity e where
    grant: "parseGrant (parseJson F (map char_of (fromBase64 payload))) = Some (gid, groom, sid, identity, e)"
    using assms(2) parts unfolding chatDownload_def by (auto split: if_splits option.splits)
  have ok: "sig = chatSignature E payload" "gid = i" "groom = room" "of_int (clock w) < e"
    using assms(2) parts grant unfolding chatDownload_def by (auto elim!: andThen_InrE split: if_splits)
  obtain c w1 s w2 where c: "chatLoad room i w = (Inr c, w1)" "cf_completed c" "cf_roomSid c = sid"
      "chatConnected E room identity (Some sid) w1 = (Inr s, w2)" "cc_getObject F (cf_key c) w2 = (Inr content, w')"
      "name = cf_name c" "n = cf_size c"
    using assms(2) parts grant unfolding chatDownload_def by (auto elim!: andThen_InrE seqE_InrE split: if_splits)
  have "sid \<noteq> []" using chatLoad_Inr [OF c(1)] chats_sound_value [OF assms(1)] c(3) by (auto simp: wf_chat_def)
  then have "in_call E room identity sid w1 w2" using chatConnected_Inr c(4) by blast
  then show ?thesis using parts grant ok c chatLoad_Inr [OF c(1)] by blast
qed

lemma chatLoad_ok:
  assumes "value_of w (chatFileKey i) = Some (VChat c)" and "cf_room c = room" and "clock w < cf_expiresAt c"
    and "faults w = []"
  shows "\<exists>w'. chatLoad room i w = (Inr c, w') \<and> unchanged w w'"
proof -
  have "fst (chatLoad room i w) = Inr c"
    using assms unfolding chatLoad_def by (simp add: andThen_def rcmd_def)
  then obtain w' where "chatLoad room i w = (Inr c, w')" by (metis prod.collapse)
  with chatLoad_Inr show ?thesis by blast
qed


lemma bytes_text: "map char_of (textBytes s) = s" "\<forall>b \<in> set (textBytes s). b < 256"
  by (induction s) (auto simp: textBytes_def)

text \<open>What the token of a grant holds, for signatures that are base64url text.\<close>

definition base64_signatures :: "'lk env \<Rightarrow> bool" where
  "base64_signatures E \<longleftrightarrow> (\<forall>bs. let sig = chatSignature E (toBase64url bs) in sig \<noteq> [] \<and> CHR ''.'' \<notin> set sig)"

lemma chatToken_parts:
  assumes "base64_signatures E" and "jsonText F g \<noteq> []"
  shows "\<exists>payload. tokenParts (chatToken E F g) = Some (payload, chatSignature E payload) \<and>
    map char_of (fromBase64 payload) = jsonText F g \<and> chatToken E F g \<noteq> []"
proof -
  define payload where "payload = toBase64url (textBytes (jsonText F g))"
  have sig: "chatSignature E payload \<noteq> []" "CHR ''.'' \<notin> set (chatSignature E payload)" and "payload \<noteq> []"
    using assms by (simp_all add: base64_signatures_def Let_def payload_def textBytes_def)
  then have "tokenParts (chatToken E F g) = Some (payload, chatSignature E payload)"
    by (simp add: tokenParts_def chatToken_def Let_def splitOn_sep splitOn_free flip: payload_def)
      (simp add: payload_def splitOn_sep splitOn_free)
  moreover have "map char_of (fromBase64 payload) = jsonText F g"
    by (simp add: payload_def base64_roundtrip bytes_text)
  ultimately show ?thesis by (auto simp: chatToken_def Let_def)
qed

text \<open>A download with the token of a grant, by the checks that follow the signature.\<close>

lemma download_with_token:
  assumes "base64_signatures E" and "jsonText F g \<noteq> []" and "parseJson F (jsonText F g) = Some g"
    and "g = grantJson gid groom sid identity e" and "length (chatToken E F g) \<le> 2048"
  shows "chatDownload E F room i (chatToken E F g) w =
    (if gid \<noteq> i \<or> groom \<noteq> room \<or> e \<le> clock w then (Inl (ForbiddenException TextBody), w)
     else andThen (chatLoad room i) (\<lambda>c.
       if \<not> cf_completed c \<or> cf_roomSid c \<noteq> sid then raise (ForbiddenException TextBody)
       else seqE (chatConnected E room identity (Some (cf_roomSid c)))
              (andThen (cc_getObject F (cf_key c)) (\<lambda>content. ret (content, cf_name c, cf_size c)))) w)"
proof -
  obtain payload where p: "tokenParts (chatToken E F g) = Some (payload, chatSignature E payload)"
      "map char_of (fromBase64 payload) = jsonText F g" "chatToken E F g \<noteq> []"
    using chatToken_parts [OF assms(1,2)] by blast
  have "parseGrant (Some g) = Some (gid, groom, sid, identity, of_int e)"
    by (simp add: assms(4) grantJson_def)
  with p assms(3,5) show ?thesis by (auto simp: chatDownload_def andThen_def)
qed

lemma chatInfo_Inr:
  assumes "chatInfo E F room i identity w = (Inr info, w1)"
  obtains c where "value_of w (chatFileKey i) = Some (VChat c)" and "cf_completed c" and "cf_room c = room"
    and "ci_downloadToken info = chatToken E F (grantJson i room (cf_roomSid c) identity
      (min (clock w1 + 300000) (cf_expiresAt c)))"
  using assms unfolding chatInfo_def
  by (auto elim!: andThen_InrE [where m = "chatLoad room i"] andThen_InrE [where m = dateNow] seqE_InrE
      dest!: chatLoad_Inr split: if_splits)

text \<open>C38. The link to a chat file works for the person who asked for it, for five minutes: with its token
  the file is handed out as long as its record stands and the person is in the call, not after five
  minutes, and for no other file and no other room.\<close>

theorem chat_link_roundtrip:
  assumes "chatInfo E F room i identity w = (Inr info, w1)" and "value_of w (chatFileKey i) = Some (VChat c)"
    and "g = grantJson i room (cf_roomSid c) identity (min (clock w1 + 300000) (cf_expiresAt c))"
    and "parseJson F (jsonText F g) = Some g" and "jsonText F g \<noteq> []" and "base64_signatures E"
    and "length (chatToken E F g) \<le> 2048"
  shows "(value_of w2 (chatFileKey i) = Some (VChat c) \<and> faults w2 = [] \<and> clock w2 < clock w1 + 300000 \<and>
      clock w2 < cf_expiresAt c \<and>
      (\<forall>w3. unchanged w2 w3 \<longrightarrow> (\<exists>s w4 w5. chatConnected E room identity (Some (cf_roomSid c)) w3 = (Inr s, w4) \<and>
         cc_getObject F (cf_key c) w4 = (Inr content, w5))) \<longrightarrow>
      fst (chatDownload E F room i (ci_downloadToken info) w2) = Inr (content, cf_name c, cf_size c)) \<and>
    (clock w1 + 300000 \<le> clock w2 \<or> room' \<noteq> room \<or> i' \<noteq> i \<longrightarrow>
      chatDownload E F room' i' (ci_downloadToken info) w2 = (Inl (ForbiddenException TextBody), w2))"
proof -
  have c: "cf_completed c" "cf_room c = room" "ci_downloadToken info = chatToken E F g"
    using chatInfo_Inr [OF assms(1)] assms(2,3) by (metis option.inject stored.inject(8))+
  note token = download_with_token [OF assms(6,5,4,3,7), folded c(3)]
  have "fst (chatDownload E F room i (ci_downloadToken info) w2) = Inr (content, cf_name c, cf_size c)"
    if a: "value_of w2 (chatFileKey i) = Some (VChat c)" "faults w2 = []" "clock w2 < clock w1 + 300000"
      "clock w2 < cf_expiresAt c"
      and run: "\<forall>w3. unchanged w2 w3 \<longrightarrow> (\<exists>s w4 w5. chatConnected E room identity (Some (cf_roomSid c)) w3 = (Inr s, w4) \<and>
         cc_getObject F (cf_key c) w4 = (Inr content, w5))"
  proof -
    obtain w3 where load: "chatLoad room i w2 = (Inr c, w3)" "unchanged w2 w3"
      using chatLoad_ok a(1,2,4) c(2) by blast
    with run obtain s w4 w5 where "chatConnected E room identity (Some (cf_roomSid c)) w3 = (Inr s, w4)"
        "cc_getObject F (cf_key c) w4 = (Inr content, w5)" by blast
    with load(1) a(3,4) c(1) show ?thesis by (simp add: token andThen_def seqE_def)
  qed
  then show ?thesis by (auto simp: token)
qed


section \<open>Examples\<close>

text \<open>A storage that accepts everything, and a file of 11 megabytes with its three parts.\<close>

definition demoFile :: chat_file where
  "demoFile = \<lparr>cf_id = ''f1'', cf_room = ''abc-defg-hij'', cf_roomSid = ''RM1'', cf_identity = ''ann'',
     cf_name = ''plan.pdf'', cf_size = 11534336, cf_key = ''chat/RM1/f1'', cf_uploadId = ''up'',
     cf_partSize = 5242880, cf_parts = [(1, ''a''), (2, ''b''), (3, ''c'')], cf_expiresAt = 86400000,
     cf_completed = True\<rparr>"

definition demoChatGrant :: json where
  "demoChatGrant = grantJson ''f1'' ''abc-defg-hij'' ''RM1'' ''bob'' 301000"

definition demoChatText :: string where
  "demoChatText = ''{id:f1,room:abc-defg-hij,sid:RM1,identity:bob,exp:301000}''"

definition demoChat :: "unit chat_cloud" where
  "demoChat =
     \<lparr>cc_headBucket = ret (), cc_createBucket = ret (), cc_putLifecycle = ret (),
      cc_createUpload = (\<lambda>k. ret (Some ''up'')), cc_uploadPart = (\<lambda>k u n l b. ret (Some ''tag'')),
      cc_completeUpload = (\<lambda>k u ps. ret ()), cc_putEmpty = (\<lambda>k. ret ()), cc_abortUpload = (\<lambda>k u. ret ()),
      cc_getObject = (\<lambda>k. ret ''content''), cc_deleteObject = (\<lambda>k. ret ()),
      jsonText = (\<lambda>v. if v = demoChatGrant then demoChatText else ''null''),
      parseJson = (\<lambda>s. if s = demoChatText then Some demoChatGrant else None)\<rparr>"

definition chatWorld :: "unit world" where
  "chatWorld = demoWorld [(chatFileKey ''f1'', VChat demoFile)] []"

lemma demo_keep: "env_keeps I demoEnv" "files_keep I demoChat"
  unfolding env_keeps_def demoEnv_def files_keep_def demoChat_def by (simp_all add: keeps_def)

lemma demoFile_sound: "wf_chat demoFile"
  by code_simp

lemma chatWorld_sound: "chats_sound chatWorld"
  using demoFile_sound
  by (auto simp: chats_sound_def holds_kv_def all_stored_def chatWorld_def demoWorld_def demoFile_def split: if_splits)

theorem chat_parts_fit_witness:
  "partCount demoFile \<le> 10000 \<and> (\<Sum>j \<leftarrow> [0..<partCount demoFile]. expectedLength demoFile (int j + 1)) = 11534336"
proof -
  have "0 \<le> cf_size demoFile" "cf_size demoFile \<le> MAX_CHAT_FILE_BYTES" "cf_partSize demoFile = partSizeFor (cf_size demoFile)"
    by code_simp+
  from chat_parts_fit [OF this] have "partCount demoFile \<le> 10000"
    "(\<Sum>j \<leftarrow> [0..<partCount demoFile]. expectedLength demoFile (int j + 1)) = cf_size demoFile" by blast+
  then show ?thesis by (simp add: demoFile_def)
qed

theorem chat_records_sound_witness:
  "chats_sound (snd (chatCreate demoEnv demoChat MAX_CHAT_FILE_BYTES ''abc-defg-hij'' ''bob'' ''a.txt'' 7 chatWorld))"
proof -
  have "chatFilesService None None None = Inr MAX_CHAT_FILE_BYTES" by code_simp
  from chat_records_sound [OF demo_keep this chatWorld_sound] show ?thesis by blast
qed

theorem chat_download_guarded_witness:
  "\<exists>(c :: chat_file) w1 w2. cf_completed c \<and> clock chatWorld < cf_expiresAt c \<and>
    in_call demoEnv ''abc-defg-hij'' ''bob'' ''RM1'' w1 w2"
proof -
  let ?t = "chatToken demoEnv demoChat demoChatGrant"
  have g: "parseGrant (parseJson demoChat (map char_of (fromBase64 p))) = Some (i, r, s, n, e) \<Longrightarrow> n = ''bob'' \<and> s = ''RM1''" for p i r s n e
    by (auto simp: demoChat_def demoChatGrant_def grantJson_def split: if_splits)
  have "fst (chatDownload demoEnv demoChat ''abc-defg-hij'' ''f1'' ?t chatWorld) = Inr (''content'', ''plan.pdf'', 11534336)"
    by code_simp
  then obtain w' where "chatDownload demoEnv demoChat ''abc-defg-hij'' ''f1'' ?t chatWorld = (Inr (''content'', ''plan.pdf'', 11534336), w')"
    by (metis prod.collapse)
  from chat_download_guarded [OF chatWorld_sound this] obtain p s n e and c :: chat_file and w1 w2 where
      "parseGrant (parseJson demoChat (map char_of (fromBase64 p))) = Some (''f1'', ''abc-defg-hij'', s, n, e)"
      "cf_completed c" "clock chatWorld < cf_expiresAt c" "in_call demoEnv ''abc-defg-hij'' n s w1 w2"
    by blast
  with g show ?thesis by blast
qed

theorem chat_link_roundtrip_witness:
  "\<exists>info w1. chatInfo demoEnv demoChat ''abc-defg-hij'' ''f1'' ''bob'' chatWorld = (Inr info, w1) \<and>
    chatDownload demoEnv demoChat ''abc-defg-hij'' ''f2'' (ci_downloadToken info) chatWorld =
      (Inl (ForbiddenException TextBody), chatWorld)"
proof -
  have "\<not> isl (fst (chatInfo demoEnv demoChat ''abc-defg-hij'' ''f1'' ''bob'' chatWorld)) \<and>
      clock (snd (chatInfo demoEnv demoChat ''abc-defg-hij'' ''f1'' ''bob'' chatWorld)) = 1000" by code_simp
  then obtain info w1 where i: "chatInfo demoEnv demoChat ''abc-defg-hij'' ''f1'' ''bob'' chatWorld = (Inr info, w1)"
      "clock w1 = 1000"
    using runs by (metis snd_conv)
  have "value_of chatWorld (chatFileKey ''f1'') = Some (VChat demoFile)"
    "parseJson demoChat (jsonText demoChat demoChatGrant) = Some demoChatGrant" "jsonText demoChat demoChatGrant \<noteq> []"
    "length (chatToken demoEnv demoChat demoChatGrant) \<le> 2048"
    by code_simp+
  moreover have "demoChatGrant = grantJson ''f1'' ''abc-defg-hij'' (cf_roomSid demoFile) ''bob''
      (min (clock w1 + 300000) (cf_expiresAt demoFile))"
    by (simp add: i(2) demoFile_def demoChatGrant_def)
  moreover have "base64_signatures demoEnv"
    by (auto simp: base64_signatures_def chatSignature_def demoEnv_def)
  ultimately have "chatDownload demoEnv demoChat ''abc-defg-hij'' ''f2'' (ci_downloadToken info) chatWorld =
      (Inl (ForbiddenException TextBody), chatWorld)"
    using chat_link_roundtrip [OF i(1), of demoFile demoChatGrant, THEN conjunct2, rule_format, of chatWorld "''abc-defg-hij''" "''f2''"]
    by simp
  with i(1) show ?thesis by blast
qed

end
