(* ===== verification/ChatSweep.thy ===== *)
theory ChatSweep
  imports ChatProperties
begin

text \<open>
  The clean-up of expired chat files (\<^verbatim>\<open>cleanup\<close> of \<^verbatim>\<open>rooms/chat-files.service.ts\<close>) finishes
  what it sets out to do.
\<close>

text \<open>
  \<open>files_ok\<close>: the storage deletes objects and aborts uploads, or says that there is no such upload.
  \<open>swept\<close>: the records and the index entries of the given files are gone, nothing else changed.
\<close>

definition files_ok :: "'lk chat_cloud \<Rightarrow> bool" where
  "files_ok F \<longleftrightarrow> (\<forall>k w. \<exists>s. cc_deleteObject F k w = (Inr (), w\<lparr>sfu := s\<rparr>)) \<and>
     (\<forall>k u w. \<exists>r s. cc_abortUpload F k u w = (r, w\<lparr>sfu := s\<rparr>) \<and>
        (r = Inr () \<or> (\<exists>status. r = Inl (ServiceError status ''NoSuchUpload''))))"

abbreviation expiry_index :: "'lk world \<Rightarrow> (string \<times> int) list" where
  "expiry_index w \<equiv> zmembers EXPIRY_INDEX (kv w)"

definition swept :: "string set \<Rightarrow> 'lk world \<Rightarrow> 'lk world \<Rightarrow> bool" where
  "swept ids w w' \<longleftrightarrow> faults w' = [] \<and> clock w' = clock w \<and> proc w' = proc w \<and> chats_sound w' \<and>
     store w' = store w |` (- (chatFileKey ` ids)) \<and> expiry_index w' = filter (\<lambda>(i, _). i \<notin> ids) (expiry_index w)"

lemma sweptD: "swept ids w w' \<Longrightarrow> faults w' = [] \<and> chats_sound w'"
  by (simp add: swept_def)

lemma swept_trans:
  assumes "swept A w w1" and "swept B w1 w2"
  shows "swept (A \<union> B) w w2"
proof -
  have "filter (\<lambda>(i, _). i \<notin> B) (filter (\<lambda>(i, _). i \<notin> A) xs) = filter (\<lambda>(i, _). i \<notin> A \<union> B) xs"
    for xs :: "(string \<times> int) list"
    by (induction xs) auto
  with assms show ?thesis by (simp add: swept_def restrict_restrict image_Un) 
qed

lemma zmembers_simps [simp]:
  "zmembers k (snd (get now key r)) = zmembers k r" "zmembers k (del ks r) = zmembers k r"
  "zmembers k (zrem k m r) = filter (\<lambda>(m', _). m' \<noteq> m) (zmembers k r)"
proof -
  have "zsets (del ks r) = zsets r" unfolding del_def by (induction ks arbitrary: r) (auto simp: del1_def)
  then show "zmembers k (del ks r) = zmembers k r" by (simp add: zmembers_def)
qed (auto simp: zmembers_def zrem_def get_def Let_def cleanupString_def split: option.splits)

lemma ent_zrem [simp]: "ent t (zrem k m r) k' = ent t r k'"
  by (simp add: ent_def zrem_def)

lemma chatRemove_swept:
  assumes "files_ok F" and "faults w = []" and "chats_sound w"
  shows "\<exists>w'. chatRemove F c w = (Inr (), w') \<and> swept {cf_id c} w w'"
proof -
  let ?abort = "if \<not> cf_completed c \<and> cf_uploadId c \<noteq> []
     then catchE (cc_abortUpload F (cf_key c) (cf_uploadId c))
            (\<lambda>err. if \<not> hasName ''NoSuchUpload'' err then raise err else ret ())
     else ret ()"
  obtain r s where "cc_abortUpload F (cf_key c) (cf_uploadId c) w = (r, w\<lparr>sfu := s\<rparr>)"
    and "r = Inr () \<or> (\<exists>status. r = Inl (ServiceError status ''NoSuchUpload''))"
    using assms(1) unfolding files_ok_def by blast
  then have "\<exists>s. ?abort w = (Inr (), w\<lparr>sfu := s\<rparr>)"
    by (auto simp: catchE_def) (metis world.unfold_congs(4) world.surjective world.update_convs(4))+
  then obtain s1 where "?abort w = (Inr (), w\<lparr>sfu := s1\<rparr>)" ..
  moreover obtain s2 where "cc_deleteObject F (cf_key c) (w\<lparr>sfu := s1\<rparr>) = (Inr (), w\<lparr>sfu := s1\<rparr>\<lparr>sfu := s2\<rparr>)"
    using assms(1) unfolding files_ok_def by blast
  ultimately have run: "chatRemove F c w = (Inr (), w\<lparr>sfu := s2, kv := zrem EXPIRY_INDEX (cf_id c) (del [chatFileKey (cf_id c)] (kv w))\<rparr>)"
    using assms(2) unfolding chatRemove_def by (simp add: seqE_def andThen_def rcmd_ok)
  have "keeps chats_sound (seqE (redisDel [chatFileKey (cf_id c)]) (redisZrem EXPIRY_INDEX (cf_id c)))"
    by (intro keeps_rules)
  from keepsD [OF this assms(3)] have "chats_sound (snd (chatRemove F c w))"
    using assms(2) by (simp add: run seqE_def andThen_def rcmd_ok chats_sound_def holds_kv_def)
  with assms(2) have "swept {cf_id c} w (snd (chatRemove F c w))"
    by (auto simp: run swept_def store_def del_ent fun_eq_iff restrict_map_def split_beta)
  with run show ?thesis by simp
qed


lemma chats_sound_kind:
  "chats_sound w \<Longrightarrow> value_of w (chatFileKey i) = Some v \<Longrightarrow> \<exists>c. v = VChat c \<and> cf_id c = i"
  by (cases v) (auto simp: chats_sound_def holds_kv_def all_stored_def look_def ent_def pre_def chatFileKey_def
      split: option.splits if_splits dest!: spec)

lemma cleanupOne_swept:
  assumes "files_ok F" and "faults w = []" and "chats_sound w"
  shows "\<exists>w'. cleanupOne F i w = (Inr (), w') \<and> swept {i} w w'"
proof -
  let ?w = "w\<lparr>kv := snd (get (clock w) (chatFileKey i) (kv w))\<rparr>"
  have get: "redisGet (chatFileKey i) w = (Inr (value_of w (chatFileKey i)), ?w)" using assms(2) by (simp add: rcmd_ok)
  have w: "faults ?w = []" "store ?w = store w" "expiry_index ?w = expiry_index w" "clock ?w = clock w" "proc ?w = proc w"
    using assms(2) by (simp_all add: store_def fun_eq_iff)
  have sound: "chats_sound ?w" using keepsD [OF keeps_chats(1) assms(3)] get by (metis snd_conv)
  show ?thesis
  proof (cases "value_of w (chatFileKey i)")
    case None
    have "cleanupOne F i w = (Inr (), ?w\<lparr>kv := zrem EXPIRY_INDEX i (kv ?w)\<rparr>)"
      using w(1) unfolding cleanupOne_def andThen_def get None by (simp add: rcmd_ok)
    moreover have "store w (chatFileKey i) = None" using None by (simp add: store_value)
    ultimately show ?thesis
      using w sound by (auto simp: swept_def store_def fun_eq_iff restrict_map_def split_beta
          chats_sound_def holds_kv_def all_sets)
  next
    case (Some v)
    then obtain c where c: "v = VChat c" "cf_id c = i" using chats_sound_kind [OF assms(3)] by blast
    then have "cleanupOne F i w = chatRemove F c ?w"
      unfolding cleanupOne_def andThen_def get Some by simp
    moreover obtain w' where "chatRemove F c ?w = (Inr (), w')" "swept {i} ?w w'"
      using chatRemove_swept [OF assms(1) w(1) sound] c(2) by blast
    ultimately show ?thesis using w by (simp add: swept_def)
  qed
qed

lemma cleanup_loop_swept:
  assumes "files_ok F" and "faults w = []" and "chats_sound w"
  shows "\<exists>w'. forE (cleanupOne F) ids w = (Inr (), w') \<and> swept (set ids) w w'"
  using assms(2,3)
proof (induction ids arbitrary: w)
  case Nil
  then show ?case by (simp add: swept_def restrict_map_def)
next
  case (Cons i ids)
  obtain w1 where 1: "cleanupOne F i w = (Inr (), w1)" "swept {i} w w1"
    using cleanupOne_swept [OF assms(1) Cons.prems] by blast
  then obtain w2 where "forE (cleanupOne F) ids w1 = (Inr (), w2)" "swept (set ids) w1 w2"
    using Cons.IH sweptD by blast
  with 1 show ?case using swept_trans [OF 1(2)] by (auto simp: andThen_def)
qed

text \<open>The clean-up removes what has expired: when the storage and Redis answer, it leaves no record of an
  expired file of the index, and no index entry for it, up to a hundred files at a time, and touches
  no other file.\<close>

theorem chat_cleanup_expires:
  assumes "files_ok F" and "faults w = []" and "chats_sound w" and "\<not> cleaning (proc w)"
    and "length (filter (\<lambda>(_, s). 0 \<le> s \<and> s \<le> clock w) (expiry_index w)) \<le> 100"
  shows "\<exists>w'. chatCleanup F w = (Inr (), w') \<and> \<not> cleaning (proc w') \<and> clock w' = clock w \<and>
    (\<forall>i s. (i, s) \<in> set (expiry_index w') \<longrightarrow> (i, s) \<in> set (expiry_index w) \<and> \<not> (0 \<le> s \<and> s \<le> clock w)) \<and>
    (\<forall>i s. (i, s) \<in> set (expiry_index w) \<and> 0 \<le> s \<and> s \<le> clock w \<longrightarrow> value_of w' (chatFileKey i) = None) \<and>
    (\<forall>i. (\<forall>s. (i, s) \<in> set (expiry_index w) \<longrightarrow> s < 0 \<or> clock w < s) \<longrightarrow>
       value_of w' (chatFileKey i) = value_of w (chatFileKey i))"
proof -
  define ids where "ids = zrangebyscore EXPIRY_INDEX 0 (clock w) 0 100 (kv w)"
  let ?due = "filter (\<lambda>(_, s). 0 \<le> s \<and> s \<le> clock w) (expiry_index w)"
  have "ids = map fst (sort_key snd (sort_key fst ?due))"
    using assms(5) by (simp add: ids_def zrangebyscore_def)
  then have ids: "i \<in> set ids \<longleftrightarrow> (\<exists>s. (i, s) \<in> set (expiry_index w) \<and> 0 \<le> s \<and> s \<le> clock w)" for i
    by (force simp: image_iff)
  define w0 where "w0 = w\<lparr>proc := (proc w)\<lparr>cleaning := True\<rparr>\<rparr>"
  have same: "w0\<lparr>kv := kv w\<rparr> = w0" by (simp add: w0_def)
  have w0: "faults w0 = []" "chats_sound w0" "clock w0 = clock w" "kv w0 = kv w" "store w0 = store w"
    using assms(2,3) by (simp_all add: w0_def chats_sound_def)
  obtain w1 where w1: "forE (cleanupOne F) ids w0 = (Inr (), w1)" "swept (set ids) w0 w1"
    using cleanup_loop_swept [OF assms(1) w0(1,2)] by blast
  let ?w' = "w1\<lparr>proc := (proc w1)\<lparr>cleaning := False\<rparr>\<rparr>"
  have "chatCleanup F w = (Inr (), ?w')"
    using assms(4) w1(1) w0(1,3,4) unfolding chatCleanup_def
    by (simp add: andThen_def seqE_def finallyE_def modify_def rcmd_ok same flip: w0_def ids_def)
  moreover have "store ?w' = store w |` (- (chatFileKey ` set ids))"
    using w1(2) w0 by (simp add: swept_def)
  then have "value_of ?w' (chatFileKey i) = (if i \<in> set ids then None else value_of w (chatFileKey i))" for i
    unfolding store_value by (auto simp: restrict_map_def)
  moreover have "expiry_index ?w' = filter (\<lambda>(i, _). i \<notin> set ids) (expiry_index w)" "clock ?w' = clock w"
    using w1(2) w0 by (simp_all add: swept_def)
  ultimately show ?thesis
    by (intro exI [of _ ?w'] conjI allI impI) (auto simp: ids)
qed

theorem chat_cleanup_expires_witness:
  "\<exists>w'. chatCleanup demoChat (chatWorld\<lparr>clock := 86400000,
      kv := zadd EXPIRY_INDEX 86400000 ''f1'' (kv chatWorld)\<rparr>) = (Inr (), w') \<and> value_of w' (chatFileKey ''f1'') = None"
proof -
  let ?w = "chatWorld\<lparr>clock := 86400000, kv := zadd EXPIRY_INDEX 86400000 ''f1'' (kv chatWorld)\<rparr>"
  have "files_ok demoChat"
    by (auto simp: files_ok_def demoChat_def)
  moreover have "faults ?w = []" "\<not> cleaning (proc ?w)"
    "length (filter (\<lambda>(_, s). 0 \<le> s \<and> s \<le> clock ?w) (expiry_index ?w)) \<le> 100" "(''f1'', 86400000) \<in> set (expiry_index ?w)"
    by code_simp+
  moreover have "chats_sound ?w"
    using chatWorld_sound by (simp add: chats_sound_def holds_kv_def all_sets)
  ultimately obtain w' where "chatCleanup demoChat ?w = (Inr (), w')"
      "\<forall>i s. (i, s) \<in> set (expiry_index ?w) \<and> 0 \<le> s \<and> s \<le> clock ?w \<longrightarrow> value_of w' (chatFileKey i) = None"
    using chat_cleanup_expires [of demoChat ?w] by blast
  with \<open>(''f1'', 86400000) \<in> set (expiry_index ?w)\<close> have "value_of w' (chatFileKey ''f1'') = None"
    by (elim allE [of _ "''f1''"] allE [of _ 86400000]) simp
  with \<open>chatCleanup demoChat ?w = (Inr (), w')\<close> show ?thesis by blast
qed

end
