(* ===== verification/Accounts.thy ===== *)
theory Accounts
  imports AccountDeletion
begin

text \<open>
  Accounts: the guards for signed-in people (\<^verbatim>\<open>auth/auth.guard.ts\<close>), their profiles
  (\<^verbatim>\<open>rooms/profile.service.ts\<close>) and invitations by mail (\<^verbatim>\<open>rooms/invitations.service.ts\<close>).
  Login sessions and passwords belong to the auth library, whose calls are the record
  \<open>auth_api\<close>; \<open>ax_accounts\<close> gives the rows of its account table for a user (provider and
  password hash). The image library, the mail transport, the delays between attempts and the
  URL parser are the records \<open>profile_api\<close> (with \<open>url_api\<close>) and \<open>mail_api\<close>.
\<close>

section \<open>Signed-in people\<close>

record login =
  lo_user :: auth_user
  lo_createdAt :: int

record 'lk auth_api =
  ax_getSession :: "(string \<times> string list) list \<Rightarrow> ('lk, login option) op"
  ax_verifyPassword :: "string \<Rightarrow> (string \<times> string list) list \<Rightarrow> ('lk, unit) op"
  ax_setPassword :: "string \<Rightarrow> (string \<times> string list) list \<Rightarrow> ('lk, unit) op"
  ax_accounts :: "'lk world \<Rightarrow> string \<Rightarrow> (string \<times> string option) list"

text \<open>Node's header bag as the web's \<^verbatim>\<open>Headers\<close>: a header may have several values, or none.\<close>

definition toHeaders :: "(string \<times> header) list \<Rightarrow> (string \<times> string list) list" where
  "toHeaders headers =
     concat (map (\<lambda>(key, value). case value of
        NoHeader \<Rightarrow> [] | One v \<Rightarrow> [(key, [v])] | Many [] \<Rightarrow> [] | Many vs \<Rightarrow> [(key, vs)]) headers)"

definition authGuard :: "'lk auth_api \<Rightarrow> (string \<times> header) list \<Rightarrow> ('lk, auth_user) op" where
  "authGuard A headers =
     andThen (ax_getSession A (toHeaders headers)) (\<lambda>session.
       case session of
         None \<Rightarrow> raise (UnauthorizedException (faultBody SESSION_EXPIRED))
       | Some s \<Rightarrow>
           andThen (dbread (\<lambda>_ d. find (\<lambda>a. ad_userId a = au_id (lo_user s)) (deletions d))) (\<lambda>deletion.
             if deletion \<noteq> None then raise (UnauthorizedException (faultBody SESSION_EXPIRED))
             else ret (lo_user s)))"

definition optionalAuthGuard :: "'lk auth_api \<Rightarrow> (string \<times> header) list \<Rightarrow> ('lk, auth_user option) op" where
  "optionalAuthGuard A headers =
     catchE (andThen (ax_getSession A (toHeaders headers)) (\<lambda>session. ret (map_option lo_user session)))
       (\<lambda>_. ret None)"

section \<open>Profiles\<close>

definition MAX_AVATAR_BYTES :: int where
  "MAX_AVATAR_BYTES = 5 * 1024 * 1024"

definition AVATAR_PREFIX :: string where
  "AVATAR_PREFIX = ''huddle-avatars/''"

record 'lk profile_api =
  pf_format :: "nat list \<Rightarrow> exn + string option"
  pf_toWebp :: "nat list \<Rightarrow> exn + nat list"
  pf_putObject :: "string \<Rightarrow> nat list \<Rightarrow> ('lk, unit) op"
  pf_delay :: "int \<Rightarrow> ('lk, unit) op"
  pf_publicApiUrl :: string
  pf_urls :: url_api

record profile =
  pr_user :: user_row
  pr_hasPassword :: bool

definition userOf :: "string \<Rightarrow> database \<Rightarrow> user_row option" where
  "userOf userId d = find (\<lambda>u. us_id u = userId) (users d)"

definition profileRead :: "'lk auth_api \<Rightarrow> string \<Rightarrow> ('lk, profile) op" where
  "profileRead A userId =
     andThen (dbread (\<lambda>_. userOf userId)) (\<lambda>user.
     andThen (gets (\<lambda>w. ax_accounts A w userId)) (\<lambda>accounts.
       case user of
         None \<Rightarrow> raise (NotFoundException TextBody)
       | Some u \<Rightarrow> ret \<lparr>pr_user = u,
           pr_hasPassword = list_ex (\<lambda>(provider, password). provider = ''credential'' \<and> truthy password) accounts\<rparr>))"

text \<open>\<^verbatim>\<open>user.update\<close> throws \<^verbatim>\<open>P2025\<close> when there is no such user.\<close>

definition updateUser :: "string \<Rightarrow> (user_row \<Rightarrow> user_row) \<Rightarrow> ('lk, user_row) op" where
  "updateUser userId f =
     dbcmd (\<lambda>_ d. case userOf userId d of
        None \<Rightarrow> (Inl (PrismaError ''P2025''), d)
      | Some u \<Rightarrow> (Inr (f u), d\<lparr>users := updateRows (\<lambda>u. us_id u = userId) f (users d)\<rparr>))"

text \<open>
  \<^verbatim>\<open>sync\<close>: up to three attempts, with a pause after the first two; it never fails.
  The argument counts the attempts left.
\<close>

fun profileSync ::
    "'lk env \<Rightarrow> 'lk profile_api \<Rightarrow> string \<Rightarrow> string \<Rightarrow> string option \<Rightarrow> nat \<Rightarrow> ('lk, unit) op" where
  "profileSync E P userId name img 0 = ret ()"
| "profileSync E P userId name img (Suc left) =
     catchE
       (andThen (listActiveRooms E) (\<lambda>active.
        seqE (allE (map (\<lambda>room. updatePendingKnocksForUser (ro_name room) userId name img) active))
          (syncAccountProfile E userId name img)))
       (\<lambda>_. seqE (if left > 0 then pf_delay P (250 * 2 ^ (2 - left)) else ret ())
              (profileSync E P userId name img left))"

definition updateName :: "'lk env \<Rightarrow> 'lk profile_api \<Rightarrow> string \<Rightarrow> string \<Rightarrow> ('lk, user_row) op" where
  "updateName E P userId name =
     (let cleanName = trim name in
      if cleanName = [] \<or> length cleanName > 80 then raise (BadRequestException TextBody)
      else
        andThen (updateUser userId (\<lambda>u. u\<lparr>us_name := cleanName\<rparr>)) (\<lambda>user.
        seqE (profileSync E P (us_id user) (us_name user) (us_image user) 3) (ret user)))"

text \<open>\<^verbatim>\<open>deleteOwnedAvatar\<close> of the profile: up to three attempts, and a last failure is only logged.\<close>

fun deleteAvatarAttempts :: "'lk cloud \<Rightarrow> 'lk profile_api \<Rightarrow> string \<Rightarrow> nat \<Rightarrow> ('lk, unit) op" where
  "deleteAvatarAttempts C P key 0 = ret ()"
| "deleteAvatarAttempts C P key (Suc left) =
     catchE (s3_deleteObject C (AVATAR_PREFIX @ key))
       (\<lambda>_. if left = 0 then ret ()
            else seqE (pf_delay P (250 * 2 ^ (2 - left))) (deleteAvatarAttempts C P key left))"

definition deleteReplacedAvatar :: "'lk cloud \<Rightarrow> 'lk profile_api \<Rightarrow> string option \<Rightarrow> ('lk, unit) op" where
  "deleteReplacedAvatar C P url =
     (if \<not> truthy url then ret ()
      else case avatarKey (pf_urls P) (the url) of
             None \<Rightarrow> ret ()
           | Some key \<Rightarrow> deleteAvatarAttempts C P key 3)"

text \<open>The picture as WebP; any failure of the image library is a bad request.\<close>

definition decodeAvatar :: "'lk profile_api \<Rightarrow> nat list \<Rightarrow> exn + nat list" where
  "decodeAvatar P buffer =
     (case bindR (pf_format P buffer) (\<lambda>format.
             if format \<in> {Some ''jpeg'', Some ''png'', Some ''webp''} then pf_toWebp P buffer
             else Inl (JsError ''Unsupported format'')) of
        Inl _ \<Rightarrow> Inl (BadRequestException TextBody)
      | Inr img \<Rightarrow> Inr img)"

text \<open>The file is its bytes and its declared size. The name of an avatar needs no escaping in a URL.\<close>

definition uploadAvatar ::
    "'lk env \<Rightarrow> 'lk cloud \<Rightarrow> 'lk profile_api \<Rightarrow> string \<Rightarrow> (nat list \<times> int) option \<Rightarrow> ('lk, string option) op" where
  "uploadAvatar E C P userId file =
     (case file of
        None \<Rightarrow> raise (BadRequestException TextBody)
      | Some (buffer, bytes) \<Rightarrow>
          if buffer = [] \<or> bytes > MAX_AVATAR_BYTES then raise (BadRequestException TextBody)
          else
            andThen (lift (decodeAvatar P buffer)) (\<lambda>img.
            andThen (randomUUID E) (\<lambda>i.
            let name = i @ ''.webp'' in
            seqE (seqE (ensureBucket C) (pf_putObject P (AVATAR_PREFIX @ name) img))
              (andThen (dbread (\<lambda>_. userOf userId)) (\<lambda>old.
               andThen (catchE
                   (updateUser userId (\<lambda>u. u\<lparr>us_image := Some (pf_publicApiUrl P @ AVATAR_PATH @ name)\<rparr>))
                   (\<lambda>err. seqE (settle (s3_deleteObject C (AVATAR_PREFIX @ name))) (raise err))) (\<lambda>user.
               seqE (deleteReplacedAvatar C P (Option.bind old us_image))
                 (seqE (profileSync E P (us_id user) (us_name user) (us_image user) 3)
                   (ret (us_image user)))))))))"

definition removeAvatar :: "'lk env \<Rightarrow> 'lk cloud \<Rightarrow> 'lk profile_api \<Rightarrow> string \<Rightarrow> ('lk, unit) op" where
  "removeAvatar E C P userId =
     andThen (dbread (\<lambda>_. userOf userId)) (\<lambda>previous.
     andThen (updateUser userId (\<lambda>u. u\<lparr>us_image := None\<rparr>)) (\<lambda>user.
     seqE (deleteReplacedAvatar C P (Option.bind previous us_image))
       (profileSync E P (us_id user) (us_name user) None 3)))"

definition avatar :: "'lk cloud \<Rightarrow> string \<Rightarrow> ('lk, string \<times> int option) op" where
  "avatar C key =
     (if \<not> avatarName key then raise (NotFoundException TextBody) else s3_getObject C (AVATAR_PREFIX @ key))"

section \<open>Invitations\<close>

record 'lk mail_api =
  ml_sendMail :: "string \<Rightarrow> string \<Rightarrow> ('lk, bool) op"
  ml_host :: "string option"
  ml_meetingUrl :: "string \<Rightarrow> exn + string"

text \<open>
  \<^verbatim>\<open>INCR\<close> on the text of a number: the time to live stays; the error for other text is \<open>None\<close>.
\<close>

definition counterOf :: "stored option \<Rightarrow> nat option" where
  "counterOf v =
     (case v of
        None \<Rightarrow> Some 0
      | Some (VStr s) \<Rightarrow> if s \<noteq> [] \<and> list_all isDigit s then Some (digitsValue s) else None
      | Some _ \<Rightarrow> None)"

definition incr :: "int \<Rightarrow> string \<Rightarrow> stored redis \<Rightarrow> nat option \<times> stored redis" where
  "incr now key r =
     (let r = cleanupString now key r in
      case counterOf (map_option val (strings r key)) of
        None \<Rightarrow> (None, r)
      | Some n \<Rightarrow> (Some (n + 1), r\<lparr>strings := (strings r)(key \<mapsto>
          \<lparr>val = VStr (decimal (n + 1)), expiresAt = Option.bind (strings r key) expiresAt\<rparr>)\<rparr>))"

definition redisIncr :: "string \<Rightarrow> ('lk, nat) op" where
  "redisIncr key =
     andThen (rcmd (\<lambda>now. incr now key)) (\<lambda>n.
       case n of None \<Rightarrow> raise (JsError ''ReplyError'') | Some n \<Rightarrow> ret n)"

definition normalizedEmail :: "string \<Rightarrow> string" where
  "normalizedEmail email = map toLower (trim email)"

definition cooldownKey :: "'lk env \<Rightarrow> string \<Rightarrow> string \<Rightarrow> string" where
  "cooldownKey E slug email = ''huddle:invite:'' @ slug @ '':'' @ sha256 E (normalizedEmail email)"

text \<open>The hour since 1970 is a natural number.\<close>

definition rateKey :: "string \<Rightarrow> int \<Rightarrow> string" where
  "rateKey hostUserId now = ''huddle:invite-rate:'' @ hostUserId @ '':'' @ decimal (nat (now div 3600000))"

abbreviation tooMany :: exn where
  "tooMany \<equiv> HttpExn 429 TextBody"

definition sendInvitation :: "'lk env \<Rightarrow> 'lk mail_api \<Rightarrow> string \<Rightarrow> string \<Rightarrow> ('lk, bool) op" where
  "sendInvitation E M slug email =
     andThen (findBySlug slug) (\<lambda>room.
       case room of
         None \<Rightarrow> raise (NotFoundException TextBody)
       | Some r \<Rightarrow>
           if \<not> truthy (ml_host M) then raise (ServiceUnavailableException TextBody)
           else
             andThen (redisSet (cooldownKey E slug email) (VStr ''1'') (Some 60) NX) (\<lambda>fresh.
               if \<not> fresh then raise tooMany
               else
                 andThen dateNow (\<lambda>now.
                 andThen (redisIncr (rateKey (rm_hostUserId r) now)) (\<lambda>count.
                 seqE (redisExpire (rateKey (rm_hostUserId r) now) 3600)
                   (if count > 50 then raise tooMany
                    else
                      andThen (lift (ml_meetingUrl M slug)) (\<lambda>url.
                      catchE
                        (andThen (ml_sendMail M (normalizedEmail email) url) (\<lambda>rejected.
                           if rejected then raise (JsError ''Recipient rejected'') else ret True))
                        (\<lambda>_. seqE (redisDel [cooldownKey E slug email])
                               (raise (BadGatewayException TextBody)))))))))"

end
