(* ===== verification/Endpoints.thy ===== *)
theory Endpoints
  imports Accounts ChatFiles Events
begin

text \<open>
  The HTTP surface of the API: the controllers of \<^verbatim>\<open>rooms/\<close>, \<^verbatim>\<open>maintenance/\<close> and \<^verbatim>\<open>health/\<close>, each
  route with its guards in the order the framework runs them. The maintenance guard is global and
  comes first, then the guards of the route, then the validation of the body, then the
  handler; what is thrown goes through the exception filter (\<open>respond\<close>). The routing of paths to
  handlers is the datatype \<open>route\<close>; headers that only describe a response are left out. The
  framework's validation pipe is the argument \<open>a_pipe\<close>: it gets the decorators of a DTO class as
  rules, and the body. Its path pipes, the address check and the reading of numbers and dates
  are arguments too.
\<close>

section \<open>Requests\<close>

datatype check =
    IsString | IsBoolean | IsInt | IsISO8601 | IsEmail
  | MinLength nat | MaxLength nat | Min int | Max int | IsIn "int list"

record rule =
  ru_field :: string
  ru_optional :: bool
  ru_checks :: "check list"

record http_request =
  hq_headers :: "(string \<times> header) list"
  hq_query :: "(string \<times> string list) list"
  hq_body :: json
  hq_file :: "(nat list \<times> int) option"
  hq_stream :: stream
  hq_raw :: string

record 'lk api =
  a_env :: "'lk env"
  a_cloud :: "'lk cloud"
  a_files :: "'lk chat_cloud"
  a_auth :: "'lk auth_api"
  a_profile :: "'lk profile_api"
  a_mail :: "'lk mail_api"
  a_retention :: retention
  a_maxBytes :: int
  a_pipe :: "rule list \<Rightarrow> json \<Rightarrow> bool"
  a_isUUID :: "string \<Rightarrow> bool"
  a_parseInt :: "string \<Rightarrow> int option"
  a_parseDate :: "string \<Rightarrow> iso"
  a_readNumber :: "string \<Rightarrow> (rat \<times> string) option"

definition headerOf :: "string \<Rightarrow> http_request \<Rightarrow> header" where
  "headerOf name q = (case map_of (hq_headers q) name of None \<Rightarrow> NoHeader | Some h \<Rightarrow> h)"

definition queryOf :: "string \<Rightarrow> http_request \<Rightarrow> string list" where
  "queryOf name q = (case map_of (hq_query q) name of None \<Rightarrow> [] | Some vs \<Rightarrow> vs)"

text \<open>A field of the validated body.\<close>

fun bodyField :: "string \<Rightarrow> json \<Rightarrow> json option" where
  "bodyField k (JObj fs) = map_of fs k"
| "bodyField k _ = None"

definition textOf :: "string \<Rightarrow> http_request \<Rightarrow> string" where
  "textOf k q = (case jstring (bodyField k (hq_body q)) of None \<Rightarrow> [] | Some s \<Rightarrow> s)"

definition numOf :: "string \<Rightarrow> http_request \<Rightarrow> int" where
  "numOf k q = (case bodyField k (hq_body q) of Some (JNum n) \<Rightarrow> \<lfloor>n\<rfloor> | _ \<Rightarrow> 0)"

definition boolOf :: "string \<Rightarrow> http_request \<Rightarrow> bool" where
  "boolOf k q = (bodyField k (hq_body q) = Some (JBool True))"

section \<open>DTO classes\<close>

definition CreateRoomDto :: "rule list" where
  "CreateRoomDto = [\<lparr>ru_field = ''scheduledStart'', ru_optional = True, ru_checks = [IsISO8601]\<rparr>]"

definition KnockDto :: "rule list" where
  "KnockDto = [\<lparr>ru_field = ''name'', ru_optional = True, ru_checks = [IsString, MinLength 1, MaxLength 128]\<rparr>]"

definition MuteDto :: "rule list" where
  "MuteDto = [\<lparr>ru_field = ''identity'', ru_optional = False, ru_checks = [IsString, MinLength 1, MaxLength 128]\<rparr>,
     \<lparr>ru_field = ''muted'', ru_optional = False, ru_checks = [IsBoolean]\<rparr>]"

definition MuteOnEntryDto :: "rule list" where
  "MuteOnEntryDto = [\<lparr>ru_field = ''muted'', ru_optional = False, ru_checks = [IsBoolean]\<rparr>]"

definition ApproveRecordingDto :: "rule list" where
  "ApproveRecordingDto =
     [\<lparr>ru_field = ''identity'', ru_optional = False, ru_checks = [IsString, MinLength 1, MaxLength 128]\<rparr>]"

definition RequestRemoteControlDto :: "rule list" where
  "RequestRemoteControlDto =
     [\<lparr>ru_field = ''sharerIdentity'', ru_optional = False, ru_checks = [IsString, MinLength 1, MaxLength 128]\<rparr>,
      \<lparr>ru_field = ''protocolVersion'', ru_optional = False, ru_checks = [IsIn [2]]\<rparr>]"

definition RedeemControlAgentTokenDto :: "rule list" where
  "RedeemControlAgentTokenDto =
     [\<lparr>ru_field = ''bootstrapCode'', ru_optional = False, ru_checks = [IsString, MinLength 1, MaxLength 256]\<rparr>,
      \<lparr>ru_field = ''protocolVersion'', ru_optional = False, ru_checks = [IsIn [2]]\<rparr>]"

definition RemoteControlProtocolDto :: "rule list" where
  "RemoteControlProtocolDto = [\<lparr>ru_field = ''protocolVersion'', ru_optional = False, ru_checks = [IsIn [2]]\<rparr>]"

definition UpdateProfileDto :: "rule list" where
  "UpdateProfileDto = [\<lparr>ru_field = ''name'', ru_optional = False, ru_checks = [IsString, MinLength 1, MaxLength 80]\<rparr>]"

definition SetPasswordDto :: "rule list" where
  "SetPasswordDto = [\<lparr>ru_field = ''newPassword'', ru_optional = False, ru_checks = [IsString, MinLength 8, MaxLength 128]\<rparr>]"

definition DeleteAccountDto :: "rule list" where
  "DeleteAccountDto = [\<lparr>ru_field = ''password'', ru_optional = True, ru_checks = [IsString, MinLength 1]\<rparr>,
     \<lparr>ru_field = ''confirmation'', ru_optional = False, ru_checks = [IsString]\<rparr>]"

definition InviteDto :: "rule list" where
  "InviteDto = [\<lparr>ru_field = ''email'', ru_optional = False, ru_checks = [IsEmail, MaxLength 254]\<rparr>]"

definition ChangeMaintenanceDto :: "rule list" where
  "ChangeMaintenanceDto = [\<lparr>ru_field = ''enabled'', ru_optional = False, ru_checks = [IsBoolean]\<rparr>,
     \<lparr>ru_field = ''message'', ru_optional = True, ru_checks = [IsString, MaxLength 500]\<rparr>]"

definition CreateChatFileDto :: "rule list" where
  "CreateChatFileDto =
     [\<lparr>ru_field = ''name'', ru_optional = False, ru_checks = [IsString, MinLength 1, MaxLength 255]\<rparr>,
      \<lparr>ru_field = ''size'', ru_optional = False, ru_checks = [IsInt, Min 0, Max MAX_CHAT_FILE_BYTES]\<rparr>]"


section \<open>Routes, guards and replies\<close>

datatype rooms_route =
    RoomsCreate | RoomsMine | HostToken string | RejoinEligibility string | Rejoin string
  | RoomPublic string | Knock string | KnockStatus string string | KnockCancel string string
  | RecordingStopOwn string | ShareConsent string | Knocks string | Admit string string
  | DenyKnock string string | Mute string | MuteOnEntry string | RemoveParticipant string string
  | RecordingStart string | RecordingApprove string | RecordingList string | RecordingStop string string
  | RecordingDownload string string

datatype control_route =
    ControlRequest string | ControlPending string | ControlGet string string | ControlApprove string string
  | ControlDeny string string | ControlWithdraw string string | HelperToken string string
  | ControlBootstrap string string | ControlStop string string | ControlRenew string string

datatype drive_route = DriveStatus | DriveBegin | DriveCallback | DriveDisconnect | DriveBackfill

datatype profile_route =
    ProfileRead | ProfileUpdate | AvatarUpload | AvatarRemove | AvatarGet string | PasswordSet | AccountDelete

datatype chat_route =
    ChatCreate string | ChatPart string string string | ChatComplete string string | ChatCancel string string
  | ChatInfo string string | ChatDownload string string

datatype maintenance_route = MaintenanceStatus | MaintenanceAccess | MaintenanceAdmin | MaintenanceChange

datatype route =
    RoomsRoute rooms_route | ControlRoute control_route | DriveRoute drive_route | ProfileRoute profile_route
  | ChatRoute chat_route | MaintenanceRoute maintenance_route | RecordingsMine | Invite string | Webhook
  | Health | Ready

datatype guard =
    NoGuard | Auth | OptionalAuth | Host string | InCall string | AuthInCall string | DownloadLink string string

record caller =
  cr_user :: "auth_user option"
  cr_participant :: "call_participant option"

datatype reply =
    NoContent | RBool bool | RNat nat | RInt int | RText string | RIso iso | RFile string "int option" string
  | RHostJoin host_join_result | RRooms "room_summary list" | RGuestJoin guest_join_result
  | RPublic string "int option" | RKnockStatus knock_status | RKnockResult knock_status_result
  | RKnocks "knock_summary list" | RRecording recording_summary | RRecordings "recording_summary list"
  | RMyRecordings "(string \<times> recording_summary) list" | RRequest "request_summary option"
  | RApproved session_summary string iso | RAgent string string string session_summary
  | RCode string iso | RConnection connection_summary | RAuthUrl "(string \<times> string) list"
  | RRedirect string | RProfile profile | RUser user_row | RImage "string option"
  | RChatCreated chat_created | RChatInfo chat_info | RMaintenance maintenance_status

definition answer :: "('a \<Rightarrow> reply) \<Rightarrow> ('lk, 'a) op \<Rightarrow> ('lk, reply) op" where
  "answer f m = andThen m (\<lambda>x. ret (f x))"

definition noCaller :: caller where
  "noCaller = \<lparr>cr_user = None, cr_participant = None\<rparr>"

definition runGuard :: "'lk api \<Rightarrow> http_request \<Rightarrow> guard \<Rightarrow> ('lk, caller) op" where
  "runGuard a q g =
     (let auth = authGuard (a_auth a) (hq_headers q);
          call = (\<lambda>room. participantGuard (a_env a) room (headerOf ''x-participant-token'' q)) in
      case g of
        NoGuard \<Rightarrow> ret noCaller
      | Auth \<Rightarrow> andThen auth (\<lambda>u. ret (noCaller\<lparr>cr_user := Some u\<rparr>))
      | OptionalAuth \<Rightarrow>
          andThen (optionalAuthGuard (a_auth a) (hq_headers q)) (\<lambda>u. ret (noCaller\<lparr>cr_user := u\<rparr>))
      | Host room \<Rightarrow> andThen (hostGuard room (headerOf ''x-host-key'' q)) (\<lambda>_. ret noCaller)
      | InCall room \<Rightarrow> andThen (call room) (\<lambda>p. ret (noCaller\<lparr>cr_participant := Some p\<rparr>))
      | AuthInCall room \<Rightarrow>
          andThen auth (\<lambda>u. andThen (call room) (\<lambda>p. ret \<lparr>cr_user = Some u, cr_participant = Some p\<rparr>))
      | DownloadLink room i \<Rightarrow>
          andThen (downloadTokenGuard (a_env a) (a_readNumber a) room i (queryOf ''token'' q)) (\<lambda>_. ret noCaller))"

text \<open>
  A handler with its decorators: whether maintenance blocks it, its guard, the DTO of its body,
  whether the path parameters pass their pipes, and the method.
\<close>

record 'lk handler =
  hd_blocked :: bool
  hd_guard :: guard
  hd_dto :: "rule list option"
  hd_pipes :: bool
  hd_run :: "caller \<Rightarrow> ('lk, reply) op"

abbreviation user_of :: "caller \<Rightarrow> auth_user" where
  "user_of c \<equiv> the (cr_user c)"

abbreviation person_of :: "caller \<Rightarrow> call_participant" where
  "person_of c \<equiv> the (cr_participant c)"

definition plain :: "guard \<Rightarrow> (caller \<Rightarrow> ('lk, reply) op) \<Rightarrow> 'lk handler" where
  "plain g m = \<lparr>hd_blocked = False, hd_guard = g, hd_dto = None, hd_pipes = True, hd_run = m\<rparr>"

definition blocking :: "guard \<Rightarrow> (caller \<Rightarrow> ('lk, reply) op) \<Rightarrow> 'lk handler" where
  "blocking g m = (plain g m)\<lparr>hd_blocked := True\<rparr>"

section \<open>Controllers\<close>

fun roomsController :: "'lk api \<Rightarrow> http_request \<Rightarrow> rooms_route \<Rightarrow> 'lk handler" where
  "roomsController a q RoomsCreate =
     (blocking Auth (\<lambda>c.
        let start = jstring (bodyField ''scheduledStart'' (hq_body q)) in
        answer RHostJoin (createRoom (a_env a) (user_of c)
          (if truthy start then Some (a_parseDate a (the start)) else None))))\<lparr>hd_dto := Some CreateRoomDto\<rparr>"
| "roomsController a q RoomsMine = plain Auth (\<lambda>c. answer RRooms (listMine (au_id (user_of c))))"
| "roomsController a q (HostToken room) =
     blocking Auth (\<lambda>c. answer RHostJoin (hostJoin (a_env a) room (user_of c)))"
| "roomsController a q (RejoinEligibility room) =
     plain Auth (\<lambda>c. answer RBool (directRejoinEligibility (a_env a) room (user_of c)))"
| "roomsController a q (Rejoin room) =
     blocking Auth (\<lambda>c. answer RGuestJoin (directRejoin (a_env a) room (user_of c)))"
| "roomsController a q (RoomPublic room) = plain NoGuard (\<lambda>_. answer (\<lambda>(r, t). RPublic r t) (getPublic room))"
| "roomsController a q (Knock room) =
     (blocking OptionalAuth (\<lambda>c. answer RText (knockRoom (a_env a) room
        (case cr_user c of Some u \<Rightarrow> Some (au_name u) | None \<Rightarrow> jstring (bodyField ''name'' (hq_body q)))
        (Option.bind (cr_user c) au_image) (map_option au_id (cr_user c)))))\<lparr>hd_dto := Some KnockDto\<rparr>"
| "roomsController a q (KnockStatus room knockId) =
     blocking NoGuard (\<lambda>_. answer RKnockResult (knockStatus (a_env a) room knockId))"
| "roomsController a q (KnockCancel room knockId) =
     plain NoGuard (\<lambda>_. answer RBool (cancelKnock room knockId))"
| "roomsController a q (RecordingStopOwn room) =
     plain (InCall room) (\<lambda>c. answer RRecording (stopAsParticipant (a_env a) room (person_of c)))"
| "roomsController a q (ShareConsent room) =
     plain (AuthInCall room)
       (\<lambda>c. answer RBool (giveRecordingShareConsent (a_env a) room (user_of c) (person_of c)))"
| "roomsController a q (Knocks room) = plain (Host room) (\<lambda>_. answer RKnocks (listKnocks room))"
| "roomsController a q (Admit room knockId) =
     blocking (Host room) (\<lambda>_. answer RKnockStatus (admitOnce (a_env a) room knockId))"
| "roomsController a q (DenyKnock room knockId) =
     plain (Host room) (\<lambda>_. answer RKnockStatus (rooms_deny room knockId))"
| "roomsController a q (Mute room) =
     (plain (Host room) (\<lambda>_. answer RBool (rooms_mute (a_env a) room (textOf ''identity'' q)
        (boolOf ''muted'' q))))\<lparr>hd_dto := Some MuteDto\<rparr>"
| "roomsController a q (MuteOnEntry room) =
     (plain (Host room) (\<lambda>_. answer RBool (rooms_setMuteOnEntry (a_env a) room
        (boolOf ''muted'' q))))\<lparr>hd_dto := Some MuteOnEntryDto\<rparr>"
| "roomsController a q (RemoveParticipant room identity) =
     plain (Host room) (\<lambda>_. answer RBool (rooms_remove (a_env a) room identity))"
| "roomsController a q (RecordingStart room) =
     blocking (Host room) (\<lambda>_. answer RRecording (recStart (a_env a) (a_cloud a) room))"
| "roomsController a q (RecordingApprove room) =
     (blocking (Host room) (\<lambda>_. answer RRecording (startForParticipant (a_env a) (a_cloud a) room
        (textOf ''identity'' q))))\<lparr>hd_dto := Some ApproveRecordingDto\<rparr>"
| "roomsController a q (RecordingList room) =
     plain (Host room) (\<lambda>_. answer RRecordings (recList (a_env a) room))"
| "roomsController a q (RecordingStop room i) =
     plain (Host room) (\<lambda>_. answer RRecording (recStop (a_env a) room i))"
| "roomsController a q (RecordingDownload room i) =
     plain (DownloadLink room i) (\<lambda>_. answer (\<lambda>(body, bytes, name). RFile body bytes name) (recDownload (a_cloud a) room i))"

fun controlController :: "'lk api \<Rightarrow> http_request \<Rightarrow> control_route \<Rightarrow> 'lk handler" where
  "controlController a q (ControlRequest room) =
     (blocking (InCall room) (\<lambda>c. answer (\<lambda>r. RRequest (Some r)) (requestControl (a_env a) room (person_of c)
        (textOf ''sharerIdentity'' q) (numOf ''protocolVersion'' q))))\<lparr>hd_dto := Some RequestRemoteControlDto\<rparr>"
| "controlController a q (ControlPending room) =
     plain (InCall room) (\<lambda>c. answer RRequest (getPendingRequest room (person_of c)))"
| "controlController a q (ControlGet room requestId) =
     plain (InCall room) (\<lambda>c. answer (\<lambda>r. RRequest (Some r)) (getRequest room requestId (person_of c)))"
| "controlController a q (ControlApprove room requestId) =
     (blocking (InCall room) (\<lambda>c. answer (\<lambda>(s, code, e). RApproved s code e) (approve (a_env a) room requestId
        (person_of c) (numOf ''protocolVersion'' q))))\<lparr>hd_dto := Some RemoteControlProtocolDto\<rparr>"
| "controlController a q (ControlDeny room requestId) =
     plain (InCall room) (\<lambda>c. answer (\<lambda>_. NoContent) (rc_deny room requestId (person_of c)))"
| "controlController a q (ControlWithdraw room requestId) =
     plain (InCall room) (\<lambda>c. answer (\<lambda>_. NoContent) (rc_withdraw room requestId (person_of c)))"
| "controlController a q (HelperToken room sessionId) =
     (blocking NoGuard (\<lambda>_. answer (\<lambda>(t, u, i, s). RAgent t u i s) (redeemHelperToken (a_env a) room sessionId
        (textOf ''bootstrapCode'' q) (numOf ''protocolVersion'' q))))\<lparr>hd_dto := Some RedeemControlAgentTokenDto\<rparr>"
| "controlController a q (ControlBootstrap room sessionId) =
     blocking (InCall room) (\<lambda>c. answer (\<lambda>(code, e). RCode code e) (reissueBootstrap (a_env a) room sessionId (person_of c)))"
| "controlController a q (ControlStop room sessionId) =
     plain (InCall room) (\<lambda>c. answer RIso (rc_stop (a_env a) room sessionId (person_of c)))"
| "controlController a q (ControlRenew room sessionId) =
     blocking (InCall room) (\<lambda>c. answer (\<lambda>(i, e). RCode i e) (renew (a_env a) room sessionId (person_of c)))"

text \<open>The callback answers with a redirect whatever happens.\<close>

definition driveCallback :: "'lk api \<Rightarrow> string \<Rightarrow> string \<Rightarrow> ('lk, reply) op" where
  "driveCallback a state code =
     (let origin = (case webOrigin (a_env a) of None \<Rightarrow> ''http://localhost:3000'' | Some o' \<Rightarrow> o') in
      catchE
        (andThen (completeGoogleDrive (a_env a) (a_cloud a) state code) (\<lambda>userId.
         seqE (resumeActionRequired userId) (ret (RRedirect (origin @ ''/recordings?drive=connected'')))))
        (\<lambda>_. ret (RRedirect (origin @ ''/recordings?drive=error''))))"

definition firstOf :: "string list \<Rightarrow> string" where
  "firstOf vs = (case vs of [] \<Rightarrow> [] | v # _ \<Rightarrow> v)"

fun driveController :: "'lk api \<Rightarrow> http_request \<Rightarrow> drive_route \<Rightarrow> 'lk handler" where
  "driveController a q DriveStatus = plain Auth (\<lambda>c. answer RConnection (statusFor (au_id (user_of c))))"
| "driveController a q DriveBegin =
     plain Auth (\<lambda>c. answer RAuthUrl (beginGoogleDrive (a_env a) (a_cloud a) (au_id (user_of c))))"
| "driveController a q DriveCallback =
     plain NoGuard (\<lambda>_. driveCallback a (firstOf (queryOf ''state'' q)) (firstOf (queryOf ''code'' q)))"
| "driveController a q DriveDisconnect =
     plain Auth (\<lambda>c. answer (\<lambda>_. RBool True) (disconnect (a_cloud a) (au_id (user_of c))))"
| "driveController a q DriveBackfill =
     plain Auth (\<lambda>c. answer RNat (queueBackfill (a_env a) (au_id (user_of c))))"

text \<open>Deleting an account asks for the word, for a session, and for the password or a fresh session.\<close>

definition deleteAccount :: "'lk api \<Rightarrow> http_request \<Rightarrow> auth_user \<Rightarrow> ('lk, bool) op" where
  "deleteAccount a q user =
     (if textOf ''confirmation'' q \<noteq> ''DELETE'' then raise (BadRequestException TextBody)
      else
        andThen (ax_getSession (a_auth a) (toHeaders (hq_headers q))) (\<lambda>session.
          case session of
            None \<Rightarrow> raise (BadRequestException TextBody)
          | Some s \<Rightarrow>
              andThen (profileRead (a_auth a) (au_id user)) (\<lambda>p.
              andThen dateNow (\<lambda>now.
              seqE (if pr_hasPassword p
                    then if textOf ''password'' q = [] then raise (BadRequestException TextBody)
                         else ax_verifyPassword (a_auth a) (textOf ''password'' q) (toHeaders (hq_headers q))
                    else if now - lo_createdAt s > 10 * 60000 then raise (BadRequestException TextBody)
                    else ret ())
                (requestDeletion (au_id user))))))"

fun profileController :: "'lk api \<Rightarrow> http_request \<Rightarrow> profile_route \<Rightarrow> 'lk handler" where
  "profileController a q ProfileRead = plain Auth (\<lambda>c. answer RProfile (profileRead (a_auth a) (au_id (user_of c))))"
| "profileController a q ProfileUpdate =
     (plain Auth (\<lambda>c. answer RUser (updateName (a_env a) (a_profile a) (au_id (user_of c))
        (textOf ''name'' q))))\<lparr>hd_dto := Some UpdateProfileDto\<rparr>"
| "profileController a q AvatarUpload =
     plain Auth (\<lambda>c. answer RImage (uploadAvatar (a_env a) (a_cloud a) (a_profile a) (au_id (user_of c)) (hq_file q)))"
| "profileController a q AvatarRemove =
     plain Auth (\<lambda>c. answer (\<lambda>_. RImage None) (removeAvatar (a_env a) (a_cloud a) (a_profile a) (au_id (user_of c))))"
| "profileController a q (AvatarGet key) =
     plain NoGuard (\<lambda>_. answer (\<lambda>(body, bytes). RFile body bytes key) (avatar (a_cloud a) key))"
| "profileController a q PasswordSet =
     (plain Auth (\<lambda>_. answer (\<lambda>_. NoContent) (ax_setPassword (a_auth a) (textOf ''newPassword'' q)
        (toHeaders (hq_headers q)))))\<lparr>hd_dto := Some SetPasswordDto\<rparr>"
| "profileController a q AccountDelete =
     (plain Auth (\<lambda>c. answer RBool (deleteAccount a q (user_of c))))\<lparr>hd_dto := Some DeleteAccountDto\<rparr>"

text \<open>\<open>contentLength\<close> is \<^verbatim>\<open>Number(req.headers['content-length'])\<close>, when it is a whole number.\<close>

definition contentLength :: "'lk api \<Rightarrow> http_request \<Rightarrow> int option" where
  "contentLength a q =
     (case headerValue (headerOf ''content-length'' q) of
        None \<Rightarrow> None
      | Some s \<Rightarrow>
          (case readNumber (a_readNumber a) s of
             None \<Rightarrow> None
           | Some (n, _) \<Rightarrow> if of_int \<lfloor>n\<rfloor> = n then Some \<lfloor>n\<rfloor> else None))"

fun chatController :: "'lk api \<Rightarrow> http_request \<Rightarrow> chat_route \<Rightarrow> 'lk handler" where
  "chatController a q (ChatCreate room) =
     (blocking (InCall room) (\<lambda>c. answer RChatCreated (chatCreate (a_env a) (a_files a) (a_maxBytes a) room
        (ca_identity (person_of c)) (textOf ''name'' q) (numOf ''size'' q))))\<lparr>hd_dto := Some CreateChatFileDto\<rparr>"
| "chatController a q (ChatPart room i part) =
     (blocking (InCall room) (\<lambda>c. answer RInt (uploadPart (a_env a) (a_files a) room i (ca_identity (person_of c))
        (the (a_parseInt a part)) (contentLength a q) (hq_stream q))))
        \<lparr>hd_pipes := a_isUUID a i \<and> a_parseInt a part \<noteq> None\<rparr>"
| "chatController a q (ChatComplete room i) =
     (blocking (InCall room) (\<lambda>c. answer RText (chatComplete (a_env a) (a_files a) room i
        (ca_identity (person_of c)))))\<lparr>hd_pipes := a_isUUID a i\<rparr>"
| "chatController a q (ChatCancel room i) =
     (plain (InCall room) (\<lambda>c. answer (\<lambda>_. RBool True) (chatCancel (a_env a) (a_files a) room i
        (ca_identity (person_of c)))))\<lparr>hd_pipes := a_isUUID a i\<rparr>"
| "chatController a q (ChatInfo room i) =
     (plain (InCall room) (\<lambda>c. answer RChatInfo (chatInfo (a_env a) (a_files a) room i
        (ca_identity (person_of c)))))\<lparr>hd_pipes := a_isUUID a i\<rparr>"
| "chatController a q (ChatDownload room i) =
     (plain NoGuard (\<lambda>_. answer (\<lambda>(body, name, bytes). RFile body (Some bytes) name)
        (chatDownload (a_env a) (a_files a) room i (firstOf (queryOf ''token'' q)))))\<lparr>hd_pipes := a_isUUID a i\<rparr>"

fun maintenanceController :: "'lk api \<Rightarrow> http_request \<Rightarrow> maintenance_route \<Rightarrow> 'lk handler" where
  "maintenanceController a q MaintenanceStatus = plain NoGuard (\<lambda>_. answer RMaintenance maintenanceStatus)"
| "maintenanceController a q MaintenanceAccess =
     plain OptionalAuth (\<lambda>c. ret (RBool (isOwner (a_env a) (map_option au_id (cr_user c)))))"
| "maintenanceController a q MaintenanceAdmin =
     plain Auth (\<lambda>c. answer RMaintenance (maintenanceAdmin (a_env a) (au_id (user_of c))))"
| "maintenanceController a q MaintenanceChange =
     (plain Auth (\<lambda>c. answer RMaintenance (maintenanceChangeEndpoint (a_env a) (au_id (user_of c))
        (headerValue (headerOf ''origin'' q)) (boolOf ''enabled'' q) (jstring (bodyField ''message'' (hq_body q))))))
        \<lparr>hd_dto := Some ChangeMaintenanceDto\<rparr>"

text \<open>The readiness probe asks both stores.\<close>

definition ready :: "('lk, reply) op" where
  "ready =
     andThen (all2 (catchE (seqE (dbread (\<lambda>_ _. ())) (ret True)) (\<lambda>_. ret False))
               (catchE (seqE (rcmd (\<lambda>_ r. ((), r))) (ret True)) (\<lambda>_. ret False))) (\<lambda>(db, cache).
       if \<not> db \<or> \<not> cache then raise (ServiceUnavailableException (CustomBody False)) else ret (RBool True))"

definition recordingsController :: "'lk api \<Rightarrow> 'lk handler" where
  "recordingsController a = plain Auth (\<lambda>c. answer RMyRecordings (recListMine (a_env a) (au_id (user_of c))))"

definition invitationsController :: "'lk api \<Rightarrow> http_request \<Rightarrow> string \<Rightarrow> 'lk handler" where
  "invitationsController a q room =
     (blocking (Host room) (\<lambda>_. answer RBool (sendInvitation (a_env a) (a_mail a) room
        (textOf ''email'' q))))\<lparr>hd_dto := Some InviteDto\<rparr>"

fun controller :: "'lk api \<Rightarrow> http_request \<Rightarrow> route \<Rightarrow> 'lk handler" where
  "controller a q (RoomsRoute r) = roomsController a q r"
| "controller a q (ControlRoute r) = controlController a q r"
| "controller a q (DriveRoute r) = driveController a q r"
| "controller a q (ProfileRoute r) = profileController a q r"
| "controller a q (ChatRoute r) = chatController a q r"
| "controller a q (MaintenanceRoute r) = maintenanceController a q r"
| "controller a q RecordingsMine = recordingsController a"
| "controller a q (Invite room) = invitationsController a q room"
| "controller a q Webhook =
     plain NoGuard (\<lambda>_. answer RBool (webhookReceive (a_env a) (a_retention a) (hq_raw q)
        (headerValue (headerOf ''authorization'' q))))"
| "controller a q Health = plain NoGuard (\<lambda>_. ret (RBool True))"
| "controller a q Ready = plain NoGuard (\<lambda>_. ready)"

lemmas handler_simps = plain_def blocking_def recordingsController_def invitationsController_def

section \<open>Serving a request\<close>

definition serve :: "'lk api \<Rightarrow> route \<Rightarrow> http_request \<Rightarrow> ('lk, reply) op" where
  "serve a r q =
     (let h = controller a q r in
      seqE (maintenanceGuard (hd_blocked h))
        (andThen (runGuard a q (hd_guard h)) (\<lambda>c.
           if \<not> hd_pipes h then raise (BadRequestException TextBody)
           else if (case hd_dto h of None \<Rightarrow> False | Some rules \<Rightarrow> \<not> a_pipe a rules (hq_body q))
           then raise (BadRequestException ValidationBody)
           else hd_run h c)))"

datatype response = Answer reply | Failure normalized

definition respond :: "'lk api \<Rightarrow> route \<Rightarrow> http_request \<Rightarrow> 'lk world \<Rightarrow> response \<times> 'lk world" where
  "respond a r q w =
     (case serve a r q w of
        (Inr x, w') \<Rightarrow> (Answer x, w')
      | (Inl e, w') \<Rightarrow> (Failure (normalize e), w'))"

end
