(* ===== verification/ApiProperties.thy ===== *)
theory ApiProperties
  imports Endpoints ChatProperties CloudProperties
begin

text \<open>
  The API as a whole: which credential a request needs, what maintenance closes, and the limits
  of invitations.
\<close>

section \<open>Authority\<close>

text \<open>What a request has to show before its route does anything.\<close>

datatype authority =
    Open | Session | HostKey string | CallToken string | SessionAndToken string | SignedLink string string

fun rooms_authority :: "rooms_route \<Rightarrow> authority" where
  "rooms_authority RoomsCreate = Session"
| "rooms_authority RoomsMine = Session"
| "rooms_authority (HostToken _) = Session"
| "rooms_authority (RejoinEligibility _) = Session"
| "rooms_authority (Rejoin _) = Session"
| "rooms_authority (RoomPublic _) = Open"
| "rooms_authority (Knock _) = Open"
| "rooms_authority (KnockStatus _ _) = Open"
| "rooms_authority (KnockCancel _ _) = Open"
| "rooms_authority (RecordingStopOwn room) = CallToken room"
| "rooms_authority (ShareConsent room) = SessionAndToken room"
| "rooms_authority (Knocks room) = HostKey room"
| "rooms_authority (Admit room _) = HostKey room"
| "rooms_authority (DenyKnock room _) = HostKey room"
| "rooms_authority (Mute room) = HostKey room"
| "rooms_authority (MuteOnEntry room) = HostKey room"
| "rooms_authority (RemoveParticipant room _) = HostKey room"
| "rooms_authority (RecordingStart room) = HostKey room"
| "rooms_authority (RecordingApprove room) = HostKey room"
| "rooms_authority (RecordingList room) = HostKey room"
| "rooms_authority (RecordingStop room _) = HostKey room"
| "rooms_authority (RecordingDownload room i) = SignedLink room i"

fun control_authority :: "control_route \<Rightarrow> authority" where
  "control_authority (HelperToken _ _) = Open"
| "control_authority (ControlRequest room) = CallToken room"
| "control_authority (ControlPending room) = CallToken room"
| "control_authority (ControlGet room _) = CallToken room"
| "control_authority (ControlApprove room _) = CallToken room"
| "control_authority (ControlDeny room _) = CallToken room"
| "control_authority (ControlWithdraw room _) = CallToken room"
| "control_authority (ControlBootstrap room _) = CallToken room"
| "control_authority (ControlStop room _) = CallToken room"
| "control_authority (ControlRenew room _) = CallToken room"

fun chat_authority :: "chat_route \<Rightarrow> authority" where
  "chat_authority (ChatDownload _ _) = Open"
| "chat_authority (ChatCreate room) = CallToken room"
| "chat_authority (ChatPart room _ _) = CallToken room"
| "chat_authority (ChatComplete room _) = CallToken room"
| "chat_authority (ChatCancel room _) = CallToken room"
| "chat_authority (ChatInfo room _) = CallToken room"

fun authority_of :: "route \<Rightarrow> authority" where
  "authority_of (RoomsRoute r) = rooms_authority r"
| "authority_of (ControlRoute r) = control_authority r"
| "authority_of (DriveRoute r) = (if r = DriveCallback then Open else Session)"
| "authority_of (ProfileRoute r) = (case r of AvatarGet _ \<Rightarrow> Open | _ \<Rightarrow> Session)"
| "authority_of (ChatRoute r) = chat_authority r"
| "authority_of (MaintenanceRoute r) = (if r \<in> {MaintenanceStatus, MaintenanceAccess} then Open else Session)"
| "authority_of RecordingsMine = Session"
| "authority_of (Invite room) = HostKey room"
| "authority_of Webhook = Open"
| "authority_of Health = Open"
| "authority_of Ready = Open"

text \<open>When a request carries it: a live session whose account is not being deleted, the host key of the
  very room, a verified and unexpired token of the call that is no agent's, a signed link.\<close>

definition has_session :: "'lk api \<Rightarrow> http_request \<Rightarrow> 'lk world \<Rightarrow> bool" where
  "has_session a q w \<longleftrightarrow> (\<exists>s w1 w2. calm w w1 \<and>
     ax_getSession (a_auth a) (toHeaders (hq_headers q)) w1 = (Inr (Some s), w2) \<and>
     (\<forall>d \<in> set (deletions (dbase w)). ad_userId d \<noteq> au_id (lo_user s)))"

definition has_token :: "'lk api \<Rightarrow> http_request \<Rightarrow> string \<Rightarrow> 'lk world \<Rightarrow> bool" where
  "has_token a q room w \<longleftrightarrow> (\<exists>tok cl i t w1 w2. calm w w1 \<and>
     headerValue (headerOf ''x-participant-token'' q) = Some tok \<and> lk_verify (a_env a) tok w1 = (Inr cl, w2) \<and>
     cl_sub cl = Some i \<and> cl_room cl = Some room \<and> cl_exp cl = Some t \<and> clock w < t * 1000)"

fun has_authority :: "'lk api \<Rightarrow> http_request \<Rightarrow> 'lk world \<Rightarrow> authority \<Rightarrow> bool" where
  "has_authority a q w Open = True"
| "has_authority a q w Session = has_session a q w"
| "has_authority a q w (HostKey room) = (\<exists>r. roomBySlug room (dbase w) = Some r \<and>
     headerValue (headerOf ''x-host-key'' q) = Some (rm_hostKey r))"
| "has_authority a q w (CallToken room) = has_token a q room w"
| "has_authority a q w (SessionAndToken room) = (has_session a q w \<and> has_token a q room w)"
| "has_authority a q w (SignedLink room i) = (\<exists>t ts. queryOf ''token'' q = t # ts \<and>
     verifyDownload (a_env a) (a_readNumber a) room i t (clock w))"

text \<open>Lookups that the guards make outside change nothing of the API's own.\<close>

definition lookups_quiet :: "'lk api \<Rightarrow> bool" where
  "lookups_quiet a \<longleftrightarrow> quiet (a_env a) \<and> (\<forall>h. quiet_op (ax_getSession (a_auth a) h))"

fun guard_authority :: "guard \<Rightarrow> authority" where
  "guard_authority NoGuard = Open"
| "guard_authority Auth = Session"
| "guard_authority OptionalAuth = Open"
| "guard_authority (Host room) = HostKey room"
| "guard_authority (InCall room) = CallToken room"
| "guard_authority (AuthInCall room) = SessionAndToken room"
| "guard_authority (DownloadLink room i) = SignedLink room i"

lemma controller_guard: "guard_authority (hd_guard (controller a q r)) = authority_of r"
proof (cases r)
  case (RoomsRoute x) then show ?thesis by (cases x) (simp_all add: handler_simps)
next
  case (ControlRoute x) then show ?thesis by (cases x) (simp_all add: handler_simps)
next
  case (DriveRoute x) then show ?thesis by (cases x) (simp_all add: handler_simps)
next
  case (ProfileRoute x) then show ?thesis by (cases x) (simp_all add: handler_simps)
next
  case (ChatRoute x) then show ?thesis by (cases x) (simp_all add: handler_simps)
next
  case (MaintenanceRoute x) then show ?thesis by (cases x) (simp_all add: handler_simps)
qed (simp_all add: handler_simps)

lemma calm_guards [calm_rules]:
  assumes "lookups_quiet a"
  shows "calm_op (authGuard (a_auth a) h)" "calm_op (optionalAuthGuard (a_auth a) h)"
    "calm_op (participantGuard (a_env a) room v)" "calm_op (hostGuard room v)"
    "calm_op (downloadTokenGuard (a_env a) other room i ts)" "calm_op (maintenanceGuard b)"
proof -
  have q: "quiet (a_env a)" and s: "calm_op (ax_getSession (a_auth a) h)" for h
    using assms by (auto simp: lookups_quiet_def calm_quiet)
  show "calm_op (authGuard (a_auth a) h)" unfolding authGuard_def by (intro calm_rules s)
  show "calm_op (optionalAuthGuard (a_auth a) h)" unfolding optionalAuthGuard_def by (intro calm_rules s)
  show "calm_op (participantGuard (a_env a) room v)"
    using q unfolding participantGuard_def verifyParticipantToken_def Let_def by (auto intro!: calm_rules)
  show "calm_op (hostGuard room v)" unfolding hostGuard_def Let_def by (auto intro!: calm_rules)
  show "calm_op (downloadTokenGuard (a_env a) other room i ts)"
    unfolding downloadTokenGuard_def by (auto intro!: calm_rules split: list.split)
  show "calm_op (maintenanceGuard b)" unfolding maintenanceGuard_def by (auto intro!: calm_rules)
qed

lemma calm_runGuard: "lookups_quiet a \<Longrightarrow> calm_op (runGuard a q g)"
  unfolding runGuard_def Let_def by (cases g) (auto intro!: calm_rules)


lemma authGuard_Inr:
  assumes "lookups_quiet a" and "authGuard (a_auth a) (hq_headers q) w = (Inr u, w')"
  shows "has_session a q w"
proof -
  obtain s w1 where s: "ax_getSession (a_auth a) (toHeaders (hq_headers q)) w = (Inr (Some s), w1)"
    and d: "find (\<lambda>d. ad_userId d = au_id (lo_user s)) (deletions (dbase w1)) = None"
    using assms(2) unfolding authGuard_def
    by (auto elim!: andThen_InrE dbcmd_InrE split: option.splits if_splits)
  have "calm w w1" using assms(1) s calm_quiet calm_opD unfolding lookups_quiet_def by blast
  with d have "\<forall>d \<in> set (deletions (dbase w)). ad_userId d \<noteq> au_id (lo_user s)"
    by (simp add: calmD find_None_iff)
  with s show ?thesis unfolding has_session_def using calm_refl by blast
qed

lemma participantGuard_token:
  assumes "lookups_quiet a" and "participantGuard (a_env a) room (headerOf ''x-participant-token'' q) w = (Inr p, w')"
    and "0 \<le> clock w"
  shows "has_token a q room w"
proof -
  obtain tok cl where t: "headerValue (headerOf ''x-participant-token'' q) = Some tok"
      "lk_verify (a_env a) tok w = (Inr cl, w')" "cl_sub cl = Some (ca_identity p)" "cl_room cl = Some room"
      "clock w' < (case cl_exp cl of None \<Rightarrow> 0 | Some s \<Rightarrow> s * 1000)"
    using participantGuard_Inr [OF assms(2)] by blast
  have "calm w w'" using assms(1) t(2) calm_livekit(11) calm_opD unfolding lookups_quiet_def by blast
  then have "clock w' = clock w" by (rule calmD)
  with t(5) assms(3) obtain s where "cl_exp cl = Some s" "clock w < s * 1000" by (auto split: option.splits)
  with t(1-4) show ?thesis unfolding has_token_def using calm_refl by blast
qed

lemma has_authority_calm:
  assumes "calm w w1" and "has_authority a q w1 g"
  shows "has_authority a q w g"
proof -
  have d: "dbase w1 = dbase w" "clock w1 = clock w" using assms(1) by (simp_all add: calmD)
  have "has_session a q w" if "has_session a q w1"
    using that calm_trans [OF assms(1)] unfolding has_session_def d by blast
  moreover have "has_token a q room w" if "has_token a q room w1" for room
    using that calm_trans [OF assms(1)] unfolding has_token_def d by blast
  ultimately show ?thesis using assms(2) by (cases g) (auto simp: d)
qed

lemma runGuard_authority:
  assumes "lookups_quiet a" and "runGuard a q g w = (Inr c, w')" and "0 \<le> clock w"
  shows "has_authority a q w (guard_authority g)"
proof (cases g)
  case Auth
  with assms show ?thesis
    by (auto simp: runGuard_def intro: authGuard_Inr elim!: andThen_InrE)
next
  case (Host room)
  with assms(2) obtain b w1 where "hostGuard room (headerOf ''x-host-key'' q) w = (Inr b, w1)"
    by (auto simp: runGuard_def elim!: andThen_InrE)
  from hostGuard_Inr(1) [OF this] Host show ?thesis by auto
next
  case (InCall room)
  with assms(2) obtain p w1 where "participantGuard (a_env a) room (headerOf ''x-participant-token'' q) w = (Inr p, w1)"
    by (auto simp: runGuard_def elim!: andThen_InrE [where m = "participantGuard E r h" for E r h])
  from participantGuard_token [OF assms(1) this assms(3)] InCall show ?thesis by simp
next
  case (AuthInCall room)
  with assms(2) obtain u w1 p w2 where g: "authGuard (a_auth a) (hq_headers q) w = (Inr u, w1)"
      "participantGuard (a_env a) room (headerOf ''x-participant-token'' q) w1 = (Inr p, w2)"
    by (auto simp: runGuard_def elim!: andThen_InrE [where m = "participantGuard E r h" for E r h]
        andThen_InrE [where m = "authGuard A h" for A h])
  have c: "calm w w1" using calm_guards(1) [OF assms(1)] g(1) calm_opD by blast
  then have "has_token a q room w1" using participantGuard_token [OF assms(1) g(2)] assms(3) by (simp add: calmD)
  from has_authority_calm [OF c, of a q "CallToken room"] this AuthInCall show ?thesis
    using authGuard_Inr [OF assms(1) g(1)] by simp
next
  case (DownloadLink room i)
  with assms(2) show ?thesis
    by (auto simp: runGuard_def downloadTokenGuard_def elim!: andThen_InrE split: list.splits if_splits)
qed auto

lemma serve_cases:
  assumes "lookups_quiet a"
  obtains (refused) e where "fst (serve a r q w) = Inl e" and "calm w (snd (serve a r q w))"
  | (passed) c w1 w2 where "calm w w1" and "runGuard a q (hd_guard (controller a q r)) w1 = (Inr c, w2)"
proof -
  obtain m w1 where m: "maintenanceGuard (hd_blocked (controller a q r)) w = (m, w1)" by fastforce
  obtain g w2 where g: "runGuard a q (hd_guard (controller a q r)) w1 = (g, w2)" by fastforce
  have c1: "calm w w1" using calm_guards(6) [OF assms] m calm_opD by blast
  have c2: "calm w w2" using calm_runGuard [OF assms] g calm_opD calm_trans [OF c1] by blast
  show thesis
  proof (cases m)
    case (Inl e)
    then show thesis using m c1 refused by (simp add: serve_def Let_def seqE_def andThen_def)
  next
    case (Inr b)
    show thesis
    proof (cases g)
      case (Inl e)
      then show thesis using m g Inr c2 refused by (simp add: serve_def Let_def seqE_def andThen_def)
    next
      case (Inr c)
      then show thesis using passed c1 g by blast
    qed
  qed
qed


text \<open>The routes by which meetings, joins, recordings, control, invitations and files come about.\<close>

fun starts_something :: "route \<Rightarrow> bool" where
  "starts_something (RoomsRoute r) =
     (case r of RoomsCreate \<Rightarrow> True | HostToken _ \<Rightarrow> True | Rejoin _ \<Rightarrow> True | Knock _ \<Rightarrow> True | KnockStatus _ _ \<Rightarrow> True
      | Admit _ _ \<Rightarrow> True | RecordingStart _ \<Rightarrow> True | RecordingApprove _ \<Rightarrow> True | _ \<Rightarrow> False)"
| "starts_something (ControlRoute r) =
     (case r of ControlRequest _ \<Rightarrow> True | ControlApprove _ _ \<Rightarrow> True | HelperToken _ _ \<Rightarrow> True
      | ControlBootstrap _ _ \<Rightarrow> True | ControlRenew _ _ \<Rightarrow> True | _ \<Rightarrow> False)"
| "starts_something (ChatRoute r) =
     (case r of ChatCreate _ \<Rightarrow> True | ChatPart _ _ _ \<Rightarrow> True | ChatComplete _ _ \<Rightarrow> True | _ \<Rightarrow> False)"
| "starts_something (Invite _) = True"
| "starts_something _ = False"

lemma controller_blocked: "hd_blocked (controller a q r) = starts_something r"
proof (cases r)
  case (RoomsRoute x) then show ?thesis by (cases x) (simp_all add: handler_simps)
next
  case (ControlRoute x) then show ?thesis by (cases x) (simp_all add: handler_simps)
next
  case (DriveRoute x) then show ?thesis by (cases x) (simp_all add: handler_simps)
next
  case (ProfileRoute x) then show ?thesis by (cases x) (simp_all add: handler_simps)
next
  case (ChatRoute x) then show ?thesis by (cases x) (simp_all add: handler_simps)
next
  case (MaintenanceRoute x) then show ?thesis by (cases x) (simp_all add: handler_simps)
qed (simp_all add: handler_simps)

text \<open>C5. The API asks every request for the authority its route needs: without it the answer is an error
  and nothing in Redis, in the database or in the process has changed. And while maintenance is
  scheduled or active, every route by which something new begins answers that it is
  maintenance, whoever asks, and changes nothing.\<close>

theorem api_needs_authority:
  assumes "lookups_quiet a" and "0 \<le> clock w"
  shows "(\<not> has_authority a q w (authority_of r) \<longrightarrow>
      (\<exists>e. fst (respond a r q w) = Failure e) \<and> calm w (snd (respond a r q w))) \<and>
    (starts_something r \<and> phaseAt (maintenanceState (dbase w)) (clock w) \<noteq> PhaseOff \<and> faults w = [] \<longrightarrow>
      respond a r q w = (Failure (Envelope 503 MaintenanceEnvelope), w))"
proof (intro conjI [of "P \<longrightarrow> Q" for P Q] impI)
  assume no: "\<not> has_authority a q w (authority_of r)"
  show "(\<exists>e. fst (respond a r q w) = Failure e) \<and> calm w (snd (respond a r q w))"
  proof (rule serve_cases [OF assms(1), of r q w])
    fix e assume "fst (serve a r q w) = Inl e" "calm w (snd (serve a r q w))"
    then show ?thesis by (auto simp: respond_def split: prod.splits sum.splits)
  next
    fix c w1 w2 assume c: "calm w w1" "runGuard a q (hd_guard (controller a q r)) w1 = (Inr c, w2)"
    have "0 \<le> clock w1" using assms(2) c(1) by (simp add: calmD)
    from runGuard_authority [OF assms(1) c(2) this] no show ?thesis
      using has_authority_calm [OF c(1)] by (auto simp: controller_guard)
  qed
next
  assume m: "starts_something r \<and> phaseAt (maintenanceState (dbase w)) (clock w) \<noteq> PhaseOff \<and> faults w = []"
  then have "maintenanceGuard (hd_blocked (controller a q r)) w = (Inl (ServiceUnavailableException MaintenanceBody), w)"
    by (simp add: controller_blocked maintenanceGuard_def whenE_def seqE_def andThen_def requireAdmissionsOpen_ok)
  then show "respond a r q w = (Failure (Envelope 503 MaintenanceEnvelope), w)"
    by (simp add: respond_def serve_def Let_def seqE_def andThen_def)
qed


text \<open>An API without any session, whose requests carry nothing.\<close>

definition demoAuth :: "unit auth_api" where
  "demoAuth = \<lparr>ax_getSession = (\<lambda>h. ret None), ax_verifyPassword = (\<lambda>p h. ret ()), ax_setPassword = (\<lambda>p h. ret ()),
     ax_accounts = (\<lambda>w u. [])\<rparr>"

definition demoProfileApi :: "unit profile_api" where
  "demoProfileApi = \<lparr>pf_format = (\<lambda>b. Inr (Some ''png'')), pf_toWebp = Inr, pf_putObject = (\<lambda>k b. ret ()),
     pf_delay = (\<lambda>t. ret ()), pf_publicApiUrl = ''https://api'', pf_urls = \<lparr>ur_pathname = (\<lambda>u. None), ur_decode = Some\<rparr>\<rparr>"

definition demoMail :: "unit mail_api" where
  "demoMail = \<lparr>ml_sendMail = (\<lambda>to url. ret False), ml_host = Some ''smtp'', ml_meetingUrl = (\<lambda>s. Inr (''https://huddle/rooms/'' @ s))\<rparr>"

definition demoApi :: "unit api" where
  "demoApi = \<lparr>a_env = demoEnv, a_cloud = demoCloud, a_files = demoChat, a_auth = demoAuth, a_profile = demoProfileApi,
     a_mail = demoMail, a_retention = demoRetention, a_maxBytes = MAX_CHAT_FILE_BYTES, a_pipe = (\<lambda>rs b. True),
     a_isUUID = (\<lambda>s. True), a_parseInt = (\<lambda>s. None), a_parseDate = (\<lambda>s. None), a_readNumber = (\<lambda>s. None)\<rparr>"

definition bareRequest :: http_request where
  "bareRequest = \<lparr>hq_headers = [], hq_query = [], hq_body = JObj [], hq_file = None, hq_stream = ([], None), hq_raw = []\<rparr>"

lemma demoApi_quiet: "lookups_quiet demoApi"
  by (simp add: lookups_quiet_def demoApi_def demoAuth_def quiet_ret)

theorem api_needs_authority_witness:
  "(\<exists>e. fst (respond demoApi (RoomsRoute (Mute ''abc-defg-hij'')) bareRequest activeWorld) = Failure e) \<and>
    calm activeWorld (snd (respond demoApi (RoomsRoute (Mute ''abc-defg-hij'')) bareRequest activeWorld))"
proof -
  have "\<not> has_authority demoApi bareRequest activeWorld (authority_of (RoomsRoute (Mute ''abc-defg-hij'')))"
    by (simp add: headerOf_def bareRequest_def)
  moreover have "0 \<le> clock activeWorld" by simp
  ultimately show ?thesis using api_needs_authority [OF demoApi_quiet] by blast
qed

end
