(* ===== verification/InviteLimit.thy ===== *)
theory InviteLimit
  imports ApiProperties
begin

text \<open>
  The hourly limit of invitations (\<^verbatim>\<open>rooms/invitations.service.ts\<close>), for any run of requests.
\<close>

text \<open>A run of invitations: each comes some time after the one before, and the result counts those sent.\<close>

fun invitations :: "'lk env \<Rightarrow> 'lk mail_api \<Rightarrow> (nat \<times> string \<times> string) list \<Rightarrow> 'lk world \<Rightarrow> nat \<times> 'lk world" where
  "invitations E M [] w = (0, w)"
| "invitations E M ((delay, slug, email) # rest) w =
     (case sendInvitation E M slug email (w\<lparr>clock := clock w + int delay\<rparr>) of (r, w1) \<Rightarrow>
        (case invitations E M rest w1 of (n, w2) \<Rightarrow> ((if isl r then n else n + 1), w2)))"

definition hourOf :: "int \<Rightarrow> int" where
  "hourOf t = t div 3600000"

definition hourKey :: "string \<Rightarrow> int \<Rightarrow> string" where
  "hourKey h H = ''huddle:invite-rate:'' @ h @ '':'' @ decimal (nat H)"

text \<open>\<open>counts h H d c w\<close>: in the hour \<open>H\<close>, with the database \<open>d\<close>, the counter of the host \<open>h\<close> stands at \<open>c\<close> and
  lasts until the hour is over.\<close>

definition counts :: "string \<Rightarrow> int \<Rightarrow> database \<Rightarrow> int \<Rightarrow> nat \<Rightarrow> 'lk world \<Rightarrow> bool" where
  "counts h H d t c w \<longleftrightarrow> clock w = t \<and> hourOf t = H \<and> dbase w = d \<and>
     (case strings (kv w) (hourKey h H) of
        None \<Rightarrow> c = 0
      | Some e \<Rightarrow> val e = VStr (decimal c) \<and> (\<forall>u. expiresAt e = Some u \<longrightarrow> (H + 1) * 3600000 \<le> u))"

lemma wp_keeps:
  assumes "keeps I m" and "I w" and "\<And>x w'. I w' \<Longrightarrow> Q x w'" and "\<And>e w'. I w' \<Longrightarrow> R e w'"
  shows "wp m Q R w"
  using keepsD [OF assms(1,2)] assms(3,4) by (auto simp: wp_def split: prod.splits sum.splits)

lemma rateKey_hour: "rateKey h t = hourKey h (hourOf t)"
  by (simp add: rateKey_def hourKey_def hourOf_def)

lemma cooldownKey_rate [simp]: "cooldownKey E slug email \<noteq> hourKey h H"
  by (simp add: cooldownKey_def hourKey_def)

lemma strings_other:
  assumes "k \<noteq> k'"
  shows "strings (cleanupString now k r) k' = strings r k'" "strings (del [k] r) k' = strings r k'"
    "strings (snd (rset now k v ttl mode r)) k' = strings r k'"
proof -
  show c: "strings (cleanupString now k r) k' = strings r k'"
    using assms by (simp add: cleanupString_def split: option.split)
  show "strings (del [k] r) k' = strings r k'" using assms by (simp add: del_def del1_def)
  show "strings (snd (rset now k v ttl mode r)) k' = strings r k'"
    using assms by (simp add: rset_def Let_def c)
qed

lemma strings_cleanupSet [simp]: "strings (cleanupSet now k r) = strings r"
  by (simp add: cleanupSet_def split: option.split)

lemma counts_tick [simp]: "counts h H d t c (tick w) = counts h H d t c w"
  by (simp add: counts_def)

lemma keeps_counts:
  "keeps (counts h H d t c) (redisSet (cooldownKey E slug email) v ttl mode)"
  "keeps (counts h H d t c) (redisDel [cooldownKey E slug email])"
  "keeps (counts h H d t c) (dbread f)"
  "quiet_op m \<Longrightarrow> keeps (counts h H d t c) m" for m :: "('lk, 'a) op"
proof -
  show "keeps (counts h H d t c) (redisSet (cooldownKey E slug email) v ttl mode)"
    "keeps (counts h H d t c) (redisDel [cooldownKey E slug email])"
    by (auto intro!: keeps_rcmd simp: counts_def strings_other)
  show "keeps (counts h H d t c) (dbread f)"
    by (auto intro!: keeps_dbcmd simp: counts_def)
  show "keeps (counts h H d t c) m" if "quiet_op m"
  proof (rule keepsI)
    fix w :: "'lk world" assume "counts h H d t c w"
    moreover obtain s where "snd (m w) = w\<lparr>sfu := s\<rparr>" using \<open>quiet_op m\<close> unfolding quiet_op_def by blast
    ultimately show "counts h H d t c (snd (m w))" by (simp add: counts_def)
  qed
qed

lemma counter_live:
  assumes "counts h H d t c w"
  shows "cleanupString t (rateKey h t) (kv w) = kv w"
    and "counterOf (map_option val (strings (kv w) (rateKey h t))) = Some c"
proof -
  have "t < (H + 1) * 3600000" using assms by (auto simp: counts_def hourOf_def)
  then show "cleanupString t (rateKey h t) (kv w) = kv w"
    using assms by (auto simp: counts_def rateKey_hour cleanupString_def split: option.splits)
  show "counterOf (map_option val (strings (kv w) (rateKey h t))) = Some c"
    using assms decimal_digits [of c]
    by (auto simp: counts_def rateKey_hour counterOf_def split: option.splits)
qed

lemma wp_incr:
  assumes "counts h H d t c w"
    and "\<And>w'. counts h H d t (c + 1) w' \<Longrightarrow> Q (c + 1) w'" and "\<And>e w'. counts h H d t c w' \<Longrightarrow> R e w'"
  shows "wp (redisIncr (rateKey h t)) Q R w"
proof (cases "failing w")
  case True
  then show ?thesis
    using assms(1,3) by (simp add: redisIncr_def wp_def andThen_def rcmd_def)
next
  case False
  have hour: "hourOf t = H" "clock w = t" using assms(1) by (simp_all add: counts_def)
  let ?k = "rateKey h t"
  let ?r = "(kv w)\<lparr>strings := (strings (kv w))(?k \<mapsto>
      \<lparr>val = VStr (decimal (c + 1)), expiresAt = Option.bind (strings (kv w) ?k) expiresAt\<rparr>)\<rparr>"
  have "incr t ?k (kv w) = (Some (c + 1), ?r)"
    using counter_live [OF assms(1)] by (simp add: incr_def Let_def)
  then have "redisIncr ?k w = (Inr (c + 1), (tick w)\<lparr>kv := ?r\<rparr>)"
    using False hour(2) by (simp add: redisIncr_def andThen_def rcmd_def)
  moreover have "counts h H d t (c + 1) ((tick w)\<lparr>kv := ?r\<rparr>)"
    using assms(1) by (auto simp: counts_def rateKey_hour split: option.splits)
  ultimately show ?thesis using assms(2) by (simp add: wp_def)
qed


lemma keeps_counts_expire: "keeps (counts h H d t c) (redisExpire (rateKey h t) 3600)"
proof (rule keepsI)
  fix w :: "'lk world" assume c: "counts h H d t c w"
  let ?k = "hourKey h H"
  have t: "H * 3600000 \<le> t" "clock w = t" "hourOf t = H" using c by (auto simp: counts_def hourOf_def)
  have "counts h H d t c ((tick w)\<lparr>kv := expire t (rateKey h t) 3600 (kv w)\<rparr>)"
  proof (cases "strings (kv w) ?k")
    case None
    then show ?thesis
      using c t counter_live(1) [OF c] by (auto simp: counts_def expire_def Let_def rateKey_hour)
  next
    case (Some e)
    then show ?thesis
      using c t counter_live(1) [OF c] by (auto simp: counts_def expire_def Let_def rateKey_hour)
  qed
  with c t(2) show "counts h H d t c (snd (redisExpire (rateKey h t) 3600 w))" by (auto simp: rcmd_def)
qed

lemma wp_InrI: "(\<And>x w'. m w = (Inr x, w') \<Longrightarrow> Q x w') \<Longrightarrow> (\<And>e w'. m w = (Inl e, w') \<Longrightarrow> R e w') \<Longrightarrow> wp m Q R w"
  by (auto simp: wp_def split: prod.splits sum.splits)

lemma wp_if: "(b \<Longrightarrow> wp m Q R w) \<Longrightarrow> (\<not> b \<Longrightarrow> wp n Q R w) \<Longrightarrow> wp (if b then m else n) Q R w"
  by simp

text \<open>The steps of an invitation: reserve the address, count, send.\<close>

definition sendCounted :: "'lk env \<Rightarrow> 'lk mail_api \<Rightarrow> string \<Rightarrow> string \<Rightarrow> ('lk, bool) op" where
  "sendCounted E M slug email =
     andThen (lift (ml_meetingUrl M slug)) (\<lambda>url.
     catchE
       (andThen (ml_sendMail M (normalizedEmail email) url) (\<lambda>rejected.
          if rejected then raise (JsError ''Recipient rejected'') else ret True))
       (\<lambda>_. seqE (redisDel [cooldownKey E slug email]) (raise (BadGatewayException TextBody))))"

definition countAndSend :: "'lk env \<Rightarrow> 'lk mail_api \<Rightarrow> string \<Rightarrow> string \<Rightarrow> string \<Rightarrow> ('lk, bool) op" where
  "countAndSend E M slug email host =
     andThen dateNow (\<lambda>now.
     andThen (redisIncr (rateKey host now)) (\<lambda>count.
     seqE (redisExpire (rateKey host now) 3600) (if count > 50 then raise tooMany else sendCounted E M slug email)))"

definition reserveAndSend :: "'lk env \<Rightarrow> 'lk mail_api \<Rightarrow> string \<Rightarrow> string \<Rightarrow> string \<Rightarrow> ('lk, bool) op" where
  "reserveAndSend E M slug email host =
     andThen (redisSet (cooldownKey E slug email) (VStr ''1'') (Some 60) NX) (\<lambda>fresh.
       if \<not> fresh then raise tooMany else countAndSend E M slug email host)"

lemma sendInvitation_steps:
  "sendInvitation E M slug email =
     andThen (findBySlug slug) (\<lambda>room. case room of
       None \<Rightarrow> raise (NotFoundException TextBody)
     | Some r \<Rightarrow> if \<not> truthy (ml_host M) then raise (ServiceUnavailableException TextBody)
                else reserveAndSend E M slug email (rm_hostUserId r))"
  unfolding sendInvitation_def reserveAndSend_def countAndSend_def sendCounted_def ..

definition one_more :: "string \<Rightarrow> int \<Rightarrow> database \<Rightarrow> int \<Rightarrow> nat \<Rightarrow> 'lk world \<Rightarrow> bool" where
  "one_more h H d t c w \<longleftrightarrow> c < 50 \<and> counts h H d t (c + 1) w"

definition no_more :: "string \<Rightarrow> int \<Rightarrow> database \<Rightarrow> int \<Rightarrow> nat \<Rightarrow> 'lk world \<Rightarrow> bool" where
  "no_more h H d t c w \<longleftrightarrow> counts h H d t c w \<or> counts h H d t (c + 1) w"

lemma wp_countAndSend:
  assumes "counts h H d t c w" and "\<And>to url. quiet_op (ml_sendMail M to url)"
  shows "wp (countAndSend E M slug email h) (\<lambda>_. one_more h H d t c) (\<lambda>_. no_more h H d t c) w"
proof -
  have tail: "keeps (counts h H d t (c + 1)) (sendCounted E M slug email)"
    unfolding sendCounted_def by (intro keeps_rules keeps_counts(2) keeps_counts(4) assms(2))
  have now: "clock w = t" using assms(1) by (simp add: counts_def)
  have send: "wp (if c + 1 > 50 then raise tooMany else sendCounted E M slug email)
      (\<lambda>_. one_more h H d t c) (\<lambda>_. no_more h H d t c) w3" if w3: "counts h H d t (c + 1) w3" for w3
  proof (rule wp_if)
    show "wp (raise tooMany) (\<lambda>_. one_more h H d t c) (\<lambda>_. no_more h H d t c) w3"
      unfolding wp_basic no_more_def using w3 by blast
    show "wp (sendCounted E M slug email) (\<lambda>_. one_more h H d t c) (\<lambda>_. no_more h H d t c) w3" if "\<not> 50 < c + 1"
      by (rule wp_keeps [OF tail w3]) (use that in \<open>simp_all add: one_more_def no_more_def\<close>)
  qed
  show ?thesis
    unfolding countAndSend_def wp_andThen wp_basic now wp_seqE
    by (rule wp_incr [OF assms(1)], rule wp_keeps [OF keeps_counts_expire], assumption, erule send)
      (simp_all add: no_more_def)
qed

lemma sendInvitation_counts:
  assumes "counts h H d t c w" and "\<And>to url. quiet_op (ml_sendMail M to url)"
    and "\<And>r. roomBySlug slug d = Some r \<Longrightarrow> rm_hostUserId r = h"
  shows "wp (sendInvitation E M slug email) (\<lambda>_. one_more h H d t c) (\<lambda>_. no_more h H d t c) w"
  unfolding sendInvitation_steps wp_andThen
proof (rule wp_InrI)
  have k: "counts h H d t c (snd (findBySlug slug w))"
    unfolding findBySlug_def by (rule keepsD [OF keeps_counts(3) assms(1)])
  show "no_more h H d t c w'" if "findBySlug slug w = (Inl e, w')" for e w'
    using k that by (simp add: no_more_def)
  fix room w1 assume f: "findBySlug slug w = (Inr room, w1)"
  with k have w1: "counts h H d t c w1" by simp
  have room: "room = roomBySlug slug d" using findBySlug_Inr [OF f] assms(1) by (simp add: counts_def)
  have reserve: "wp (reserveAndSend E M slug email h) (\<lambda>_. one_more h H d t c) (\<lambda>_. no_more h H d t c) w1"
    unfolding reserveAndSend_def wp_andThen
    by (rule wp_keeps [OF keeps_counts(1) w1], rule wp_if)
      (simp_all add: wp_countAndSend assms(2) wp_basic no_more_def)
  with w1 assms(3) show "wp (case room of None \<Rightarrow> raise (NotFoundException TextBody)
     | Some r \<Rightarrow> if \<not> truthy (ml_host M) then raise (ServiceUnavailableException TextBody)
                else reserveAndSend E M slug email (rm_hostUserId r)) (\<lambda>_. one_more h H d t c) (\<lambda>_. no_more h H d t c) w1"
    unfolding room by (cases "roomBySlug slug d") (simp_all add: wp_basic no_more_def)
qed

text \<open>C29. In one clock hour (from one full hour of the server's clock to the next), after c counted requests at most
  50 - c more invitations of a host are sent, so at most fifty in all, from all of their rooms together, however many
  are asked for, to whatever addresses, however the requests are spread over the rest of that hour and whatever store
  commands fail. The limit is one of the clock hour: sixty minutes that lie across a full hour have two such counters.\<close>

theorem invitation_limit:
  assumes "\<And>to url. quiet_op (ml_sendMail M to url)"
    and "\<forall>(delay, slug, email) \<in> set requests. \<forall>r. roomBySlug slug (dbase w) = Some r \<longrightarrow> rm_hostUserId r = h"
    and "hourOf (clock w + (\<Sum>q \<leftarrow> requests. int (fst q))) = hourOf (clock w)"
    and "case strings (kv w) (rateKey h (clock w)) of
        None \<Rightarrow> c = 0
      | Some e \<Rightarrow> val e = VStr (decimal c) \<and> (\<forall>u. expiresAt e = Some u \<longrightarrow> (hourOf (clock w) + 1) * 3600000 \<le> u)"
  shows "fst (invitations E M requests w) \<le> 50 - c"
proof -
  have "fst (invitations E M requests w) \<le> 50 - c"
    if "counts h H d t c w" "\<forall>(delay, slug, email) \<in> set requests. \<forall>r. roomBySlug slug d = Some r \<longrightarrow> rm_hostUserId r = h"
      "hourOf (t + (\<Sum>q \<leftarrow> requests. int (fst q))) = H" for c H d t
    using that
  proof (induction requests arbitrary: c t w)
    case (Cons q rest)
    obtain delay slug email where q: "q = (delay, slug, email)" by (cases q)
    let ?t = "t + int delay" and ?w = "w\<lparr>clock := clock w + int delay\<rparr>"
    let ?later = "\<Sum>q \<leftarrow> rest. int (fst q)"
    have "0 \<le> ?later" by (induction rest) auto
    then have "hourOf t \<le> hourOf ?t" "hourOf ?t \<le> hourOf (?t + ?later)" unfolding hourOf_def by (auto intro!: zdiv_mono1)
    moreover have "hourOf t = H" "hourOf (?t + ?later) = H" using Cons.prems(1,3) by (simp_all add: counts_def q add.assoc)
    ultimately have w: "counts h H d ?t c ?w" using Cons.prems(1) by (simp add: counts_def)
    obtain r w1 where s: "sendInvitation E M slug email ?w = (r, w1)" by fastforce
    have "rm_hostUserId x = h" if "roomBySlug slug d = Some x" for x using Cons.prems(2) that by (auto simp: q)
    then have step: "if isl r then counts h H d ?t c w1 \<or> counts h H d ?t (c + 1) w1 else c < 50 \<and> counts h H d ?t (c + 1) w1"
      using sendInvitation_counts [OF w assms(1), of slug E email] s
      by (cases r) (auto simp: wp_def one_more_def no_more_def)
    have ih: "fst (invitations E M rest w1) \<le> 50 - c'" if "counts h H d ?t c' w1" for c'
      by (rule Cons.IH [OF that]) (use Cons.prems(2,3) in \<open>auto simp: q add.assoc\<close>)
    have "fst (invitations E M (q # rest) w) = (if isl r then 0 else 1) + fst (invitations E M rest w1)"
      by (simp add: q s split: prod.split)
    with step ih [of c] ih [of "c + 1"] show ?case by (auto split: if_splits)
  qed simp
  from this [of "hourOf (clock w)" "dbase w" "clock w" c] assms(2-4) show ?thesis
    by (simp add: counts_def rateKey_hour)
qed

text \<open>Forty-eight requests were counted in this hour; of three more, to three addresses, two are sent.\<close>

definition demoInvites :: "(nat \<times> string \<times> string) list" where
  "demoInvites = map (\<lambda>email. (1, ''abc-defg-hij'', email)) [''a@x'', ''b@x'', ''c@x'']"

definition invitedWorld :: "unit world" where
  "invitedWorld = (demoWorld [] [])\<lparr>kv := (kv (demoWorld [] []))\<lparr>strings :=
     (\<lambda>k. if k = rateKey ''u1'' 1000 then Some \<lparr>val = VStr ''48'', expiresAt = Some 3600900\<rparr> else None)\<rparr>\<rparr>"

theorem invitation_limit_witness:
  "fst (invitations demoEnv demoMail demoInvites invitedWorld) = 2 \<and>
   fst (invitations demoEnv demoMail demoInvites invitedWorld) \<le> 50 - 48"
proof
  have clock: "clock invitedWorld = 1000" by (simp add: invitedWorld_def)
  show "fst (invitations demoEnv demoMail demoInvites invitedWorld) = 2" by code_simp
  show "fst (invitations demoEnv demoMail demoInvites invitedWorld) \<le> 50 - 48"
  proof (rule invitation_limit [where h = "''u1''"])
    show "quiet_op (ml_sendMail demoMail to url)" for to url by (simp add: demoMail_def quiet_ret)
    show "\<forall>(delay, slug, email) \<in> set demoInvites.
        \<forall>r. roomBySlug slug (dbase invitedWorld) = Some r \<longrightarrow> rm_hostUserId r = ''u1''"
      by (auto simp: roomBySlug_def demoRoom_def demoInvites_def invitedWorld_def)
    show "hourOf (clock invitedWorld + (\<Sum>q \<leftarrow> demoInvites. int (fst q))) = hourOf (clock invitedWorld)"
      by (simp add: demoInvites_def hourOf_def clock)
    have "decimal 48 = ''48''" by code_simp
    then show "case strings (kv invitedWorld) (rateKey ''u1'' (clock invitedWorld)) of
        None \<Rightarrow> 48 = (0 :: nat)
      | Some e \<Rightarrow> val e = VStr (decimal 48) \<and>
          (\<forall>u. expiresAt e = Some u \<longrightarrow> (hourOf (clock invitedWorld) + 1) * 3600000 \<le> u)"
      by (simp add: clock) (simp add: invitedWorld_def hourOf_def)
  qed
qed

end
