(* ===== verification/ChatUpload.thy ===== *)
theory ChatUpload
  imports ApiProperties DeliveryRun
begin

text \<open>
  The browser's side of chat files (\<^verbatim>\<open>apps/web/src/components/call/chatFiles.ts\<close>) and how it works
  together with the API. A request of the browser is answered by \<open>respond\<close>, the API as a whole;
  a network failure between the two is not part of this theory. The body of a part is one chunk of the
  length of the slice, which the browser also states as its content length. The progress display
  is left out, and so are the abort signal and the text of an error, which are for the person alone. Because a part size that is not positive would make the loop endless, the upload is
  partial.
\<close>

section \<open>The client\<close>

text \<open>The message that stands for a file in the chat, and the file it stands for: \<^verbatim>\<open>/^huddle-file:(<uuid>)$/i\<close>.\<close>

definition fileMessage :: "string \<Rightarrow> string" where
  "fileMessage i = ''huddle-file:'' @ i"

definition isHex :: "char \<Rightarrow> bool" where
  "isHex c \<longleftrightarrow> toLower c \<in> set ''0123456789abcdef''"

fun hexGroups :: "nat list \<Rightarrow> string \<Rightarrow> bool" where
  "hexGroups [] s = (s = [])"
| "hexGroups [n] s = (length s = n \<and> list_all isHex s)"
| "hexGroups (n # m # ns) s =
     (length s > n \<and> list_all isHex (take n s) \<and> s ! n = CHR ''-'' \<and> hexGroups (m # ns) (drop (n + 1) s))"

definition fileMessageId :: "string \<Rightarrow> string option" where
  "fileMessageId message =
     (let i = drop 12 message in
      if map toLower (take 12 message) = ''huddle-file:'' \<and> hexGroups [8, 4, 4, 4, 12] i then Some i else None)"

lemma fileMessage_roundtrip:
  assumes "hexGroups [8, 4, 4, 4, 12] i"
  shows "fileMessageId (fileMessage i) = Some i"
proof -
  have "map toLower ''huddle-file:'' = ''huddle-file:''" by code_simp
  then show ?thesis using assms by (simp add: fileMessageId_def fileMessage_def del: hexGroups.simps)
qed

definition chatFileRequest :: "'lk api \<Rightarrow> chat_route \<Rightarrow> http_request \<Rightarrow> ('lk, reply) op" where
  "chatFileRequest a r q w =
     (case respond a (ChatRoute r) q w of
        (Answer x, w') \<Rightarrow> (Inr x, w')
      | (Failure _, w') \<Rightarrow> (Inl (JsError ''Chat file request failed. Try again.''), w'))"

definition tokenRequest :: "string \<Rightarrow> (string \<times> header) list \<Rightarrow> json \<Rightarrow> stream \<Rightarrow> http_request" where
  "tokenRequest token headers body content =
     \<lparr>hq_headers = (''x-participant-token'', One token) # headers, hq_query = [], hq_body = body,
      hq_file = None, hq_stream = content, hq_raw = []\<rparr>"

definition chatCreateRequest :: "string \<Rightarrow> string \<Rightarrow> int \<Rightarrow> http_request" where
  "chatCreateRequest token name bytes =
     tokenRequest token [(''content-type'', One ''application/json'')]
       (JObj [(''name'', JStr name), (''size'', JNum (of_int bytes))]) ([], None)"

definition partRequest :: "string \<Rightarrow> nat \<Rightarrow> http_request" where
  "partRequest token len =
     tokenRequest token [(''content-type'', One ''application/octet-stream''), (''content-length'', One (decimal len))]
       (JObj []) ([len], None)"

text \<open>\<^verbatim>\<open>file.slice(offset, offset + partSize)\<close> of a file of \<open>bytes\<close>.\<close>

definition sliceLength :: "int \<Rightarrow> int \<Rightarrow> int \<Rightarrow> nat" where
  "sliceLength bytes offset partSize = nat (min bytes (offset + partSize) - offset)"

partial_function (option) uploadParts ::
    "'lk api \<Rightarrow> string \<Rightarrow> string \<Rightarrow> string \<Rightarrow> int \<Rightarrow> int \<Rightarrow> int \<Rightarrow> nat \<Rightarrow> 'lk world \<Rightarrow> ((exn + unit) \<times> 'lk world) option" where
  "uploadParts a room token i bytes partSize offset part w =
     (if offset \<ge> bytes then Some (Inr (), w)
      else case chatFileRequest a (ChatPart room i (decimal part)) (partRequest token (sliceLength bytes offset partSize)) w of
        (Inl e, w1) \<Rightarrow> Some (Inl e, w1)
      | (Inr _, w1) \<Rightarrow> uploadParts a room token i bytes partSize (offset + partSize) (part + 1) w1)"

definition uploadChatFile :: "'lk api \<Rightarrow> string \<Rightarrow> string \<Rightarrow> string \<Rightarrow> int \<Rightarrow> ('lk, string) partial_op" where
  "uploadChatFile a room token name bytes =
     andThenP (liftP (chatFileRequest a (ChatCreate room) (chatCreateRequest token name bytes))) (\<lambda>upload.
       case upload of
         RChatCreated u \<Rightarrow>
           catchP
             (andThenP (uploadParts a room token (cr_id u) bytes (cr_partSize u) 0 1) (\<lambda>_.
              andThenP (liftP (chatFileRequest a (ChatComplete room (cr_id u)) (tokenRequest token [] (JObj []) ([], None)))) (\<lambda>_.
                liftP (ret (cr_id u)))))
             (\<lambda>err. andThenP (liftP (settle (chatFileRequest a (ChatCancel room (cr_id u))
                       (tokenRequest token [] (JObj []) ([], None))))) (\<lambda>_. liftP (raise err)))
       | _ \<Rightarrow> liftP (raise typeError))"

section \<open>Requests that the API accepts\<close>

text \<open>
  \<open>steady a room tok me sid t\<close>: at the time \<open>t\<close> and for the whole upload the token is a valid one of the
  person \<open>me\<close>, who is in the call \<open>sid\<close>; the object storage accepts uploads and complete streams; and the
  framework reads the requests of this client as it should.
\<close>

definition steady :: "'lk api \<Rightarrow> string \<Rightarrow> string \<Rightarrow> string \<Rightarrow> string \<Rightarrow> int \<Rightarrow> bool" where
  "steady a room tok me sid t \<longleftrightarrow> sid \<noteq> [] \<and>
     (\<forall>w. clock w = t \<longrightarrow> (\<exists>p. participantGuard (a_env a) room (One tok) w = (Inr p, w) \<and> ca_identity p = me)) \<and>
     (\<forall>w x. x = None \<or> x = Some sid \<longrightarrow> chatConnected (a_env a) room me x w = (Inr sid, w)) \<and>
     (\<forall>w. cc_headBucket (a_files a) w = (Inr (), w) \<and> cc_putLifecycle (a_files a) w = (Inr (), w)) \<and>
     (\<forall>k w. \<exists>u. cc_createUpload (a_files a) k w = (Inr (Some u), w) \<and> u \<noteq> []) \<and>
     (\<forall>k u n l chunks w. \<exists>e. cc_uploadPart (a_files a) k u n l (chunks, None) w = (Inr (Some e), w) \<and> e \<noteq> []) \<and>
     (\<forall>k u ps w. cc_completeUpload (a_files a) k u ps w = (Inr (), w)) \<and>
     (\<forall>k w. cc_putEmpty (a_files a) k w = (Inr (), w)) \<and>
     (\<forall>name bytes. name \<noteq> [] \<and> length name \<le> 255 \<and> 0 \<le> bytes \<and> bytes \<le> MAX_CHAT_FILE_BYTES \<longrightarrow>
        a_pipe a CreateChatFileDto (JObj [(''name'', JStr name), (''size'', JNum (of_int bytes))])) \<and> (\<forall>i. a_isUUID a (uuid (a_env a) i)) \<and>
     (\<forall>n. a_parseInt a (decimal n) = Some (int n)) \<and> a_maxBytes a \<le> MAX_CHAT_FILE_BYTES"

lemma steady_part:
  "steady a room tok me sid t \<Longrightarrow> \<exists>e. cc_uploadPart (a_files a) k u n l (chunks, None) w = (Inr (Some e), w) \<and> e \<noteq> []"
  by (simp add: steady_def)

lemma steady_create:
  "steady a room tok me sid t \<Longrightarrow> \<exists>u. cc_createUpload (a_files a) k w = (Inr (Some u), w) \<and> u \<noteq> []"
  by (simp add: steady_def)

text \<open>The worlds of the upload: nothing fails, the time stands still, there is no maintenance.\<close>

definition serene :: "int \<Rightarrow> 'lk world \<Rightarrow> bool" where
  "serene t w \<longleftrightarrow> faults w = [] \<and> clock w = t \<and> phaseAt (maintenanceState (dbase w)) t = PhaseOff"

lemma serve_chat:
  assumes "steady a room tok me sid t" and "serene t w"
    and "hd_guard (controller a q (ChatRoute r)) = InCall room" and "hd_pipes (controller a q (ChatRoute r))"
    and "headerOf ''x-participant-token'' q = One tok"
    and "case hd_dto (controller a q (ChatRoute r)) of None \<Rightarrow> True | Some rules \<Rightarrow> a_pipe a rules (hq_body q)"
  shows "\<exists>p. ca_identity p = me \<and>
    serve a (ChatRoute r) q w = hd_run (controller a q (ChatRoute r)) \<lparr>cr_user = None, cr_participant = Some p\<rparr> w"
proof -
  have m: "maintenanceGuard b w = (Inr True, w)" for b
    using assms(2) by (cases b) (simp_all add: serene_def maintenanceGuard_def whenE_def seqE_def andThen_def requireAdmissionsOpen_ok)
  obtain p where p: "participantGuard (a_env a) room (One tok) w = (Inr p, w)" "ca_identity p = me"
    using assms(1,2) unfolding steady_def serene_def by blast
  have "runGuard a q (InCall room) w = (Inr \<lparr>cr_user = None, cr_participant = Some p\<rparr>, w)"
    by (simp add: runGuard_def assms(5) p(1) andThen_def noCaller_def)
  moreover have "\<not> (case hd_dto (controller a q (ChatRoute r)) of None \<Rightarrow> False | Some rules \<Rightarrow> \<not> a_pipe a rules (hq_body q))"
    using assms(6) by (simp split: option.split_asm)
  ultimately show ?thesis
    using m p(2) assms(3,4) by (intro exI [of _ p]) (simp add: serve_def Let_def seqE_def andThen_def)
qed


text \<open>The state of an upload under way: the record \<open>c\<close> is stored, it is the person's own, and not complete.\<close>

definition uploading :: "string \<Rightarrow> string \<Rightarrow> string \<Rightarrow> int \<Rightarrow> chat_file \<Rightarrow> 'lk world \<Rightarrow> bool" where
  "uploading room me sid t c w \<longleftrightarrow> serene t w \<and> value_of w (chatFileKey (cf_id c)) = Some (VChat c) \<and>
     cf_room c = room \<and> cf_roomSid c = sid \<and> cf_identity c = me \<and> \<not> cf_completed c \<and> t < cf_expiresAt c \<and> wf_chat c"

lemma saveChat_ok:
  assumes "serene t w"
  shows "\<exists>w1. saveChat c w = (Inr (), w1) \<and> serene t w1 \<and> value_of w1 (chatFileKey (cf_id c)) = Some (VChat c)"
proof -
  have f: "faults w = []" using assms by (simp add: serene_def)
  let ?r = "snd (rset (clock w) (chatFileKey (cf_id c)) (VChat c) None Always (kv w))"
  have "saveChat c w = (Inr (), w\<lparr>kv := ?r\<rparr>)"
    using f by (simp add: saveChat_def seqE_def andThen_def rcmd_ok)
  moreover have "look (clock w) ?r (chatFileKey (cf_id c)) = Some (VChat c)"
    by (simp add: look_def ent_def rset_def Let_def live_def)
  ultimately show ?thesis using assms by (simp add: serene_def)
qed

lemma chatOwned_ok:
  assumes "steady a room tok me sid t" and "uploading room me sid t c w"
  shows "\<exists>w1. chatOwned (a_env a) room (cf_id c) me w = (Inr c, w1) \<and> uploading room me sid t c w1"
proof -
  have u: "value_of w (chatFileKey (cf_id c)) = Some (VChat c)" "cf_room c = room" "clock w < cf_expiresAt c" "faults w = []"
    using assms(2) by (auto simp: uploading_def serene_def)
  have load: "chatLoad room (cf_id c) w = (Inr c, w\<lparr>kv := snd (get (clock w) (chatFileKey (cf_id c)) (kv w))\<rparr>)"
    (is "_ = (_, ?w1)")
    using u by (simp add: chatLoad_def andThen_def rcmd_ok)
  have "chatConnected (a_env a) room me (Some sid) ?w1 = (Inr sid, ?w1)" using assms(1) by (simp add: steady_def)
  then have "chatOwned (a_env a) room (cf_id c) me w = (Inr c, ?w1)"
    using assms(2) load by (simp add: chatOwned_def andThen_def seqE_def uploading_def)
  moreover have "look t (kv w) (chatFileKey (cf_id c)) = Some (VChat c)" "clock w = t"
    using u(1) assms(2) by (auto simp: uploading_def serene_def)
  then have "uploading room me sid t c ?w1" using assms(2) by (simp add: uploading_def serene_def look_def)
  ultimately show ?thesis by blast
qed

lemma putPart_fields [simp]:
  "cf_id (putPart n e c) = cf_id c" "cf_room (putPart n e c) = cf_room c" "cf_roomSid (putPart n e c) = cf_roomSid c"
  "cf_identity (putPart n e c) = cf_identity c" "cf_completed (putPart n e c) = cf_completed c"
  "cf_expiresAt (putPart n e c) = cf_expiresAt c" "cf_size (putPart n e c) = cf_size c"
  "cf_partSize (putPart n e c) = cf_partSize c" "cf_name (putPart n e c) = cf_name c"
  by (simp_all add: putPart_def Let_def)

lemma next_part:
  assumes "wf_chat c" and "length (cf_parts c) < partCount c"
  defines "n \<equiv> length (cf_parts c)"
  shows "0 < expectedLength c (int n + 1)" and "expectedLength c (int n + 1) \<le> 5 * 1024 ^ 3" and "n < 10000"
    and "sliceLength (cf_size c) (int n * cf_partSize c) (cf_partSize c) = nat (expectedLength c (int n + 1))"
    and "int n * cf_partSize c < cf_size c"
proof -
  have b: "cf_size c \<le> MAX_CHAT_FILE_BYTES" and s: "cf_partSize c = partSizeFor (cf_size c)"
    using assms(1) by (simp_all add: wf_chat_def)
  note p = partSizeFor_bounds [OF b, folded s]
  have "int n < ceilQuot (cf_size c) (cf_partSize c)" using assms(2) unfolding n_def partCount_def by linarith
  then show less: "int n * cf_partSize c < cf_size c" by (simp add: less_ceilQuot_iff [OF p(1)])
  then show "0 < expectedLength c (int n + 1)" "expectedLength c (int n + 1) \<le> 5 * 1024 ^ 3"
    using p(1,3) by (simp_all add: expectedLength_def)
  show "sliceLength (cf_size c) (int n * cf_partSize c) (cf_partSize c) = nat (expectedLength c (int n + 1))"
    using less p(1) by (simp add: expectedLength_def sliceLength_def min_def algebra_simps)
  show "n < 10000"
  proof (rule ccontr)
    assume "\<not> ?thesis"
    then have "10000 * cf_partSize c \<le> int n * cf_partSize c" using p(1) by (intro mult_right_mono) auto
    with less p(4) show False by simp
  qed
qed

lemma parts_cover:
  assumes "wf_chat c"
  shows "cf_size c \<le> int (partCount c) * cf_partSize c"
proof (rule ccontr)
  assume "\<not> ?thesis"
  moreover have "cf_size c \<le> MAX_CHAT_FILE_BYTES" "cf_partSize c = partSizeFor (cf_size c)"
    using assms by (simp_all add: wf_chat_def)
  then have "0 < cf_partSize c" by (metis partSizeFor_bounds(1))
  ultimately have "int (partCount c) < ceilQuot (cf_size c) (cf_partSize c)"
    by (simp add: less_ceilQuot_iff)
  then show False unfolding partCount_def by linarith
qed

lemma part_accepted:
  assumes st: "steady a room tok me sid t" and up: "uploading room me sid t c w"
    and more: "length (cf_parts c) < partCount c" and id: "a_isUUID a (cf_id c)"
  defines "n \<equiv> length (cf_parts c)"
  shows "\<exists>e x w1. chatFileRequest a (ChatPart room (cf_id c) (decimal (n + 1)))
      (partRequest tok (sliceLength (cf_size c) (int n * cf_partSize c) (cf_partSize c))) w = (Inr x, w1) \<and>
    uploading room me sid t (putPart (int n + 1) e c) w1 \<and> length (cf_parts (putPart (int n + 1) e c)) = n + 1"
proof -
  have wf: "wf_chat c" using up by (simp add: uploading_def)
  let ?l = "expectedLength c (int n + 1)" and ?i = "cf_id c" and ?r = "ChatPart room (cf_id c) (decimal (n + 1))"
  note np = next_part [OF wf more, folded n_def]
  define len where "len = sliceLength (cf_size c) (int n * cf_partSize c) (cf_partSize c)"
  let ?q = "partRequest tok len"
  have len: "int len = ?l" "len < 10 ^ 15" using np(1,2,4) by (simp_all add: len_def)
  have "\<exists>n. rat_of_nat len = rat_of_int n" by (intro exI [of _ "int len"]) simp
  then have digits: "contentLength a ?q = Some ?l"
    using length_decimal [OF len(2)] decimal_digits [of len] len(1)
    by (simp add: contentLength_def headerOf_def partRequest_def tokenRequest_def readNumber_def)
  have int: "a_parseInt a (decimal (n + 1)) = Some (int n + 1)" using st by (simp add: steady_def)
  obtain p where p: "ca_identity p = me" "serve a (ChatRoute ?r) ?q w =
      hd_run (controller a ?q (ChatRoute ?r)) \<lparr>cr_user = None, cr_participant = Some p\<rparr> w"
    using serve_chat [OF st, of w ?q ?r] up id int
    by (auto simp: uploading_def blocking_def plain_def headerOf_def partRequest_def tokenRequest_def)
  obtain w1 where own: "chatOwned (a_env a) room ?i me w = (Inr c, w1)" and w1: "uploading room me sid t c w1"
    using chatOwned_ok [OF st up] by blast
  obtain e where e: "cc_uploadPart (a_files a) (cf_key c) (cf_uploadId c) (int n + 1) ?l ([len], None) w1 = (Inr (Some e), w1)" "e \<noteq> []"
    using steady_part [OF st] by blast
  obtain w2 where w2: "saveChat (putPart (int n + 1) e c) w1 = (Inr (), w2)" "serene t w2"
      "value_of w2 (chatFileKey ?i) = Some (VChat (putPart (int n + 1) e c))"
    using saveChat_ok [of t w1 "putPart (int n + 1) e c"] w1 by (auto simp: uploading_def)
  have stream: "bounded ?l 0 (fst (hq_stream ?q)) (snd (hq_stream ?q)) = ([len], None)"
    using len(1) by (simp add: partRequest_def tokenRequest_def)
  have "uploadPart (a_env a) (a_files a) room ?i me (int n + 1) (Some ?l) (hq_stream ?q) w = (Inr (int n + 1), w2)"
    using own np(1,3) e w2(1) stream unfolding uploadPart_def n_def [symmetric]
    by (simp add: andThen_def Let_def seqE_def flip: n_def)
  then have "chatFileRequest a ?r ?q w = (Inr (RInt (int n + 1)), w2)"
    using p digits int by (simp add: chatFileRequest_def respond_def blocking_def plain_def answer_def andThen_def)
  moreover have "wf_chat (putPart (int n + 1) e c)"
    using wf up np(1) e(2) by (intro wf_putPart) (auto simp: uploading_def n_def)
  then have "uploading room me sid t (putPart (int n + 1) e c) w2"
    using up w2(2,3) by (simp add: uploading_def)
  moreover have "length (cf_parts (putPart (int n + 1) e c)) = n + 1"
    by (simp add: putPart_def Let_def n_def)
  ultimately show ?thesis unfolding len_def by blast
qed

text \<open>The loop sends the parts that are still missing.\<close>

lemma parts_accepted:
  assumes st: "steady a room tok me sid t" and up: "uploading room me sid t c w" and id: "a_isUUID a (cf_id c)"
  shows "\<exists>c' w'. uploadParts a room tok (cf_id c) (cf_size c) (cf_partSize c)
      (int (length (cf_parts c)) * cf_partSize c) (length (cf_parts c) + 1) w = Some (Inr (), w') \<and>
    uploading room me sid t c' w' \<and> length (cf_parts c') = partCount c' \<and>
    cf_id c' = cf_id c \<and> cf_size c' = cf_size c \<and> cf_name c' = cf_name c"
  using up id
proof (induction "partCount c - length (cf_parts c)" arbitrary: c w rule: less_induct)
  case less
  let ?n = "length (cf_parts c)"
  have wf: "wf_chat c" using less.prems(1) by (simp add: uploading_def)
  have le: "?n \<le> partCount c" using wf by (simp add: wf_chat_def)
  show ?case
  proof (cases "?n = partCount c")
    case True
    have "cf_size c \<le> int ?n * cf_partSize c" using parts_cover [OF wf] True by simp
    then have "uploadParts a room tok (cf_id c) (cf_size c) (cf_partSize c) (int ?n * cf_partSize c) (?n + 1) w = Some (Inr (), w)"
      by (simp add: uploadParts.simps)
    with True less.prems show ?thesis by (intro exI [of _ c] exI [of _ w]) simp
  next
    case False
    with le have more: "?n < partCount c" by simp
    obtain e x w1 where one: "chatFileRequest a (ChatPart room (cf_id c) (decimal (?n + 1)))
        (partRequest tok (sliceLength (cf_size c) (int ?n * cf_partSize c) (cf_partSize c))) w = (Inr x, w1)"
      and w1: "uploading room me sid t (putPart (int ?n + 1) e c) w1" "length (cf_parts (putPart (int ?n + 1) e c)) = ?n + 1"
      using part_accepted [OF st less.prems(1) more less.prems(2)] by blast
    have same: "partCount (putPart (int ?n + 1) e c) = partCount c" by (simp add: partCount_def)
    obtain c' w' where rest: "uploadParts a room tok (cf_id c) (cf_size c) (cf_partSize c)
        (int (?n + 1) * cf_partSize c) (?n + 1 + 1) w1 = Some (Inr (), w')"
      "uploading room me sid t c' w'" "length (cf_parts c') = partCount c'"
      "cf_id c' = cf_id c" "cf_size c' = cf_size c" "cf_name c' = cf_name c"
      using less.hyps [OF _ w1(1)] less.prems(2) same w1(2) diff_less_mono2 [OF lessI more] by auto
    have "\<not> cf_size c \<le> int ?n * cf_partSize c" using next_part(5) [OF wf more] by simp
    then have "uploadParts a room tok (cf_id c) (cf_size c) (cf_partSize c) (int ?n * cf_partSize c) (?n + 1) w = Some (Inr (), w')"
      using one rest(1) by (subst uploadParts.simps) (simp add: algebra_simps)
    with rest show ?thesis by blast
  qed
qed

section \<open>The whole upload\<close>

lemma create_accepted:
  assumes st: "steady a room tok me sid t" and w: "serene t w" and name: "validName name"
    and bytes: "0 \<le> bytes" "bytes \<le> a_maxBytes a"
  shows "\<exists>c w1. chatFileRequest a (ChatCreate room) (chatCreateRequest tok name bytes) w =
      (Inr (RChatCreated \<lparr>cr_id = cf_id c, cr_partSize = cf_partSize c, cr_maxBytes = a_maxBytes a, cr_expiresAt = cf_expiresAt c\<rparr>), w1) \<and>
    uploading room me sid t c w1 \<and> cf_parts c = [] \<and> cf_size c = bytes \<and> cf_name c = chatBaseName name \<and> a_isUUID a (cf_id c)"
proof -
  let ?q = "chatCreateRequest tok name bytes" and ?r = "ChatCreate room"
  have max: "bytes \<le> MAX_CHAT_FILE_BYTES" using st bytes(2) by (simp add: steady_def)
  have safe: "isSafeInteger (of_int bytes)" using bytes(1) max by (simp add: isSafeInteger_def MAX_CHAT_FILE_BYTES_def)
  have nonempty: "name \<noteq> []" using name by (auto simp: validName_def trim_def)
  have pipe: "a_pipe a CreateChatFileDto (hq_body ?q)"
    using st bytes(1) max nonempty name by (simp add: steady_def chatCreateRequest_def tokenRequest_def validName_def)
  obtain p where p: "ca_identity p = me" "serve a (ChatRoute ?r) ?q w =
      hd_run (controller a ?q (ChatRoute ?r)) \<lparr>cr_user = None, cr_participant = Some p\<rparr> w"
    using serve_chat [OF st w, of ?q ?r] pipe
    by (auto simp: blocking_def plain_def headerOf_def chatCreateRequest_def tokenRequest_def)
  have "ensureChatBucket (a_files a) w = (Inr (), w\<lparr>proc := (proc w)\<lparr>chatReady := True\<rparr>\<rparr>)"
    using st by (cases "chatReady (proc w)")
      (simp_all add: steady_def ensureChatBucket_def prepareBucket_def andThen_def seqE_def catchE_def)
  then obtain w1 where w1: "ensureChatBucket (a_files a) w = (Inr (), w1)" "serene t w1"
    using w by (auto simp: serene_def)
  let ?i = "uuid (a_env a) (draws w1)" and ?w2 = "w1\<lparr>draws := Suc (draws w1)\<rparr>"
  have w2: "serene t ?w2" using w1(2) by (simp add: serene_def)
  obtain u where u: "(if bytes = 0 then ret (Some []) else cc_createUpload (a_files a) (''chat/'' @ sid @ ''/'' @ ?i)) ?w2 = (Inr (Some u), ?w2)"
      "(0 < bytes \<and> u = []) = False"
    using steady_create [OF st] bytes(1) by (cases "bytes = 0") auto
  define c where "c = newChatFile ?i room sid me name bytes u (clock w1)"
  let ?w3 = "?w2\<lparr>kv := zadd EXPIRY_INDEX (cf_expiresAt c) ?i (kv ?w2)\<rparr>"
  have w3: "serene t ?w3" using w2 by (simp add: serene_def)
  have z: "redisZadd EXPIRY_INDEX (cf_expiresAt c) ?i ?w2 = (Inr (), ?w3)"
    using w2 by (simp add: rcmd_ok serene_def)
  obtain w4 where w4: "saveChat c ?w3 = (Inr (), w4)" "serene t w4" "value_of w4 (chatFileKey (cf_id c)) = Some (VChat c)"
    using saveChat_ok [OF w3] by blast
  have "chatConnected (a_env a) room me None w = (Inr sid, w)" using st by (simp add: steady_def)
  then have "chatCreate (a_env a) (a_files a) (a_maxBytes a) room me name bytes w =
      (Inr \<lparr>cr_id = ?i, cr_partSize = cf_partSize c, cr_maxBytes = a_maxBytes a, cr_expiresAt = cf_expiresAt c\<rparr>, w4)"
    using safe name bytes w1(1) u(1) z w4(1) unfolding chatCreate_def
    by (simp add: andThen_def seqE_def draw_def Let_def catchE_def u(2) c_def [symmetric] split del: if_split)
  moreover have "textOf ''name'' ?q = name" "numOf ''size'' ?q = bytes"
    by (simp_all add: textOf_def numOf_def chatCreateRequest_def tokenRequest_def)
  ultimately have "chatFileRequest a ?r ?q w =
      (Inr (RChatCreated \<lparr>cr_id = ?i, cr_partSize = cf_partSize c, cr_maxBytes = a_maxBytes a, cr_expiresAt = cf_expiresAt c\<rparr>), w4)"
    using p by (simp add: chatFileRequest_def respond_def blocking_def plain_def answer_def andThen_def)
  moreover have "uploading room me sid t c w4"
    using w1(2) w4(2,3) wf_newChatFile [OF bytes(1) max] st by (simp add: uploading_def c_def newChatFile_def steady_def serene_def DAY_def)
  ultimately show ?thesis using st by (intro exI [of _ c] exI [of _ w4]) (simp add: c_def newChatFile_def steady_def)
qed

lemma partCount_int:
  assumes "wf_chat c"
  shows "int (partCount c) = ceilQuot (cf_size c) (cf_partSize c)"
proof -
  have "0 < partSizeFor (cf_size c)" using assms partSizeFor_bounds(1) by (auto simp: wf_chat_def)
  then have "0 \<le> ceilQuot (cf_size c) (cf_partSize c)"
    using assms by (simp add: wf_chat_def ceilQuot_def pos_imp_zdiv_nonneg_iff)
  then show ?thesis by (simp add: partCount_def)
qed

lemma complete_accepted:
  assumes st: "steady a room tok me sid t" and up: "uploading room me sid t c w" and id: "a_isUUID a (cf_id c)"
    and all: "length (cf_parts c) = partCount c"
  shows "\<exists>x w1. chatFileRequest a (ChatComplete room (cf_id c)) (tokenRequest tok [] (JObj []) ([], None)) w = (Inr x, w1) \<and>
    value_of w1 (chatFileKey (cf_id c)) = Some (VChat (c\<lparr>cf_completed := True\<rparr>))"
proof -
  let ?q = "tokenRequest tok [] (JObj []) ([], None)" and ?r = "ChatComplete room (cf_id c)"
  obtain p where p: "ca_identity p = me" "serve a (ChatRoute ?r) ?q w =
      hd_run (controller a ?q (ChatRoute ?r)) \<lparr>cr_user = None, cr_participant = Some p\<rparr> w"
    using serve_chat [OF st, of w ?q ?r] up id
    by (auto simp: uploading_def blocking_def plain_def headerOf_def tokenRequest_def)
  obtain w1 where own: "chatOwned (a_env a) room (cf_id c) me w = (Inr c, w1)" and w1: "uploading room me sid t c w1"
    using chatOwned_ok [OF st up] by blast
  have count: "int (length (cf_parts c)) = ceilQuot (cf_size c) (cf_partSize c)"
    using up by (simp add: all uploading_def partCount_int)
  obtain w2 where w2: "saveChat (c\<lparr>cf_completed := True\<rparr>) w1 = (Inr (), w2)"
      "value_of w2 (chatFileKey (cf_id c)) = Some (VChat (c\<lparr>cf_completed := True\<rparr>))"
    using saveChat_ok [of t w1 "c\<lparr>cf_completed := True\<rparr>"] w1 by (auto simp: uploading_def)
  have "chatComplete (a_env a) (a_files a) room (cf_id c) me w = (Inr (cf_id c), w2)"
    using st own count w2(1) by (simp add: chatComplete_def andThen_def seqE_def steady_def)
  then have "chatFileRequest a ?r ?q w = (Inr (RText (cf_id c)), w2)"
    using p by (simp add: chatFileRequest_def respond_def blocking_def plain_def answer_def andThen_def)
  with w2(2) show ?thesis by blast
qed

text \<open>C10. For every file of an acceptable name and size, an upload by a person who is in the call ends,
  and it ends well: the browser gets the id of a file whose record in the store is complete, belongs to
  that person and that call, has exactly the size and the base name of the file and all of its parts. In particular every
  part the browser cuts has the length that the API computes for it, and there are never more of them than it
  allows. This is the agreement of the two programs when nothing disturbs them: no call fails, nothing else happens
  meanwhile, and the clock stands still during the upload.\<close>

theorem chat_upload_completes:
  assumes "steady a room tok me sid t" and "serene t w" and "validName name" and "0 \<le> bytes" and "bytes \<le> a_maxBytes a"
  shows "\<exists>i c w'. uploadChatFile a room tok name bytes w = Some (Inr i, w') \<and>
    value_of w' (chatFileKey i) = Some (VChat c) \<and> cf_completed c \<and> cf_size c = bytes \<and> cf_name c = chatBaseName name \<and>
    cf_room c = room \<and> cf_roomSid c = sid \<and> cf_identity c = me \<and> length (cf_parts c) = partCount c \<and> wf_chat c"
proof -
  obtain c w1 where create: "chatFileRequest a (ChatCreate room) (chatCreateRequest tok name bytes) w =
      (Inr (RChatCreated \<lparr>cr_id = cf_id c, cr_partSize = cf_partSize c, cr_maxBytes = a_maxBytes a, cr_expiresAt = cf_expiresAt c\<rparr>), w1)"
    and c: "uploading room me sid t c w1" "cf_parts c = []" "cf_size c = bytes" "cf_name c = chatBaseName name" "a_isUUID a (cf_id c)"
    using create_accepted [OF assms] by blast
  obtain c' w2 where parts: "uploadParts a room tok (cf_id c) bytes (cf_partSize c) 0 1 w1 = Some (Inr (), w2)"
    and c': "uploading room me sid t c' w2" "length (cf_parts c') = partCount c'"
      "cf_id c' = cf_id c" "cf_size c' = bytes" "cf_name c' = chatBaseName name"
    using parts_accepted [OF assms(1) c(1,5)] c(2-4) by auto
  obtain x w3 where complete: "chatFileRequest a (ChatComplete room (cf_id c)) (tokenRequest tok [] (JObj []) ([], None)) w2 = (Inr x, w3)"
    "value_of w3 (chatFileKey (cf_id c)) = Some (VChat (c'\<lparr>cf_completed := True\<rparr>))"
    using complete_accepted [OF assms(1) c'(1)] c'(2,3) c(5) by auto
  have "uploadChatFile a room tok name bytes w = Some (Inr (cf_id c), w3)"
    by (simp add: uploadChatFile_def andThenP_def catchP_def liftP_def create parts complete(1) del: One_nat_def)
  moreover have "wf_chat (c'\<lparr>cf_completed := True\<rparr>)"
    using c'(1,2) by (auto simp: uploading_def wf_chat_def partCount_def)
  ultimately show ?thesis using complete(2) c'
    by (intro exI [of _ "cf_id c"] exI [of _ "c'\<lparr>cf_completed := True\<rparr>"] exI [of _ w3]) (simp add: uploading_def partCount_def)
qed

text \<open>A file of three parts, in the demonstration environment with whole numbers read in decimal.\<close>

definition readDecimal :: "string \<Rightarrow> int option" where
  "readDecimal s = (if s \<noteq> [] \<and> list_all isDigit s then Some (int (digitsValue s)) else None)"

definition uploadApi :: "unit api" where
  "uploadApi = demoApi\<lparr>a_parseInt := readDecimal\<rparr>"

lemma demo_participant:
  "participantGuard demoEnv ''abc-defg-hij'' (One ''token'') w =
     (if clock w < 5000000
      then (Inr \<lparr>ca_identity = ''ann'', ca_name = ''ann'', ca_role = None, ca_accountBinding = None, ca_tokenExpiresAt = Some 5000000\<rparr>, w)
      else (Inl (UnauthorizedException (faultBody NOT_PARTICIPANT)), w))"
  by (simp add: participantGuard_def verifyParticipantToken_def demoEnv_def andThen_def catchE_def)

lemma demo_connected:
  "x = None \<or> x = Some ''RM1'' \<Longrightarrow> chatConnected demoEnv ''abc-defg-hij'' ''ann'' x w = (Inr ''RM1'', w)"
  by (auto simp: chatConnected_def all2_def getRoomSid_def getConnectedParticipant_def demoEnv_def andThen_def person_def toConnected_def)

lemma steady_uploadApi: "steady uploadApi ''abc-defg-hij'' ''token'' ''ann'' ''RM1'' 1000"
  using decimal_digits demo_connected
  by (simp add: steady_def uploadApi_def demoApi_def demo_participant demoChat_def readDecimal_def)

theorem chat_upload_completes_witness:
  "\<exists>i c w'. uploadChatFile uploadApi ''abc-defg-hij'' ''token'' ''a.pdf'' 11534336 (demoWorld [] []) = Some (Inr i, w') \<and>
    value_of w' (chatFileKey i) = Some (VChat c) \<and> cf_completed c \<and> length (cf_parts c) = 3"
proof -
  have "serene 1000 (demoWorld [] [])" "validName ''a.pdf''" "(11534336 :: int) \<le> a_maxBytes uploadApi"
    unfolding serene_def by code_simp+
  from chat_upload_completes [OF steady_uploadApi this(1,2) _ this(3)] obtain i c w' where
    "uploadChatFile uploadApi ''abc-defg-hij'' ''token'' ''a.pdf'' 11534336 (demoWorld [] []) = Some (Inr i, w')"
    "value_of w' (chatFileKey i) = Some (VChat c)" "cf_completed c" "cf_size c = 11534336" "length (cf_parts c) = partCount c"
    "wf_chat c" by auto
  moreover from this(4,6) have "partCount c = 3"
    by (simp add: wf_chat_def partCount_def ceilQuot_def partSizeFor_def MIN_PART_def)
  ultimately show ?thesis by auto
qed

end
