(* ===== verification/DeletionProperties.thy ===== *)
theory DeletionProperties
  imports ApiProperties
begin

text \<open>
  The durable job of account deletion (\<open>AccountDeletion\<close>) together with the guard for signed-in
  people (\<open>Accounts\<close>): what a person who asked for deletion can rely on.
\<close>

text \<open>\<open>owed u w\<close>: as long as the account of \<open>u\<close> exists there is a job that deletes it.\<close>

definition account :: "string \<Rightarrow> 'lk world \<Rightarrow> bool" where
  "account u w \<longleftrightarrow> (\<exists>x \<in> set (users (dbase w)). us_id x = u)"

definition job :: "string \<Rightarrow> 'lk world \<Rightarrow> bool" where
  "job u w \<longleftrightarrow> (\<exists>a \<in> set (deletions (dbase w)). ad_userId a = u)"

definition owed :: "string \<Rightarrow> 'lk world \<Rightarrow> bool" where
  "owed u w \<longleftrightarrow> account u w \<longrightarrow> job u w"

lemmas owed_defs = owed_def account_def job_def

lemma owed_simps [simp]:
  "owed u (tick w) = owed u w" "owed u (w\<lparr>kv := x\<rparr>) = owed u w"
  "owed u (w\<lparr>sfu := s\<rparr>) = owed u w" "owed u (w\<lparr>draws := n\<rparr>) = owed u w"
  by (simp_all add: owed_defs)

lemma keeps_owed_basic [keeps_rules]:
  "keeps (owed u) (rcmd f)" "keeps (owed u) (draw g)" "keeps (owed u) (dbread h)"
  by (auto intro!: keeps_rcmd keeps_draw keeps_dbcmd simp: owed_defs)

lemma updateRows_ids [simp]: "(\<And>r. k (f r) = k r) \<Longrightarrow> map k (updateRows P f rs) = map k rs"
  by (induction rs) auto

text \<open>A command that leaves users and jobs alone, or changes jobs in place, keeps it.\<close>

lemma keeps_owed_dbcmd:
  assumes "\<And>now d. users (snd (f now d)) = users d"
    and ids: "\<And>now d. map ad_userId (deletions (snd (f now d))) = map ad_userId (deletions d)"
  shows "keeps (owed u) (dbcmd f :: ('lk, 'b) op)"
proof (rule keeps_dbcmd)
  fix w :: "'lk world" assume "owed u w"
  then have "account u w \<longrightarrow> u \<in> set (map ad_userId (deletions (dbase w)))" by (force simp: owed_defs)
  then have "account u w \<longrightarrow> u \<in> set (map ad_userId (deletions (snd (f (clock w) (dbase w)))))" by (simp only: ids)
  then show "owed u (w\<lparr>dbase := snd (f (clock w) (dbase w))\<rparr>)" by (auto simp: owed_defs assms(1))
qed simp

lemma keeps_owed_sessions [keeps_rules]:
  "keeps (owed u) (dbcmd (\<lambda>_. updateSessions P f))" "keeps (owed u) (dbcmd (\<lambda>now. insertSession (r now)))"
  by (rule keeps_owed_dbcmd; simp add: updateSessions_def insertSession_def Let_def)+

lemma keeps_owed_repo:
  "keeps (owed u) (createRequest E room a b c e)" "keeps (owed u) (auditFindById i)"
  "keeps (owed u) (findActiveByRoom room)" "keeps (owed u) (auditActivate i ag s d)"
  "keeps (owed u) (auditDeny i t)" "keeps (owed u) (auditWithdraw i t)"
  "keeps (owed u) (expireRequest i t)" "keeps (owed u) (failRequest i why t)"
  "keeps (owed u) (updateRenewal i d)" "keeps (owed u) (endActive i es why t)"
  "keeps (owed u) (findDueActive t)" "keeps (owed u) (findExpiredRequests t)"
  "keeps (owed u) findRequestedOrActive" "keeps (owed u) (findBySlug slug)"
  unfolding createRequest_def auditFindById_def findActiveByRoom_def auditActivate_def auditDeny_def
    auditWithdraw_def expireRequest_def failRequest_def transitionRequested_def updateRenewal_def
    endActive_def findDueActive_def findExpiredRequests_def findRequestedOrActive_def findBySlug_def
  by (auto intro!: keeps_rules)

lemma keeps_owed_state [keeps_rules]:
  "keeps (owed u) (hasOwner room)" "keeps (owed u) (releaseOwner room i)"
  "keeps (owed u) (createPending p)" "keeps (owed u) (getPending room i)"
  "keeps (owed u) (getPendingForRoom room)" "keeps (owed u) (consumePending room i)"
  "keeps (owed u) (getActive room)" "keeps (owed u) (stateActivate g)"
  "keeps (owed u) (revokeBootstrap g)" "keeps (owed u) (consumeBootstrap E room i c)"
  unfolding hasOwner_def releaseOwner_def createPending_def getPending_def getPendingForRoom_def
    consumePending_def getActive_def stateActivate_def revokeBootstrap_def consumeBootstrap_def Let_def
  by (auto intro!: keeps_rules)

interpretation owi: rc_invariant "owed u" "\<lambda>_. True" for u
proof unfold_locales
  show "keeps (owed u) (releasePending room i)" "keeps (owed u) (updateActive g)" "keeps (owed u) (clearActive room i)"
    "keeps (owed u) (issueBootstrap E g)" for room i g and E :: "'a env"
    unfolding releasePending_def updateActive_def clearActive_def issueBootstrap_def Let_def
    by (auto intro!: keeps_rules)
qed (auto intro!: keeps_rules keeps_owed_repo)

lemma keeps_after_read:
  assumes "\<And>w. I w \<Longrightarrow> I (tick w)" and "\<And>w. I w \<Longrightarrow> I (snd (k (f (clock w) (dbase w)) w))"
  shows "keeps I (andThen (dbread f) k)"
proof (rule keepsI)
  fix w assume "I w"
  then have "I (tick w)" by (rule assms(1))
  with assms(2) [OF this] show "I (snd (andThen (dbread f) k w))"
    by (simp add: andThen_def dbcmd_def tick_def)
qed

text \<open>The two commands with which the job ends: the account goes together with its jobs.\<close>

lemma keeps_owed_deleteUser: "keeps (owed u) (dbcmd (\<lambda>_. deleteUser v))"
  by (rule keeps_dbcmd) (auto simp: owed_defs deleteUser_def Let_def)

lemma owed_dropJob: "owed u w \<Longrightarrow> \<not> account v w \<Longrightarrow> owed u (snd (dropJob v w))"
  by (force simp: owed_defs dropJob_def dbcmd_def tick_def)

lemma keeps_owed_helpers [keeps_rules]:
  "keeps (owed u) (removePendingKnocksForUser room v)" "keeps (owed u) (getConnection v)"
  "keeps (owed u) (updateConnection i f)"
  unfolding removePendingKnocksForUser_def listPendingKnocks_def removeKnock_def getConnection_def updateConnection_def
  by (auto intro!: keeps_rules keeps_owed_dbcmd split: sum.splits)

lemma keeps_owed_parts [keeps_rules]:
  assumes "env_keeps (owed u) E" and "cloud_keeps (owed u) C"
  shows "keeps (owed u) (leaveCalls E v)" "keeps (owed u) (closeRoom E missing x)"
    "keeps (owed u) (deleteOwnedAvatar C U url)" "keeps (owed u) (disconnectForAccountDeletion C v)"
  using assms unfolding leaveCalls_def closeRoom_def stopEgressUnlessMissing_def
      deleteOwnedAvatar_def disconnectForAccountDeletion_def disconnectUser_def
  by (auto intro!: keeps_rules owi.event_handlers keeps_owed_dbcmd)

lemma keeps_owed_erase:
  assumes "env_keeps (owed u) E" and "cloud_keeps (owed u) C"
  shows "keeps (owed u) (eraseAccount E C missing U v found)"
  unfolding eraseAccount_def using assms
  by (auto intro!: keeps_rules keeps_owed_parts keeps_owed_deleteUser keeps_owed_dbcmd split: prod.split)

lemma keeps_owed_cleanup:
  assumes "env_keeps (owed u) E" and "cloud_keeps (owed u) C"
  shows "keeps (owed u) (cleanupAccount E C missing U v)"
  unfolding cleanupAccount_def
proof (rule keeps_seqE [OF keeps_owed_parts(1) [OF assms]], rule keeps_after_read)
  fix w :: "'a world" assume w: "owed u w"
  show "owed u (snd ((case map_option (\<lambda>x. (us_image x, ownedRooms v (dbase w))) (find (\<lambda>x. us_id x = v) (users (dbase w))) of
      None \<Rightarrow> dropJob v | Some found \<Rightarrow> eraseAccount E C missing U v found) w))"
  proof (cases "find (\<lambda>x. us_id x = v) (users (dbase w))")
    case None
    then have "\<not> account v w" by (auto simp: account_def find_None_iff)
    with None w show ?thesis by (simp add: owed_dropJob)
  next
    case (Some x)
    with keepsD [OF keeps_owed_erase [OF assms] w] show ?thesis by simp
  qed
qed simp

lemma keeps_owed_cycle:
  assumes "env_keeps (owed u) E" and "cloud_keeps (owed u) C"
  shows "keeps (owed u) (runDeletionCycle E C missing U message)"
  unfolding runDeletionCycle_def Let_def
  by (auto intro!: keeps_rules keeps_owed_cleanup [OF assms] keeps_owed_dbcmd)

lemma cleanupAccount_done:
  assumes "cleanupAccount E C missing U v w = (Inr (), w')"
  shows "\<not> account v w' \<and> \<not> job v w'"
proof -
  have drop: "\<not> account v w2 \<and> \<not> job v w2" if "dropJob v w1 = (Inr (), w2)" "\<not> account v w1" for w1 w2 :: "'a world"
    using that by (auto simp: dropJob_def dbcmd_def tick_def account_def job_def split: if_splits)
  have delete: "\<not> account v w2 \<and> \<not> job v w2" if "dbcmd (\<lambda>_. deleteUser v) w1 = (Inr (), w2)" for w1 w2 :: "'a world"
    using that by (auto simp: deleteUser_def dbcmd_def tick_def account_def job_def Let_def split: if_splits)
  have erase: "\<not> account v w2 \<and> \<not> job v w2" if "eraseAccount E C missing U v found w1 = (Inr (), w2)" for found w1 w2
    using that unfolding eraseAccount_def by (auto elim!: andThen_InrE seqE_InrE split: prod.splits if_splits dest: delete)
  from assms obtain w1 w2 found where read: "dbread (\<lambda>_ d. map_option (\<lambda>x. (us_image x, ownedRooms v d)) (find (\<lambda>x. us_id x = v) (users d))) w1 =
      (Inr found, w2)"
    and rest: "(case found of None \<Rightarrow> dropJob v | Some x \<Rightarrow> eraseAccount E C missing U v x) w2 = (Inr (), w')"
    unfolding cleanupAccount_def by (elim seqE_InrE andThen_InrE)
  from read have w2: "dbase w2 = dbase w1" "found = None \<Longrightarrow> find (\<lambda>x. us_id x = v) (users (dbase w1)) = None"
    by (auto elim!: dbcmd_InrE)
  show ?thesis
  proof (cases found)
    case None
    with w2 have "\<not> account v w2" by (auto simp: account_def find_None_iff)
    with None rest drop show ?thesis by simp
  next
    case (Some x)
    with rest erase show ?thesis by simp
  qed
qed

lemma updateRows_member:
  assumes "\<And>r. k (f r) = k r"
  shows "(\<exists>r \<in> set (updateRows P f rs). k r = x) = (\<exists>r \<in> set rs. k r = x)"
proof -
  have "set (map k (updateRows P f rs)) = set (map k rs)" using assms by simp
  then show ?thesis by (auto simp del: updateRows_ids) (metis imageE imageI)+
qed

lemma refused_while_owed:
  assumes "owed u w" and "account u w" and "ax_getSession A (toHeaders hs) w = (Inr (Some s), w)" and "au_id (lo_user s) = u"
  shows "\<exists>e. fst (authGuard A hs w) = Inl e"
proof -
  have "find (\<lambda>a. ad_userId a = u) (deletions (dbase w)) \<noteq> None"
    using assms(1,2) by (auto simp: owed_def job_def find_None_iff)
  then show ?thesis using assms(3,4) by (auto simp: authGuard_def andThen_def dbcmd_def)
qed

text \<open>C14. A request for the deletion of an account is never lost. Once it was accepted,
  whatever the cycles of the worker meet (commands that fail, calls that fail, uploads still running), there is a
  job for the account as long as the account exists; until it is gone nobody gets in with its session, and
  the job itself goes only together with the account.\<close>

theorem deletion_is_durable:
  assumes "env_keeps (owed u) E" and "cloud_keeps (owed u) C"
  shows "(requestDeletion u w = (Inr b, w1) \<longrightarrow> owed u w1) \<and>
    keeps (owed u) (runDeletionCycle E C missing U message) \<and>
    (owed u w \<and> account u w \<and> ax_getSession A (toHeaders hs) w = (Inr (Some s), w) \<and> au_id (lo_user s) = u \<longrightarrow>
      (\<exists>e. fst (authGuard A hs w) = Inl e)) \<and>
    (cleanupAccount E C missing U u w = (Inr (), w1) \<longrightarrow> \<not> account u w1 \<and> \<not> job u w1)"
proof (intro conjI impI)
  assume "requestDeletion u w = (Inr b, w1)"
  then have "job u w1" unfolding requestDeletion_def
    by (elim seqE_InrE dbcmd_InrE) (auto simp: job_def updateRows_member split: if_splits)
  then show "owed u w1" by (simp add: owed_def)
next
  show "keeps (owed u) (runDeletionCycle E C missing U message)" by (rule keeps_owed_cycle [OF assms])
next
  assume "owed u w \<and> account u w \<and> ax_getSession A (toHeaders hs) w = (Inr (Some s), w) \<and> au_id (lo_user s) = u"
  then show "\<exists>e. fst (authGuard A hs w) = Inl e" using refused_while_owed by blast
next
  assume "cleanupAccount E C missing U u w = (Inr (), w1)"
  from cleanupAccount_done [OF this] show "\<not> account u w1" "\<not> job u w1" by simp_all
qed

text \<open>The demonstration account asks for deletion, and one cycle of the worker completes it.\<close>

definition noUrls :: url_api where
  "noUrls = \<lparr>ur_pathname = (\<lambda>u. None), ur_decode = Some\<rparr>"

lemma demo_owed: "env_keeps I demoEnv" "cloud_keeps I demoCloud"
  by (simp_all add: demo_keep(1) keeps_demoCloud)

theorem deletion_is_durable_witness:
  "\<exists>b w1. requestDeletion ''u1'' (demoWorld [] []) = (Inr b, w1) \<and> account ''u1'' w1 \<and> owed ''u1'' w1 \<and>
    (let w2 = snd (runDeletionCycle demoEnv demoCloud (\<lambda>_. False) noUrls (\<lambda>_. []) w1) in
     owed ''u1'' w2 \<and> \<not> account ''u1'' w2)"
proof -
  let ?w = "demoWorld [] [] :: unit world" and ?cycle = "runDeletionCycle demoEnv demoCloud (\<lambda>_. False) noUrls (\<lambda>_. [])"
  obtain b w1 where r: "requestDeletion ''u1'' ?w = (Inr b, w1)"
    and a: "list_ex (\<lambda>x. us_id x = ''u1'') (users (dbase w1))"
    and gone: "\<not> list_ex (\<lambda>x. us_id x = ''u1'') (users (dbase (snd (?cycle w1))))"
  proof -
    have "\<not> isl (fst (requestDeletion ''u1'' ?w))"
      "list_ex (\<lambda>x. us_id x = ''u1'') (users (dbase (snd (requestDeletion ''u1'' ?w))))"
      "\<not> list_ex (\<lambda>x. us_id x = ''u1'') (users (dbase (snd (?cycle (snd (requestDeletion ''u1'' ?w))))))"
      by code_simp+
    then show ?thesis using that by (metis runs snd_conv)
  qed
  from deletion_is_durable [OF demo_owed, of "''u1''" ?w b w1, THEN conjunct1] r have o: "owed ''u1'' w1" by blast
  have "keeps (owed ''u1'') ?cycle" using deletion_is_durable [OF demo_owed] by blast
  from keepsD [OF this o] have "owed ''u1'' (snd (?cycle w1))" .
  with r a o gone show ?thesis by (auto simp: account_def list_ex_iff Let_def)
qed

end
