(* ===== verification/WebRuntime.thy ===== *)
theory WebRuntime
  imports Json
begin

text \<open>
  The runtime under every request of the browser: the shared fetch (\<^verbatim>\<open>apps/web/src/lib/http.ts\<close>),
  the store of Faults and of API Reachability (\<^verbatim>\<open>lib/faults.ts\<close>), the request function of the API
  client (\<^verbatim>\<open>lib/api.ts\<close>), the notices of a call (\<^verbatim>\<open>lib/systemNotices.ts\<close>) and the small helpers
  \<^verbatim>\<open>lib/faultCodes.ts\<close> and \<^verbatim>\<open>lib/duration.ts\<close>. The module variables are the record \<open>runtime\<close>; the
  listeners that are told of a change are React's and left out, and so is the wording of messages
  that no code reads.
\<close>

section \<open>Faults\<close>

record web_fault =
  ft_code :: string
  ft_message :: string
  ft_status :: int

record active_fault = web_fault +
  af_id :: nat
  af_activatedAt :: int

record runtime =
  reachable :: bool
  reachabilityChangedAt :: int
  toasts :: "active_fault list"
  nextId :: nat
  lastEmittedAt :: "string \<rightharpoonup> int"
  maintenanceEvents :: nat

definition startRuntime :: runtime where
  "startRuntime = \<lparr>reachable = True, reachabilityChangedAt = 0, toasts = [], nextId = 1,
     lastEmittedAt = Map.empty, maintenanceEvents = 0\<rparr>"

definition COOLDOWN_MS :: int where
  "COOLDOWN_MS = 4000"

definition setReachable :: "int \<Rightarrow> bool \<Rightarrow> runtime \<Rightarrow> runtime" where
  "setReachable now next r =
     (if reachable r = next then r else r\<lparr>reachable := next, reachabilityChangedAt := now\<rparr>)"

definition activate :: "web_fault \<Rightarrow> nat \<Rightarrow> int \<Rightarrow> active_fault" where
  "activate f i now = \<lparr>ft_code = ft_code f, ft_message = ft_message f, ft_status = ft_status f,
     af_id = i, af_activatedAt = now\<rparr>"

definition emitFault :: "int \<Rightarrow> web_fault \<Rightarrow> runtime \<Rightarrow> runtime" where
  "emitFault now f r =
     (if now - (case lastEmittedAt r (ft_code f) of None \<Rightarrow> 0 | Some t \<Rightarrow> t) < COOLDOWN_MS then r
      else r\<lparr>lastEmittedAt := (lastEmittedAt r)(ft_code f \<mapsto> now),
             toasts := filter (\<lambda>x. ft_code x \<noteq> ft_code f) (toasts r) @ [activate f (nextId r) now],
             nextId := nextId r + 1\<rparr>)"

definition dismissFault :: "nat \<Rightarrow> runtime \<Rightarrow> runtime" where
  "dismissFault i r = r\<lparr>toasts := filter (\<lambda>x. af_id x \<noteq> i) (toasts r)\<rparr>"

definition NET_UNREACHABLE :: string where "NET_UNREACHABLE = ''NET_UNREACHABLE''"
definition NET_TIMEOUT :: string where "NET_TIMEOUT = ''NET_TIMEOUT''"

datatype recovery_action = SignIn | RetryAction | ReloadAction

definition recoveryActionFor :: "string \<Rightarrow> recovery_action" where
  "recoveryActionFor code =
     (if code = ''SESSION_EXPIRED'' then SignIn
      else if code = NET_UNREACHABLE \<or> code = NET_TIMEOUT then RetryAction else ReloadAction)"

definition isNetworkCode :: "string \<Rightarrow> bool" where
  "isNetworkCode code \<longleftrightarrow> code = NET_UNREACHABLE \<or> code = NET_TIMEOUT"

section \<open>Requests\<close>

text \<open>
  How a fetch ends: with a response (its status, its text, and the value of the text when it is
  JSON), or rejected. Whether the caller aborted the request and whether its timer did are known then.
\<close>

record web_response =
  wr_status :: int
  wr_text :: string
  wr_json :: "json option"

datatype fetched = Responded web_response | Rejected

datatype web_error = CallerAborted | FaultError web_fault | BadJson

definition transportFault :: "bool \<Rightarrow> web_fault" where
  "transportFault timedOut =
     (if timedOut then \<lparr>ft_code = NET_TIMEOUT, ft_message = ''The server took too long to respond.'', ft_status = 0\<rparr>
      else \<lparr>ft_code = NET_UNREACHABLE, ft_message = ''Can't reach the server. It may be offline.'', ft_status = 0\<rparr>)"

definition httpFetch ::
    "int \<Rightarrow> bool \<Rightarrow> bool \<Rightarrow> bool \<Rightarrow> fetched \<Rightarrow> runtime \<Rightarrow> (web_error + web_response) \<times> runtime" where
  "httpFetch now surfaceFault callerAborted timedOut outcome r =
     (case outcome of
        Responded res \<Rightarrow> (Inr res, setReachable now True r)
      | Rejected \<Rightarrow>
          if callerAborted then (Inl CallerAborted, r)
          else
            let fault = transportFault timedOut; r = setReachable now False r in
            (Inl (FaultError fault), if surfaceFault then emitFault now fault r else r))"

fun fieldText :: "string \<Rightarrow> json option \<Rightarrow> string option" where
  "fieldText k (Some (JObj fs)) = (case map_of fs k of Some (JStr s) \<Rightarrow> Some s | _ \<Rightarrow> None)"
| "fieldText k _ = None"

definition readFault :: "web_response \<Rightarrow> web_fault" where
  "readFault res =
     \<lparr>ft_code = (case fieldText ''code'' (wr_json res) of Some c \<Rightarrow> c | None \<Rightarrow> ''ERROR''),
      ft_message = (case fieldText ''message'' (wr_json res) of
         Some m \<Rightarrow> m | None \<Rightarrow> ''Request failed ('' @ decimal (nat (wr_status res)) @ '')''),
      ft_status = wr_status res\<rparr>"

definition okStatus :: "int \<Rightarrow> bool" where
  "okStatus s \<longleftrightarrow> 200 \<le> s \<and> s \<le> 299"

text \<open>\<^verbatim>\<open>request\<close> of the API client, in a browser.\<close>

definition webRequest ::
    "int \<Rightarrow> bool \<Rightarrow> bool \<Rightarrow> bool \<Rightarrow> fetched \<Rightarrow> runtime \<Rightarrow> (web_error + json) \<times> runtime" where
  "webRequest now surfaceFault callerAborted timedOut outcome r =
     (case httpFetch now surfaceFault callerAborted timedOut outcome r of
        (Inl e, r1) \<Rightarrow> (Inl e, r1)
      | (Inr res, r1) \<Rightarrow>
          if \<not> okStatus (wr_status res) then
            let fault = readFault res in
            (Inl (FaultError fault),
             if ft_code fault = ''MAINTENANCE'' then r1\<lparr>maintenanceEvents := maintenanceEvents r1 + 1\<rparr>
             else if surfaceFault then emitFault now fault r1 else r1)
          else if wr_text res = [] then (Inr (JObj []), r1)
          else (case wr_json res of None \<Rightarrow> (Inl BadJson, r1) | Some v \<Rightarrow> (Inr v, r1)))"

section \<open>Notices of a call\<close>

datatype notice_tone = Progress | ErrorTone

record call_notices =
  cn_connection :: "(string \<times> notice_tone \<times> int) option"
  cn_trayOffset :: int
  cn_maintenance :: "string option"

definition setCallConnectionNotice :: "int \<Rightarrow> (string \<times> notice_tone) option \<Rightarrow> call_notices \<Rightarrow> call_notices" where
  "setCallConnectionNotice now next s =
     (if map_option (\<lambda>(m, t, _). (m, t)) (cn_connection s) = next then s
      else s\<lparr>cn_connection := map_option (\<lambda>(m, t). (m, t, now)) next\<rparr>)"

definition setCallNoticeTrayOffset :: "rat \<Rightarrow> call_notices \<Rightarrow> call_notices" where
  "setCallNoticeTrayOffset next s =
     (let offset = max 0 \<lfloor>next + 1 / 2\<rfloor> in
      if cn_trayOffset s = offset then s else s\<lparr>cn_trayOffset := offset\<rparr>)"

definition setMaintenanceNotice :: "string option \<Rightarrow> call_notices \<Rightarrow> call_notices" where
  "setMaintenanceNotice message s = (if cn_maintenance s = message then s else s\<lparr>cn_maintenance := message\<rparr>)"

section \<open>Durations\<close>

definition pad2 :: "nat \<Rightarrow> string" where
  "pad2 n = (let s = decimal n in replicate (2 - length s) CHR ''0'' @ s)"

definition formatDuration :: "int \<Rightarrow> string" where
  "formatDuration ms =
     (let totalSeconds = nat (max 0 (ms div 1000));
          h = totalSeconds div 3600; m = totalSeconds mod 3600 div 60; s = totalSeconds mod 60 in
      if h > 0 then pad2 h @ '':'' @ pad2 m @ '':'' @ pad2 s else pad2 m @ '':'' @ pad2 s)"

text \<open>The comment above the code announces \<^verbatim>\<open>m:ss\<close>; the minutes are padded all the same.\<close>

lemma short_duration_padded: "formatDuration 65000 = ''01:05''"
  by code_simp

section \<open>The queue of toasts\<close>

datatype runtime_event = Emit web_fault | Dismiss nat | Reached bool

fun runtimeStep :: "int \<times> runtime_event \<Rightarrow> runtime \<Rightarrow> runtime" where
  "runtimeStep (now, Emit f) r = emitFault now f r"
| "runtimeStep (now, Dismiss i) r = dismissFault i r"
| "runtimeStep (now, Reached b) r = setReachable now b r"

definition runtimeRun :: "(int \<times> runtime_event) list \<Rightarrow> runtime \<Rightarrow> runtime" where
  "runtimeRun es r = fold runtimeStep es r"

text \<open>The toasts that a run puts up: when, and with which code.\<close>

fun shown :: "(int \<times> runtime_event) list \<Rightarrow> runtime \<Rightarrow> (int \<times> string) list" where
  "shown [] r = []"
| "shown (e # es) r =
     (let r' = runtimeStep e r in
      (case e of (now, Emit f) \<Rightarrow> if nextId r' = nextId r then [] else [(now, ft_code f)] | _ \<Rightarrow> []) @ shown es r')"

definition toasts_ok :: "runtime \<Rightarrow> bool" where
  "toasts_ok r \<longleftrightarrow> distinct (map ft_code (toasts r)) \<and> sorted_wrt (<) (map af_id (toasts r)) \<and>
     (\<forall>x \<in> set (toasts r). af_id x < nextId r \<and> lastEmittedAt r (ft_code x) = Some (af_activatedAt x))"

lemma toasts_ok_step:
  assumes "toasts_ok r"
  shows "toasts_ok (runtimeStep e r)"
proof (cases e)
  case (Pair now v)
  show ?thesis
  proof (cases v)
    case (Emit f)
    with Pair assms show ?thesis
      by (auto simp: toasts_ok_def emitFault_def activate_def distinct_map_filter sorted_wrt_append sorted_wrt_map
          intro: sorted_wrt_filter)
  qed (use Pair assms in \<open>auto simp: toasts_ok_def dismissFault_def setReachable_def distinct_map_filter sorted_wrt_map
          intro: sorted_wrt_filter\<close>)
qed

lemma toasts_ok_run: "toasts_ok r \<Longrightarrow> toasts_ok (runtimeRun es r)"
  unfolding runtimeRun_def by (induction es arbitrary: r) (auto intro: toasts_ok_step)

lemma shown_after:
  assumes "lastEmittedAt r c = Some t" and "(t', c) \<in> set (shown es r)" and "sorted (map fst es)"
    and "\<forall>x \<in> fst ` set es. t \<le> x"
  shows "COOLDOWN_MS \<le> t' - t"
  using assms
proof (induction es arbitrary: r t)
  case (Cons e es)
  obtain now v where e: "e = (now, v)" by fastforce
  have ord: "\<forall>x \<in> fst ` set es. now \<le> x" "sorted (map fst es)" "t \<le> now"
    using Cons.prems(3,4) by (auto simp: e)
  show ?case
  proof (cases "lastEmittedAt (runtimeStep e r) c = lastEmittedAt r c")
    case True
    with Cons.prems(1) have last: "lastEmittedAt (runtimeStep e r) c = Some t" by simp
    from Cons.prems(2) True Cons.prems(1) consider "(t', c) \<in> set (shown es (runtimeStep e r))" | "COOLDOWN_MS \<le> t' - t"
      by (auto simp: e Let_def emitFault_def split: runtime_event.splits if_splits)
    then show ?thesis
    proof cases
      case 1
      have "\<forall>x \<in> fst ` set es. t \<le> x" using Cons.prems(4) by auto
      from Cons.IH [OF last 1 ord(2) this] show ?thesis .
    qed
  next
    case False
    then obtain f where f: "v = Emit f" "ft_code f = c" "COOLDOWN_MS \<le> now - t" "lastEmittedAt (runtimeStep e r) c = Some now"
      using Cons.prems(1)
      by (cases v) (auto simp: e emitFault_def dismissFault_def setReachable_def split: if_splits)
    from Cons.prems(2) consider "t' = now" | "(t', c) \<in> set (shown es (runtimeStep e r))"
      by (auto simp: e f Let_def split: if_splits)
    then show ?thesis
    proof cases
      case 2
      from Cons.IH [OF f(4) 2 ord(2,1)] f(3) show ?thesis by (simp add: COOLDOWN_MS_def)
    qed (use f in simp)
  qed
qed simp

definition apart :: "int \<times> string \<Rightarrow> int \<times> string \<Rightarrow> bool" where
  "apart x y \<longleftrightarrow> (snd x = snd y \<longrightarrow> COOLDOWN_MS \<le> fst y - fst x)"

lemma shown_apart:
  assumes "sorted (map fst es)"
  shows "sorted_wrt apart (shown es r)"
  using assms
proof (induction es arbitrary: r)
  case (Cons e es)
  obtain now v where e: "e = (now, v)" by fastforce
  let ?r = "runtimeStep e r"
  have ih: "sorted_wrt apart (shown es ?r)" using Cons by simp
  have "apart (now, ft_code f) y" if "v = Emit f" "nextId ?r \<noteq> nextId r" "y \<in> set (shown es ?r)" for f y
  proof -
    have "lastEmittedAt ?r (ft_code f) = Some now" using that(1,2) by (auto simp: e emitFault_def split: if_splits)
    moreover have "\<forall>x \<in> fst ` set es. now \<le> x" "sorted (map fst es)" using Cons.prems by (auto simp: e)
    ultimately show ?thesis using shown_after [of ?r "ft_code f" now "fst y" es] that(3)
      by (cases y) (auto simp: apart_def)
  qed
  with ih show ?case by (auto simp: e Let_def split: runtime_event.splits)
qed simp

text \<open>C30. However many Faults a failing server causes, the toasts stay readable: at any time there is at most
  one for each code, they have different ids and stand in the order in which they came, and two toasts with
  the same code come at least four seconds after one another.\<close>

theorem toast_queue:
  assumes "sorted (map fst es)"
  shows "toasts_ok (runtimeRun es startRuntime) \<and> sorted_wrt apart (shown es startRuntime)"
proof -
  have "toasts_ok startRuntime" by (simp add: toasts_ok_def startRuntime_def)
  with toasts_ok_run shown_apart [OF assms] show ?thesis by blast
qed

definition demoFault :: "string \<Rightarrow> web_fault" where
  "demoFault c = \<lparr>ft_code = c, ft_message = [], ft_status = 0\<rparr>"

theorem toast_queue_witness:
  "(let es = [(5000, Emit (demoFault ''A'')), (6000, Emit (demoFault ''A'')), (6000, Emit (demoFault ''B'')),
      (9500, Emit (demoFault ''A''))] in
    toasts_ok (runtimeRun es startRuntime) \<and> shown es startRuntime = [(5000, ''A''), (6000, ''B''), (9500, ''A'')])"
proof -
  let ?es = "[(5000, Emit (demoFault ''A'')), (6000, Emit (demoFault ''A'')), (6000, Emit (demoFault ''B'')),
      (9500, Emit (demoFault ''A''))]"
  have "shown ?es startRuntime = [(5000, ''A''), (6000, ''B''), (9500, ''A'')]" by code_simp
  with toast_queue [of ?es] show ?thesis by (simp add: Let_def)
qed

end
