(* ===== verification/Machines.thy ===== *)
theory Machines
  imports Main
begin

text \<open>
  Machines of events: a hook of the browser takes one event at a time, changes its state and has effects on
  the outside. The interface of such a machine, and what holds of its runs: they compose, they keep what every
  step keeps, and they use up no more than the events bring in. The hooks for Remote Control,
  presentations, recordings and shortcuts are instances.
\<close>

locale event_machine =
  fixes step :: "'e \<Rightarrow> 's \<Rightarrow> 's \<times> 'x list"
    and run :: "'e list \<Rightarrow> 's \<Rightarrow> 's \<times> 'x list"
  assumes run_Nil: "run [] s = (s, [])"
    and run_Cons: "run (e # es) s = (let (s1, x) = step e s; (s2, y) = run es s1 in (s2, x @ y))"
begin

lemma run_append:
  "run (es @ fs) s = (fst (run fs (fst (run es s))), snd (run es s) @ snd (run fs (fst (run es s))))"
  by (induction es arbitrary: s) (simp_all add: run_Nil run_Cons split_beta)

lemma run_snoc:
  "run (es @ [e]) s = (fst (step e (fst (run es s))), snd (run es s) @ snd (step e (fst (run es s))))"
  by (simp add: run_append run_Cons run_Nil split_beta)

lemma run_keeps:
  assumes "\<And>e s. ok e \<Longrightarrow> good s \<Longrightarrow> good (fst (step e s))" and "list_all ok es" and "good s"
  shows "good (fst (run es s))"
  using assms(2,3) by (induction es arbitrary: s) (simp_all add: run_Nil run_Cons split_beta assms(1))

text \<open>A budget: no step uses more than it has or its event brings.\<close>

lemma run_budget:
  fixes used :: "'x list \<Rightarrow> nat" and stock :: "'s \<Rightarrow> nat" and gain :: "'e \<Rightarrow> nat"
  assumes keeps: "\<And>e s. good s \<Longrightarrow> good (fst (step e s))"
    and pays: "\<And>e s. good s \<Longrightarrow> used (snd (step e s)) + stock (fst (step e s)) \<le> stock s + gain e"
    and used: "used [] = 0" "\<And>xs ys. used (xs @ ys) = used xs + used ys"
    and "good s"
  shows "used (snd (run es s)) + stock (fst (run es s)) \<le> stock s + sum_list (map gain es)"
  using assms(5)
proof (induction es arbitrary: s)
  case Nil
  then show ?case by (simp add: run_Nil used)
next
  case (Cons e es)
  then show ?case using Cons.IH [OF keeps [OF Cons.prems], of e] pays [OF Cons.prems, of e] by (simp add: run_Cons split_beta used)
qed

end

end
