(* ===== verification/ControlClient.thy ===== *)
theory ControlClient
  imports WebRuntime ControlProtocol Machines
begin

text \<open>
  The browser's side of Remote Control: the hook \<^verbatim>\<open>useRemoteControl\<close>
  (\<^verbatim>\<open>apps/web/src/components/call/useRemoteControl.ts\<close>) with \<^verbatim>\<open>lib/remoteControlRequest.ts\<close>, as a
  machine of events. An asynchronous function is split where it awaits: the first part is one event,
  its continuation another, which carries the values that the closure had captured and the outcome
  of the call (anything at all, since neither the server nor the other participants are trusted
  here). After every event the effects of React run for the state that resulted (\<open>runEffects\<close>). What
  the hook does to the outside are its \<open>client_effect\<close>s. The notices are reduced to their tone, and
  the timers to the events they fire; whether an effect was torn down before its request came back
  (\<^verbatim>\<open>mounted\<close>) is part of the event.
\<close>

section \<open>Requests\<close>

definition CLIENT_REQUEST_TTL_MS :: int where
  "CLIENT_REQUEST_TTL_MS = 30000"

record web_request =
  wq_requestId :: string
  wq_room :: string
  wq_sharerIdentity :: string
  wq_sharerName :: string
  wq_controllerIdentity :: string
  wq_controllerName :: string
  wq_requestedAt :: string
  wq_expiresAt :: string
  wq_expiresInMs :: "rat option"

definition getRemoteControlRequestRemainingMs :: "(string \<Rightarrow> int option) \<Rightarrow> web_request \<Rightarrow> int option" where
  "getRemoteControlRequestRemainingMs D q =
     (case wq_expiresInMs q of
        Some n \<Rightarrow> if n \<le> 0 \<or> n > of_int CLIENT_REQUEST_TTL_MS then None else Some \<lfloor>n\<rfloor>
      | None \<Rightarrow>
          (case (D (wq_requestedAt q), D (wq_expiresAt q)) of
             (Some a, Some b) \<Rightarrow>
               (let originalLifetime = b - a in
                if originalLifetime \<le> 0 \<or> originalLifetime > CLIENT_REQUEST_TTL_MS then None
                else Some originalLifetime)
           | _ \<Rightarrow> None))"

definition sized :: "nat \<Rightarrow> string \<Rightarrow> bool" where
  "sized n s \<longleftrightarrow> 0 < length s \<and> length s \<le> n"

definition requestSummaryIsUsable :: "(string \<Rightarrow> int option) \<Rightarrow> web_request \<Rightarrow> string \<Rightarrow> bool" where
  "requestSummaryIsUsable D q room \<longleftrightarrow>
     wq_room q = room \<and> sized 160 (wq_requestId q) \<and> sized 160 (wq_sharerIdentity q) \<and>
     sized 160 (wq_controllerIdentity q) \<and> sized 256 (wq_sharerName q) \<and> sized 256 (wq_controllerName q) \<and>
     getRemoteControlRequestRemainingMs D q \<noteq> None"

lemma remaining_bounds:
  "getRemoteControlRequestRemainingMs D q = Some n \<Longrightarrow> 0 \<le> n \<and> n \<le> CLIENT_REQUEST_TTL_MS"
  by (auto simp: getRemoteControlRequestRemainingMs_def REMOTE_CONTROL_REQUEST_TTL_MS_def Let_def floor_le_iff
      split: option.splits if_splits)

section \<open>The hook's state\<close>

datatype client_action =
    DoRequest | DoApprove | DoDeny | DoWithdraw | DoStop | DoRenew | DoReopen

datatype tone = InfoTone | SuccessTone | FailTone

record helper_bootstrap =
  hb_room :: string
  hb_sessionId :: string
  hb_code :: string
  hb_expiresAt :: string

record rc_client =
  rk_session :: "web_session option"
  rk_incoming :: "web_request option"
  rk_outgoing :: "web_request option"
  rk_bootstrap :: "helper_bootstrap option"
  rk_notice :: "tone option"
  rk_busy :: "client_action option"
  rk_requesting :: "string option"
  rk_renewal :: "(string \<times> string) option"
  rk_clipboard :: "string option"
  rk_stopping :: "string option"
  rk_receivedStop :: "string option"
  rk_verification :: nat
  rk_sequence :: int
  rk_revision :: int

definition startClient :: rc_client where
  "startClient = \<lparr>rk_session = None, rk_incoming = None, rk_outgoing = None, rk_bootstrap = None, rk_notice = None,
     rk_busy = None, rk_requesting = None, rk_renewal = None, rk_clipboard = None, rk_stopping = None,
     rk_receivedStop = None, rk_verification = 0, rk_sequence = 0, rk_revision = 0\<rparr>"

text \<open>What does not change while the hook is mounted: the room, the own identity, \<^verbatim>\<open>Date.parse\<close>.\<close>

record hook =
  hk_room :: string
  hk_me :: string
  hk_date :: "string \<Rightarrow> int option"

datatype api_call =
    ApiRequest string | ApiGet string nat string | ApiPending | ApiApprove string | ApiReissue string
  | ApiDeny string | ApiWithdraw string | ApiStop string | ApiRenew string

datatype client_effect =
    SendMessage "string list" control_message
  | Call api_call
  | Toast string
  | WriteClipboard string int
  | ReadClipboard
  | CopyText string
  | LeaveCall

type_synonym client_step = "rc_client \<Rightarrow> rc_client \<times> client_effect list"

abbreviation stay :: client_step where
  "stay c \<equiv> (c, [])"

definition iAmSharer :: "hook \<Rightarrow> rc_client \<Rightarrow> bool" where
  "iAmSharer H c = (case rk_session c of None \<Rightarrow> False | Some s \<Rightarrow> ws_sharerIdentity s = hk_me H)"

definition iAmController :: "hook \<Rightarrow> rc_client \<Rightarrow> bool" where
  "iAmController H c = (case rk_session c of None \<Rightarrow> False | Some s \<Rightarrow> ws_controllerIdentity s = hk_me H)"

definition showNotice :: "tone \<Rightarrow> rc_client \<Rightarrow> rc_client" where
  "showNotice t c = c\<lparr>rk_notice := Some t\<rparr>"

text \<open>The codes that have a message of their own; the others become toasts.\<close>

definition domainOutcome :: "string \<Rightarrow> bool" where
  "domainOutcome code \<longleftrightarrow> code \<in> set [''REMOTE_CONTROL_IN_PROGRESS'', ''REMOTE_CONTROL_NOT_FOUND'',
     ''REMOTE_CONTROL_NOT_ALLOWED'', ''REMOTE_CONTROL_PRESENT_ACTIVE'', ''REMOTE_CONTROL_RENEWAL_REQUIRED'',
     ''REMOTE_CONTROL_HELPER_NOT_CONNECTED'', ''NOT_PARTICIPANT'', ''ROOM_NOT_FOUND'']"

fun handleActionError :: "web_error \<Rightarrow> client_step" where
  "handleActionError (FaultError f) c =
     (if domainOutcome (ft_code f) then (showNotice FailTone c, []) else (c, [Toast (ft_code f)]))"
| "handleActionError _ c = (c, [Toast ''REMOTE_CONTROL_CLIENT''])"

definition notFound :: "web_error \<Rightarrow> bool" where
  "notFound e = (case e of FaultError f \<Rightarrow> ft_code f = ''REMOTE_CONTROL_NOT_FOUND'' | _ \<Rightarrow> False)"

section \<open>Data messages\<close>

record sender =
  sd_identity :: string
  sd_agent :: bool

definition verifyRequest :: "hook \<Rightarrow> string \<Rightarrow> sender \<Rightarrow> client_step" where
  "verifyRequest H i s c =
     (let c = c\<lparr>rk_verification := rk_verification c + 1\<rparr> in
      if hk_me H = [] \<or> rk_session c \<noteq> None \<or> sd_agent s then stay c
      else (c, [Call (ApiGet i (rk_verification c) (sd_identity s))]))"

definition verified :: "hook \<Rightarrow> bool \<Rightarrow> string \<Rightarrow> nat \<Rightarrow> string \<Rightarrow> web_error + web_request \<Rightarrow> client_step" where
  "verified H mounted i verification from res c =
     (case res of
        Inl _ \<Rightarrow> stay c
      | Inr q \<Rightarrow>
          if \<not> mounted \<or> verification \<noteq> rk_verification c then stay c
          else if \<not> requestSummaryIsUsable (hk_date H) q (hk_room H) \<or> wq_requestId q \<noteq> i \<or>
                  wq_sharerIdentity q \<noteq> hk_me H \<or> wq_controllerIdentity q \<noteq> from
          then stay c
          else (c\<lparr>rk_incoming := Some q\<rparr>, []))"

definition receiveClipboardUpdate :: "string \<Rightarrow> int \<Rightarrow> client_step" where
  "receiveClipboardUpdate t revision c =
     (if revision \<le> rk_revision c then stay c
      else (c\<lparr>rk_revision := revision\<rparr>, [WriteClipboard t revision]))"

definition clipboardWritten :: "string \<Rightarrow> int \<Rightarrow> bool \<Rightarrow> client_step" where
  "clipboardWritten t revision written c =
     (if revision \<noteq> rk_revision c then stay c
      else if written then (showNotice SuccessTone (c\<lparr>rk_clipboard := None\<rparr>), [])
      else (showNotice InfoTone (c\<lparr>rk_clipboard := Some t\<rparr>), []))"

definition handleMessage :: "hook \<Rightarrow> sender \<Rightarrow> control_message \<Rightarrow> client_step" where
  "handleMessage H s m c =
     (case m of
        MsgRequest i \<Rightarrow> verifyRequest H i s c
      | MsgDenied i \<Rightarrow>
          (case rk_outgoing c of
             Some q \<Rightarrow>
               if i = wq_requestId q \<and> sd_identity s = wq_sharerIdentity q
               then (showNotice FailTone (c\<lparr>rk_outgoing := None\<rparr>), []) else stay c
           | None \<Rightarrow> stay c)
      | MsgWithdrawn i \<Rightarrow>
          (case rk_incoming c of
             Some q \<Rightarrow>
               if i = wq_requestId q \<and> sd_identity s = wq_controllerIdentity q
               then (c\<lparr>rk_incoming := None\<rparr>, []) else stay c
           | None \<Rightarrow> stay c)
      | MsgStopIntent i \<Rightarrow>
          (case rk_session c of
             Some x \<Rightarrow>
               if i = ws_sessionId x \<and> (sd_identity s = ws_sharerIdentity x \<or> sd_identity s = ws_controllerIdentity x)
               then (c\<lparr>rk_stopping := Some (ws_sessionId x), rk_receivedStop := Some (ws_sessionId x),
                       rk_clipboard := None\<rparr>, [])
               else stay c
           | None \<Rightarrow> stay c)
      | MsgClipboardUpdate i revision t \<Rightarrow>
          (case rk_session c of
             Some x \<Rightarrow>
               if iAmController H c \<and> ws_status x = AgentActive \<and> ws_agentConnected x \<and> i = ws_sessionId x \<and>
                  sd_identity s = ws_agentIdentity x
               then receiveClipboardUpdate t revision c else stay c
           | None \<Rightarrow> stay c)
      | _ \<Rightarrow> stay c)"

definition handleData :: "hook \<Rightarrow> sender option \<Rightarrow> string \<Rightarrow> json_text \<Rightarrow> client_step" where
  "handleData H s topic payload c =
     (if topic \<noteq> REMOTE_CONTROL_TOPIC then stay c
      else case s of
        None \<Rightarrow> stay c
      | Some s \<Rightarrow>
          (case decodeRemoteControlMessage payload of None \<Rightarrow> stay c | Some m \<Rightarrow> handleMessage H s m c))"

section \<open>Recovery by polling\<close>

definition pollPending :: "hook \<Rightarrow> client_step" where
  "pollPending H c =
     (if hk_me H = [] \<or> rk_session c \<noteq> None \<or> rk_incoming c \<noteq> None \<or> rk_outgoing c \<noteq> None then stay c
      else (c, [Call ApiPending]))"

definition recovered :: "hook \<Rightarrow> bool \<Rightarrow> web_error + web_request option \<Rightarrow> client_step" where
  "recovered H mounted res c =
     (case res of
        Inr (Some q) \<Rightarrow>
          if \<not> mounted \<or> \<not> requestSummaryIsUsable (hk_date H) q (hk_room H) \<or> wq_sharerIdentity q \<noteq> hk_me H
          then stay c
          else (c\<lparr>rk_incoming := (case rk_incoming c of
                   Some p \<Rightarrow> if wq_requestId p = wq_requestId q then Some p else Some q
                 | None \<Rightarrow> Some q)\<rparr>, [])
      | _ \<Rightarrow> stay c)"

section \<open>Effects of a change\<close>

definition resolvePrompts :: "hook \<Rightarrow> rc_client \<Rightarrow> rc_client" where
  "resolvePrompts H c =
     (case rk_session c of
        None \<Rightarrow> c
      | Some s \<Rightarrow>
          let c = c\<lparr>rk_incoming := None\<rparr> in
          (case rk_outgoing c of
             Some q \<Rightarrow>
               if wq_controllerIdentity q = hk_me H \<and> wq_sharerIdentity q = ws_sharerIdentity s
               then showNotice SuccessTone (c\<lparr>rk_outgoing := None\<rparr>) else c
           | None \<Rightarrow> c))"

definition resetSession :: "rc_client \<Rightarrow> rc_client" where
  "resetSession c = c\<lparr>rk_sequence := 0, rk_revision := 0, rk_clipboard := None\<rparr>"

definition clearStopping :: "rc_client \<Rightarrow> rc_client" where
  "clearStopping c =
     (case (rk_stopping c, rk_session c) of
        (Some i, Some s) \<Rightarrow> if ws_sessionId s = i then c else c\<lparr>rk_stopping := None\<rparr>
      | _ \<Rightarrow> c)"

definition clearBootstrap :: "rc_client \<Rightarrow> rc_client" where
  "clearBootstrap c =
     (case rk_bootstrap c of
        None \<Rightarrow> c
      | Some b \<Rightarrow>
          (case rk_session c of
             Some s \<Rightarrow>
               if ws_sessionId s \<noteq> hb_sessionId b \<or> ws_agentConnected s then c\<lparr>rk_bootstrap := None\<rparr> else c
           | None \<Rightarrow> c\<lparr>rk_bootstrap := None\<rparr>))"

text \<open>A comparison with a date that cannot be read is false.\<close>

definition dateGe :: "int option \<Rightarrow> int option \<Rightarrow> bool" where
  "dateGe a b = (case (a, b) of (Some x, Some y) \<Rightarrow> x \<ge> y | _ \<Rightarrow> False)"

definition clearRenewal :: "hook \<Rightarrow> rc_client \<Rightarrow> rc_client" where
  "clearRenewal H c =
     (case rk_renewal c of
        None \<Rightarrow> c
      | Some (i, due) \<Rightarrow>
          (case rk_session c of
             Some s \<Rightarrow>
               if ws_sessionId s \<noteq> i \<or> dateGe (hk_date H (ws_renewalDueAt s)) (hk_date H due)
               then c\<lparr>rk_renewal := None\<rparr> else c
           | None \<Rightarrow> c\<lparr>rk_renewal := None\<rparr>))"

definition effectiveRenewalDueAt :: "hook \<Rightarrow> rc_client \<Rightarrow> string option" where
  "effectiveRenewalDueAt H c =
     (case (rk_renewal c, rk_session c) of
        (Some (i, due), Some s) \<Rightarrow>
          if i = ws_sessionId s \<and> (case (hk_date H due, hk_date H (ws_renewalDueAt s)) of
               (Some x, Some y) \<Rightarrow> x > y | _ \<Rightarrow> False)
          then Some due else Some (ws_renewalDueAt s)
      | (_, s) \<Rightarrow> map_option ws_renewalDueAt s)"

section \<open>Actions\<close>

text \<open>\<^verbatim>\<open>requestControl\<close>.\<close>

definition askBegin :: "hook \<Rightarrow> string \<Rightarrow> client_step" where
  "askBegin H sharer c =
     (if hk_me H = [] \<or> sharer = hk_me H \<or> isControlAgentIdentity sharer then stay c
      else if rk_session c \<noteq> None \<or> rk_outgoing c \<noteq> None then (showNotice FailTone c, [])
      else (c\<lparr>rk_busy := Some DoRequest, rk_requesting := Some sharer\<rparr>, [Call (ApiRequest sharer)]))"

definition askEnd :: "hook \<Rightarrow> string \<Rightarrow> web_error + web_request \<Rightarrow> client_step" where
  "askEnd H sharer res c =
     (let failed = (\<lambda>e. case handleActionError e c of (c', fx) \<Rightarrow> (c'\<lparr>rk_busy := None, rk_requesting := None\<rparr>, fx)) in
      case res of
        Inl e \<Rightarrow> failed e
      | Inr q \<Rightarrow>
          if \<not> requestSummaryIsUsable (hk_date H) q (hk_room H) \<or> wq_controllerIdentity q \<noteq> hk_me H \<or>
             wq_sharerIdentity q \<noteq> sharer
          then failed BadJson
          else (c\<lparr>rk_outgoing := Some q\<rparr>, [SendMessage [wq_sharerIdentity q] (MsgRequest (wq_requestId q))]))"

definition askNotified :: "bool \<Rightarrow> client_step" where
  "askNotified sent c =
     (c\<lparr>rk_busy := None, rk_requesting := None\<rparr>, if sent then [] else [Toast ''REMOTE_CONTROL_SIGNAL_FAILED''])"

text \<open>\<^verbatim>\<open>approve\<close>; the continuation has captured the request.\<close>

record approval =
  ap_sharerIdentity :: string
  ap_controllerIdentity :: string
  ap_sessionId :: string
  ap_code :: string
  ap_expiresAt :: string

definition mine :: "hook \<Rightarrow> rc_client \<Rightarrow> web_request option" where
  "mine H c = (case rk_incoming c of
     Some q \<Rightarrow> if wq_sharerIdentity q = hk_me H then Some q else None | None \<Rightarrow> None)"

definition approveBegin :: "hook \<Rightarrow> client_step" where
  "approveBegin H c =
     (case mine H c of
        None \<Rightarrow> stay c
      | Some q \<Rightarrow> (c\<lparr>rk_busy := Some DoApprove\<rparr>, [Call (ApiApprove (wq_requestId q))]))"

definition approveEnd :: "hook \<Rightarrow> web_request \<Rightarrow> web_error + approval \<Rightarrow> client_step" where
  "approveEnd H q res c =
     (let failed = (\<lambda>e. case handleActionError e (if notFound e then c\<lparr>rk_incoming := None\<rparr> else c) of
                          (c', fx) \<Rightarrow> (c'\<lparr>rk_busy := None\<rparr>, fx)) in
      case res of
        Inl e \<Rightarrow> failed e
      | Inr a \<Rightarrow>
          if ap_sharerIdentity a \<noteq> hk_me H \<or> ap_controllerIdentity a \<noteq> wq_controllerIdentity q \<or>
             ap_sessionId a = [] \<or> ap_code a = []
          then failed BadJson
          else (c\<lparr>rk_incoming := None, rk_busy := None, rk_bootstrap := Some \<lparr>hb_room = hk_room H,
                  hb_sessionId = ap_sessionId a, hb_code = ap_code a, hb_expiresAt = ap_expiresAt a\<rparr>\<rparr>, []))"

definition reopenBegin :: "hook \<Rightarrow> client_step" where
  "reopenBegin H c =
     (case rk_session c of
        None \<Rightarrow> stay c
      | Some s \<Rightarrow>
          if \<not> iAmSharer H c \<or> ws_agentConnected s then stay c
          else (c\<lparr>rk_busy := Some DoReopen\<rparr>, [Call (ApiReissue (ws_sessionId s))]))"

definition reopenEnd :: "hook \<Rightarrow> string \<Rightarrow> web_error + string \<times> string \<Rightarrow> client_step" where
  "reopenEnd H sid res c =
     (let failed = (\<lambda>e. case handleActionError e c of (c', fx) \<Rightarrow> (c'\<lparr>rk_busy := None\<rparr>, fx)) in
      case res of
        Inl e \<Rightarrow> failed e
      | Inr (code, expires) \<Rightarrow>
          if code = [] \<or> hk_date H expires = None then failed BadJson
          else (c\<lparr>rk_busy := None, rk_bootstrap := Some \<lparr>hb_room = hk_room H, hb_sessionId = sid,
                  hb_code = code, hb_expiresAt = expires\<rparr>\<rparr>, []))"

definition denyBegin :: "hook \<Rightarrow> client_step" where
  "denyBegin H c =
     (case mine H c of
        None \<Rightarrow> stay c
      | Some q \<Rightarrow> (c\<lparr>rk_busy := Some DoDeny\<rparr>, [Call (ApiDeny (wq_requestId q))]))"

definition denyEnd :: "web_request \<Rightarrow> web_error + unit \<Rightarrow> client_step" where
  "denyEnd q res c =
     (case res of
        Inr _ \<Rightarrow> (c\<lparr>rk_incoming := None\<rparr>, [SendMessage [wq_controllerIdentity q] (MsgDenied (wq_requestId q))])
      | Inl e \<Rightarrow> (case handleActionError e (if notFound e then c\<lparr>rk_incoming := None\<rparr> else c) of
                     (c', fx) \<Rightarrow> (c'\<lparr>rk_busy := None\<rparr>, fx)))"

definition denyNotified :: "bool \<Rightarrow> client_step" where
  "denyNotified sent c =
     (c\<lparr>rk_busy := None\<rparr>, if sent then [] else [Toast ''REMOTE_CONTROL_SIGNAL_FAILED''])"

definition withdrawBegin :: "hook \<Rightarrow> client_step" where
  "withdrawBegin H c =
     (case rk_outgoing c of
        None \<Rightarrow> stay c
      | Some q \<Rightarrow>
          if wq_controllerIdentity q \<noteq> hk_me H then stay c
          else (c\<lparr>rk_busy := Some DoWithdraw\<rparr>, [Call (ApiWithdraw (wq_requestId q))]))"

definition withdrawEnd :: "web_request \<Rightarrow> web_error + unit \<Rightarrow> client_step" where
  "withdrawEnd q res c =
     (case res of
        Inr _ \<Rightarrow> (showNotice InfoTone (c\<lparr>rk_outgoing := None\<rparr>),
                  [SendMessage [wq_sharerIdentity q] (MsgWithdrawn (wq_requestId q))])
      | Inl e \<Rightarrow> (case handleActionError e (if notFound e then c\<lparr>rk_outgoing := None\<rparr> else c) of
                     (c', fx) \<Rightarrow> (c'\<lparr>rk_busy := None\<rparr>, fx)))"

definition withdrawNotified :: client_step where
  "withdrawNotified c = (c\<lparr>rk_busy := None\<rparr>, [])"

definition stopBegin :: "hook \<Rightarrow> client_step" where
  "stopBegin H c =
     (case rk_session c of
        None \<Rightarrow> stay c
      | Some s \<Rightarrow>
          if \<not> iAmSharer H c \<and> \<not> iAmController H c then stay c
          else (c\<lparr>rk_stopping := Some (ws_sessionId s), rk_clipboard := None, rk_bootstrap := None, rk_busy := Some DoStop\<rparr>,
                [SendMessage [ws_sharerIdentity s, ws_controllerIdentity s, ws_agentIdentity s]
                   (MsgStopIntent (ws_sessionId s)), Call (ApiStop (ws_sessionId s))]))"

text \<open>How the loop of \<^verbatim>\<open>stop\<close> ends: confirmed, already ended, or not before the deadline.\<close>

datatype stop_outcome = StopConfirmed | StopGone | StopTimedOut

definition stopEnd :: "stop_outcome \<Rightarrow> client_step" where
  "stopEnd res c =
     (case res of
        StopConfirmed \<Rightarrow> (showNotice InfoTone (c\<lparr>rk_busy := None\<rparr>), [])
      | StopGone \<Rightarrow> (c\<lparr>rk_busy := None\<rparr>, [])
      | StopTimedOut \<Rightarrow> (c\<lparr>rk_busy := None\<rparr>, [Toast ''REMOTE_CONTROL_STOP_TIMEOUT'', LeaveCall]))"

definition renewBegin :: "hook \<Rightarrow> client_step" where
  "renewBegin H c =
     (case rk_session c of
        None \<Rightarrow> stay c
      | Some s \<Rightarrow>
          if \<not> iAmSharer H c then stay c
          else (c\<lparr>rk_busy := Some DoRenew\<rparr>, [Call (ApiRenew (ws_sessionId s))]))"

definition renewEnd :: "hook \<Rightarrow> string \<Rightarrow> web_error + string \<times> string \<Rightarrow> client_step" where
  "renewEnd H sid res c =
     (let failed = (\<lambda>e. case handleActionError e c of (c', fx) \<Rightarrow> (c'\<lparr>rk_busy := None\<rparr>, fx)) in
      case res of
        Inl e \<Rightarrow> failed e
      | Inr (i, due) \<Rightarrow>
          if i \<noteq> sid \<or> hk_date H due = None then failed BadJson
          else (showNotice SuccessTone (c\<lparr>rk_renewal := Some (i, due), rk_busy := None\<rparr>), []))"

text \<open>The session to which input may go now.\<close>

definition controlled :: "hook \<Rightarrow> rc_client \<Rightarrow> web_session option" where
  "controlled H c =
     (case rk_session c of
        None \<Rightarrow> None
      | Some s \<Rightarrow>
          if rk_stopping c = Some (ws_sessionId s) \<or> \<not> iAmController H c \<or> ws_status s \<noteq> AgentActive \<or>
             \<not> ws_agentConnected s
          then None else Some s)"

definition sendInput :: "hook \<Rightarrow> input_event \<Rightarrow> client_step" where
  "sendInput H event c =
     (case controlled H c of
        None \<Rightarrow> stay c
      | Some s \<Rightarrow>
          let n = rk_sequence c + 1 in
          (c\<lparr>rk_sequence := n\<rparr>, [SendMessage [ws_agentIdentity s] (MsgInput (ws_sessionId s) n event)]))"

definition sendClipboardCopy :: "hook \<Rightarrow> client_step" where
  "sendClipboardCopy H c =
     (case controlled H c of
        None \<Rightarrow> stay c
      | Some s \<Rightarrow>
          let n = rk_sequence c + 1 in
          (c\<lparr>rk_sequence := n\<rparr>, [SendMessage [ws_agentIdentity s] (MsgClipboardCopy (ws_sessionId s) n)]))"

definition pasteBegin :: "hook \<Rightarrow> client_step" where
  "pasteBegin H c = (case controlled H c of None \<Rightarrow> stay c | Some s \<Rightarrow> (c, [ReadClipboard]))"

text \<open>The continuation of \<^verbatim>\<open>pasteClipboard\<close>, with the session it began with.\<close>

definition pasteRead :: "web_session \<Rightarrow> string option \<Rightarrow> client_step" where
  "pasteRead s t c =
     (case t of
        None \<Rightarrow> (showNotice FailTone c, [])
      | Some t \<Rightarrow>
          if t = [] then (showNotice InfoTone c, [])
          else
            let n = rk_sequence c + 1 in
            (c\<lparr>rk_sequence := n\<rparr>, [SendMessage [ws_agentIdentity s] (MsgClipboardPaste (ws_sessionId s) n t)]))"

definition copyBegin :: client_step where
  "copyBegin c = (case rk_clipboard c of None \<Rightarrow> stay c | Some t \<Rightarrow> if t = [] then stay c else (c, [CopyText t]))"

definition copyEnd :: "string \<Rightarrow> bool \<Rightarrow> client_step" where
  "copyEnd t written c =
     (if written
      then (showNotice SuccessTone (c\<lparr>rk_clipboard := (if rk_clipboard c = Some t then None else rk_clipboard c)\<rparr>), [])
      else (showNotice FailTone c, []))"

section \<open>The machine\<close>

datatype client_event =
    Data "sender option" string json_text
  | Verified bool string nat string "web_error + web_request"
  | ClipboardWritten string int bool
  | PollTick
  | Recovered bool "web_error + web_request option"
  | IncomingExpired | OutgoingExpired | NoticeExpired
  | SessionPublished "web_session option"
  | Ask string | Asked string "web_error + web_request" | AskNotified bool
  | Approve | Approved web_request "web_error + approval"
  | Reopen | Reopened string "web_error + string \<times> string"
  | Deny | Denied web_request "web_error + unit" | DenyNotified bool
  | Withdraw | Withdrawn web_request "web_error + unit" | WithdrawNotified
  | Stop | Stopped stop_outcome
  | Renew | Renewed string "web_error + string \<times> string"
  | Input input_event | ClipboardCopy | Paste | PasteRead web_session "string option"
  | CopyReceived | Copied string bool
  | DismissNotice | DismissBootstrap

fun handle :: "hook \<Rightarrow> client_event \<Rightarrow> client_step" where
  "handle H (Data s topic p) c = handleData H s topic p c"
| "handle H (Verified m i v from res) c = verified H m i v from res c"
| "handle H (ClipboardWritten t r ok) c = clipboardWritten t r ok c"
| "handle H PollTick c = pollPending H c"
| "handle H (Recovered m res) c = recovered H m res c"
| "handle H IncomingExpired c = (c\<lparr>rk_incoming := None\<rparr>, [])"
| "handle H OutgoingExpired c =
     (if rk_outgoing c = None then stay c else (showNotice FailTone (c\<lparr>rk_outgoing := None\<rparr>), []))"
| "handle H NoticeExpired c = (c\<lparr>rk_notice := None\<rparr>, [])"
| "handle H (SessionPublished s) c = (c\<lparr>rk_session := s\<rparr>, [])"
| "handle H (Ask i) c = askBegin H i c"
| "handle H (Asked i res) c = askEnd H i res c"
| "handle H (AskNotified ok) c = askNotified ok c"
| "handle H Approve c = approveBegin H c"
| "handle H (Approved q res) c = approveEnd H q res c"
| "handle H Reopen c = reopenBegin H c"
| "handle H (Reopened i res) c = reopenEnd H i res c"
| "handle H Deny c = denyBegin H c"
| "handle H (Denied q res) c = denyEnd q res c"
| "handle H (DenyNotified ok) c = denyNotified ok c"
| "handle H Withdraw c = withdrawBegin H c"
| "handle H (Withdrawn q res) c = withdrawEnd q res c"
| "handle H WithdrawNotified c = withdrawNotified c"
| "handle H Stop c = stopBegin H c"
| "handle H (Stopped res) c = stopEnd res c"
| "handle H Renew c = renewBegin H c"
| "handle H (Renewed i res) c = renewEnd H i res c"
| "handle H (Input e) c = sendInput H e c"
| "handle H ClipboardCopy c = sendClipboardCopy H c"
| "handle H Paste c = pasteBegin H c"
| "handle H (PasteRead s t) c = pasteRead s t c"
| "handle H CopyReceived c = copyBegin c"
| "handle H (Copied t ok) c = copyEnd t ok c"
| "handle H DismissNotice c = (c\<lparr>rk_notice := None\<rparr>, [])"
| "handle H DismissBootstrap c = (c\<lparr>rk_bootstrap := None\<rparr>, [])"

text \<open>
  The effects that React runs after an event, each for the values it depends on; the last is the
  one with which a participant joins a stop it was told of.
\<close>

definition syncState :: "hook \<Rightarrow> rc_client \<Rightarrow> rc_client \<Rightarrow> rc_client" where
  "syncState H before c =
     (let c = (if rk_session c = rk_session before \<and> rk_outgoing c = rk_outgoing before then c else resolvePrompts H c);
          c = (if map_option ws_sessionId (rk_session c) = map_option ws_sessionId (rk_session before) then c else resetSession c) in
      clearRenewal H (clearBootstrap (clearStopping c)))"

definition runEffects :: "hook \<Rightarrow> rc_client \<Rightarrow> client_step" where
  "runEffects H before c =
     (let c = syncState H before c in
      case rk_session c of
        Some s \<Rightarrow>
          if rk_receivedStop c = Some (ws_sessionId s) then stopBegin H (c\<lparr>rk_receivedStop := None\<rparr>) else stay c
      | None \<Rightarrow> stay c)"

definition clientStep :: "hook \<Rightarrow> client_event \<Rightarrow> client_step" where
  "clientStep H e c =
     (case handle H e c of (c1, fx1) \<Rightarrow>
      case runEffects H c c1 of (c2, fx2) \<Rightarrow> (c2, fx1 @ fx2))"

fun clientRun :: "hook \<Rightarrow> client_event list \<Rightarrow> client_step" where
  "clientRun H [] c = stay c"
| "clientRun H (e # es) c =
     (case clientStep H e c of (c1, fx1) \<Rightarrow>
      case clientRun H es c1 of (c2, fx2) \<Rightarrow> (c2, fx1 @ fx2))"

interpretation cm: event_machine "clientStep H" "clientRun H" for H
  by unfold_locales simp_all

end
