(* ===== verification/ClientProperties.thy ===== *)
theory ClientProperties
  imports ControlClient
begin

text \<open>
  What the Remote Control hook guarantees, whatever events it gets in whatever order: the prompts it
  shows, the input it sends and the clipboard it writes.
\<close>

lemmas client_defs = verifyRequest_def verified_def receiveClipboardUpdate_def clipboardWritten_def handleMessage_def
  handleData_def pollPending_def recovered_def showNotice_def askBegin_def askEnd_def askNotified_def mine_def
  approveBegin_def approveEnd_def reopenBegin_def reopenEnd_def denyBegin_def denyEnd_def denyNotified_def
  withdrawBegin_def withdrawEnd_def withdrawNotified_def stopBegin_def stopEnd_def renewBegin_def renewEnd_def
  sendInput_def sendClipboardCopy_def pasteBegin_def pasteRead_def copyBegin_def copyEnd_def Let_def

lemmas effect_defs = resolvePrompts_def resetSession_def clearStopping_def clearBootstrap_def clearRenewal_def

lemmas client_splits = option.splits sum.splits control_message.splits stop_outcome.splits prod.splits if_splits

definition outcomeOf :: "web_error \<Rightarrow> bool" where
  "outcomeOf e = (case e of FaultError f \<Rightarrow> domainOutcome (ft_code f) | _ \<Rightarrow> False)"

definition errorCode :: "web_error \<Rightarrow> string" where
  "errorCode e = (case e of FaultError f \<Rightarrow> ft_code f | _ \<Rightarrow> ''REMOTE_CONTROL_CLIENT'')"

lemma handleActionError_eq:
  "handleActionError e c =
     (c\<lparr>rk_notice := if outcomeOf e then Some FailTone else rk_notice c\<rparr>, if outcomeOf e then [] else [Toast (errorCode e)])"
  by (cases e) (auto simp: outcomeOf_def errorCode_def showNotice_def)

declare handleActionError.simps [simp del]

text \<open>What each effect leaves alone.\<close>

lemma clearStopping_fields [simp]:
  "rk_session (clearStopping c) = rk_session c" "rk_incoming (clearStopping c) = rk_incoming c"
  "rk_outgoing (clearStopping c) = rk_outgoing c" "rk_sequence (clearStopping c) = rk_sequence c"
  "rk_receivedStop (clearStopping c) = rk_receivedStop c"
  by (simp_all add: clearStopping_def split: option.split)

lemma clearBootstrap_fields [simp]:
  "rk_session (clearBootstrap c) = rk_session c" "rk_incoming (clearBootstrap c) = rk_incoming c"
  "rk_outgoing (clearBootstrap c) = rk_outgoing c" "rk_sequence (clearBootstrap c) = rk_sequence c"
  "rk_receivedStop (clearBootstrap c) = rk_receivedStop c" "rk_stopping (clearBootstrap c) = rk_stopping c"
  by (simp_all add: clearBootstrap_def split: option.split)

lemma clearRenewal_fields [simp]:
  "rk_session (clearRenewal H c) = rk_session c" "rk_incoming (clearRenewal H c) = rk_incoming c"
  "rk_outgoing (clearRenewal H c) = rk_outgoing c" "rk_sequence (clearRenewal H c) = rk_sequence c"
  "rk_receivedStop (clearRenewal H c) = rk_receivedStop c" "rk_stopping (clearRenewal H c) = rk_stopping c"
  "rk_bootstrap (clearRenewal H c) = rk_bootstrap c"
  by (simp_all add: clearRenewal_def split: option.split prod.split)

lemma resolvePrompts_fields [simp]:
  "rk_session (resolvePrompts H c) = rk_session c" "rk_sequence (resolvePrompts H c) = rk_sequence c"
  "rk_receivedStop (resolvePrompts H c) = rk_receivedStop c" "rk_stopping (resolvePrompts H c) = rk_stopping c"
  "rk_bootstrap (resolvePrompts H c) = rk_bootstrap c"
  by (simp_all add: resolvePrompts_def showNotice_def Let_def split: option.split)

lemma stopBegin_fields [simp]:
  "rk_session (fst (stopBegin H c)) = rk_session c" "rk_incoming (fst (stopBegin H c)) = rk_incoming c"
  "rk_outgoing (fst (stopBegin H c)) = rk_outgoing c" "rk_sequence (fst (stopBegin H c)) = rk_sequence c"
  by (simp_all add: stopBegin_def split: option.split)

lemma runEffects_cases:
  obtains "runEffects H b c = (syncState H b c, [])"
  | "runEffects H b c = stopBegin H ((syncState H b c)\<lparr>rk_receivedStop := None\<rparr>)"
  by (cases "rk_session (syncState H b c)";
      cases "rk_receivedStop (syncState H b c) = map_option ws_sessionId (rk_session (syncState H b c))")
    (auto simp: runEffects_def Let_def)

lemma syncState_session [simp]: "rk_session (syncState H b c) = rk_session c"
  by (simp add: syncState_def Let_def resetSession_def)

section \<open>Prompts\<close>

definition addressed :: "hook \<Rightarrow> web_request \<Rightarrow> bool" where
  "addressed H q \<longleftrightarrow> requestSummaryIsUsable (hk_date H) q (hk_room H) \<and> wq_sharerIdentity q = hk_me H"

definition issued :: "hook \<Rightarrow> web_request \<Rightarrow> bool" where
  "issued H q \<longleftrightarrow> requestSummaryIsUsable (hk_date H) q (hk_room H) \<and> wq_controllerIdentity q = hk_me H"

definition prompts_ok :: "hook \<Rightarrow> rc_client \<Rightarrow> bool" where
  "prompts_ok H c \<longleftrightarrow> pred_option (addressed H) (rk_incoming c) \<and> pred_option (issued H) (rk_outgoing c)"

lemma prompts_handle: "prompts_ok H c \<Longrightarrow> prompts_ok H (fst (handle H e c))"
  by (cases e) (auto simp: prompts_ok_def addressed_def issued_def client_defs handleActionError_eq split: client_splits)

lemma prompts_resolve: "prompts_ok H c \<Longrightarrow> prompts_ok H (resolvePrompts H c)"
  by (auto simp: prompts_ok_def resolvePrompts_def showNotice_def Let_def split: option.split)

lemma prompts_sync: "prompts_ok H c \<Longrightarrow> prompts_ok H (syncState H b c)"
  using prompts_resolve [of H c] by (auto simp: prompts_ok_def syncState_def resetSession_def Let_def)

lemma prompts_step:
  assumes "prompts_ok H c"
  shows "prompts_ok H (fst (clientStep H e c))"
proof -
  obtain c1 fx where h: "handle H e c = (c1, fx)" by fastforce
  have c1: "prompts_ok H c1" using prompts_handle [OF assms, of e] h by simp
  have "prompts_ok H (fst (runEffects H c c1))"
    by (cases rule: runEffects_cases [of H c c1]) (use prompts_sync [OF c1, of c] in \<open>simp_all add: prompts_ok_def\<close>)
  then show ?thesis by (simp add: clientStep_def h split_beta)
qed

lemma run_step: "fst (clientRun H (e # es) c) = fst (clientRun H es (fst (clientStep H e c)))"
  "snd (clientRun H (e # es) c) = snd (clientStep H e c) @ snd (clientRun H es (fst (clientStep H e c)))"
  by (simp_all add: split_beta)

lemma prompts_run: "prompts_ok H c \<Longrightarrow> prompts_ok H (fst (clientRun H es c))"
  by (rule cm.run_keeps [where ok = "\<lambda>_. True"]) (simp_all add: prompts_step list_all_iff)

section \<open>Input\<close>

fun is_input :: "control_message \<Rightarrow> bool" where
  "is_input (MsgInput _ _ _) = True"
| "is_input (MsgClipboardCopy _ _) = True"
| "is_input _ = False"

lemma effects_send_stop:
  assumes "SendMessage d m \<in> set (snd (runEffects H b c))"
  shows "\<exists>i. m = MsgStopIntent i"
  using assms by (cases rule: runEffects_cases [of H b c]) (auto simp: stopBegin_def split: option.splits if_splits)

lemma controlled_Some:
  "controlled H c = Some s \<longleftrightarrow> rk_session c = Some s \<and> rk_stopping c \<noteq> Some (ws_sessionId s) \<and>
     ws_controllerIdentity s = hk_me H \<and> ws_status s = AgentActive \<and> ws_agentConnected s"
  by (auto simp: controlled_def iAmController_def split: option.splits if_splits)

lemma handle_input:
  assumes "SendMessage d m \<in> set (snd (handle H e c))" and "is_input m"
  shows "\<exists>s. controlled H c = Some s \<and> d = [ws_agentIdentity s] \<and> idOf m = ws_sessionId s"
  using assms
  by (cases e) (auto simp: client_defs handleActionError_eq split: client_splits)

lemma step_input:
  assumes "SendMessage d m \<in> set (snd (clientStep H e c))" and "is_input m"
  shows "\<exists>s. controlled H c = Some s \<and> d = [ws_agentIdentity s] \<and> idOf m = ws_sessionId s"
  using assms handle_input effects_send_stop by (fastforce simp: clientStep_def split_beta)

text \<open>While the session that is being stopped is not replaced by another one, it stays marked.\<close>

definition marked :: "string \<Rightarrow> rc_client \<Rightarrow> bool" where
  "marked i c \<longleftrightarrow> rk_stopping c = Some i \<and> (\<forall>s. rk_session c = Some s \<longrightarrow> ws_sessionId s = i)"

fun no_other :: "string \<Rightarrow> client_event \<Rightarrow> bool" where
  "no_other i (SessionPublished (Some s)) = (ws_sessionId s = i)"
| "no_other i _ = True"

lemma marked_handle: "marked i c \<Longrightarrow> no_other i e \<Longrightarrow> marked i (fst (handle H e c))"
  by (cases e) (auto simp: marked_def client_defs handleActionError_eq split: client_splits elim: no_other.elims)

lemma marked_clear: "marked i c \<Longrightarrow> clearStopping c = c"
  by (simp add: marked_def clearStopping_def split: option.split)

lemma marked_sync:
  assumes "marked i c"
  shows "marked i (syncState H b c)"
proof -
  define a where "a = (if rk_session c = rk_session b \<and> rk_outgoing c = rk_outgoing b then c else resolvePrompts H c)"
  define c1 where "c1 = (if map_option ws_sessionId (rk_session a) = map_option ws_sessionId (rk_session b) then a else resetSession a)"
  have "marked i a" using assms by (simp add: a_def marked_def)
  then have c1: "marked i c1" by (simp add: c1_def marked_def resetSession_def)
  have "syncState H b c = clearRenewal H (clearBootstrap (clearStopping c1))"
    by (simp only: syncState_def Let_def a_def c1_def)
  with c1 show ?thesis by (simp add: marked_clear [OF c1] marked_def)
qed

lemma marked_step:
  assumes "marked i c" and "no_other i e"
  shows "marked i (fst (clientStep H e c))"
proof -
  obtain c1 fx where h: "handle H e c = (c1, fx)" by fastforce
  have c1: "marked i c1" using marked_handle [OF assms, of H] h by simp
  have "marked i (fst (runEffects H c c1))"
    by (cases rule: runEffects_cases [of H c c1])
      (use marked_sync [OF c1, of H c] in \<open>auto simp: marked_def stopBegin_def split: option.splits\<close>)
  then show ?thesis by (simp add: clientStep_def h split_beta)
qed

lemma marked_silent:
  assumes "marked i c" and "list_all (no_other i) es" and "is_input m"
  shows "SendMessage d m \<notin> set (snd (clientRun H es c))"
  using assms
proof (induction es arbitrary: c)
  case (Cons e es)
  have "SendMessage d m \<notin> set (snd (clientStep H e c))"
    using step_input [of d m H e c] Cons.prems(1,3) by (auto simp: controlled_Some marked_def)
  with Cons marked_step [of i c e H] show ?case by (simp add: run_step del: clientRun.simps(2))
qed simp

text \<open>A stop begins with the stop intent that the hook sends; it marks the session.\<close>

lemma stopBegin_marks:
  "SendMessage d (MsgStopIntent i) \<in> set (snd (stopBegin H c)) \<Longrightarrow> marked i (fst (stopBegin H c))"
  by (auto simp: stopBegin_def marked_def split: option.splits if_splits)

lemma handle_stop_intent:
  assumes "SendMessage d (MsgStopIntent i) \<in> set (snd (handle H e c))"
  shows "handle H e c = stopBegin H c"
  using assms
  by (cases e) (auto simp: client_defs handleActionError_eq split: client_splits)

lemma stop_intent_marks:
  assumes "SendMessage d (MsgStopIntent i) \<in> set (snd (clientStep H e c))"
  shows "marked i (fst (clientStep H e c))"
proof -
  obtain c1 fx where h: "handle H e c = (c1, fx)" by fastforce
  have step: "clientStep H e c = (fst (runEffects H c c1), fx @ snd (runEffects H c c1))"
    by (simp add: clientStep_def h split_beta)
  show ?thesis
  proof (cases "SendMessage d (MsgStopIntent i) \<in> set fx")
    case True
    with handle_stop_intent [of d i H e c] stopBegin_marks [of d i H c] h have "marked i c1" by (metis fst_conv snd_conv)
    from marked_sync [OF this, of H c] show ?thesis unfolding step
      by (cases rule: runEffects_cases [of H c c1]) (auto simp: marked_def stopBegin_def split: option.splits)
  next
    case False
    with assms have "SendMessage d (MsgStopIntent i) \<in> set (snd (runEffects H c c1))" by (simp add: step)
    with stopBegin_marks show ?thesis unfolding step
      by (cases rule: runEffects_cases [of H c c1]) auto
  qed
qed

lemma stop_sends_intent:
  assumes "rk_session c = Some s" and "ws_sharerIdentity s = hk_me H \<or> ws_controllerIdentity s = hk_me H"
  shows "\<exists>d. SendMessage d (MsgStopIntent (ws_sessionId s)) \<in> set (snd (clientStep H Stop c))"
  using assms by (auto simp: clientStep_def split_beta stopBegin_def iAmSharer_def iAmController_def)

section \<open>Sequence numbers\<close>

fun sequenceOf :: "client_effect \<Rightarrow> int list" where
  "sequenceOf (SendMessage _ (MsgInput _ n _)) = [n]"
| "sequenceOf (SendMessage _ (MsgClipboardCopy _ n)) = [n]"
| "sequenceOf (SendMessage _ (MsgClipboardPaste _ n _)) = [n]"
| "sequenceOf _ = []"

definition sequences :: "client_effect list \<Rightarrow> int list" where
  "sequences fx = concat (map sequenceOf fx)"

lemma sequences_simps [simp]:
  "sequences [] = []" "sequences (x # fx) = sequenceOf x @ sequences fx" "sequences (fx @ fy) = sequences fx @ sequences fy"
  by (simp_all add: sequences_def)

definition same_session :: "web_session option \<Rightarrow> client_event \<Rightarrow> bool" where
  "same_session s e \<longleftrightarrow> (\<forall>s'. e = SessionPublished s' \<longrightarrow> map_option ws_sessionId s' = map_option ws_sessionId s)"

lemma handle_sequence:
  "(sequences (snd (handle H e c)) = [] \<and> rk_sequence (fst (handle H e c)) = rk_sequence c) \<or>
   (sequences (snd (handle H e c)) = [rk_sequence c + 1] \<and> rk_sequence (fst (handle H e c)) = rk_sequence c + 1)"
  by (cases e) (auto simp: client_defs handleActionError_eq split: client_splits)

lemma handle_session:
  "same_session (rk_session c) e \<Longrightarrow>
     map_option ws_sessionId (rk_session (fst (handle H e c))) = map_option ws_sessionId (rk_session c)"
  by (cases e) (auto simp: same_session_def client_defs handleActionError_eq split: client_splits)

lemma sync_sequence:
  "map_option ws_sessionId (rk_session c) = map_option ws_sessionId (rk_session b) \<Longrightarrow> rk_sequence (syncState H b c) = rk_sequence c"
  by (simp add: syncState_def Let_def)

lemma effects_sequence:
  assumes "map_option ws_sessionId (rk_session c) = map_option ws_sessionId (rk_session b)"
  shows "rk_sequence (fst (runEffects H b c)) = rk_sequence c \<and> sequences (snd (runEffects H b c)) = [] \<and>
    rk_session (fst (runEffects H b c)) = rk_session c"
  by (cases rule: runEffects_cases [of H b c])
    (use sync_sequence [OF assms, of H] in \<open>simp_all, simp_all add: stopBegin_def split: option.split\<close>)

lemma step_sequence:
  assumes "same_session (rk_session c) e"
  shows "map_option ws_sessionId (rk_session (fst (clientStep H e c))) = map_option ws_sessionId (rk_session c) \<and>
    ((sequences (snd (clientStep H e c)) = [] \<and> rk_sequence (fst (clientStep H e c)) = rk_sequence c) \<or>
     (sequences (snd (clientStep H e c)) = [rk_sequence c + 1] \<and> rk_sequence (fst (clientStep H e c)) = rk_sequence c + 1))"
  using handle_sequence [of H e c] handle_session [OF assms, of H]
    effects_sequence [OF handle_session [OF assms, of H], of H]
  by (auto simp: clientStep_def split_beta)

lemma run_sequence:
  assumes "list_all (same_session (rk_session c)) es"
  shows "sorted_wrt (<) (sequences (snd (clientRun H es c))) \<and> (\<forall>n \<in> set (sequences (snd (clientRun H es c))). rk_sequence c < n)"
  using assms
proof (induction es arbitrary: c)
  case (Cons e es)
  let ?c = "fst (clientStep H e c)"
  have e: "same_session (rk_session c) e" using Cons.prems by simp
  note st = step_sequence [OF e, of H]
  have "same_session (rk_session ?c) = same_session (rk_session c)" using st by (simp add: fun_eq_iff same_session_def)
  then have "list_all (same_session (rk_session ?c)) es" using Cons.prems by simp
  from Cons.IH [OF this] st show ?case
    by (auto simp: run_step simp del: clientRun.simps(2))
qed simp

section \<open>The clipboard\<close>

lemma effects_no_write: "WriteClipboard t r \<notin> set (snd (runEffects H b c))"
  by (cases rule: runEffects_cases [of H b c]) (auto simp: stopBegin_def split: option.splits if_splits)

lemma handle_write:
  assumes "WriteClipboard t r \<in> set (snd (handle H e c))"
  shows "\<exists>s p x. e = Data (Some s) REMOTE_CONTROL_TOPIC p \<and> decodeRemoteControlMessage p = Some (MsgClipboardUpdate (ws_sessionId x) r t) \<and>
    rk_session c = Some x \<and> ws_controllerIdentity x = hk_me H \<and> ws_status x = AgentActive \<and> sd_identity s = ws_agentIdentity x \<and>
    rk_revision c < r"
  using assms
  by (cases e) (auto simp: client_defs handleActionError_eq iAmController_def split: client_splits)

section \<open>Properties\<close>

text \<open>C8. The consent prompts of Remote Control cannot be forged. After any events, in any order and with any answers of
  the server, a request that the hook shows is well-formed, belongs to this room and is addressed to this very
  participant, and a request it waits for was made by this participant; and a data message changes neither unless
  it comes from the other side of that request.\<close>

theorem prompts_bound:
  "prompts_ok H (fst (clientRun H es startClient)) \<and>
   (let c' = fst (handle H (Data s topic p) c) in
    (\<forall>q. rk_incoming c = Some q \<and> rk_incoming c' \<noteq> Some q \<longrightarrow> map_option sd_identity s = Some (wq_controllerIdentity q)) \<and>
    (\<forall>q. rk_outgoing c = Some q \<and> rk_outgoing c' \<noteq> Some q \<longrightarrow> map_option sd_identity s = Some (wq_sharerIdentity q)))"
proof -
  have "prompts_ok H startClient" by (simp add: prompts_ok_def startClient_def)
  from prompts_run [OF this] show ?thesis
    by (auto simp: client_defs Let_def split: client_splits)
qed

text \<open>C7. Input goes only where it may. Every input event and every copy command that the hook sends goes to the
  Control Agent of the session that the room publishes as active, by its Controller alone and never while that session
  is being stopped. When the Sharer or the Controller stops the session, the hook sends a stop intent; and after a step
  in which it sends one, for this click or for the other side's stop, no input event and no copy command is sent,
  until another session is published. Within one session the sequence numbers strictly increase. Received clipboard text is written only when it comes from
  that agent, to the Controller, with a revision newer than the last.\<close>

theorem input_confined:
  "(SendMessage d m \<in> set (snd (clientStep H e c)) \<and> is_input m \<longrightarrow>
      (\<exists>s. rk_session c = Some s \<and> ws_controllerIdentity s = hk_me H \<and> ws_status s = AgentActive \<and> ws_agentConnected s \<and>
        rk_stopping c \<noteq> Some (ws_sessionId s) \<and> d = [ws_agentIdentity s] \<and> idOf m = ws_sessionId s)) \<and>
   (rk_session c = Some x \<and> (ws_sharerIdentity x = hk_me H \<or> ws_controllerIdentity x = hk_me H) \<longrightarrow>
      (\<exists>d. SendMessage d (MsgStopIntent (ws_sessionId x)) \<in> set (snd (clientStep H Stop c)))) \<and>
   (SendMessage ids (MsgStopIntent i) \<in> set (snd (clientStep H e c)) \<and> list_all (no_other i) es \<and> is_input m \<longrightarrow>
      SendMessage d m \<notin> set (snd (clientRun H es (fst (clientStep H e c))))) \<and>
   (list_all (same_session (rk_session c)) es \<longrightarrow> sorted_wrt (<) (sequences (snd (clientRun H es c)))) \<and>
   (WriteClipboard t r \<in> set (snd (clientStep H e c)) \<longrightarrow>
      (\<exists>s p x. e = Data (Some s) REMOTE_CONTROL_TOPIC p \<and> rk_session c = Some x \<and> sd_identity s = ws_agentIdentity x \<and>
        ws_controllerIdentity x = hk_me H \<and> ws_status x = AgentActive \<and> rk_revision c < r))"
proof (intro conjI impI)
  assume "SendMessage d m \<in> set (snd (clientStep H e c)) \<and> is_input m"
  then show "\<exists>s. rk_session c = Some s \<and> ws_controllerIdentity s = hk_me H \<and> ws_status s = AgentActive \<and> ws_agentConnected s \<and>
      rk_stopping c \<noteq> Some (ws_sessionId s) \<and> d = [ws_agentIdentity s] \<and> idOf m = ws_sessionId s"
    using step_input [of d m H e c] by (auto simp: controlled_Some)
next
  assume "WriteClipboard t r \<in> set (snd (clientStep H e c))"
  then have "WriteClipboard t r \<in> set (snd (handle H e c))"
    using effects_no_write by (auto simp: clientStep_def split_beta)
  from handle_write [OF this]
  show "\<exists>s p x. e = Data (Some s) REMOTE_CONTROL_TOPIC p \<and> rk_session c = Some x \<and> sd_identity s = ws_agentIdentity x \<and>
        ws_controllerIdentity x = hk_me H \<and> ws_status x = AgentActive \<and> rk_revision c < r" by blast
qed (use stop_sends_intent marked_silent [OF stop_intent_marks] run_sequence in \<open>blast+\<close>)

section \<open>A session in the demonstration room\<close>

definition demoHook :: hook where
  "demoHook = \<lparr>hk_room = ''abc-defg-hij'', hk_me = ''bob'', hk_date = (\<lambda>s. Some 0)\<rparr>"

definition demoSession :: web_session where
  "demoSession = \<lparr>ws_sessionId = ''s1'', ws_status = AgentActive, ws_sharerIdentity = ''ann'', ws_sharerName = ''Ann'',
     ws_controllerIdentity = ''bob'', ws_controllerName = ''Bob'', ws_agentIdentity = ''control-agent:1'',
     ws_agentConnected = True, ws_renewalDueAt = ''later''\<rparr>"

definition demoAsked :: web_request where
  "demoAsked = \<lparr>wq_requestId = ''s1'', wq_room = ''abc-defg-hij'', wq_sharerIdentity = ''ann'', wq_sharerName = ''Ann'',
     wq_controllerIdentity = ''bob'', wq_controllerName = ''Bob'', wq_requestedAt = [], wq_expiresAt = [],
     wq_expiresInMs = Some 30000\<rparr>"

definition demoEvents :: "client_event list" where
  "demoEvents = [Ask ''ann'', Asked ''ann'' (Inr demoAsked), AskNotified True, SessionPublished (Some demoSession)]"

theorem prompts_bound_witness:
  "prompts_ok demoHook (fst (clientRun demoHook demoEvents startClient)) \<and>
   rk_outgoing (fst (clientRun demoHook (take 3 demoEvents) startClient)) = Some demoAsked \<and>
   rk_outgoing (fst (handle demoHook (Data (Some \<lparr>sd_identity = ''eve'', sd_agent = False\<rparr>) REMOTE_CONTROL_TOPIC
       \<lparr>jt_length = 90, jt_value = Some (JObj (messageFields (MsgDenied ''s1'')))\<rparr>)
     (fst (clientRun demoHook (take 3 demoEvents) startClient)))) = Some demoAsked"
proof -
  let ?c = "fst (clientRun demoHook (take 3 demoEvents) startClient)"
    and ?p = "\<lparr>jt_length = 90, jt_value = Some (JObj (messageFields (MsgDenied ''s1'')))\<rparr>"
  have o: "rk_outgoing ?c = Some demoAsked" by code_simp
  moreover have "rk_outgoing (fst (handle demoHook (Data (Some \<lparr>sd_identity = ''eve'', sd_agent = False\<rparr>) REMOTE_CONTROL_TOPIC ?p) ?c)) = Some demoAsked"
    using prompts_bound [of demoHook demoEvents "Some \<lparr>sd_identity = ''eve'', sd_agent = False\<rparr>" REMOTE_CONTROL_TOPIC ?p ?c] o
    by (auto simp: Let_def demoAsked_def)
  ultimately show ?thesis using prompts_bound [of demoHook demoEvents] by (simp add: Let_def)
qed

theorem input_confined_witness:
  "sequences (snd (clientRun demoHook [Input (Move 0 0), ClipboardCopy, Input (Move 1 1)]
      (fst (clientRun demoHook demoEvents startClient)))) = [1, 2, 3] \<and>
   (\<forall>d ev. SendMessage d (MsgInput ''s1'' 1 ev) \<notin> set (snd (clientRun demoHook [Input (Move 0 0), ClipboardCopy]
      (fst (clientStep demoHook Stop (fst (clientRun demoHook demoEvents startClient)))))))"
proof -
  let ?c = "fst (clientRun demoHook demoEvents startClient)"
  have "SendMessage [''ann'', ''bob'', ''control-agent:1''] (MsgStopIntent ''s1'') \<in> set (snd (clientStep demoHook Stop ?c))"
    by code_simp
  moreover have "sequences (snd (clientRun demoHook [Input (Move 0 0), ClipboardCopy, Input (Move 1 1)] ?c)) = [1, 2, 3]"
    by code_simp
  ultimately show ?thesis
    using input_confined [of _ _ demoHook Stop ?c _ _ "''s1''" "[Input (Move 0 0), ClipboardCopy]"]
    by (auto simp del: clientRun.simps)
qed

section \<open>Two races\<close>

text \<open>
  A paste whose clipboard read comes back after the stop is still sent to the agent of the session that is being
  stopped: unlike the others, \<^verbatim>\<open>pasteClipboard\<close> checks only before it waits.
\<close>

lemma late_paste:
  "snd (clientRun demoHook (demoEvents @ [Paste, Stop, PasteRead demoSession (Some ''secret'')]) startClient) =
     [Call (ApiRequest ''ann''), SendMessage [''ann''] (MsgRequest ''s1''), ReadClipboard,
      SendMessage [''ann'', ''bob'', ''control-agent:1''] (MsgStopIntent ''s1''), Call (ApiStop ''s1''),
      SendMessage [''control-agent:1''] (MsgClipboardPaste ''s1'' 1 ''secret'')]"
  by code_simp

text \<open>
  An approval that is answered before the room's metadata shows the session loses the bootstrap code at once, because
  the effect that drops the code of another session also runs while there is none.
\<close>

lemma early_approval_loses_code:
  assumes "rk_session c = None"
  shows "rk_bootstrap (fst (clientStep H (Approved q res) c)) = None"
proof -
  obtain c1 fx where h: "handle H (Approved q res) c = (c1, fx)" by fastforce
  have "rk_session c1 = None"
    using assms h by (auto simp: client_defs handleActionError_eq split: client_splits)
  then have "runEffects H c c1 = (syncState H c c1, [])" "rk_bootstrap (syncState H c c1) = None"
    using assms by (simp_all add: runEffects_def syncState_def clearBootstrap_def Let_def split: option.split)
  then show ?thesis unfolding clientStep_def h by (simp add: split_beta)
qed

end
