(* ===== verification/StopRetry.thy ===== *)
theory StopRetry
  imports ControlClient
begin

text \<open>
  The loops with which the browser insists on stopping something: Remote Control
  (\<^verbatim>\<open>useRemoteControl.ts\<close>), a recording (\<^verbatim>\<open>useRecording.ts\<close>) and a presentation (\<^verbatim>\<open>usePresentation.ts\<close>).
  They have one shape: try until a deadline ten seconds away, with pauses that double from a
  quarter of a second to two seconds. \<open>attempt t\<close> is a try at the time \<open>t\<close>, with its result (\<open>None\<close>
  if it failed) and the time it came back; the try itself is \<open>None\<close> when it never comes back. The code
  does not exclude that: \<^verbatim>\<open>httpFetch\<close> (\<^verbatim>\<open>lib/http.ts\<close>) clears its timer when the headers of the answer
  have arrived, so nothing limits the reading of the body, and \<^verbatim>\<open>setScreenShareEnabled\<close> is awaited without a
  time limit. \<open>sleep t p\<close> is the time at which a timer set at \<open>t\<close> for \<open>p\<close>
  fires; \<open>alive t\<close> is whether the component is still mounted. The loop is partial: it does not end when a
  try does not, or with a clock that stands still.
\<close>

partial_function (option) retryLoop ::
    "(int \<Rightarrow> bool) \<Rightarrow> (int \<Rightarrow> int \<Rightarrow> int) \<Rightarrow> (int \<Rightarrow> ('a option \<times> int) option) \<Rightarrow> int \<Rightarrow> int \<Rightarrow> int \<Rightarrow> nat \<Rightarrow>
      ('a option \<times> int \<times> nat) option" where
  "retryLoop alive sleep attempt deadline pause t n =
     (if \<not> alive t \<or> t \<ge> deadline then Some (None, t, n)
      else case attempt t of
        None \<Rightarrow> None
      | Some (Some r, t1) \<Rightarrow> Some (Some r, t1, n + 1)
      | Some (None, t1) \<Rightarrow> retryLoop alive sleep attempt deadline (min (pause * 2) 2000) (sleep t1 pause) (n + 1))"

definition insist ::
    "(int \<Rightarrow> bool) \<Rightarrow> (int \<Rightarrow> int \<Rightarrow> int) \<Rightarrow> (int \<Rightarrow> ('a option \<times> int) option) \<Rightarrow> int \<Rightarrow> ('a option \<times> int \<times> nat) option" where
  "insist alive sleep attempt now = retryLoop alive sleep attempt (now + 10000) 250 now 0"

type_synonym 'e call = "int \<Rightarrow> (('e + unit) \<times> int) option"

text \<open>\<^verbatim>\<open>stop\<close> of Remote Control: a session that is already gone counts as stopped.\<close>

definition tryStop :: "web_error call \<Rightarrow> int \<Rightarrow> (stop_outcome option \<times> int) option" where
  "tryStop call t =
     (case call t of
        None \<Rightarrow> None
      | Some (Inr _, t1) \<Rightarrow> Some (Some StopConfirmed, t1)
      | Some (Inl e, t1) \<Rightarrow> Some (if notFound e then Some StopGone else None, t1))"

definition controlStop ::
    "(int \<Rightarrow> int \<Rightarrow> int) \<Rightarrow> web_error call \<Rightarrow> int \<Rightarrow> (stop_outcome \<times> int \<times> nat) option" where
  "controlStop sleep call now =
     (case insist (\<lambda>_. True) sleep (tryStop call) now of
        None \<Rightarrow> None
      | Some (r, t, n) \<Rightarrow> Some (case r of Some x \<Rightarrow> x | None \<Rightarrow> StopTimedOut, t, n))"

text \<open>\<^verbatim>\<open>stopRecording\<close>: whether it failed in the end.\<close>

definition trySimple :: "web_error call \<Rightarrow> int \<Rightarrow> (unit option \<times> int) option" where
  "trySimple call t =
     (case call t of
        None \<Rightarrow> None | Some (Inr _, t1) \<Rightarrow> Some (Some (), t1) | Some (Inl _, t1) \<Rightarrow> Some (None, t1))"

definition recordingStop ::
    "(int \<Rightarrow> int \<Rightarrow> int) \<Rightarrow> web_error call \<Rightarrow> int \<Rightarrow> (bool \<times> int \<times> nat) option" where
  "recordingStop sleep call now =
     (case insist (\<lambda>_. True) sleep (trySimple call) now of
        None \<Rightarrow> None
      | Some (r, t, n) \<Rightarrow> Some (r = None, t, n))"

text \<open>\<^verbatim>\<open>stopMyShareOptimistically\<close>, up to its background retries.\<close>

definition presentationStop ::
    "(int \<Rightarrow> bool) \<Rightarrow> (int \<Rightarrow> int \<Rightarrow> int) \<Rightarrow> web_error call \<Rightarrow> int \<Rightarrow> (bool \<times> int \<times> nat) option" where
  "presentationStop mounted sleep call now =
     (case insist mounted sleep (trySimple call) now of
        None \<Rightarrow> None
      | Some (r, t, n) \<Rightarrow> Some (r = None, t, n))"

section \<open>When the loops end\<close>

definition pauseAt :: "nat \<Rightarrow> int" where
  "pauseAt n = min (250 * 2 ^ n) 2000"

primrec pauses :: "nat \<Rightarrow> int" where
  "pauses 0 = 0"
| "pauses (Suc n) = pauses n + pauseAt n"

lemma pauseAt_Suc: "min (pauseAt n * 2) 2000 = pauseAt (Suc n)"
  by (simp add: pauseAt_def min_def)

lemma pauseAt_bounds: "0 \<le> pauseAt n" "pauseAt n \<le> 2000"
  by (simp_all add: pauseAt_def)

lemma pauses_8: "pauses 8 = 11750"
  by code_simp

text \<open>
  \<open>punctual sleep attempt slack\<close>: timers do not fire early and at most \<open>slack\<close> late, and a try that comes back
  does not come back before it began. How long a try takes is not limited.
\<close>

definition punctual :: "(int \<Rightarrow> int \<Rightarrow> int) \<Rightarrow> (int \<Rightarrow> ('a \<times> int) option) \<Rightarrow> int \<Rightarrow> bool" where
  "punctual sleep call slack \<longleftrightarrow> (\<forall>t p. t + p \<le> sleep t p \<and> sleep t p \<le> t + p + slack) \<and>
     (\<forall>t x t1. call t = Some (x, t1) \<longrightarrow> t \<le> t1)"

text \<open>
  \<open>last_try call now t slack\<close>: the loop ended at \<open>t\<close> without a try at all, or at most one pause after a try that it
  began in the ten seconds came back.
\<close>

definition last_try :: "(int \<Rightarrow> ('a \<times> int) option) \<Rightarrow> int \<Rightarrow> int \<Rightarrow> int \<Rightarrow> bool" where
  "last_try call now t slack \<longleftrightarrow> t = now \<or>
     (\<exists>t0 x t1. now \<le> t0 \<and> t0 < now + 10000 \<and> call t0 = Some (x, t1) \<and> t1 \<le> t \<and> t \<le> t1 + 2000 + slack)"

definition stuck_try :: "(int \<Rightarrow> 'a option) \<Rightarrow> int \<Rightarrow> bool" where
  "stuck_try call now \<longleftrightarrow> (\<exists>t0. now \<le> t0 \<and> t0 < now + 10000 \<and> call t0 = None)"

lemma retryLoop_ends:
  assumes "punctual sleep attempt slack" and "now + pauses n \<le> t" and "now \<le> t" and "last_try attempt now t slack" and "n \<le> 8"
  shows "case retryLoop alive sleep attempt (now + 10000) (pauseAt n) t n of
      None \<Rightarrow> stuck_try attempt now
    | Some (r, t', k) \<Rightarrow> k \<le> 8 \<and> last_try attempt now t' slack"
  using assms(2-5)
proof (induction "8 - n" arbitrary: n t)
  case 0
  then show ?case using pauses_8 by (subst retryLoop.simps) simp
next
  case (Suc m)
  show ?case
  proof (cases "\<not> alive t \<or> now + 10000 \<le> t \<or> attempt t = None")
    case True
    then show ?thesis using Suc.prems by (subst retryLoop.simps) (auto simp: stuck_try_def not_le)
  next
    case False
    then obtain a t1 where a: "attempt t = Some (a, t1)" by fastforce
    have t1: "t \<le> t1" using assms(1) a by (auto simp: punctual_def)
    let ?t = "sleep t1 (pauseAt n)"
    have s: "t1 + pauseAt n \<le> ?t" "?t \<le> t1 + pauseAt n + slack" using assms(1) by (auto simp: punctual_def)
    have l: "last_try attempt now t' slack" if "t1 \<le> t'" "t' \<le> t1 + 2000 + slack" for t'
      using False a Suc.prems(2) that unfolding last_try_def by (auto simp: not_le)
    show ?thesis
    proof (cases a)
      case None
      have "last_try attempt now ?t slack" using l [of ?t] s pauseAt_bounds [of n] by simp
      with Suc.hyps(1) [of "Suc n" ?t] Suc.hyps(2) Suc.prems t1 s pauseAt_bounds(1) [of n]
      have "case retryLoop alive sleep attempt (now + 10000) (pauseAt (Suc n)) ?t (Suc n) of
          None \<Rightarrow> stuck_try attempt now
        | Some (r, t', k) \<Rightarrow> k \<le> 8 \<and> last_try attempt now t' slack" by simp
      then show ?thesis using False None a by (subst retryLoop.simps) (simp add: pauseAt_Suc)
    next
      case (Some r)
      then show ?thesis using False a l [of t1] s Suc.prems(4) Suc.hyps(2) by (subst retryLoop.simps) simp
    qed
  qed
qed

lemma insist_ends:
  assumes "punctual sleep attempt slack"
  shows "case insist alive sleep attempt now of
      None \<Rightarrow> stuck_try attempt now | Some (r, t, n) \<Rightarrow> n \<le> 8 \<and> last_try attempt now t slack"
  using retryLoop_ends [OF assms, of now 0 now alive] by (simp add: insist_def pauseAt_def last_try_def)

lemma try_None [simp]: "tryStop call t = None \<longleftrightarrow> call t = None" "trySimple call t = None \<longleftrightarrow> call t = None"
  by (auto simp: tryStop_def trySimple_def split: option.splits sum.splits)

lemma try_time:
  "tryStop call t = Some (x, t1) \<Longrightarrow> \<exists>y. call t = Some (y, t1)"
  "trySimple call t = Some (u, t1) \<Longrightarrow> \<exists>y. call t = Some (y, t1)"
  by (auto simp: tryStop_def trySimple_def split: option.splits sum.splits)

lemma try_lifts:
  "punctual sleep call slack \<Longrightarrow> punctual sleep (tryStop call) slack"
  "punctual sleep call slack \<Longrightarrow> punctual sleep (trySimple call) slack"
  "last_try (tryStop call) now t slack \<Longrightarrow> last_try call now t slack"
  "last_try (trySimple call) now t slack \<Longrightarrow> last_try call now t slack"
  "stuck_try (tryStop call) now = stuck_try call now" "stuck_try (trySimple call) now = stuck_try call now"
  unfolding punctual_def last_try_def stuck_try_def try_None
  by (blast dest: try_time)+

text \<open>A first try that never comes back keeps each loop from ending.\<close>

lemma stuck_first_try:
  assumes "call now = None"
  shows "controlStop sleep call now = None" "recordingStop sleep call now = None"
    "mounted now \<Longrightarrow> presentationStop mounted sleep call now = None"
  using try_None [of call now] assms
  by (simp_all add: controlStop_def recordingStop_def presentationStop_def insist_def retryLoop.simps del: try_None)

definition loopResult :: "(int \<Rightarrow> bool) \<Rightarrow> (int \<Rightarrow> ('a option \<times> int) option) \<Rightarrow> int \<Rightarrow> 'a option \<Rightarrow> int \<Rightarrow> bool" where
  "loopResult alive attempt deadline r t' \<longleftrightarrow>
     (case r of
        None \<Rightarrow> \<not> alive t' \<or> deadline \<le> t'
      | Some x \<Rightarrow> \<exists>t0 < deadline. attempt t0 = Some (Some x, t'))"

lemma retryLoop_result:
  assumes "retryLoop alive sleep attempt deadline pause t n = Some (r, t', k)"
  shows "loopResult alive attempt deadline r t'"
proof -
  have "case (r, t', k) of (r, t', k) \<Rightarrow> loopResult alive attempt deadline r t'"
  proof (rule retryLoop.raw_induct [OF _ assms,
        where P = "\<lambda>alive _ attempt deadline _ _ _ y. case y of (r, t', k) \<Rightarrow> loopResult alive attempt deadline r t'"],
      goal_cases)
    case (1 loop al sl att dl pause t n y)
    show ?case
    proof (cases "\<not> al t \<or> dl \<le> t")
      case True
      then show ?thesis using 1(2) by (auto simp: loopResult_def)
    next
      case False
      with 1(2) obtain a t1 where a: "att t = Some (a, t1)" by (cases "att t") auto
      show ?thesis
      proof (cases a)
        case None
        with 1(2) False a have "loop al sl att dl (min (pause * 2) 2000) (sl t1 pause) (n + 1) = Some y" by simp
        then show ?thesis by (rule 1(1))
      next
        case (Some x)
        with 1(2) False a show ?thesis by (auto simp: loopResult_def not_le)
      qed
    qed
  qed
  then show ?thesis by simp
qed

lemma try_cases:
  "tryStop call t = Some (Some x, t') \<Longrightarrow>
     x = StopConfirmed \<and> call t = Some (Inr (), t') \<or> x = StopGone \<and> (\<exists>e. call t = Some (Inl e, t') \<and> notFound e)"
  "trySimple call t = Some (Some u, t') \<Longrightarrow> call t = Some (Inr (), t')"
  by (auto simp: tryStop_def trySimple_def split: option.splits prod.splits sum.splits if_splits)

lemma controlStop_result:
  assumes "controlStop sleep call now = Some (r, t, n)"
  shows "case r of
      StopConfirmed \<Rightarrow> \<exists>t0 < now + 10000. call t0 = Some (Inr (), t)
    | StopGone \<Rightarrow> \<exists>t0 < now + 10000. \<exists>e. call t0 = Some (Inl e, t) \<and> notFound e
    | StopTimedOut \<Rightarrow> now + 10000 \<le> t"
proof -
  from assms obtain x where x: "insist (\<lambda>_. True) sleep (tryStop call) now = Some (x, t, n)"
    and r: "r = (case x of Some x \<Rightarrow> x | None \<Rightarrow> StopTimedOut)"
    by (auto simp: controlStop_def split: option.splits)
  show ?thesis
    using retryLoop_result [OF x [unfolded insist_def]] unfolding r
    by (cases x) (auto simp: loopResult_def dest!: try_cases, blast)
qed

lemma simpleStop_result:
  assumes "insist mounted sleep (trySimple call) now = Some (r, t, n)"
  shows "if r = None then \<not> mounted t \<or> now + 10000 \<le> t else \<exists>t0 < now + 10000. call t0 = Some (Inr (), t)"
  using retryLoop_result [OF assms [unfolded insist_def]] by (cases r) (auto simp: loopResult_def dest!: try_cases)

text \<open>C17. What the stop loops of the browser guarantee, for timers that do not fire early and tries that take as
  long as they like. A loop that does not end waits for a try, begun in the ten seconds, that
  never comes back; otherwise it ends after at most eight tries, and at most one pause (two seconds and a
  timer's delay) after the last of them came back. The Remote Control loop reports a stop only if the API confirmed one
  to a try begun in the ten seconds, a session that is gone only if such a try was told so, and a timeout only when the ten
  seconds are over, after which the person leaves the call; the recording and the presentation loop report success
  only on a confirmation, and a failure only after the ten seconds or, for the presentation, when it is unmounted.\<close>

theorem stop_loops_end:
  assumes "punctual sleep call slack"
  shows "(case controlStop sleep call now of
      None \<Rightarrow> stuck_try call now
    | Some (r, t, n) \<Rightarrow> n \<le> 8 \<and> last_try call now t slack \<and>
       (case r of
         StopConfirmed \<Rightarrow> \<exists>t0 < now + 10000. call t0 = Some (Inr (), t)
       | StopGone \<Rightarrow> \<exists>t0 < now + 10000. \<exists>e. call t0 = Some (Inl e, t) \<and> notFound e
       | StopTimedOut \<Rightarrow> now + 10000 \<le> t)) \<and>
    (case recordingStop sleep call now of
      None \<Rightarrow> stuck_try call now
    | Some (failed, t, n) \<Rightarrow> n \<le> 8 \<and> last_try call now t slack \<and>
       (if failed then now + 10000 \<le> t else \<exists>t0 < now + 10000. call t0 = Some (Inr (), t))) \<and>
    (case presentationStop mounted sleep call now of
      None \<Rightarrow> stuck_try call now
    | Some (failed, t, n) \<Rightarrow> n \<le> 8 \<and> last_try call now t slack \<and>
       (if failed then \<not> mounted t \<or> now + 10000 \<le> t else \<exists>t0 < now + 10000. call t0 = Some (Inr (), t))) \<and>
    stopEnd StopTimedOut c = (c\<lparr>rk_busy := None\<rparr>, [Toast ''REMOTE_CONTROL_STOP_TIMEOUT'', LeaveCall])"
proof (intro conjI)
  note lifts = try_lifts(1,2) [OF assms] and ends = try_lifts(3-6)
  note c = insist_ends [OF lifts(1), where now = now and alive = "\<lambda>_. True"] and d = insist_ends [OF lifts(2), where now = now]
  show "case controlStop sleep call now of
      None \<Rightarrow> stuck_try call now
    | Some (r, t, n) \<Rightarrow> n \<le> 8 \<and> last_try call now t slack \<and>
       (case r of
         StopConfirmed \<Rightarrow> \<exists>t0 < now + 10000. call t0 = Some (Inr (), t)
       | StopGone \<Rightarrow> \<exists>t0 < now + 10000. \<exists>e. call t0 = Some (Inl e, t) \<and> notFound e
       | StopTimedOut \<Rightarrow> now + 10000 \<le> t)"
    using c controlStop_result [of sleep call now]
    by (cases "insist (\<lambda>_. True) sleep (tryStop call) now") (auto simp: controlStop_def ends)
  show "case recordingStop sleep call now of
      None \<Rightarrow> stuck_try call now
    | Some (failed, t, n) \<Rightarrow> n \<le> 8 \<and> last_try call now t slack \<and>
       (if failed then now + 10000 \<le> t else \<exists>t0 < now + 10000. call t0 = Some (Inr (), t))"
    using d [where alive = "\<lambda>_. True"] simpleStop_result [of "\<lambda>_. True" sleep call now]
    by (cases "insist (\<lambda>_. True) sleep (trySimple call) now") (auto simp: recordingStop_def ends split: if_splits)
  show "case presentationStop mounted sleep call now of
      None \<Rightarrow> stuck_try call now
    | Some (failed, t, n) \<Rightarrow> n \<le> 8 \<and> last_try call now t slack \<and>
       (if failed then \<not> mounted t \<or> now + 10000 \<le> t else \<exists>t0 < now + 10000. call t0 = Some (Inr (), t))"
    using d [where alive = mounted] simpleStop_result [of mounted sleep call now]
    by (cases "insist mounted sleep (trySimple call) now") (auto simp: presentationStop_def ends split: if_splits)
qed (simp add: stopEnd_def)

text \<open>Tries that fail after two seconds each, with timers three milliseconds late.\<close>

theorem stop_loops_end_witness:
  "\<exists>failed t n. recordingStop (\<lambda>t p. t + p + 3) (\<lambda>t. Some (Inl BadJson, t + 2000)) 0 = Some (failed, t, n) \<and>
    n \<le> 8 \<and> 10000 \<le> t \<and> t \<le> 14003 \<and> failed"
proof -
  have p: "punctual (\<lambda>t p. t + p + 3) (\<lambda>t. Some (Inl BadJson :: web_error + unit, t + 2000)) 3" by (simp add: punctual_def)
  have "case recordingStop (\<lambda>t p. t + p + 3) (\<lambda>t. Some (Inl BadJson, t + 2000)) 0 of
      None \<Rightarrow> stuck_try (\<lambda>t. Some (Inl BadJson :: web_error + unit, t + 2000)) 0
    | Some (failed, t, n) \<Rightarrow> n \<le> 8 \<and> last_try (\<lambda>t. Some (Inl BadJson :: web_error + unit, t + 2000)) 0 t 3 \<and>
       (if failed then 0 + 10000 \<le> t else \<exists>t0 < 0 + 10000. Some (Inl BadJson :: web_error + unit, t0 + 2000) = Some (Inr (), t))"
    using stop_loops_end [OF p, where now = 0 and mounted = "\<lambda>_. True"] by blast
  then show ?thesis
    by (cases "recordingStop (\<lambda>t p. t + p + 3) (\<lambda>t. Some (Inl BadJson, t + 2000)) 0")
      (auto simp: stuck_try_def last_try_def split: if_splits)
qed

end
