(* ===== verification/CallSignals.thy ===== *)
theory CallSignals
  imports ControlProtocol
begin

text \<open>
  The two small protocols that the browsers of a call speak over LiveKit data messages:
  \<^verbatim>\<open>apps/web/src/lib/presentProtocol.ts\<close> (Ask to Present) and \<^verbatim>\<open>lib/recordProtocol.ts\<close> (Request to Record). Both
  write an object with \<^verbatim>\<open>JSON.stringify\<close> and read whatever \<^verbatim>\<open>JSON.parse\<close> gives: unlike the Remote Control
  protocol they validate nothing, so a field of a received message is any JSON value or
  \<^verbatim>\<open>undefined\<close>.
\<close>

definition PRESENT_TOPIC :: string where "PRESENT_TOPIC = ''huddle:present''"
definition RECORD_TOPIC :: string where "RECORD_TOPIC = ''huddle:record''"

text \<open>A property of a decoded message that is not \<^verbatim>\<open>null\<close>, and the operator \<^verbatim>\<open>===\<close> on two such properties:
  two objects, parsed separately, are never the same.\<close>

fun propOf :: "string \<Rightarrow> json \<Rightarrow> json option" where
  "propOf key (JObj fs) = map_of fs key"
| "propOf key _ = None"

fun jsEq :: "json option \<Rightarrow> json option \<Rightarrow> bool" where
  "jsEq (Some (JArr _)) _ = False"
| "jsEq (Some (JObj _)) _ = False"
| "jsEq a b = (a = b)"

text \<open>\<^verbatim>\<open>JSON.stringify\<close> of an object literal leaves the undefined properties out.\<close>

definition literal :: "(string \<times> json option) list \<Rightarrow> json" where
  "literal fs = JObj (concat (map (\<lambda>(k, v). case v of None \<Rightarrow> [] | Some x \<Rightarrow> [(k, x)]) fs))"

datatype present_message =
    PresentRequest string string string
  | PresentCancel string string
  | PresentYield "json option"
  | PresentDecline "json option"
  | PresentForceTake

fun presentJson :: "present_message \<Rightarrow> json" where
  "presentJson (PresentRequest rid who name) = literal [(''type'', Some (JStr ''present:request'')),
     (''requestId'', Some (JStr rid)), (''requesterId'', Some (JStr who)), (''requesterName'', Some (JStr name))]"
| "presentJson (PresentCancel rid who) = literal [(''type'', Some (JStr ''present:cancel'')),
     (''requestId'', Some (JStr rid)), (''requesterId'', Some (JStr who))]"
| "presentJson (PresentYield rid) = literal [(''type'', Some (JStr ''present:yield'')), (''requestId'', rid)]"
| "presentJson (PresentDecline rid) = literal [(''type'', Some (JStr ''present:decline'')), (''requestId'', rid)]"
| "presentJson PresentForceTake = literal [(''type'', Some (JStr ''present:force-take''))]"

datatype record_message =
    RecordRequest string string string
  | RecordCancel string string
  | RecordApprove "json option"
  | RecordDeny "json option"

fun recordJson :: "record_message \<Rightarrow> json" where
  "recordJson (RecordRequest rid who name) = literal [(''type'', Some (JStr ''record:request'')),
     (''requestId'', Some (JStr rid)), (''requesterId'', Some (JStr who)), (''requesterName'', Some (JStr name))]"
| "recordJson (RecordCancel rid who) = literal [(''type'', Some (JStr ''record:cancel'')),
     (''requestId'', Some (JStr rid)), (''requesterId'', Some (JStr who))]"
| "recordJson (RecordApprove rid) = literal [(''type'', Some (JStr ''record:approve'')), (''requestId'', rid)]"
| "recordJson (RecordDeny rid) = literal [(''type'', Some (JStr ''record:deny'')), (''requestId'', rid)]"

text \<open>
  \<^verbatim>\<open>encode\<close> and \<^verbatim>\<open>decode\<close> of the two protocols: a packet that is no JSON text decodes to \<^verbatim>\<open>null\<close>. \<open>readable\<close> is the
  check \<^verbatim>\<open>if (!msg) return\<close> of the two listeners.
\<close>

definition encodeSignal :: "(rat \<Rightarrow> nat) \<Rightarrow> json \<Rightarrow> json_text" where
  "encodeSignal N value = \<lparr>jt_length = jsonBytes N value, jt_value = Some value\<rparr>"

definition decodeSignal :: "json_text \<Rightarrow> json option" where
  "decodeSignal data = jt_value data"

definition readable :: "json_text \<Rightarrow> json option" where
  "readable data = (let msg = decodeSignal data in if jtruthy msg then msg else None)"

lemma readable_literal [simp]: "readable (encodeSignal N (literal fs)) = Some (literal fs)"
  by (simp add: readable_def encodeSignal_def decodeSignal_def literal_def)

lemma propOf_literal [simp]:
  "propOf k (literal []) = None"
  "propOf k (literal ((k', v) # fs)) = (if k = k' \<and> v \<noteq> None then v else propOf k (literal fs))"
  by (auto simp: literal_def split: option.split)

lemma jsEq_str [simp]: "jsEq (Some (JStr s)) v \<longleftrightarrow> v = Some (JStr s)"
  by auto

text \<open>What both hooks keep of a request that came in: it is shown as it was received.\<close>

record incoming_request =
  ir_requestId :: "json option"
  ir_requesterId :: "json option"
  ir_requesterName :: "json option"

definition incomingOf :: "json \<Rightarrow> incoming_request" where
  "incomingOf msg = \<lparr>ir_requestId = propOf ''requestId'' msg, ir_requesterId = propOf ''requesterId'' msg,
     ir_requesterName = propOf ''requesterName'' msg\<rparr>"

definition cancelled :: "json \<Rightarrow> incoming_request option \<Rightarrow> incoming_request option" where
  "cancelled msg current =
     (case current of
        None \<Rightarrow> None
      | Some r \<Rightarrow>
          if jsEq (ir_requestId r) (propOf ''requestId'' msg) \<and> jsEq (ir_requesterId r) (propOf ''requesterId'' msg)
          then None else Some r)"

text \<open>\<^verbatim>\<open>handleDisconnect\<close>: the request of a participant who left.\<close>

definition dropLeft :: "string \<Rightarrow> incoming_request option \<Rightarrow> incoming_request option" where
  "dropLeft identity current =
     (case current of
        None \<Rightarrow> None
      | Some r \<Rightarrow> if ir_requesterId r = Some (JStr identity) then None else Some r)"

text \<open>The type of a message, for the \<^verbatim>\<open>switch\<close> of the listeners.\<close>

definition isType :: "string \<Rightarrow> json \<Rightarrow> bool" where
  "isType t msg \<longleftrightarrow> propOf ''type'' msg = Some (JStr t)"

lemma isType_literal [simp]: "isType t (literal fs) \<longleftrightarrow> propOf ''type'' (literal fs) = Some (JStr t)"
  by (simp add: isType_def)

end
