(* ===== verification/PresentClient.thy ===== *)
theory PresentClient
  imports CallSignals Machines
begin

text \<open>
  Ask to Present in the browser: the hook \<^verbatim>\<open>usePresentation\<close>
  (\<^verbatim>\<open>apps/web/src/components/call/usePresentation.ts\<close>) as a machine of events. A function that awaits a send
  is split there; what is under way is kept in \<open>pc_asks\<close>, \<open>pc_yields\<close>, \<open>pc_declines\<close> and \<open>pc_forces\<close>, so that a continuation runs once for
  each start. After every event React renders and runs the effects (\<open>settleRender\<close>, \<open>autoStart\<close>,
  \<open>pendingStart\<close>). The hook's effects on the outside are a screen share started or stopped, and messages.
  \<open>isHost\<close> and the own identity and name do not change while the hook is mounted.
\<close>

section \<open>State\<close>

record share_track =
  st_identity :: string
  st_name :: string
  st_metadata :: "json_text option"
  st_surface :: "string option"

record outgoing_request =
  or_requestId :: string
  or_presenterIdentity :: string
  or_presenterName :: string

datatype present_outcome = PDeclined string | PTimedOut string | PYielded string | PForceTaken

record present_client =
  pc_tracks :: "share_track list"
  pc_outgoing :: "outgoing_request option"
  pc_incoming :: "incoming_request option"
  pc_outcome :: "present_outcome option"
  pc_tick :: nat
  pc_consumed :: nat
  pc_timer :: "nat option"
  pc_timers :: "nat list"
  pc_nextTimer :: nat
  pc_outcomeTimer :: bool
  pc_pendingStart :: bool
  pc_stopping :: bool
  pc_switching :: bool
  pc_stopLoop :: bool
  pc_retry :: bool
  pc_sawOther :: bool
  pc_asks :: "outgoing_request list"
  pc_yields :: nat
  pc_declines :: nat
  pc_forces :: nat

definition startPresent :: present_client where
  "startPresent = \<lparr>pc_tracks = [], pc_outgoing = None, pc_incoming = None, pc_outcome = None, pc_tick = 0,
     pc_consumed = 0, pc_timer = None, pc_timers = [], pc_nextTimer = 0, pc_outcomeTimer = False,
     pc_pendingStart = False, pc_stopping = False, pc_switching = False, pc_stopLoop = False, pc_retry = False, pc_sawOther = False,
     pc_asks = [], pc_yields = 0, pc_declines = 0, pc_forces = 0\<rparr>"

record present_hook =
  ph_me :: string
  ph_name :: string
  ph_isHost :: bool

datatype present_effect = StartShare | StopShare | SendPresent "json option" present_message

type_synonym present_step = "present_client \<Rightarrow> present_client \<times> present_effect list"

section \<open>Who presents\<close>

definition presenterTrack :: "present_client \<Rightarrow> share_track option" where
  "presenterTrack c = find (\<lambda>t. \<not> isControlAgentParticipant (st_identity t) (st_metadata t) None) (pc_tracks c)"

definition presenterIdentity :: "present_client \<Rightarrow> string option" where
  "presenterIdentity c = map_option st_identity (presenterTrack c)"

definition presenterName :: "present_client \<Rightarrow> string" where
  "presenterName c =
     (case presenterTrack c of None \<Rightarrow> [] | Some t \<Rightarrow> if st_name t = [] then st_identity t else st_name t)"

definition iAmPresenting :: "present_hook \<Rightarrow> present_client \<Rightarrow> bool" where
  "iAmPresenting H c \<longleftrightarrow> presenterIdentity c = Some (ph_me H)"

definition someoneElsePresenting :: "present_hook \<Rightarrow> present_client \<Rightarrow> bool" where
  "someoneElsePresenting H c \<longleftrightarrow> presenterIdentity c \<noteq> None \<and> \<not> iAmPresenting H c"

datatype display_surface = SurfaceWindow | SurfaceMonitor | SurfaceBrowser | SurfaceUnknown

definition displaySurface :: "present_client \<Rightarrow> display_surface option" where
  "displaySurface c =
     (case presenterTrack c of
        None \<Rightarrow> None
      | Some t \<Rightarrow>
          Some (if st_surface t = Some ''window'' then SurfaceWindow
                else if st_surface t = Some ''monitor'' then SurfaceMonitor
                else if st_surface t = Some ''browser'' then SurfaceBrowser else SurfaceUnknown))"

section \<open>Timers\<close>

definition showOutcome :: "present_outcome \<Rightarrow> present_client \<Rightarrow> present_client" where
  "showOutcome x c = c\<lparr>pc_outcome := Some x, pc_outcomeTimer := True\<rparr>"

definition clearTimer :: "present_client \<Rightarrow> present_client" where
  "clearTimer c =
     (case pc_timer c of
        None \<Rightarrow> c
      | Some h \<Rightarrow> c\<lparr>pc_timer := None, pc_timers := filter (\<lambda>h'. h' \<noteq> h) (pc_timers c)\<rparr>)"

definition clearOutgoing :: "present_client \<Rightarrow> present_client" where
  "clearOutgoing c = clearTimer (c\<lparr>pc_outgoing := None\<rparr>)"

definition requestTimeout :: "nat \<Rightarrow> present_client \<Rightarrow> present_client" where
  "requestTimeout h c =
     (if h \<notin> set (pc_timers c) then c
      else
        let c1 = c\<lparr>pc_timers := filter (\<lambda>h'. h' \<noteq> h) (pc_timers c), pc_timer := None\<rparr> in
        case pc_outgoing c1 of
          None \<Rightarrow> c1
        | Some r \<Rightarrow> (showOutcome (PTimedOut (or_presenterName r)) c1)\<lparr>pc_outgoing := None\<rparr>)"

section \<open>Render and effects\<close>

text \<open>The presenter disappeared while a request was pending: drop it and start sharing.\<close>

definition settleRender :: "present_hook \<Rightarrow> present_client \<Rightarrow> present_client" where
  "settleRender H c =
     (if pc_outgoing c \<noteq> None \<and> \<not> someoneElsePresenting H c
      then c\<lparr>pc_outgoing := None, pc_tick := pc_tick c + 1\<rparr> else c)"

definition autoStart :: present_step where
  "autoStart c =
     (if pc_tick c = pc_consumed c then (c, [])
      else (clearTimer (c\<lparr>pc_consumed := pc_tick c\<rparr>), [StartShare]))"

text \<open>This effect runs when \<^verbatim>\<open>someoneElsePresenting\<close> has changed since it last ran.\<close>

definition pendingStart :: "present_hook \<Rightarrow> present_step" where
  "pendingStart H c =
     (let other = someoneElsePresenting H c in
      if other = pc_sawOther c then (c, [])
      else if pc_pendingStart c \<and> \<not> other then (c\<lparr>pc_sawOther := other, pc_pendingStart := False\<rparr>, [StartShare])
      else (c\<lparr>pc_sawOther := other\<rparr>, []))"

section \<open>Messages\<close>

definition isOutgoing :: "json \<Rightarrow> present_client \<Rightarrow> bool" where
  "isOutgoing msg c =
     (case pc_outgoing c of None \<Rightarrow> False | Some r \<Rightarrow> propOf ''requestId'' msg = Some (JStr (or_requestId r)))"

definition presentMessage :: "present_hook \<Rightarrow> json \<Rightarrow> present_step" where
  "presentMessage H msg c =
     (let name = (case pc_outgoing c of None \<Rightarrow> [] | Some r \<Rightarrow> or_presenterName r) in
      if isType ''present:request'' msg then
        (if iAmPresenting H c then c\<lparr>pc_incoming := Some (incomingOf msg)\<rparr> else c, [])
      else if isType ''present:cancel'' msg then (c\<lparr>pc_incoming := cancelled msg (pc_incoming c)\<rparr>, [])
      else if isType ''present:yield'' msg then
        (if isOutgoing msg c then (showOutcome (PYielded name) (clearOutgoing c))\<lparr>pc_pendingStart := True\<rparr> else c, [])
      else if isType ''present:decline'' msg then
        (if isOutgoing msg c then clearOutgoing (showOutcome (PDeclined name) c) else c, [])
      else if isType ''present:force-take'' msg then
        (if iAmPresenting H c then ((showOutcome PForceTaken c)\<lparr>pc_incoming := None\<rparr>, [StopShare]) else (c, []))
      else (c, []))"

text \<open>The listener: the topic, a sender (LiveKit gives none for data the server sent), and a readable message.\<close>

definition presentData :: "present_hook \<Rightarrow> string option \<Rightarrow> string option \<Rightarrow> json_text \<Rightarrow> present_step" where
  "presentData H topic sender payload c =
     (if topic \<noteq> Some PRESENT_TOPIC \<or> sender = None then (c, [])
      else case readable payload of None \<Rightarrow> (c, []) | Some msg \<Rightarrow> presentMessage H msg c)"

section \<open>Actions\<close>

definition requestPresentation :: "present_hook \<Rightarrow> string \<Rightarrow> present_step" where
  "requestPresentation H rid c =
     (case presenterIdentity c of
        None \<Rightarrow> (c, [])
      | Some p \<Rightarrow>
          if iAmPresenting H c then (c, [])
          else (c\<lparr>pc_asks := \<lparr>or_requestId = rid, or_presenterIdentity = p, or_presenterName = presenterName c\<rparr> # pc_asks c\<rparr>,
                [SendPresent (Some (JStr p))
                   (PresentRequest rid (ph_me H) (if ph_name H = [] then ph_me H else ph_name H))]))"

definition requestSent :: "outgoing_request \<Rightarrow> bool \<Rightarrow> present_client \<Rightarrow> present_client" where
  "requestSent r ok c =
     (if r \<notin> set (pc_asks c) then c
      else
        let c1 = c\<lparr>pc_asks := remove1 r (pc_asks c)\<rparr>; h = pc_nextTimer c in
        if ok then c1\<lparr>pc_outgoing := Some r, pc_timer := Some h, pc_timers := h # pc_timers c1, pc_nextTimer := h + 1\<rparr>
        else c1)"

definition cancelRequest :: "present_hook \<Rightarrow> present_step" where
  "cancelRequest H c =
     (clearOutgoing c,
      case pc_outgoing c of
        None \<Rightarrow> []
      | Some r \<Rightarrow> [SendPresent (Some (JStr (or_presenterIdentity r))) (PresentCancel (or_requestId r) (ph_me H))])"

definition yieldPresentation :: present_step where
  "yieldPresentation c =
     (case pc_incoming c of
        None \<Rightarrow> (c, [])
      | Some r \<Rightarrow> (c\<lparr>pc_yields := pc_yields c + 1\<rparr>, [SendPresent (ir_requesterId r) (PresentYield (ir_requestId r))]))"

definition yieldSent :: "bool \<Rightarrow> present_step" where
  "yieldSent ok c =
     (if pc_yields c = 0 then (c, [])
      else
        let c1 = c\<lparr>pc_yields := pc_yields c - 1\<rparr> in
        if ok then (c1\<lparr>pc_incoming := None\<rparr>, [StopShare]) else (c1, []))"

definition declinePresentation :: present_step where
  "declinePresentation c =
     (case pc_incoming c of
        None \<Rightarrow> (c, [])
      | Some r \<Rightarrow> (c\<lparr>pc_declines := pc_declines c + 1\<rparr>, [SendPresent (ir_requesterId r) (PresentDecline (ir_requestId r))]))"

definition declineSent :: "bool \<Rightarrow> present_client \<Rightarrow> present_client" where
  "declineSent ok c =
     (if pc_declines c = 0 then c
      else
        let c1 = c\<lparr>pc_declines := pc_declines c - 1\<rparr> in
        if ok then c1\<lparr>pc_incoming := None\<rparr> else c1)"

definition forceTake :: "present_hook \<Rightarrow> present_step" where
  "forceTake H c =
     (case presenterIdentity c of
        None \<Rightarrow> (c, [])
      | Some p \<Rightarrow>
          if \<not> ph_isHost H then (c, [])
          else (c\<lparr>pc_forces := pc_forces c + 1\<rparr>, [SendPresent (Some (JStr p)) PresentForceTake]))"

definition forceSent :: "bool \<Rightarrow> present_client \<Rightarrow> present_client" where
  "forceSent ok c =
     (if pc_forces c = 0 then c
      else
        let c1 = c\<lparr>pc_forces := pc_forces c - 1\<rparr> in
        if ok then c1\<lparr>pc_pendingStart := True\<rparr> else c1)"

text \<open>
  \<^verbatim>\<open>stopMyShareOptimistically\<close> around its loop (which is in \<open>StopRetry\<close>): the first try, its end, and the
  retries in the background every thirty seconds.
\<close>

definition stopOptimistically :: "present_hook \<Rightarrow> present_step" where
  "stopOptimistically H c =
     (if \<not> iAmPresenting H c \<or> pc_stopping c then (c, []) else (c\<lparr>pc_stopping := True, pc_stopLoop := True\<rparr>, [StopShare]))"

definition stopEnded :: "bool \<Rightarrow> present_client \<Rightarrow> present_client" where
  "stopEnded failed c =
     (if \<not> pc_stopLoop c then c
      else if failed then c\<lparr>pc_stopLoop := False, pc_retry := True\<rparr>
      else c\<lparr>pc_stopLoop := False, pc_stopping := False\<rparr>)"

definition reconcileShare :: "present_hook \<Rightarrow> present_step" where
  "reconcileShare H c =
     (if \<not> pc_retry c then (c, [])
      else if \<not> iAmPresenting H c then (c\<lparr>pc_retry := False\<rparr>, [])
      else (c, [StopShare]))"

text \<open>
  \<^verbatim>\<open>changeMyShare\<close>: the guard with the switching flag, and what becomes of the media tracks. A failed
  \<^verbatim>\<open>replaceTrack\<close> may have adopted the new track already; then the old one is put back, if that works.
\<close>

definition changeBegin :: "present_hook \<Rightarrow> bool \<Rightarrow> present_client \<Rightarrow> present_client" where
  "changeBegin H localVideo c =
     (if \<not> iAmPresenting H c \<or> pc_switching c \<or> pc_stopping c \<or> \<not> localVideo then c else c\<lparr>pc_switching := True\<rparr>)"

datatype replacing = Replaced | ReplaceFailed bool bool

definition changeTracks ::
    "nat \<Rightarrow> (nat \<times> bool) list option \<Rightarrow> replacing \<Rightarrow> nat \<times> nat list" where
  "changeTracks previous capture replacing =
     (case capture of
        None \<Rightarrow> (previous, [])
      | Some captured \<Rightarrow>
          (case find snd captured of
             None \<Rightarrow> (previous, map fst captured)
           | Some (new, _) \<Rightarrow>
               (case replacing of
                  Replaced \<Rightarrow> (new, previous # map fst (filter (\<lambda>t. fst t \<noteq> new) captured))
                | ReplaceFailed adopted restored \<Rightarrow>
                    (if adopted \<and> \<not> restored then new else previous, map fst captured))))"

definition changeEnd :: "present_client \<Rightarrow> present_client" where
  "changeEnd c = c\<lparr>pc_switching := False\<rparr>"

definition handleShareClick :: "present_hook \<Rightarrow> bool \<Rightarrow> string \<Rightarrow> present_step" where
  "handleShareClick H remoteControlActive rid c =
     (if remoteControlActive then (c, [])
      else if iAmPresenting H c then stopOptimistically H c
      else if \<not> someoneElsePresenting H c then (c, [StartShare])
      else if ph_isHost H then forceTake H c
      else requestPresentation H rid c)"

section \<open>The machine\<close>

datatype present_event =
    TracksChanged "share_track list"
  | PresentData "string option" "string option" json_text
  | RequesterLeft string
  | ShareClick bool string
  | RequestSent outgoing_request bool
  | CancelClick
  | YieldClick
  | YieldSent bool
  | DeclineClick
  | DeclineSent bool
  | ForceSent bool
  | StopEnded bool
  | ReconcileDue
  | ChangeClick bool
  | ChangeEnded
  | RequestTimeout nat
  | OutcomeTimeout
  | DismissOutcome

fun presentHandle :: "present_hook \<Rightarrow> present_event \<Rightarrow> present_step" where
  "presentHandle H (TracksChanged ts) c = (c\<lparr>pc_tracks := ts\<rparr>, [])"
| "presentHandle H (PresentData topic sender payload) c = presentData H topic sender payload c"
| "presentHandle H (RequesterLeft i) c = (c\<lparr>pc_incoming := dropLeft i (pc_incoming c)\<rparr>, [])"
| "presentHandle H (ShareClick rc rid) c = handleShareClick H rc rid c"
| "presentHandle H (RequestSent r ok) c = (requestSent r ok c, [])"
| "presentHandle H CancelClick c = cancelRequest H c"
| "presentHandle H YieldClick c = yieldPresentation c"
| "presentHandle H (YieldSent ok) c = yieldSent ok c"
| "presentHandle H DeclineClick c = declinePresentation c"
| "presentHandle H (DeclineSent ok) c = (declineSent ok c, [])"
| "presentHandle H (ForceSent ok) c = (forceSent ok c, [])"
| "presentHandle H (StopEnded failed) c = (stopEnded failed c, [])"
| "presentHandle H ReconcileDue c = reconcileShare H c"
| "presentHandle H (ChangeClick v) c = (changeBegin H v c, [])"
| "presentHandle H ChangeEnded c = (changeEnd c, [])"
| "presentHandle H (RequestTimeout h) c = (requestTimeout h c, [])"
| "presentHandle H OutcomeTimeout c = (if pc_outcomeTimer c then c\<lparr>pc_outcome := None, pc_outcomeTimer := False\<rparr> else c, [])"
| "presentHandle H DismissOutcome c = (c\<lparr>pc_outcome := None\<rparr>, [])"

definition presentStep :: "present_hook \<Rightarrow> present_event \<Rightarrow> present_step" where
  "presentStep H e c =
     (let (c1, e1) = presentHandle H e c; (c2, e2) = autoStart (settleRender H c1); (c3, e3) = pendingStart H c2
      in (c3, e1 @ e2 @ e3))"

fun presentRun :: "present_hook \<Rightarrow> present_event list \<Rightarrow> present_step" where
  "presentRun H [] c = (c, [])"
| "presentRun H (e # es) c = (let (c1, x) = presentStep H e c; (c2, y) = presentRun H es c1 in (c2, x @ y))"

interpretation pm: event_machine "presentStep H" "presentRun H" for H
  by unfold_locales simp_all

end
