(* ===== verification/PresentProperties.thy ===== *)
theory PresentProperties
  imports PresentClient
begin

text \<open>
  What the presentation hook guarantees: a screen share starts only after a click of the person and only
  when nobody else presents; the handoff from one presenter to the next; and two behaviours that
  differ from what is documented or meant.
\<close>

section \<open>Shares start by clicks\<close>

definition starts :: "present_effect list \<Rightarrow> nat" where
  "starts es = count_list es StartShare"

fun isClick :: "present_event \<Rightarrow> bool" where
  "isClick (ShareClick _ _) = True"
| "isClick _ = False"

definition clicks :: "present_event list \<Rightarrow> nat" where
  "clicks es = length (filter isClick es)"

text \<open>What may still start a share: requests and take-overs being sent, a pending request, and a handoff that was granted.\<close>

definition credit :: "present_client \<Rightarrow> nat" where
  "credit c = length (pc_asks c) + of_bool (pc_outgoing c \<noteq> None) + pc_forces c + of_bool (pc_pendingStart c)"

definition settled :: "present_hook \<Rightarrow> present_client \<Rightarrow> bool" where
  "settled H c \<longleftrightarrow> pc_tick c = pc_consumed c \<and> pc_sawOther c = someoneElsePresenting H c \<and>
     (pc_outgoing c \<noteq> None \<longrightarrow> someoneElsePresenting H c)"

lemmas present_defs =
  presentData_def presentMessage_def handleShareClick_def stopOptimistically_def forceTake_def requestPresentation_def
  requestSent_def cancelRequest_def yieldPresentation_def yieldSent_def declinePresentation_def declineSent_def
  forceSent_def stopEnded_def reconcileShare_def changeBegin_def changeEnd_def requestTimeout_def clearOutgoing_def
  clearTimer_def showOutcome_def

lemma isOutgoing_outgoing: "isOutgoing msg c \<Longrightarrow> pc_outgoing c \<noteq> None"
  by (auto simp: isOutgoing_def split: option.splits)

lemma starts_simps [simp]:
  "starts [] = 0" "starts (StartShare # es) = Suc (starts es)" "starts (StopShare # es) = starts es"
  "starts (SendPresent t m # es) = starts es" "starts (xs @ ys) = starts xs + starts ys"
  by (simp_all add: starts_def)

lemma clicks_simps [simp]: "clicks [] = 0" "clicks (e # es) = of_bool (isClick e) + clicks es"
  by (simp_all add: clicks_def)

lemma tracks_fields [simp]:
  "presenterTrack (showOutcome x c) = presenterTrack c" "presenterTrack (clearTimer c) = presenterTrack c"
  "presenterTrack (clearOutgoing c) = presenterTrack c"
  by (simp_all add: presenterTrack_def showOutcome_def clearTimer_def clearOutgoing_def split: option.split)

lemma handle_ticks:
  "pc_tick (fst (presentHandle H e c)) = pc_tick c \<and> pc_consumed (fst (presentHandle H e c)) = pc_consumed c"
  by (cases e) (auto simp: present_defs Let_def split: option.split)

lemma helper_fields [simp]:
  "pc_asks (clearTimer c) = pc_asks c" "pc_outgoing (clearTimer c) = pc_outgoing c" "pc_forces (clearTimer c) = pc_forces c"
  "pc_pendingStart (clearTimer c) = pc_pendingStart c" "pc_tick (clearTimer c) = pc_tick c" "pc_tracks (clearTimer c) = pc_tracks c"
  "pc_consumed (clearTimer c) = pc_consumed c" "pc_sawOther (clearTimer c) = pc_sawOther c"
  "pc_incoming (clearTimer c) = pc_incoming c"
  "pc_asks (clearOutgoing c) = pc_asks c" "pc_outgoing (clearOutgoing c) = None" "pc_forces (clearOutgoing c) = pc_forces c"
  "pc_pendingStart (clearOutgoing c) = pc_pendingStart c" "pc_tracks (clearOutgoing c) = pc_tracks c"
  "pc_sawOther (clearOutgoing c) = pc_sawOther c"
  "pc_asks (showOutcome x c) = pc_asks c" "pc_outgoing (showOutcome x c) = pc_outgoing c"
  "pc_forces (showOutcome x c) = pc_forces c" "pc_pendingStart (showOutcome x c) = pc_pendingStart c"
  "pc_tracks (showOutcome x c) = pc_tracks c" "pc_sawOther (showOutcome x c) = pc_sawOther c"
  by (simp_all add: clearTimer_def clearOutgoing_def showOutcome_def split: option.split)

lemma message_credit:
  "starts (snd (presentMessage H msg c)) = 0 \<and> credit (fst (presentMessage H msg c)) \<le> credit c"
  using isOutgoing_outgoing [of msg c] by (simp add: presentMessage_def credit_def Let_def)

lemma data_credit:
  "starts (snd (presentData H t s p c)) = 0 \<and> credit (fst (presentData H t s p c)) \<le> credit c"
  using message_credit by (simp add: presentData_def split: option.split)

lemma requestSent_credit: "credit (requestSent r ok c) \<le> credit c"
proof (cases "r \<in> set (pc_asks c)")
  case True
  then have "0 < length (pc_asks c)" by (rule length_pos_if_in_set)
  with True show ?thesis by (auto simp: requestSent_def credit_def Let_def length_remove1)
qed (simp add: requestSent_def)

lemma force_credit: "starts (snd (forceTake H c)) = 0 \<and> credit (fst (forceTake H c)) \<le> Suc (credit c)"
  by (cases "presenterIdentity c") (simp_all add: forceTake_def credit_def)

lemma ask_credit: "starts (snd (requestPresentation H rid c)) = 0 \<and> credit (fst (requestPresentation H rid c)) \<le> Suc (credit c)"
  by (cases "presenterIdentity c") (simp_all add: requestPresentation_def credit_def)

lemma stop_credit: "starts (snd (stopOptimistically H c)) = 0 \<and> credit (fst (stopOptimistically H c)) = credit c"
  by (simp add: stopOptimistically_def credit_def)

lemma click_credit:
  "starts (snd (handleShareClick H rc rid c)) + credit (fst (handleShareClick H rc rid c)) \<le> Suc (credit c)"
  using force_credit [of H c] ask_credit [of H rid c] stop_credit [of H c] by (auto simp: handleShareClick_def)

lemma small_credit:
  "credit (declineSent ok c) = credit c" "credit (forceSent ok c) \<le> credit c" "credit (stopEnded failed c) = credit c"
  "credit (changeBegin H v c) = credit c" "credit (changeEnd c) = credit c" "credit (fst (cancelRequest H c)) \<le> credit c"
  "credit (fst (yieldPresentation c)) = credit c" "credit (fst (yieldSent ok c)) = credit c"
  "credit (fst (declinePresentation c)) = credit c" "credit (fst (reconcileShare H c)) = credit c"
  by (simp_all add: declineSent_def forceSent_def stopEnded_def changeBegin_def changeEnd_def cancelRequest_def yieldPresentation_def
      yieldSent_def declinePresentation_def reconcileShare_def credit_def Let_def split: option.split)

lemma small_starts:
  "starts (snd (cancelRequest H c)) = 0" "starts (snd (yieldPresentation c)) = 0" "starts (snd (yieldSent ok c)) = 0"
  "starts (snd (declinePresentation c)) = 0" "starts (snd (reconcileShare H c)) = 0"
  by (simp_all add: cancelRequest_def yieldPresentation_def yieldSent_def declinePresentation_def reconcileShare_def Let_def split: option.split)

lemma requestTimeout_credit: "credit (requestTimeout h c) \<le> credit c"
  by (simp add: requestTimeout_def credit_def Let_def split: option.split)

lemma field_credit [simp]:
  "credit (c\<lparr>pc_tracks := ts\<rparr>) = credit c" "credit (c\<lparr>pc_incoming := x\<rparr>) = credit c" "credit (c\<lparr>pc_outcome := y\<rparr>) = credit c"
  "credit (c\<lparr>pc_outcomeTimer := b\<rparr>) = credit c"
  by (simp_all add: credit_def)

lemma handle_credit:
  "starts (snd (presentHandle H e c)) + credit (fst (presentHandle H e c)) \<le> credit c + of_bool (isClick e)"
  by (cases e) (simp_all add: data_credit requestSent_credit click_credit requestTimeout_credit small_credit small_starts)

lemma handle_start_alone:
  "StartShare \<in> set (snd (presentHandle H e c)) \<Longrightarrow> \<not> someoneElsePresenting H (fst (presentHandle H e c))"
  by (cases e) (auto simp: present_defs Let_def someoneElsePresenting_def split: option.splits if_splits)

lemma someone_fields [simp]:
  "presenterTrack (c\<lparr>pc_outgoing := x\<rparr>) = presenterTrack c" "presenterTrack (c\<lparr>pc_tick := n\<rparr>) = presenterTrack c"
  "presenterTrack (c\<lparr>pc_consumed := n\<rparr>) = presenterTrack c" "presenterTrack (c\<lparr>pc_sawOther := b\<rparr>) = presenterTrack c"
  "presenterTrack (c\<lparr>pc_pendingStart := b\<rparr>) = presenterTrack c"
  by (simp_all add: presenterTrack_def)

lemmas who_defs = someoneElsePresenting_def iAmPresenting_def presenterIdentity_def

lemma someoneElse_fields:
  "someoneElsePresenting H (c\<lparr>pc_outgoing := x\<rparr>) = someoneElsePresenting H c"
  "someoneElsePresenting H (c\<lparr>pc_tick := n\<rparr>) = someoneElsePresenting H c"
  "someoneElsePresenting H (c\<lparr>pc_consumed := n\<rparr>) = someoneElsePresenting H c"
  "someoneElsePresenting H (c\<lparr>pc_sawOther := b\<rparr>) = someoneElsePresenting H c"
  "someoneElsePresenting H (c\<lparr>pc_pendingStart := b\<rparr>) = someoneElsePresenting H c"
  "someoneElsePresenting H (clearTimer c) = someoneElsePresenting H c"
  by (simp_all add: who_defs)

lemma autoStart_result:
  assumes "pc_tick c = pc_consumed c" and "autoStart (settleRender H c) = (c2, e2)"
  shows "pc_tick c2 = pc_consumed c2 \<and> someoneElsePresenting H c2 = someoneElsePresenting H c \<and>
    (pc_outgoing c2 \<noteq> None \<longrightarrow> someoneElsePresenting H c) \<and> starts e2 + credit c2 \<le> credit c \<and>
    (StartShare \<in> set e2 \<longrightarrow> \<not> someoneElsePresenting H c)"
proof (cases "pc_outgoing c \<noteq> None \<and> \<not> someoneElsePresenting H c")
  case True
  then have "c2 = clearTimer (c\<lparr>pc_outgoing := None, pc_tick := pc_tick c + 1, pc_consumed := pc_tick c + 1\<rparr>)" "e2 = [StartShare]"
    using assms by (auto simp: autoStart_def settleRender_def)
  then show "?thesis" using True by (simp add: credit_def someoneElse_fields)
next
  case False
  then have "c2 = c" "e2 = []" using assms by (auto simp: autoStart_def settleRender_def)
  then show "?thesis" using False assms(1) by auto
qed

lemma pendingStart_result:
  assumes "pendingStart H c = (c3, e3)"
  shows "pc_tick c3 = pc_tick c" and "pc_consumed c3 = pc_consumed c" and "pc_outgoing c3 = pc_outgoing c"
    and "pc_sawOther c3 = someoneElsePresenting H c" and "someoneElsePresenting H c3 = someoneElsePresenting H c"
    and "starts e3 + credit c3 \<le> credit c" and "StartShare \<in> set e3 \<Longrightarrow> \<not> someoneElsePresenting H c"
  using assms by (force simp: pendingStart_def Let_def credit_def someoneElse_fields split: if_splits)+

lemma effects_result:
  assumes "pc_tick c = pc_consumed c" and "autoStart (settleRender H c) = (c2, e2)" and "pendingStart H c2 = (c3, e3)"
  shows "settled H c3" and "starts (e2 @ e3) + credit c3 \<le> credit c"
    and "StartShare \<in> set (e2 @ e3) \<Longrightarrow> \<not> someoneElsePresenting H c3"
    and "someoneElsePresenting H c3 = someoneElsePresenting H c"
proof -
  note a = autoStart_result [OF assms(1,2)] and p = pendingStart_result [OF assms(3)]
  show "settled H c3" using a p(1-5) by (simp add: settled_def)
  show "starts (e2 @ e3) + credit c3 \<le> credit c" using a p(6) by simp
  show "StartShare \<in> set (e2 @ e3) \<Longrightarrow> \<not> someoneElsePresenting H c3" using a p(5,7) by auto
  show "someoneElsePresenting H c3 = someoneElsePresenting H c" using a p(5) by simp
qed

lemma step_result:
  assumes "settled H c" and "presentStep H e c = (c', es)"
  shows "settled H c'" and "starts es + credit c' \<le> credit c + of_bool (isClick e)"
    and "StartShare \<in> set es \<Longrightarrow> \<not> someoneElsePresenting H c'"
proof -
  obtain c1 e1 where 1: "presentHandle H e c = (c1, e1)" by fastforce
  obtain c2 e2 where 2: "autoStart (settleRender H c1) = (c2, e2)" by fastforce
  obtain c3 e3 where 3: "pendingStart H c2 = (c3, e3)" by fastforce
  have t: "pc_tick c1 = pc_consumed c1" using handle_ticks [of H e c] 1 assms(1) by (simp add: settled_def)
  have es: "c' = c3" "es = e1 @ e2 @ e3" using assms(2) 1 2 3 by (simp_all add: presentStep_def)
  note r = effects_result [OF t 2 3]
  show "settled H c'" using r(1) es by simp
  show "starts es + credit c' \<le> credit c + of_bool (isClick e)"
    using r(2) handle_credit [of H e c] 1 es by simp
  show "StartShare \<in> set es \<Longrightarrow> \<not> someoneElsePresenting H c'"
    using r(3,4) handle_start_alone [of H e c] 1 es by auto
qed

lemma step_settled: "settled H c \<Longrightarrow> settled H (fst (presentStep H e c))"
  by (rule step_result(1) [OF _ prod.collapse [symmetric]])

lemma run_settled: "settled H c \<Longrightarrow> settled H (fst (presentRun H es c))"
  by (rule pm.run_keeps [where ok = "\<lambda>_. True"]) (simp_all add: step_settled list_all_iff)

lemma run_credit:
  assumes "settled H c"
  shows "starts (snd (presentRun H es c)) + credit (fst (presentRun H es c)) \<le> credit c + clicks es"
proof -
  have "sum_list (map (\<lambda>e. of_bool (isClick e)) es) = clicks es" by (induction es) simp_all
  moreover have "starts (snd (presentRun H es c)) + credit (fst (presentRun H es c)) \<le>
      credit c + sum_list (map (\<lambda>e. of_bool (isClick e)) es)"
    using assms by (intro pm.run_budget [where good = "settled H"] step_settled step_result(2) [OF _ prod.collapse [symmetric]]) simp_all
  ultimately show ?thesis by simp
qed

lemma settled_start: "settled H startPresent"
  by (simp add: settled_def startPresent_def who_defs presenterTrack_def)

lemma share_needs_click_facts:
  assumes "presentRun H es startPresent = (c, effects)" and "presentStep H e c = (c', new)"
  shows "starts effects + starts new \<le> clicks (es @ [e])"
    and "StartShare \<in> set new \<Longrightarrow> \<not> someoneElsePresenting H c'"
    and "pc_outgoing c' \<noteq> None \<Longrightarrow> someoneElsePresenting H c'"
proof -
  have s: "settled H c" using run_settled [OF settled_start, of H es] assms(1) by simp
  note r = step_result [OF s assms(2)]
  have "starts effects + credit c \<le> clicks es"
    using run_credit [OF settled_start, of H es] assms(1) by (simp add: credit_def startPresent_def)
  with r(2) show "starts effects + starts new \<le> clicks (es @ [e])" by (cases "isClick e") (simp_all add: clicks_def)
  show "StartShare \<in> set new \<Longrightarrow> \<not> someoneElsePresenting H c'" by (rule r(3))
  show "pc_outgoing c' \<noteq> None \<Longrightarrow> someoneElsePresenting H c'" using r(1) by (simp add: settled_def)
qed

text \<open>C18. A presentation starts only because this person asked for one. In every run of the presentation hook (with any
  messages, forged ones included, sends that fail, timers and tracks in any order) the browser starts its screen
  share at most once for each click on the share button; at the moment it starts one, nobody else is
  presenting; and a request can only be pending while somebody else presents, so it is resolved when the presenter leaves.\<close>

theorem share_needs_click:
  assumes "presentRun H es startPresent = (c, effects)" and "presentStep H e c = (c', new)"
  shows "starts effects + starts new \<le> clicks (es @ [e]) \<and>
    (StartShare \<in> set new \<longrightarrow> \<not> someoneElsePresenting H c') \<and>
    (pc_outgoing c' \<noteq> None \<longrightarrow> someoneElsePresenting H c')"
  using share_needs_click_facts [OF assms] by blast

definition hookOf :: "string \<Rightarrow> bool \<Rightarrow> present_hook" where
  "hookOf i host = \<lparr>ph_me = i, ph_name = [], ph_isHost = host\<rparr>"

definition shareOf :: "string \<Rightarrow> share_track" where
  "shareOf i = \<lparr>st_identity = i, st_name = i, st_metadata = None, st_surface = None\<rparr>"

definition demoAsk :: "present_event list" where
  "demoAsk = [TracksChanged [shareOf ''ann''], ShareClick False ''q1'',
     RequestSent \<lparr>or_requestId = ''q1'', or_presenterIdentity = ''ann'', or_presenterName = ''ann''\<rparr> True]"

theorem share_needs_click_witness:
  "(let (c, effects) = presentRun (hookOf ''bob'' False) demoAsk startPresent;
        (c', new) = presentStep (hookOf ''bob'' False) (TracksChanged []) c in
    new = [StartShare] \<and> starts effects + starts new \<le> clicks (demoAsk @ [TracksChanged []]) \<and>
    \<not> someoneElsePresenting (hookOf ''bob'' False) c' \<and> pc_outgoing c \<noteq> None)"
proof -
  obtain c effects where r: "presentRun (hookOf ''bob'' False) demoAsk startPresent = (c, effects)" by fastforce
  obtain c' new where s: "presentStep (hookOf ''bob'' False) (TracksChanged []) c = (c', new)" by fastforce
  have "pc_outgoing (fst (presentRun (hookOf ''bob'' False) demoAsk startPresent)) \<noteq> None \<and>
      snd (presentStep (hookOf ''bob'' False) (TracksChanged [])
        (fst (presentRun (hookOf ''bob'' False) demoAsk startPresent))) = [StartShare]" by code_simp
  then have "new = [StartShare]" "pc_outgoing c \<noteq> None" using r s by simp_all
  then show ?thesis using share_needs_click [OF r s] r s by simp
qed

section \<open>The handoff\<close>

lemma step_quiet:
  assumes "settled H c" and "presentHandle H e c = (c1, es)" and "pc_tracks c1 = pc_tracks c" and "pc_outgoing c1 = None \<or> someoneElsePresenting H c"
    and "pc_sawOther c1 = pc_sawOther c"
  shows "presentStep H e c = (c1, es)"
proof -
  have t: "pc_tick c1 = pc_consumed c1" using handle_ticks [of H e c] assms(1,2) by (simp add: settled_def)
  have o: "someoneElsePresenting H c1 = someoneElsePresenting H c" using assms(3) by (simp add: who_defs presenterTrack_def)
  show ?thesis using assms t o
    by (auto simp: presentStep_def settleRender_def autoStart_def pendingStart_def settled_def)
qed

text \<open>The presenter's browser: the request comes in, the person yields, the share stops.\<close>

lemma presenter_yields:
  assumes "settled P p" and "iAmPresenting P p"
  shows "snd (presentRun P [PresentData (Some PRESENT_TOPIC) (Some who) (encodeSignal N (presentJson (PresentRequest rid who name))),
      YieldClick, YieldSent True] p) =
    [SendPresent (Some (JStr who)) (PresentYield (Some (JStr rid))), StopShare]"
proof -
  let ?in = "\<lparr>ir_requestId = Some (JStr rid), ir_requesterId = Some (JStr who), ir_requesterName = Some (JStr name)\<rparr>"
  let ?p1 = "p\<lparr>pc_incoming := Some ?in\<rparr>"
  let ?p2 = "?p1\<lparr>pc_yields := pc_yields p + 1\<rparr>"
  have none: "pc_outgoing p = None" "\<not> someoneElsePresenting P p"
    using assms by (auto simp: settled_def someoneElsePresenting_def)
  have 1: "presentStep P (PresentData (Some PRESENT_TOPIC) (Some who) (encodeSignal N (presentJson (PresentRequest rid who name)))) p = (?p1, [])"
    by (rule step_quiet [OF assms(1)]) (use assms(2) none in \<open>simp_all add: presentData_def presentMessage_def incomingOf_def Let_def\<close>)
  have s1: "settled P ?p1" and s2: "settled P ?p2" using assms(1) by (simp_all add: settled_def who_defs presenterTrack_def)
  have 2: "presentStep P YieldClick ?p1 = (?p2, [SendPresent (Some (JStr who)) (PresentYield (Some (JStr rid)))])"
    by (rule step_quiet [OF s1]) (use none in \<open>simp_all add: yieldPresentation_def\<close>)
  have 3: "presentStep P (YieldSent True) ?p2 = (?p2\<lparr>pc_yields := pc_yields p, pc_incoming := None\<rparr>, [StopShare])"
    by (rule step_quiet [OF s2]) (use none in \<open>simp_all add: yieldSent_def Let_def\<close>)
  show ?thesis by (simp only: presentRun.simps Let_def split_beta 1 2 3 fst_conv snd_conv append.simps append_Nil2)
qed

lemma requester_asks:
  assumes "settled G g" and "presenterIdentity g = Some presenter" and "presenter \<noteq> ph_me G" and "\<not> ph_isHost G"
  shows "presentStep G (ShareClick False rid) g =
    (g\<lparr>pc_asks := \<lparr>or_requestId = rid, or_presenterIdentity = presenter, or_presenterName = presenterName g\<rparr> # pc_asks g\<rparr>,
     [SendPresent (Some (JStr presenter)) (PresentRequest rid (ph_me G) (if ph_name G = [] then ph_me G else ph_name G))])"
proof -
  have "someoneElsePresenting G g" "\<not> iAmPresenting G g" using assms(2,3) by (auto simp: someoneElsePresenting_def iAmPresenting_def)
  then show ?thesis
    by (intro step_quiet [OF assms(1)]) (use assms(2-4) in \<open>simp_all add: handleShareClick_def requestPresentation_def\<close>)
qed

text \<open>
  The requester's browser: the request goes out and is waited for; only a yield of this request ends the wait, and then the
  share starts as soon as the presenter's is gone.
\<close>

definition waiting :: "outgoing_request \<Rightarrow> present_client \<Rightarrow> present_client" where
  "waiting r g = g\<lparr>pc_outgoing := Some r, pc_timer := Some (pc_nextTimer g), pc_timers := pc_nextTimer g # pc_timers g,
     pc_nextTimer := pc_nextTimer g + 1\<rparr>"

abbreviation yieldPacket :: "(rat \<Rightarrow> nat) \<Rightarrow> string \<Rightarrow> json option \<Rightarrow> present_event" where
  "yieldPacket N sender rid \<equiv> PresentData (Some PRESENT_TOPIC) (Some sender) (encodeSignal N (presentJson (PresentYield rid)))"

lemma requester_waits:
  fixes rid :: string
  assumes "settled G g" and "presenterIdentity g = Some presenter" and "presenter \<noteq> ph_me G" and "\<not> ph_isHost G"
  defines "r \<equiv> \<lparr>or_requestId = rid, or_presenterIdentity = presenter, or_presenterName = presenterName g\<rparr>"
  shows "presentRun G [ShareClick False rid, RequestSent r True] g = (waiting r g,
      [SendPresent (Some (JStr presenter)) (PresentRequest rid (ph_me G) (if ph_name G = [] then ph_me G else ph_name G))])"
    and "settled G (waiting r g)" and "someoneElsePresenting G (waiting r g)"
proof -
  let ?g1 = "g\<lparr>pc_asks := r # pc_asks g\<rparr>"
  have other: "someoneElsePresenting G g" "\<not> iAmPresenting G g" using assms(2,3) by (auto simp: someoneElsePresenting_def iAmPresenting_def)
  note 1 = requester_asks [OF assms(1-4), of rid, folded r_def]
  have s1: "settled G ?g1" using assms(1) other by (simp add: settled_def who_defs presenterTrack_def)
  have 2: "presentStep G (RequestSent r True) ?g1 = (waiting r g, [])"
    by (rule step_quiet [OF s1]) (use other in \<open>simp_all add: waiting_def requestSent_def Let_def who_defs presenterTrack_def\<close>)
  show "presentRun G [ShareClick False rid, RequestSent r True] g = (waiting r g,
      [SendPresent (Some (JStr presenter)) (PresentRequest rid (ph_me G) (if ph_name G = [] then ph_me G else ph_name G))])"
    by (simp add: 1 2)
  show "settled G (waiting r g)" "someoneElsePresenting G (waiting r g)"
    using assms(1) other by (simp_all add: waiting_def settled_def who_defs presenterTrack_def)
qed

lemma requester_told:
  assumes "settled G (waiting r g)" and "someoneElsePresenting G (waiting r g)"
  shows "presentStep G (yieldPacket N who answer) (waiting r g) =
    (if answer = Some (JStr (or_requestId r))
     then (showOutcome (PYielded (or_presenterName r)) (clearOutgoing (waiting r g)))\<lparr>pc_pendingStart := True\<rparr> else waiting r g, [])"
  by (rule step_quiet [OF assms(1)])
    (use assms(2) in \<open>cases answer; auto simp: presentData_def presentMessage_def isOutgoing_def Let_def waiting_def\<close>)+

lemma requester_starts:
  assumes "settled G g" and "someoneElsePresenting G g" and "pc_outgoing g = None" and "pc_pendingStart g"
    and "\<not> someoneElsePresenting G (g\<lparr>pc_tracks := ts\<rparr>)"
  shows "snd (presentStep G (TracksChanged ts) g) = [StartShare]"
  using assms by (simp add: presentStep_def settleRender_def autoStart_def pendingStart_def Let_def settled_def)

text \<open>C19. The handoff of a presentation works, when its messages are sent without error and Remote Control is not
  active. Two browsers are at rest and both see the presenter's share. The guest's click sends a request to
  the presenter and nothing else, and the guest waits for this request. The presenter's browser,
  given that packet, answers the presenter's yes with a yield of this very request to the guest and then stops its share.
  A yield without this id leaves the guest waiting as before. The yield of the presenter ends the wait and its
  timer, tells the guest that the presenter yielded, and starts nothing yet; the guest's share starts, without
  another click, when the presenter's track is gone.\<close>

theorem present_handoff:
  fixes P G :: present_hook and rid :: string and N :: "rat \<Rightarrow> nat"
  assumes "settled P p" and "iAmPresenting P p"
    and "settled G g" and "presenterIdentity g = Some (ph_me P)" and "ph_me P \<noteq> ph_me G" and "\<not> ph_isHost G"
    and "\<not> someoneElsePresenting G (g\<lparr>pc_tracks := ts\<rparr>)"
  defines "name \<equiv> if ph_name G = [] then ph_me G else ph_name G"
    and "r \<equiv> \<lparr>or_requestId = rid, or_presenterIdentity = ph_me P, or_presenterName = presenterName g\<rparr>"
    and "yield \<equiv> \<lambda>answer. PresentData (Some PRESENT_TOPIC) (Some (ph_me P)) (encodeSignal N (presentJson (PresentYield answer)))"
  shows "\<exists>asked told.
    presentRun G [ShareClick False rid, RequestSent r True] g =
      (asked, [SendPresent (Some (JStr (ph_me P))) (PresentRequest rid (ph_me G) name)]) \<and>
    pc_outgoing asked = Some r \<and>
    snd (presentRun P [PresentData (Some PRESENT_TOPIC) (Some (ph_me G)) (encodeSignal N (presentJson (PresentRequest rid (ph_me G) name))),
      YieldClick, YieldSent True] p) = [SendPresent (Some (JStr (ph_me G))) (PresentYield (Some (JStr rid))), StopShare] \<and>
    (\<forall>other. other \<noteq> Some (JStr rid) \<longrightarrow> presentStep G (yield other) asked = (asked, [])) \<and>
    presentStep G (yield (Some (JStr rid))) asked = (told, []) \<and>
    pc_outgoing told = None \<and> pc_timer told = None \<and> pc_outcome told = Some (PYielded (presenterName g)) \<and> pc_pendingStart told \<and>
    snd (presentStep G (TracksChanged ts) told) = [StartShare]"
proof -
  let ?told = "(showOutcome (PYielded (or_presenterName r)) (clearOutgoing (waiting r g)))\<lparr>pc_pendingStart := True\<rparr>"
  note w = requester_waits [OF assms(3-6), of rid, folded r_def name_def]
  note t = requester_told [OF w(2,3), where N = N and who = "ph_me P"]
  have f: "pc_outgoing ?told = None" "pc_timer ?told = None" "pc_outcome ?told = Some (PYielded (presenterName g))" "pc_pendingStart ?told"
    "pc_tracks ?told = pc_tracks g" "pc_tick ?told = pc_tick (waiting r g)" "pc_consumed ?told = pc_consumed (waiting r g)"
    "pc_sawOther ?told = pc_sawOther (waiting r g)"
    by (simp_all add: r_def waiting_def clearOutgoing_def clearTimer_def showOutcome_def)
  have o: "someoneElsePresenting G ?told" "\<not> someoneElsePresenting G (?told\<lparr>pc_tracks := ts\<rparr>)"
    using w(3) assms(7) by (simp_all add: who_defs presenterTrack_def f waiting_def)
  have "settled G ?told" using w(2,3) o(1) f by (simp add: settled_def)
  note start = requester_starts [OF this o(1) f(1,4) o(2)]
  have "pc_outgoing (waiting r g) = Some r" by (simp add: waiting_def)
  moreover have "or_requestId r = rid" by (simp add: r_def)
  ultimately show ?thesis
    using w(1) t f(1-4) start presenter_yields [OF assms(1,2), of "ph_me G" N rid name]
    by (intro exI [of _ "waiting r g"] exI [of _ ?told]) (auto simp: yield_def simp del: presentRun.simps presentJson.simps)
qed

definition seeing :: "present_hook \<Rightarrow> present_client" where
  "seeing H = fst (presentStep H (TracksChanged [shareOf ''ann'']) startPresent)"

theorem present_handoff_witness:
  "\<exists>asked told.
    presentRun (hookOf ''bob'' False) [ShareClick False ''q1'', RequestSent
        \<lparr>or_requestId = ''q1'', or_presenterIdentity = ''ann'', or_presenterName = ''ann''\<rparr> True] (seeing (hookOf ''bob'' False)) =
      (asked, [SendPresent (Some (JStr ''ann'')) (PresentRequest ''q1'' ''bob'' ''bob'')]) \<and>
    presentStep (hookOf ''bob'' False) (PresentData (Some PRESENT_TOPIC) (Some ''ann'')
        (encodeSignal (\<lambda>_. 1) (presentJson (PresentYield (Some (JStr ''q1'')))))) asked = (told, []) \<and>
    snd (presentStep (hookOf ''bob'' False) (TracksChanged []) told) = [StartShare]"
proof -
  have h: "settled (hookOf ''ann'' True) (seeing (hookOf ''ann'' True))" "iAmPresenting (hookOf ''ann'' True) (seeing (hookOf ''ann'' True))"
    "settled (hookOf ''bob'' False) (seeing (hookOf ''bob'' False))" "presenterIdentity (seeing (hookOf ''bob'' False)) = Some (ph_me (hookOf ''ann'' True))"
    "ph_me (hookOf ''ann'' True) \<noteq> ph_me (hookOf ''bob'' False)" "\<not> ph_isHost (hookOf ''bob'' False)"
    "\<not> someoneElsePresenting (hookOf ''bob'' False) (seeing (hookOf ''bob'' False)\<lparr>pc_tracks := []\<rparr>)" by code_simp+
  have n: "presenterName (seeing (hookOf ''bob'' False)) = ''ann''" by code_simp
  from present_handoff [OF h, of "''q1''" "\<lambda>_. 1"] show ?thesis by (simp only: n) (simp add: hookOf_def, blast)
qed

section \<open>Two observations\<close>

text \<open>The protocol's description gives the sender of \<^verbatim>\<open>present:force-take\<close> as the Host; the presenter's browser obeys any sender.\<close>

lemma anyone_force_takes:
  assumes "iAmPresenting H c"
  shows "StopShare \<in> set (snd (presentStep H
    (PresentData (Some PRESENT_TOPIC) (Some anyone) (encodeSignal N (presentJson PresentForceTake))) c))"
  using assms by (simp add: presentStep_def presentData_def presentMessage_def split_beta Let_def)

text \<open>
  Once the ten seconds of the stop loop are over, \<^verbatim>\<open>stoppingPresentation\<close> is never reset: after the share has ended
  and another was started, the click on Stop does nothing, and the thirty-second retry ends the new share.
\<close>

definition demoStuck :: "present_event list" where
  "demoStuck = [TracksChanged [shareOf ''ann''], ShareClick False [], StopEnded True, TracksChanged [],
     ShareClick False [], TracksChanged [shareOf ''ann'']]"

lemma stop_gets_stuck:
  "(let c = fst (presentRun (hookOf ''ann'' False) demoStuck startPresent) in
    pc_stopping c \<and> iAmPresenting (hookOf ''ann'' False) c \<and>
    snd (presentStep (hookOf ''ann'' False) (ShareClick False []) c) = [] \<and>
    snd (presentStep (hookOf ''ann'' False) ReconcileDue c) = [StopShare])"
  by code_simp

text \<open>Changing the shared screen: exactly the tracks that are not shown any more are stopped.\<close>

lemma change_keeps_current:
  assumes "distinct (previous # map fst captured)" and "changeTracks previous (Some captured) replacing = (current, stopped)"
    and "replacing = Replaced \<or> (\<exists>adopted. replacing = ReplaceFailed adopted True)" and "find snd captured \<noteq> None"
  shows "current \<notin> set stopped \<and> insert current (set stopped) = (if replacing = Replaced then {previous} else {current}) \<union> set (map fst captured)"
proof -
  obtain new b where f: "find snd captured = Some (new, b)" using assms(4) by (cases "find snd captured") auto
  then have "new \<in> fst ` set captured" by (metis find_Some_iff fst_conv image_eqI nth_mem)
  with assms f show ?thesis by (auto simp: changeTracks_def image_iff) force+
qed

end
