(* ===== verification/RecordClient.thy ===== *)
theory RecordClient
  imports CallSignals Machines
begin

text \<open>
  Request to Record in the browser: the hook \<^verbatim>\<open>useRecording\<close>
  (\<^verbatim>\<open>apps/web/src/components/call/useRecording.ts\<close>) as a machine of events, for a guest who asks and
  for the host who answers. The functions that await are split there; what is under way is kept in
  \<open>rr_sends\<close> and \<open>rr_grants\<close>, so that a continuation runs once for each start. The stop loop itself is in
  \<open>StopRetry\<close>. After every event the effects run that follow the room's metadata.
\<close>

section \<open>The room's metadata\<close>

record recording_view =
  rv_active :: bool
  rv_startedAt :: "json option"
  rv_recordingId :: "string option"
  rv_shareAvailable :: bool

text \<open>A metadata text that is \<^verbatim>\<open>null\<close> parses, and reading a property of it throws.\<close>

definition recordingView :: "metadata \<Rightarrow> exn + recording_view" where
  "recordingView metadata =
     (let value = (case metadata of Metadata v \<Rightarrow> v | _ \<Rightarrow> JObj []) in
      bindR (jget ''recording'' value) (\<lambda>recording.
      bindR (jget ''recordingStartedAt'' value) (\<lambda>startedAt.
      bindR (jget ''recordingId'' value) (\<lambda>rid.
      bindR (jget ''recordingShareAvailable'' value) (\<lambda>share.
        Inr \<lparr>rv_active = (recording = Some (JBool True)),
             rv_startedAt = (case startedAt of Some (JNum n) \<Rightarrow> Some (JNum n) | Some (JInf b) \<Rightarrow> Some (JInf b) | _ \<Rightarrow> None),
             rv_recordingId = jstring rid,
             rv_shareAvailable = (share = Some (JBool True))\<rparr>)))))"

section \<open>State\<close>

datatype record_outcome = RApproved | RDenied | RTimedOut

record record_client =
  rr_view :: recording_view
  rr_pending :: bool
  rr_incoming :: "incoming_request option"
  rr_outcome :: "record_outcome option"
  rr_iAmRecorder :: bool
  rr_busy :: bool
  rr_stopping :: bool
  rr_stopFailure :: bool
  rr_timer :: "nat option"
  rr_timers :: "nat list"
  rr_nextTimer :: nat
  rr_pendingId :: "string option"
  rr_outcomeTimer :: bool
  rr_wasActive :: bool
  rr_mounted :: bool
  rr_sends :: nat
  rr_loops :: nat
  rr_grants :: "incoming_request list"
  rr_approvals :: "incoming_request list"

definition noRecording :: recording_view where
  "noRecording = \<lparr>rv_active = False, rv_startedAt = None, rv_recordingId = None, rv_shareAvailable = False\<rparr>"

definition startRecord :: record_client where
  "startRecord = \<lparr>rr_view = noRecording, rr_pending = False, rr_incoming = None, rr_outcome = None,
     rr_iAmRecorder = False, rr_busy = False, rr_stopping = False, rr_stopFailure = False, rr_timer = None,
     rr_timers = [], rr_nextTimer = 0, rr_pendingId = None, rr_outcomeTimer = False, rr_wasActive = False,
     rr_mounted = True, rr_sends = 0, rr_loops = 0, rr_grants = [], rr_approvals = []\<rparr>"

record record_hook =
  rh_me :: string
  rh_name :: string
  rh_isHost :: bool
  rh_hostKey :: "string option"

datatype record_effect =
    Broadcast record_message
  | SendRecord "json option" record_message
  | ApproveRecording "json option"
  | StopRecordingCall

type_synonym record_step = "record_client \<Rightarrow> record_client \<times> record_effect list"

section \<open>Timers\<close>

definition clearPendingTimer :: "record_client \<Rightarrow> record_client" where
  "clearPendingTimer c =
     (case rr_timer c of
        None \<Rightarrow> c
      | Some h \<Rightarrow> c\<lparr>rr_timer := None, rr_timers := filter (\<lambda>h'. h' \<noteq> h) (rr_timers c)\<rparr>)"

definition showRecordOutcome :: "record_outcome \<Rightarrow> record_client \<Rightarrow> record_client" where
  "showRecordOutcome x c = c\<lparr>rr_outcome := Some x, rr_outcomeTimer := True\<rparr>"

definition recordTimeout :: "nat \<Rightarrow> record_client \<Rightarrow> record_client" where
  "recordTimeout h c =
     (if h \<notin> set (rr_timers c) then c
      else
        let c1 = c\<lparr>rr_timers := filter (\<lambda>h'. h' \<noteq> h) (rr_timers c), rr_timer := None\<rparr> in
        if \<not> rr_pending c1 then c1
        else (showRecordOutcome RTimedOut c1)\<lparr>rr_pendingId := None, rr_pending := False\<rparr>)"

section \<open>Effects\<close>

definition followEnd :: "record_client \<Rightarrow> record_client" where
  "followEnd c =
     (let active = rv_active (rr_view c) in
      (if rr_wasActive c \<and> \<not> active then c\<lparr>rr_iAmRecorder := False\<rparr> else c)\<lparr>rr_wasActive := active\<rparr>)"

definition followStop :: "record_client \<Rightarrow> record_client" where
  "followStop c = (if \<not> rv_active (rr_view c) \<and> rr_stopping c then c\<lparr>rr_stopping := False\<rparr> else c)"

section \<open>Messages\<close>

definition answers :: "json \<Rightarrow> record_client \<Rightarrow> bool" where
  "answers msg c \<longleftrightarrow> rr_pending c \<and>
     propOf ''requestId'' msg = Some (case rr_pendingId c of None \<Rightarrow> JNull | Some rid \<Rightarrow> JStr rid)"

definition recordMessage :: "record_hook \<Rightarrow> json \<Rightarrow> record_client \<Rightarrow> record_client" where
  "recordMessage H msg c =
     (if isType ''record:request'' msg then
        (if rh_isHost H then c\<lparr>rr_incoming := Some (incomingOf msg)\<rparr> else c)
      else if isType ''record:cancel'' msg then c\<lparr>rr_incoming := cancelled msg (rr_incoming c)\<rparr>
      else if isType ''record:approve'' msg then
        (if \<not> answers msg c then c
         else (showRecordOutcome RApproved ((clearPendingTimer c)\<lparr>rr_pendingId := None, rr_iAmRecorder := True\<rparr>))
           \<lparr>rr_pending := False\<rparr>)
      else if isType ''record:deny'' msg then
        (if \<not> answers msg c then c
         else (showRecordOutcome RDenied ((clearPendingTimer c)\<lparr>rr_pendingId := None\<rparr>))\<lparr>rr_pending := False\<rparr>)
      else c)"

definition recordData :: "record_hook \<Rightarrow> string option \<Rightarrow> json_text \<Rightarrow> record_client \<Rightarrow> record_client" where
  "recordData H topic payload c =
     (if topic \<noteq> Some RECORD_TOPIC then c
      else case readable payload of None \<Rightarrow> c | Some msg \<Rightarrow> recordMessage H msg c)"

section \<open>The guest's actions\<close>

definition requestToRecord :: "record_hook \<Rightarrow> string \<Rightarrow> record_step" where
  "requestToRecord H rid c =
     (c\<lparr>rr_pendingId := Some rid, rr_pending := True, rr_sends := rr_sends c + 1\<rparr>,
      [Broadcast (RecordRequest rid (rh_me H) (if rh_name H = [] then rh_me H else rh_name H))])"

definition requestBroadcast :: "bool \<Rightarrow> record_client \<Rightarrow> record_client" where
  "requestBroadcast ok c =
     (if rr_sends c = 0 then c
      else
        let c1 = c\<lparr>rr_sends := rr_sends c - 1\<rparr> in
        if \<not> ok then c1
        else
          let c2 = clearPendingTimer c1; h = rr_nextTimer c2 in
          c2\<lparr>rr_timer := Some h, rr_timers := h # rr_timers c2, rr_nextTimer := h + 1\<rparr>)"

definition cancelRecord :: "record_hook \<Rightarrow> record_step" where
  "cancelRecord H c =
     ((clearPendingTimer (c\<lparr>rr_pendingId := None\<rparr>))\<lparr>rr_pending := False\<rparr>,
      case rr_pendingId c of
        None \<Rightarrow> []
      | Some rid \<Rightarrow> if rid = [] then [] else [Broadcast (RecordCancel rid (rh_me H))])"

definition stopRecordingBegin :: "bool \<Rightarrow> record_step" where
  "stopRecordingBegin retry c =
     (if rr_stopping c \<and> \<not> retry then (c, [])
      else (c\<lparr>rr_stopping := True, rr_stopFailure := False, rr_busy := True, rr_loops := rr_loops c + 1\<rparr>, [StopRecordingCall]))"

definition stopRecordingEnd :: "bool \<Rightarrow> record_client \<Rightarrow> record_client" where
  "stopRecordingEnd failed c =
     (if rr_loops c = 0 then c
      else
        let c1 = c\<lparr>rr_loops := rr_loops c - 1, rr_busy := False\<rparr> in
        if failed then c1\<lparr>rr_stopFailure := True\<rparr> else c1)"

section \<open>The host's actions\<close>

definition approveRecordBegin :: "record_hook \<Rightarrow> record_step" where
  "approveRecordBegin H c =
     (case rr_incoming c of
        None \<Rightarrow> (c, [])
      | Some r \<Rightarrow>
          if \<not> truthy (rh_hostKey H) then (c, [])
          else (c\<lparr>rr_incoming := None, rr_grants := r # rr_grants c\<rparr>, [ApproveRecording (ir_requesterId r)]))"

text \<open>The API answered; then the message was sent or not. In both cases a failure is told as a denial.\<close>

definition approveAnswered :: "incoming_request \<Rightarrow> bool \<Rightarrow> record_step" where
  "approveAnswered r ok c =
     (if r \<notin> set (rr_grants c) then (c, [])
      else
        let c1 = c\<lparr>rr_grants := remove1 r (rr_grants c)\<rparr> in
        if ok then (c1\<lparr>rr_approvals := r # rr_approvals c1\<rparr>, [SendRecord (ir_requesterId r) (RecordApprove (ir_requestId r))])
        else (c1, [SendRecord (ir_requesterId r) (RecordDeny (ir_requestId r))]))"

definition approveSent :: "incoming_request \<Rightarrow> bool \<Rightarrow> record_step" where
  "approveSent r ok c =
     (if r \<notin> set (rr_approvals c) then (c, [])
      else (c\<lparr>rr_approvals := remove1 r (rr_approvals c)\<rparr>,
            if ok then [] else [SendRecord (ir_requesterId r) (RecordDeny (ir_requestId r))]))"

definition denyRecord :: record_step where
  "denyRecord c =
     (case rr_incoming c of
        None \<Rightarrow> (c, [])
      | Some r \<Rightarrow> (c\<lparr>rr_incoming := None\<rparr>, [SendRecord (ir_requesterId r) (RecordDeny (ir_requestId r))]))"

section \<open>The machine\<close>

datatype record_event =
    MetadataChanged metadata
  | RecordData "string option" json_text
  | RecorderLeft string
  | AskRecord string
  | RequestBroadcast bool
  | CancelRecord
  | StopRecordClick bool
  | StopRecordEnded bool
  | ApproveClick
  | ApproveAnswered incoming_request bool
  | ApproveSent incoming_request bool
  | DenyClick
  | RecordTimeout nat
  | RecordOutcomeTimeout
  | DismissRecordOutcome

definition seeMetadata :: "metadata \<Rightarrow> record_client \<Rightarrow> record_client" where
  "seeMetadata m c = (case recordingView m of Inl _ \<Rightarrow> c\<lparr>rr_mounted := False\<rparr> | Inr v \<Rightarrow> c\<lparr>rr_view := v\<rparr>)"

fun recordHandle :: "record_hook \<Rightarrow> record_event \<Rightarrow> record_step" where
  "recordHandle H (MetadataChanged m) c = (seeMetadata m c, [])"
| "recordHandle H (RecordData topic payload) c = (recordData H topic payload c, [])"
| "recordHandle H (RecorderLeft i) c = (c\<lparr>rr_incoming := dropLeft i (rr_incoming c)\<rparr>, [])"
| "recordHandle H (AskRecord rid) c = requestToRecord H rid c"
| "recordHandle H (RequestBroadcast ok) c = (requestBroadcast ok c, [])"
| "recordHandle H CancelRecord c = cancelRecord H c"
| "recordHandle H (StopRecordClick retry) c = stopRecordingBegin retry c"
| "recordHandle H (StopRecordEnded failed) c = (stopRecordingEnd failed c, [])"
| "recordHandle H ApproveClick c = approveRecordBegin H c"
| "recordHandle H (ApproveAnswered r ok) c = approveAnswered r ok c"
| "recordHandle H (ApproveSent r ok) c = approveSent r ok c"
| "recordHandle H DenyClick c = denyRecord c"
| "recordHandle H (RecordTimeout h) c = (recordTimeout h c, [])"
| "recordHandle H RecordOutcomeTimeout c =
     (if rr_outcomeTimer c then c\<lparr>rr_outcome := None, rr_outcomeTimer := False\<rparr> else c, [])"
| "recordHandle H DismissRecordOutcome c = (c\<lparr>rr_outcome := None\<rparr>, [])"

definition recordStep :: "record_hook \<Rightarrow> record_event \<Rightarrow> record_step" where
  "recordStep H e c =
     (if \<not> rr_mounted c then (c, [])
      else let (c1, es) = recordHandle H e c in (if rr_mounted c1 then followStop (followEnd c1) else c1, es))"

fun recordRun :: "record_hook \<Rightarrow> record_event list \<Rightarrow> record_step" where
  "recordRun H [] c = (c, [])"
| "recordRun H (e # es) c = (let (c1, x) = recordStep H e c; (c2, y) = recordRun H es c1 in (c2, x @ y))"

interpretation rm: event_machine "recordStep H" "recordRun H" for H
  by unfold_locales simp_all

end
