(* ===== verification/RecordProperties.thy ===== *)
theory RecordProperties
  imports RecordClient
begin

text \<open>
  What the recording hook guarantees: a browser shows its person as the recorder only after an approval that
  names the request this person made and has not withdrawn; and the exchange between guest and host.
\<close>

section \<open>Who becomes the recorder\<close>

fun approves :: "string \<Rightarrow> record_event \<Rightarrow> bool" where
  "approves rid (RecordData topic payload) \<longleftrightarrow> topic = Some RECORD_TOPIC \<and>
     (case readable payload of
        None \<Rightarrow> False
      | Some msg \<Rightarrow> isType ''record:approve'' msg \<and> propOf ''requestId'' msg = Some (JStr rid))"
| "approves rid _ \<longleftrightarrow> False"

fun keepsAsk :: "record_event \<Rightarrow> bool" where
  "keepsAsk (AskRecord _) = False"
| "keepsAsk CancelRecord = False"
| "keepsAsk _ = True"

text \<open>The last request of a run, neither replaced nor withdrawn.\<close>

definition asked :: "record_event list \<Rightarrow> string \<Rightarrow> bool" where
  "asked es rid \<longleftrightarrow> (\<exists>xs ys. es = xs @ AskRecord rid # ys \<and> list_all keepsAsk ys)"

definition granted :: "record_event list \<Rightarrow> bool" where
  "granted es \<longleftrightarrow> (\<exists>xs e ys rid. es = xs @ e # ys \<and> asked xs rid \<and> approves rid e)"

lemma asked_snoc: "asked es rid \<Longrightarrow> keepsAsk e \<Longrightarrow> asked (es @ [e]) rid"
proof -
  assume "asked es rid" and k: "keepsAsk e"
  then obtain xs ys where "es = xs @ AskRecord rid # ys" "list_all keepsAsk ys" by (auto simp: asked_def)
  with k show ?thesis unfolding asked_def by (intro exI [of _ xs] exI [of _ "ys @ [e]"]) simp
qed

lemma asked_now: "asked (es @ [AskRecord rid]) rid"
  unfolding asked_def by (intro exI [of _ es] exI [of _ "[]"]) simp

lemma granted_snoc: "granted es \<Longrightarrow> granted (es @ [e])"
  unfolding granted_def by (metis append.assoc append_Cons)

lemma granted_now: "asked es rid \<Longrightarrow> approves rid e \<Longrightarrow> granted (es @ [e])"
  unfolding granted_def by blast

lemma follow_fields [simp]:
  "rr_pending (followStop c) = rr_pending c" "rr_pendingId (followStop c) = rr_pendingId c"
  "rr_iAmRecorder (followStop c) = rr_iAmRecorder c" "rr_pending (followEnd c) = rr_pending c"
  "rr_pendingId (followEnd c) = rr_pendingId c"
  by (simp_all add: followStop_def followEnd_def Let_def)

lemma followEnd_recorder: "rr_iAmRecorder (followEnd c) \<Longrightarrow> rr_iAmRecorder c"
  by (simp add: followEnd_def Let_def split: if_splits)

lemma timer_fields [simp]:
  "rr_pending (clearPendingTimer c) = rr_pending c" "rr_pendingId (clearPendingTimer c) = rr_pendingId c"
  "rr_iAmRecorder (clearPendingTimer c) = rr_iAmRecorder c" "rr_mounted (clearPendingTimer c) = rr_mounted c"
  "rr_pending (showRecordOutcome x c) = rr_pending c" "rr_pendingId (showRecordOutcome x c) = rr_pendingId c"
  "rr_iAmRecorder (showRecordOutcome x c) = rr_iAmRecorder c" "rr_mounted (showRecordOutcome x c) = rr_mounted c"
  "rr_outcome (showRecordOutcome x c) = Some x"
  by (simp_all add: clearPendingTimer_def showRecordOutcome_def split: option.split)

definition consistent :: "record_client \<Rightarrow> bool" where
  "consistent c \<longleftrightarrow> rr_pending c = (rr_pendingId c \<noteq> None)"

lemma message_consistent: "consistent c \<Longrightarrow> consistent (recordMessage H msg c)"
  by (simp add: recordMessage_def consistent_def)

lemma message_pending: "rr_pendingId (recordMessage H msg c) = Some rid \<Longrightarrow> rr_pendingId c = Some rid"
  by (simp add: recordMessage_def split: if_splits)

lemma message_takes:
  "rr_iAmRecorder (recordMessage H msg c) \<longrightarrow> rr_iAmRecorder c \<or> isType ''record:approve'' msg \<and> answers msg c"
  by (simp add: recordMessage_def)

lemma message_recorder:
  assumes "consistent c" and "rr_iAmRecorder (recordMessage H msg c)" and "\<not> rr_iAmRecorder c"
  shows "\<exists>rid. rr_pendingId c = Some rid \<and> isType ''record:approve'' msg \<and> propOf ''requestId'' msg = Some (JStr rid)"
proof -
  have a: "isType ''record:approve'' msg" "answers msg c" using message_takes assms(2,3) by blast+
  obtain rid where "rr_pendingId c = Some rid" using a(2) assms(1) unfolding answers_def consistent_def by fast
  then show ?thesis using a unfolding answers_def by simp
qed

lemmas record_defs =
  seeMetadata_def recordData_def requestToRecord_def requestBroadcast_def cancelRecord_def stopRecordingBegin_def
  stopRecordingEnd_def approveRecordBegin_def approveAnswered_def approveSent_def denyRecord_def recordTimeout_def

lemma handle_consistent: "consistent c \<Longrightarrow> consistent (fst (recordHandle H e c))"
  using message_consistent
  by (cases e) (simp_all add: record_defs Let_def consistent_def split: option.split sum.split)

lemma handle_pending:
  "rr_pendingId (fst (recordHandle H e c)) = Some rid \<Longrightarrow> e = AskRecord rid \<or> keepsAsk e \<and> rr_pendingId c = Some rid"
  by (cases e) (auto simp: record_defs Let_def dest: message_pending split: option.splits sum.splits if_splits)

lemma handle_other: "(\<nexists>topic payload. e = RecordData topic payload) \<Longrightarrow> rr_iAmRecorder (fst (recordHandle H e c)) = rr_iAmRecorder c"
  by (cases e) (simp_all add: record_defs Let_def split: option.split sum.split)

lemma handle_recorder:
  assumes "consistent c" and "rr_iAmRecorder (fst (recordHandle H e c))" and "\<not> rr_iAmRecorder c"
  shows "\<exists>rid. rr_pendingId c = Some rid \<and> approves rid e"
proof -
  obtain topic payload where e: "e = RecordData topic payload" using handle_other assms(2,3) by metis
  then obtain msg where m: "topic = Some RECORD_TOPIC" "readable payload = Some msg" "rr_iAmRecorder (recordMessage H msg c)"
    using assms(2,3) by (cases "readable payload"; cases "topic = Some RECORD_TOPIC") (simp_all add: recordData_def)
  from message_recorder [OF assms(1) m(3) assms(3)] show ?thesis using e m(1,2) by simp
qed

lemma step_consistent: "consistent c \<Longrightarrow> consistent (fst (recordStep H e c))"
  using handle_consistent [of c H e] by (auto simp: recordStep_def consistent_def split_beta)

lemma step_pending:
  "rr_pendingId (fst (recordStep H e c)) = Some rid \<Longrightarrow>
     \<not> rr_mounted c \<and> rr_pendingId c = Some rid \<or> e = AskRecord rid \<or> keepsAsk e \<and> rr_pendingId c = Some rid"
  using handle_pending [of H e c rid] by (auto simp: recordStep_def split_beta split: if_splits)

lemma step_recorder:
  "consistent c \<Longrightarrow> rr_iAmRecorder (fst (recordStep H e c)) \<Longrightarrow>
     rr_iAmRecorder c \<or> rr_mounted c \<and> (\<exists>rid. rr_pendingId c = Some rid \<and> approves rid e)"
  using handle_recorder [of c H e] followEnd_recorder by (auto simp: recordStep_def split_beta split: if_splits)

lemma unmounted_stays: "\<not> rr_mounted c \<Longrightarrow> fst (recordStep H e c) = c"
  by (simp add: recordStep_def)

lemma run_invariant:
  "consistent (fst (recordRun H es startRecord)) \<and>
   (rr_mounted (fst (recordRun H es startRecord)) \<longrightarrow>
      (\<forall>rid. rr_pendingId (fst (recordRun H es startRecord)) = Some rid \<longrightarrow> asked es rid)) \<and>
   (rr_iAmRecorder (fst (recordRun H es startRecord)) \<longrightarrow> granted es)"
proof (induction es rule: rev_induct)
  case Nil
  then show ?case by (simp add: startRecord_def consistent_def)
next
  case (snoc e es)
  let ?c = "fst (recordRun H es startRecord)"
  let ?d = "fst (recordStep H e ?c)"
  have d: "fst (recordRun H (es @ [e]) startRecord) = ?d" by (simp add: rm.run_snoc)
  have m: "rr_mounted ?d \<Longrightarrow> rr_mounted ?c" by (rule ccontr) (simp add: unmounted_stays)
  have "asked (es @ [e]) rid" if "rr_mounted ?d" "rr_pendingId ?d = Some rid" for rid
    using step_pending [OF that(2)] m [OF that(1)] snoc asked_snoc asked_now by auto
  moreover have "granted (es @ [e])" if "rr_iAmRecorder ?d"
    using step_recorder [OF _ that] snoc granted_snoc granted_now by auto
  ultimately show ?case using step_consistent snoc d by simp
qed

lemma recorder_asked_facts:
  assumes "recordRun H es startRecord = (c, effects)"
  shows "rr_pending c = (rr_pendingId c \<noteq> None)"
    and "rr_iAmRecorder c \<Longrightarrow> \<exists>xs rid ys e zs. es = xs @ AskRecord rid # ys @ e # zs \<and> list_all keepsAsk ys \<and> approves rid e"
proof -
  note i = run_invariant [of H es, unfolded assms fst_conv]
  show "rr_pending c = (rr_pendingId c \<noteq> None)" using i by (simp add: consistent_def)
  assume "rr_iAmRecorder c"
  then obtain us e zs rid where g: "es = us @ e # zs" "asked us rid" "approves rid e" using i by (auto simp: granted_def)
  then obtain xs ys where "us = xs @ AskRecord rid # ys" "list_all keepsAsk ys" by (auto simp: asked_def)
  then show "\<exists>xs rid ys e zs. es = xs @ AskRecord rid # ys @ e # zs \<and> list_all keepsAsk ys \<and> approves rid e"
    using g by (intro exI [of _ xs] exI [of _ rid] exI [of _ ys] exI [of _ e] exI [of _ zs]) simp
qed

text \<open>C20. Nobody becomes the recorder unasked. In every run of the recording hook, with whatever messages, the browser
  waits for an answer exactly when it holds the id of a pending request; and when it shows its person as the
  recorder, an approval came in that names a request this person had made, had not withdrawn and had not replaced by another one.\<close>

theorem recorder_asked:
  assumes "recordRun H es startRecord = (c, effects)"
  shows "rr_pending c = (rr_pendingId c \<noteq> None) \<and>
    (rr_iAmRecorder c \<longrightarrow>
      (\<exists>xs rid ys e zs. es = xs @ AskRecord rid # ys @ e # zs \<and> list_all keepsAsk ys \<and> approves rid e))"
  using recorder_asked_facts [OF assms] by blast

definition recordHook :: "string \<Rightarrow> string option \<Rightarrow> record_hook" where
  "recordHook i key = \<lparr>rh_me = i, rh_name = [], rh_isHost = (key \<noteq> None), rh_hostKey = key\<rparr>"

definition approvalOf :: "string \<Rightarrow> record_event" where
  "approvalOf rid = RecordData (Some RECORD_TOPIC) (encodeSignal (\<lambda>_. 1) (recordJson (RecordApprove (Some (JStr rid)))))"

theorem recorder_asked_witness:
  "rr_iAmRecorder (fst (recordRun (recordHook ''bob'' None) [AskRecord ''q1'', RequestBroadcast True, approvalOf ''q1''] startRecord)) \<and>
   (\<exists>xs rid ys e zs. [AskRecord ''q1'', RequestBroadcast True, approvalOf ''q1''] = xs @ AskRecord rid # ys @ e # zs \<and>
     list_all keepsAsk ys \<and> approves rid e)"
proof -
  obtain c effects where r: "recordRun (recordHook ''bob'' None) [AskRecord ''q1'', RequestBroadcast True, approvalOf ''q1''] startRecord = (c, effects)"
    by fastforce
  have "rr_iAmRecorder (fst (recordRun (recordHook ''bob'' None) [AskRecord ''q1'', RequestBroadcast True, approvalOf ''q1''] startRecord))"
    by code_simp
  then have "rr_iAmRecorder c" using r by simp
  then show ?thesis using recorder_asked [OF r] r by simp
qed

section \<open>Guest and host\<close>

definition requestOf :: "record_hook \<Rightarrow> string \<Rightarrow> record_message" where
  "requestOf G rid = RecordRequest rid (rh_me G) (if rh_name G = [] then rh_me G else rh_name G)"

definition incomingFrom :: "record_hook \<Rightarrow> string \<Rightarrow> incoming_request" where
  "incomingFrom G rid = \<lparr>ir_requestId = Some (JStr rid), ir_requesterId = Some (JStr (rh_me G)),
     ir_requesterName = Some (JStr (if rh_name G = [] then rh_me G else rh_name G))\<rparr>"

lemma follow_other [simp]:
  "rr_mounted (followStop (followEnd c)) = rr_mounted c" "rr_incoming (followStop (followEnd c)) = rr_incoming c"
  "rr_grants (followStop (followEnd c)) = rr_grants c" "rr_outcome (followStop (followEnd c)) = rr_outcome c"
  by (auto simp: followStop_def followEnd_def Let_def)

lemma host_answers:
  assumes "rr_mounted h" and "rh_isHost K" and "truthy (rh_hostKey K)"
  shows "snd (recordRun K [RecordData (Some RECORD_TOPIC) (encodeSignal N (recordJson (requestOf G rid))), ApproveClick,
      ApproveAnswered (incomingFrom G rid) ok] h) =
    [ApproveRecording (Some (JStr (rh_me G))),
     SendRecord (Some (JStr (rh_me G))) (if ok then RecordApprove (Some (JStr rid)) else RecordDeny (Some (JStr rid)))]"
  using assms
  by (simp add: recordStep_def recordData_def recordMessage_def requestOf_def incomingOf_def incomingFrom_def approveRecordBegin_def
      approveAnswered_def Let_def split_beta)

lemma guest_hears:
  assumes "rr_mounted g"
  shows "snd (recordStep G (AskRecord rid) g) = [Broadcast (requestOf G rid)] \<and>
    (let g' = fst (recordRun G [AskRecord rid, RequestBroadcast sent, RecordData (Some RECORD_TOPIC)
        (encodeSignal N (recordJson (if ok then RecordApprove (Some (JStr rid)) else RecordDeny (Some (JStr rid)))))] g) in
     \<not> rr_pending g' \<and> rr_outcome g' = Some (if ok then RApproved else RDenied))"
  using assms
  by (simp add: recordStep_def recordData_def recordMessage_def requestToRecord_def requestOf_def requestBroadcast_def answers_def
      clearPendingTimer_def Let_def split_beta split: option.split)

lemma followEnd_same: "rv_active (rr_view c) = rr_wasActive c \<Longrightarrow> followEnd c = c"
  by (simp add: followEnd_def Let_def)

lemma view_fields [simp]:
  "rr_view (followStop c) = rr_view c" "rr_wasActive (followStop c) = rr_wasActive c" "rr_mounted (followStop c) = rr_mounted c"
  "rr_view (clearPendingTimer c) = rr_view c" "rr_wasActive (clearPendingTimer c) = rr_wasActive c"
  "rr_view (showRecordOutcome x c) = rr_view c" "rr_wasActive (showRecordOutcome x c) = rr_wasActive c"
  by (auto simp: followStop_def clearPendingTimer_def showRecordOutcome_def split: option.split)

lemma guest_recorder:
  assumes "rr_mounted g" and "\<not> rr_iAmRecorder g" and "rv_active (rr_view g) = rr_wasActive g"
  shows "rr_iAmRecorder (fst (recordRun G [AskRecord rid, RequestBroadcast sent, RecordData (Some RECORD_TOPIC)
      (encodeSignal N (recordJson (if ok then RecordApprove (Some (JStr rid)) else RecordDeny (Some (JStr rid)))))] g)) = ok"
  using assms
  by (cases ok; cases sent)
    (simp_all add: recordStep_def recordData_def recordMessage_def requestToRecord_def requestBroadcast_def answers_def
      followEnd_same Let_def split_beta)

text \<open>Request to Record reaches an answer. When a guest asks, the browser broadcasts a request; the host's browser, given that
  packet, asks the API on the host's yes to let this guest record, and answers the guest with an
  approval of this request if the API agreed and with a denial of it otherwise; the guest's browser, given that packet, no longer
  waits, shows that outcome, and takes the guest as the recorder exactly if the API agreed (when the room's metadata does not change in between).\<close>

theorem record_exchange:
  assumes "rr_mounted g" and "\<not> rr_iAmRecorder g" and "rr_mounted h" and "rh_isHost K" and "truthy (rh_hostKey K)"
  shows "\<exists>request answer.
    snd (recordStep G (AskRecord rid) g) = [Broadcast request] \<and>
    snd (recordRun K [RecordData (Some RECORD_TOPIC) (encodeSignal N (recordJson request)), ApproveClick,
      ApproveAnswered (incomingFrom G rid) ok] h) =
      [ApproveRecording (Some (JStr (rh_me G))), SendRecord (Some (JStr (rh_me G))) answer] \<and>
    (let g' = fst (recordRun G [AskRecord rid, RequestBroadcast sent,
        RecordData (Some RECORD_TOPIC) (encodeSignal N (recordJson answer))] g) in
     \<not> rr_pending g' \<and> rr_outcome g' = Some (if ok then RApproved else RDenied) \<and>
     (rv_active (rr_view g) = rr_wasActive g \<longrightarrow> rr_iAmRecorder g' = ok))"
proof -
  let ?answer = "if ok then RecordApprove (Some (JStr rid)) else RecordDeny (Some (JStr rid))"
  show ?thesis
    by (intro exI [of _ "requestOf G rid"] exI [of _ ?answer] conjI)
      (use guest_hears [OF assms(1)] host_answers [OF assms(3-5)] guest_recorder [OF assms(1,2)] in \<open>simp_all add: Let_def\<close>)
qed

theorem record_exchange_witness:
  "\<exists>request answer.
    snd (recordStep (recordHook ''bob'' None) (AskRecord ''q1'') startRecord) = [Broadcast request] \<and>
    snd (recordRun (recordHook ''ann'' (Some ''key'')) [RecordData (Some RECORD_TOPIC) (encodeSignal (\<lambda>_. 1) (recordJson request)),
      ApproveClick, ApproveAnswered (incomingFrom (recordHook ''bob'' None) ''q1'') True] startRecord) =
      [ApproveRecording (Some (JStr ''bob'')), SendRecord (Some (JStr ''bob'')) answer]"
proof -
  have "rr_mounted startRecord" "\<not> rr_iAmRecorder startRecord" "rh_isHost (recordHook ''ann'' (Some ''key''))"
    "truthy (rh_hostKey (recordHook ''ann'' (Some ''key'')))" "rh_me (recordHook ''bob'' None) = ''bob''"
    by (simp_all add: startRecord_def recordHook_def)
  note h = this(1,2,1,3,4) and me = this(5)
  from record_exchange [OF h, of "recordHook ''bob'' None" "''q1''" "\<lambda>_. 1" True True] obtain request answer where
    "snd (recordStep (recordHook ''bob'' None) (AskRecord ''q1'') startRecord) = [Broadcast request]"
    "snd (recordRun (recordHook ''ann'' (Some ''key'')) [RecordData (Some RECORD_TOPIC) (encodeSignal (\<lambda>_. 1) (recordJson request)),
      ApproveClick, ApproveAnswered (incomingFrom (recordHook ''bob'' None) ''q1'') True] startRecord) =
      [ApproveRecording (Some (JStr (rh_me (recordHook ''bob'' None)))), SendRecord (Some (JStr (rh_me (recordHook ''bob'' None)))) answer]"
    by blast
  then show ?thesis unfolding me by blast
qed

end
