(* ===== verification/CallKeys.thy ===== *)
theory CallKeys
  imports Json Machines
begin

text \<open>
  Two small state machines of the call's microphone in the browser: the keyboard shortcuts with push-to-talk
  (\<^verbatim>\<open>apps/web/src/components/call/useCallShortcuts.ts\<close>) and the reminder for people who talk while
  muted (\<^verbatim>\<open>apps/web/src/components/call/useMuteReminder.ts\<close>).
\<close>

section \<open>Keyboard shortcuts\<close>

record key_target =
  kt_tag :: string
  kt_editable :: bool
  kt_remoteControl :: bool

record key_event =
  ke_code :: string
  ke_meta :: bool
  ke_ctrl :: bool
  ke_alt :: bool
  ke_shift :: bool
  ke_repeat :: bool
  ke_target :: "key_target option"

text \<open>The properties of one render; the callbacks are told apart by the number of the render they belong to.\<close>

record push_to_talk =
  pt_micEnabled :: bool
  pt_micPending :: bool

record shortcut_props =
  sp_enabled :: "bool option"
  sp_render :: nat
  sp_pushToTalk :: "push_to_talk option"

record shortcuts =
  sh_ref :: shortcut_props
  sh_enabled :: "bool option"
  sh_talking :: bool
  sh_mounted :: bool

datatype key_effect = ToggleAudio nat | ToggleCamera nat | SetMic nat bool | PreventDefault

type_synonym key_step = "shortcuts \<Rightarrow> shortcuts \<times> key_effect list"

definition lowerChar :: "char \<Rightarrow> char" where
  "lowerChar c = (let n = of_char c :: nat in if 65 \<le> n \<and> n \<le> 90 then char_of (n + 32) else c)"

definition infixOf :: "string \<Rightarrow> string \<Rightarrow> bool" where
  "infixOf p s \<longleftrightarrow> (\<exists>i \<le> length s. take (length p) (drop i s) = p)"

definition isMacPlatform :: "string \<Rightarrow> bool" where
  "isMacPlatform platform \<longleftrightarrow>
     list_ex (\<lambda>p. infixOf p (map lowerChar platform)) [''mac'', ''iphone'', ''ipad'', ''ipod'']"

definition isTextEntry :: "key_target option \<Rightarrow> bool" where
  "isTextEntry target =
     (case target of
        None \<Rightarrow> False
      | Some el \<Rightarrow> kt_tag el \<in> set [''INPUT'', ''TEXTAREA'', ''SELECT''] \<or> kt_editable el)"

definition onRemoteControl :: "key_event \<Rightarrow> bool" where
  "onRemoteControl e = (case ke_target e of None \<Rightarrow> False | Some el \<Rightarrow> kt_remoteControl el)"

definition onlyModifier :: "bool \<Rightarrow> key_event \<Rightarrow> bool" where
  "onlyModifier mac e \<longleftrightarrow>
     (if mac then ke_meta e \<and> \<not> ke_ctrl e else ke_ctrl e \<and> \<not> ke_meta e) \<and> \<not> ke_alt e \<and> \<not> ke_shift e"

definition reMute :: key_step where
  "reMute s =
     (if \<not> sh_talking s then (s, [])
      else (s\<lparr>sh_talking := False\<rparr>,
            case sp_pushToTalk (sh_ref s) of None \<Rightarrow> [] | Some _ \<Rightarrow> [SetMic (sp_render (sh_ref s)) False]))"

definition onKeyDown :: "bool \<Rightarrow> key_event \<Rightarrow> key_step" where
  "onKeyDown mac e s =
     (let n = sp_render (sh_ref s) in
      if onRemoteControl e then (s, [])
      else if onlyModifier mac e then
        (s, if ke_code e = ''KeyD'' then PreventDefault # (if ke_repeat e then [] else [ToggleAudio n])
            else if ke_code e = ''KeyE'' then PreventDefault # (if ke_repeat e then [] else [ToggleCamera n])
            else [])
      else if ke_code e = ''Space'' \<and> \<not> ke_meta e \<and> \<not> ke_ctrl e \<and> \<not> ke_alt e \<and> \<not> ke_shift e then
        (case sp_pushToTalk (sh_ref s) of
           None \<Rightarrow> (s, [])
         | Some p \<Rightarrow>
             if isTextEntry (ke_target e) then (s, [])
             else if ke_repeat e \<or> sh_talking s then (s, [PreventDefault])
             else if \<not> pt_micEnabled p \<and> \<not> pt_micPending p then (s\<lparr>sh_talking := True\<rparr>, [PreventDefault, SetMic n True])
             else (s, [PreventDefault]))
      else (s, []))"

definition onKeyUp :: "key_event \<Rightarrow> key_step" where
  "onKeyUp e s =
     (if onRemoteControl e then (s, [])
      else if ke_code e = ''Space'' \<and> sh_talking s then (let (s1, es) = reMute s in (s1, PreventDefault # es))
      else (s, []))"

text \<open>
  A render: when \<^verbatim>\<open>enabled\<close> changed, the clean-up of the old listeners runs first (with the old
  properties); then the reference takes the new properties, unless they are disabled.
\<close>

definition renderShortcuts :: "shortcut_props \<Rightarrow> key_step" where
  "renderShortcuts p s =
     (let (s1, es) = (if sp_enabled p \<noteq> sh_enabled s then reMute s else (s, [])) in
      (s1\<lparr>sh_enabled := sp_enabled p, sh_ref := if sp_enabled p = Some False then sh_ref s else p\<rparr>, es))"

definition mountShortcuts :: "shortcut_props \<Rightarrow> shortcuts" where
  "mountShortcuts p = \<lparr>sh_ref = p, sh_enabled = sp_enabled p, sh_talking = False, sh_mounted = True\<rparr>"

datatype shortcut_event = Rendered shortcut_props | KeyDown key_event | KeyUp key_event | Blur | Unmount

fun shortcutHandle :: "bool \<Rightarrow> shortcut_event \<Rightarrow> key_step" where
  "shortcutHandle mac (Rendered p) s = renderShortcuts p s"
| "shortcutHandle mac (KeyDown e) s = onKeyDown mac e s"
| "shortcutHandle mac (KeyUp e) s = onKeyUp e s"
| "shortcutHandle mac Blur s = reMute s"
| "shortcutHandle mac Unmount s = (let (s1, es) = reMute s in (s1\<lparr>sh_mounted := False\<rparr>, es))"

definition shortcutStep :: "bool \<Rightarrow> shortcut_event \<Rightarrow> key_step" where
  "shortcutStep mac e s = (if sh_mounted s then shortcutHandle mac e s else (s, []))"

fun shortcutRun :: "bool \<Rightarrow> shortcut_event list \<Rightarrow> key_step" where
  "shortcutRun mac [] s = (s, [])"
| "shortcutRun mac (e # es) s = (let (s1, x) = shortcutStep mac e s; (s2, y) = shortcutRun mac es s1 in (s2, x @ y))"

interpretation km: event_machine "shortcutStep mac" "shortcutRun mac" for mac
  by unfold_locales simp_all

subsection \<open>The microphone closes again\<close>

fun micOf :: "key_effect \<Rightarrow> bool list" where
  "micOf (SetMic _ on) = [on]"
| "micOf _ = []"

definition mics :: "key_effect list \<Rightarrow> bool list" where
  "mics es = concat (map micOf es)"

lemma mics_simps [simp]:
  "mics [] = []" "mics (SetMic n b # es) = b # mics es" "mics (PreventDefault # es) = mics es"
  "mics (ToggleAudio n # es) = mics es" "mics (ToggleCamera n # es) = mics es" "mics (xs @ ys) = mics xs @ mics ys"
  by (simp_all add: mics_def)

definition talkable :: "shortcut_props \<Rightarrow> bool" where
  "talkable p \<longleftrightarrow> sp_pushToTalk p \<noteq> None"

fun keepsTalkable :: "shortcut_event \<Rightarrow> bool" where
  "keepsTalkable (Rendered p) = talkable p"
| "keepsTalkable _ = True"

text \<open>Matched pairs of opening and closing, and one opening that is still to be closed if the key is held.\<close>

definition paired :: "nat \<Rightarrow> bool \<Rightarrow> bool list" where
  "paired k talking = concat (replicate k [True, False]) @ (if talking then [True] else [])"

lemma reMute_result:
  assumes "talkable (sh_ref s)"
  shows "mics (snd (reMute s)) = (if sh_talking s then [False] else [])" and "\<not> sh_talking (fst (reMute s))"
    and "sh_ref (fst (reMute s)) = sh_ref s" and "sh_mounted (fst (reMute s)) = sh_mounted s"
  using assms by (auto simp: reMute_def talkable_def)

lemma step_mics:
  assumes "talkable (sh_ref s)" and "keepsTalkable e" and "shortcutStep mac e s = (s', es)"
  shows "talkable (sh_ref s') \<and>
    (mics es = [] \<and> sh_talking s' = sh_talking s \<or> mics es = [True] \<and> \<not> sh_talking s \<and> sh_talking s' \<or>
     mics es = [False] \<and> sh_talking s \<and> \<not> sh_talking s')"
proof (cases e)
  case (KeyDown k)
  then show ?thesis using assms by (auto simp: shortcutStep_def onKeyDown_def Let_def split: if_splits option.splits)
next
  case (Rendered p)
  then show ?thesis using assms reMute_result [OF assms(1)]
    by (auto simp: shortcutStep_def renderShortcuts_def split_beta split: if_splits)
qed (use assms reMute_result [OF assms(1)] in
  \<open>auto simp: shortcutStep_def onKeyUp_def Let_def split_beta split: if_splits\<close>)

lemma paired_step:
  "paired k False @ [True] = paired k True" "paired k True @ [False] = paired (Suc k) False"
proof -
  have "replicate k [True, False] @ [[True, False]] = replicate (Suc k) [True, False]"
    by (simp only: replicate_append_same replicate_Suc)
  then have "concat (replicate k [True, False]) @ [True, False] = concat (replicate (Suc k) [True, False])"
    by (metis concat.simps concat_append append_Nil2)
  then show "paired k False @ [True] = paired k True" "paired k True @ [False] = paired (Suc k) False"
    by (simp_all add: paired_def)
qed

lemma run_mics:
  assumes "talkable (sh_ref s)" and "list_all keepsTalkable es"
  shows "\<exists>k'. paired k (sh_talking s) @ mics (snd (shortcutRun mac es s)) =
    paired k' (sh_talking (fst (shortcutRun mac es s)))"
  using assms
proof (induction es arbitrary: s k)
  case (Cons e es)
  obtain s1 x where 1: "shortcutStep mac e s = (s1, x)" by fastforce
  note st = step_mics [OF Cons.prems(1) _ 1]
  have "\<exists>k1. paired k (sh_talking s) @ mics x = paired k1 (sh_talking s1)"
    using st Cons.prems(2) paired_step [of k] by auto
  then obtain k1 where k1: "paired k (sh_talking s) @ mics x = paired k1 (sh_talking s1)" by blast
  obtain k' where "paired k1 (sh_talking s1) @ mics (snd (shortcutRun mac es s1)) = paired k' (sh_talking (fst (shortcutRun mac es s1)))"
    using Cons.IH [of s1 k1] st Cons.prems(2) by auto
  then show ?case using 1 by (auto simp: split_beta k1 [symmetric])
qed auto

lemma run_talkable:
  assumes "talkable (sh_ref s)" and "list_all keepsTalkable es"
  shows "talkable (sh_ref (fst (shortcutRun mac es s)))"
  using step_mics [OF _ _ prod.collapse [symmetric]] assms
  by (intro km.run_keeps [where ok = keepsTalkable and good = "\<lambda>s. talkable (sh_ref s)"]) blast+

lemma push_to_talk_closes_facts:
  assumes "talkable p" and "list_all keepsTalkable es" and "shortcutRun mac es (mountShortcuts p) = (s, effects)"
  shows "\<exists>k. mics effects = concat (replicate k [True, False]) @ (if sh_talking s then [True] else [])"
    and "sh_mounted s \<Longrightarrow> e = Blur \<or> e = Unmount \<or> (\<exists>key. e = KeyUp key \<and> ke_code key = ''Space'' \<and> \<not> onRemoteControl key) \<Longrightarrow>
      \<exists>k. mics (effects @ snd (shortcutStep mac e s)) = concat (replicate k [True, False])"
proof -
  have m: "talkable (sh_ref (mountShortcuts p))" "\<not> sh_talking (mountShortcuts p)" using assms(1) by (simp_all add: mountShortcuts_def)
  obtain k where k: "mics effects = paired k (sh_talking s)"
    using run_mics [OF m(1) assms(2), of 0 mac] m(2) assms(3) by (auto simp: paired_def)
  then show "\<exists>k. mics effects = concat (replicate k [True, False]) @ (if sh_talking s then [True] else [])"
    by (auto simp: paired_def)
  have t: "talkable (sh_ref s)" using run_talkable [OF m(1) assms(2), of mac] assms(3) by simp
  assume "sh_mounted s" "e = Blur \<or> e = Unmount \<or> (\<exists>key. e = KeyUp key \<and> ke_code key = ''Space'' \<and> \<not> onRemoteControl key)"
  then have "mics (snd (shortcutStep mac e s)) = (if sh_talking s then [False] else [])"
    using reMute_result(1) [OF t] by (auto simp: shortcutStep_def onKeyUp_def split_beta)
  then have "mics (effects @ snd (shortcutStep mac e s)) = paired (if sh_talking s then Suc k else k) False"
    using k paired_step(2) [of k] by simp
  then show "\<exists>k. mics (effects @ snd (shortcutStep mac e s)) = concat (replicate k [True, False])"
    unfolding paired_def by (simp only: if_False append_Nil2) blast
qed

text \<open>C39. Push-to-talk never leaves the microphone open behind. When every render offers push-to-talk, then in any run the
  calls of the hook on the microphone are matched pairs, opened and closed, plus one opening while
  the key is held; and losing the focus, releasing the key outside the remote desktop, or the end of
  the component leaves nothing held, so the last call closed the microphone.\<close>

theorem push_to_talk_closes:
  assumes "talkable p" and "list_all keepsTalkable es" and "shortcutRun mac es (mountShortcuts p) = (s, effects)"
  shows "(\<exists>k. mics effects = concat (replicate k [True, False]) @ (if sh_talking s then [True] else [])) \<and>
    (sh_mounted s \<longrightarrow> e = Blur \<or> e = Unmount \<or> (\<exists>key. e = KeyUp key \<and> ke_code key = ''Space'' \<and> \<not> onRemoteControl key) \<longrightarrow>
      (\<exists>k. mics (effects @ snd (shortcutStep mac e s)) = concat (replicate k [True, False])))"
  using push_to_talk_closes_facts [OF assms] by blast

definition keySpace :: key_event where
  "keySpace = \<lparr>ke_code = ''Space'', ke_meta = False, ke_ctrl = False, ke_alt = False, ke_shift = False, ke_repeat = False, ke_target = None\<rparr>"

definition mutedProps :: "bool option \<Rightarrow> shortcut_props" where
  "mutedProps on = \<lparr>sp_enabled = on, sp_render = 1, sp_pushToTalk = Some \<lparr>pt_micEnabled = False, pt_micPending = False\<rparr>\<rparr>"

theorem push_to_talk_closes_witness:
  "mics (snd (shortcutRun False [KeyDown keySpace] (mountShortcuts (mutedProps None)))) = [True] \<and>
   (\<exists>k. mics (snd (shortcutRun False [KeyDown keySpace] (mountShortcuts (mutedProps None))) @
     snd (shortcutStep False Blur (fst (shortcutRun False [KeyDown keySpace] (mountShortcuts (mutedProps None)))))) =
     concat (replicate k [True, False]))"
proof
  have "talkable (mutedProps None)" "list_all keepsTalkable [KeyDown keySpace]" by (simp_all add: talkable_def mutedProps_def)
  moreover have "sh_mounted (fst (shortcutRun False [KeyDown keySpace] (mountShortcuts (mutedProps None))))" by code_simp
  ultimately show "\<exists>k. mics (snd (shortcutRun False [KeyDown keySpace] (mountShortcuts (mutedProps None))) @
     snd (shortcutStep False Blur (fst (shortcutRun False [KeyDown keySpace] (mountShortcuts (mutedProps None)))))) =
     concat (replicate k [True, False])"
    using push_to_talk_closes [OF _ _ prod.collapse [symmetric]] by blast
  show "mics (snd (shortcutRun False [KeyDown keySpace] (mountShortcuts (mutedProps None)))) = [True]" by code_simp
qed

subsection \<open>Two observations\<close>

text \<open>
  The shortcuts are meant for desktops only, with \<^verbatim>\<open>enabled: false\<close> elsewhere; but the listeners are attached whatever
  \<^verbatim>\<open>enabled\<close> is, and the reference keeps the properties of the first render.
\<close>

lemma disabled_still_talks:
  "mics (snd (shortcutRun False [Rendered (mutedProps (Some False)), KeyDown keySpace] (mountShortcuts (mutedProps (Some False))))) = [True]"
  by code_simp

text \<open>A key held down and released over the remote desktop is not noticed: the microphone stays open until the focus is lost.\<close>

lemma release_over_desktop:
  "sh_talking (fst (shortcutRun False
     [KeyDown keySpace, KeyUp (keySpace\<lparr>ke_target := Some \<lparr>kt_tag = ''DIV'', kt_editable = False, kt_remoteControl = True\<rparr>\<rparr>)]
     (mountShortcuts (mutedProps None))))"
  by code_simp

section \<open>The Mute Reminder\<close>

definition SUSTAIN_MS :: rat where "SUSTAIN_MS = 500"
definition SHOW_MS :: rat where "SHOW_MS = 4000"
definition REMINDER_COOLDOWN_MS :: rat where "REMINDER_COOLDOWN_MS = 12000"
definition RMS_THRESHOLD :: rat where "RMS_THRESHOLD = 45 / 1000"

text \<open>The loop of an animation frame; the root of the mean square is compared by squares.\<close>

definition isLoud :: "rat list \<Rightarrow> bool" where
  "isLoud samples \<longleftrightarrow> sum_list (map (\<lambda>x. x * x) samples) / of_nat (length samples) > RMS_THRESHOLD * RMS_THRESHOLD"

record reminder =
  rm_speechStart :: rat
  rm_cooldownUntil :: rat

definition startReminder :: reminder where
  "startReminder = \<lparr>rm_speechStart = 0, rm_cooldownUntil = 0\<rparr>"

definition reminderTick :: "rat \<Rightarrow> rat list \<Rightarrow> reminder \<Rightarrow> reminder \<times> bool" where
  "reminderTick now samples r =
     (if isLoud samples then
        let r1 = (if rm_speechStart r = 0 then r\<lparr>rm_speechStart := now\<rparr> else r) in
        if now - rm_speechStart r1 \<ge> SUSTAIN_MS \<and> now \<ge> rm_cooldownUntil r1
        then (r1\<lparr>rm_cooldownUntil := now + SHOW_MS + REMINDER_COOLDOWN_MS\<rparr>, True)
        else (r1, False)
      else (r\<lparr>rm_speechStart := 0\<rparr>, False))"

fun reminderRun :: "(rat \<times> rat list) list \<Rightarrow> reminder \<Rightarrow> reminder \<times> rat list" where
  "reminderRun [] r = (r, [])"
| "reminderRun ((now, samples) # fs) r =
     (let (r1, shown) = reminderTick now samples r; (r2, ts) = reminderRun fs r1
      in (r2, if shown then now # ts else ts))"

definition apart :: "rat \<Rightarrow> rat \<Rightarrow> bool" where
  "apart a b \<longleftrightarrow> a + 16000 \<le> b"

lemma reminderRun_later:
  "\<forall>t \<in> set (snd (reminderRun fs r)). rm_cooldownUntil r \<le> t"
proof (induction fs arbitrary: r rule: list.induct)
  case (Cons f fs)
  obtain now samples where f: "f = (now, samples)" by fastforce
  obtain r1 shown where t: "reminderTick now samples r = (r1, shown)" by fastforce
  have "rm_cooldownUntil r \<le> rm_cooldownUntil r1" "shown \<longrightarrow> rm_cooldownUntil r \<le> now"
    using t by (auto simp: reminderTick_def SHOW_MS_def REMINDER_COOLDOWN_MS_def Let_def split: if_splits)
  then show ?case using Cons [of r1] f t by (cases shown) (auto simp: split_beta intro: order_trans)
qed simp

lemma reminders_apart: "sorted_wrt apart (snd (reminderRun fs r))"
proof (induction fs arbitrary: r rule: list.induct)
  case (Cons f fs)
  obtain now samples where f: "f = (now, samples)" by fastforce
  obtain r1 shown where t: "reminderTick now samples r = (r1, shown)" by fastforce
  have "shown \<longrightarrow> rm_cooldownUntil r1 = now + 16000"
    using t by (auto simp: reminderTick_def SHOW_MS_def REMINDER_COOLDOWN_MS_def Let_def split: if_splits)
  then show ?case using Cons [of r1] f t reminderRun_later [of fs r1] by (auto simp: split_beta apart_def)
qed simp

text \<open>The run of loud frames that a current speech consists of.\<close>

definition speaking :: "(rat \<times> rat list) list \<Rightarrow> rat \<Rightarrow> bool" where
  "speaking past since \<longleftrightarrow> (\<exists>xs f ys. past = xs @ f # ys \<and> fst f = since \<and> (\<forall>g \<in> set (f # ys). isLoud (snd g)))"

lemma speaking_snoc: "speaking past since \<Longrightarrow> isLoud samples \<Longrightarrow> speaking (past @ [(now, samples)]) since"
  unfolding speaking_def
proof (elim exE conjE)
  fix xs f ys
  assume "past = xs @ f # ys" "fst f = since" "\<forall>g \<in> set (f # ys). isLoud (snd g)" "isLoud samples"
  then show "\<exists>xs f ys. past @ [(now, samples)] = xs @ f # ys \<and> fst f = since \<and> (\<forall>g \<in> set (f # ys). isLoud (snd g))"
    by (intro exI [of _ xs] exI [of _ f] exI [of _ "ys @ [(now, samples)]"]) auto
qed

lemma speaking_now: "isLoud samples \<Longrightarrow> speaking (past @ [(now, samples)]) now"
  unfolding speaking_def by (intro exI [of _ past] exI [of _ "(now, samples)"] exI [of _ "[]"]) simp

lemma tick_speaking:
  assumes "rm_speechStart r \<noteq> 0 \<longrightarrow> speaking past (rm_speechStart r)" and "reminderTick now samples r = (r1, shown)"
  shows "(rm_speechStart r1 \<noteq> 0 \<longrightarrow> speaking (past @ [(now, samples)]) (rm_speechStart r1)) \<and>
    (shown \<longrightarrow> (\<exists>since. since + 500 \<le> now \<and> speaking (past @ [(now, samples)]) since))"
proof (cases "isLoud samples")
  case True
  then have s: "speaking (past @ [(now, samples)]) now"
      "rm_speechStart r \<noteq> 0 \<longrightarrow> speaking (past @ [(now, samples)]) (rm_speechStart r)"
    using assms(1) by (simp_all add: speaking_now speaking_snoc)
  then show ?thesis using assms(2) True
    by (auto simp: reminderTick_def Let_def SUSTAIN_MS_def le_diff_eq add.commute split: if_splits)
next
  case False
  then show ?thesis using assms(2) by (auto simp: reminderTick_def)
qed

lemma run_speaking:
  assumes "rm_speechStart r \<noteq> 0 \<longrightarrow> speaking past (rm_speechStart r)" and "t \<in> set (snd (reminderRun fs r))"
  shows "\<exists>gs f hs since. fs = gs @ f # hs \<and> fst f = t \<and> since + 500 \<le> t \<and> speaking (past @ gs @ [f]) since"
  using assms
proof (induction fs arbitrary: past r rule: list.induct)
  case (Cons f fs)
  obtain now samples where f: "f = (now, samples)" by fastforce
  obtain r1 shown where t: "reminderTick now samples r = (r1, shown)" by fastforce
  note k = tick_speaking [OF Cons.prems(1) t]
  show ?case
  proof (cases "shown \<and> t = now")
    case True
    then show ?thesis using k f by (intro exI [of _ "[]"] exI [of _ f] exI [of _ fs]) auto
  next
    case False
    then have "t \<in> set (snd (reminderRun fs r1))" using Cons.prems(2) f t by (auto simp: split_beta split: if_splits)
    from Cons.IH [OF _ this, of "past @ [f]"] k f obtain gs f' hs since where
      "fs = gs @ f' # hs" "fst f' = t" "since + 500 \<le> t" "speaking ((past @ [f]) @ gs @ [f']) since" by blast
    then show ?thesis by (intro exI [of _ "f # gs"] exI [of _ f'] exI [of _ hs] exI [of _ since]) simp
  qed
qed simp

text \<open>The Mute Reminder is neither hasty nor a nag. Whatever the microphone hears, two reminders are at least sixteen seconds apart (four
  for the bubble, twelve of rest), and a reminder comes only at a frame that ends a run of loud frames of at least half a second.\<close>

theorem reminders_spaced:
  assumes "reminderRun frames startReminder = (r, shown)"
  shows "sorted_wrt (\<lambda>a b. a + SHOW_MS + REMINDER_COOLDOWN_MS \<le> b) shown"
    and "t \<in> set shown \<Longrightarrow> \<exists>xs f ys g zs. frames = xs @ (f # ys) @ zs \<and> last (f # ys) = g \<and> fst g = t \<and> fst f + SUSTAIN_MS \<le> t \<and>
      (\<forall>h \<in> set (f # ys). isLoud (snd h))"
proof -
  have "sorted_wrt apart shown" using reminders_apart [of frames startReminder] assms by simp
  then show "sorted_wrt (\<lambda>a b. a + SHOW_MS + REMINDER_COOLDOWN_MS \<le> b) shown"
    by (rule sorted_wrt_mono_rel [rotated]) (simp add: apart_def SHOW_MS_def REMINDER_COOLDOWN_MS_def)
  assume "t \<in> set shown"
  then obtain gs g zs since where g: "frames = gs @ g # zs" "fst g = t" "since + 500 \<le> t" "speaking (gs @ [g]) since"
    using run_speaking [of startReminder "[]" t frames] assms by (auto simp: startReminder_def)
  then obtain xs f ys where f: "gs @ [g] = xs @ f # ys" "fst f = since" "\<forall>h \<in> set (f # ys). isLoud (snd h)"
    by (auto simp: speaking_def)
  then have "last (f # ys) = g" "frames = xs @ (f # ys) @ zs" using g(1) by (metis last_appendR last_snoc list.distinct(1)) (metis append.assoc append_Cons append_Nil g(1) f(1))
  then show "\<exists>xs f ys g zs. frames = xs @ (f # ys) @ zs \<and> last (f # ys) = g \<and> fst g = t \<and> fst f + SUSTAIN_MS \<le> t \<and>
      (\<forall>h \<in> set (f # ys). isLoud (snd h))" using f g(2,3) unfolding SUSTAIN_MS_def by metis
qed

definition demoFrames :: "(rat \<times> rat list) list" where
  "demoFrames = [(100, [1 / 10]), (400, [1 / 10]), (700, [1 / 10]), (9000, [1 / 10])]"

theorem reminders_spaced_witness:
  "snd (reminderRun demoFrames startReminder) = [700] \<and>
   (\<exists>xs f ys g zs. demoFrames = xs @ (f # ys) @ zs \<and> last (f # ys) = g \<and> fst g = 700 \<and> fst f + SUSTAIN_MS \<le> 700 \<and>
      (\<forall>h \<in> set (f # ys). isLoud (snd h)))"
proof -
  have s: "snd (reminderRun demoFrames startReminder) = [700]" by code_simp
  then have "(700 :: rat) \<in> set (snd (reminderRun demoFrames startReminder))" by simp
  then show ?thesis using s reminders_spaced(2) [OF prod.collapse [symmetric], of 700 demoFrames] by blast
qed

end
