(* ===== verification/Privacy.thy ===== *)
theory Privacy
  imports Json
begin

text \<open>
  What leaves the system in error reports, and what may talk to it:
  \<^verbatim>\<open>apps/api/src/observability/sentry-privacy.ts\<close> (the web application has the same file as \<^verbatim>\<open>lib/sentry-privacy.ts\<close>),
  \<^verbatim>\<open>config/cors.ts\<close> and \<^verbatim>\<open>config/validate-env.ts\<close>. Regular expressions are lists of items, matched with
  backtracking in the order of JavaScript: greedy repetitions give back one character at a time. The URL parser is a
  parameter.
\<close>

section \<open>Regular expressions\<close>

datatype rx_item =
    Exact string
  | AnyCase string
  | OneOf "string list"
  | OneChar "char \<Rightarrow> bool"
  | Greedy "char \<Rightarrow> bool" nat
  | Boundary

definition lowerCase :: "string \<Rightarrow> string" where
  "lowerCase = map (\<lambda>c. let n = of_char c :: nat in if 65 \<le> n \<and> n \<le> 90 then char_of (n + 32) else c)"

definition letter :: "char \<Rightarrow> bool" where
  "letter c \<longleftrightarrow> (let n = of_char c :: nat in 65 \<le> n \<and> n \<le> 90 \<or> 97 \<le> n \<and> n \<le> 122)"

definition digit :: "char \<Rightarrow> bool" where
  "digit c \<longleftrightarrow> (let n = of_char c :: nat in 48 \<le> n \<and> n \<le> 57)"

definition wordChar :: "char option \<Rightarrow> bool" where
  "wordChar x = (case x of None \<Rightarrow> False | Some c \<Rightarrow> letter c \<or> digit c \<or> c = CHR ''_'')"

fun firstSome :: "('a \<Rightarrow> 'b option) \<Rightarrow> 'a list \<Rightarrow> 'b option" where
  "firstSome f [] = None"
| "firstSome f (x # xs) = (case f x of None \<Rightarrow> firstSome f xs | Some y \<Rightarrow> Some y)"

text \<open>The character before the position \<open>n\<close> of \<open>s\<close>, when \<open>p\<close> is the one before \<open>s\<close>.\<close>

definition before :: "char option \<Rightarrow> string \<Rightarrow> nat \<Rightarrow> char option" where
  "before p s n = (if n = 0 then p else Some (s ! (n - 1)))"

type_synonym 'a rx_rest = "char option \<Rightarrow> string \<Rightarrow> 'a option"

definition advance :: "'a rx_rest \<Rightarrow> char option \<Rightarrow> string \<Rightarrow> nat \<Rightarrow> 'a option" where
  "advance k p s n = k (before p s n) (drop n s)"

primrec matchThen :: "rx_item list \<Rightarrow> 'a rx_rest \<Rightarrow> 'a rx_rest" where
  "matchThen [] k = k"
| "matchThen (i # is) k = (\<lambda>p s.
     case i of
       Exact l \<Rightarrow> if take (length l) s = l then advance (matchThen is k) p s (length l) else None
     | AnyCase l \<Rightarrow> if lowerCase (take (length l) s) = lowerCase l then advance (matchThen is k) p s (length l) else None
     | OneOf ls \<Rightarrow> firstSome (\<lambda>l. if lowerCase (take (length l) s) = lowerCase l
         then advance (matchThen is k) p s (length l) else None) ls
     | OneChar P \<Rightarrow> if s \<noteq> [] \<and> P (s ! 0) then advance (matchThen is k) p s 1 else None
     | Greedy P least \<Rightarrow> firstSome (advance (matchThen is k) p s)
         (rev [least ..< length (takeWhile P s) + 1])
     | Boundary \<Rightarrow> if wordChar p \<noteq> wordChar (if s = [] then None else Some (s ! 0)) then matchThen is k p s else None)"

text \<open>
  \<^verbatim>\<open>text.replace(/(kept)dropped/g, '$1' + new)\<close>: the matches from left to right. No pattern here matches the
  empty text.
\<close>

definition matchHere :: "rx_item list \<Rightarrow> rx_item list \<Rightarrow> (string \<times> string) rx_rest" where
  "matchHere kept dropped =
     matchThen kept (\<lambda>p1 s1. matchThen dropped (\<lambda>_ s2. Some (s1, s2)) p1 s1)"

function replaceAll :: "rx_item list \<Rightarrow> rx_item list \<Rightarrow> string \<Rightarrow> char option \<Rightarrow> string \<Rightarrow> string" where
  "replaceAll kept dropped new p [] = []"
| "replaceAll kept dropped new p (c # cs) =
     (case matchHere kept dropped p (c # cs) of
        Some (s1, s2) \<Rightarrow>
          if length s2 \<le> length cs
          then take (Suc (length cs) - length s1) (c # cs) @ new @
            replaceAll kept dropped new (before p (c # cs) (Suc (length cs) - length s2)) s2
          else c # replaceAll kept dropped new (Some c) cs
      | None \<Rightarrow> c # replaceAll kept dropped new (Some c) cs)"
  by pat_completeness auto
termination by (relation "measure (\<lambda>(_, _, _, _, s). length s)") auto

section \<open>Redaction\<close>

definition nonWhite :: "char \<Rightarrow> bool" where
  "nonWhite c \<longleftrightarrow> \<not> white c"

definition redactText :: "string \<Rightarrow> string" where
  "redactText value =
     (let a = replaceAll [] [AnyCase ''huddle-control://'', Greedy nonWhite 1] ''[redacted-control-link]'' None value;
          b = replaceAll [Boundary, AnyCase ''Bearer'', Greedy white 1]
            [Greedy (\<lambda>c. nonWhite c \<and> c \<noteq> CHR '','' \<and> c \<noteq> CHR '';'') 1] ''[redacted]'' None a;
          d = replaceAll [OneOf [''?'', ''&''], OneOf [''token'', ''code'', ''hostKey'', ''bootstrap'', ''secret'', ''key''], Exact ''='']
            [Greedy (\<lambda>c. nonWhite c \<and> c \<noteq> CHR ''&'' \<and> c \<noteq> CHR ''#'') 1] ''[redacted]'' None b
      in replaceAll [] [Boundary, Greedy (\<lambda>c. letter c \<or> digit c \<or> c \<in> set ''._%+-'') 1, Exact ''@'',
           Greedy (\<lambda>c. letter c \<or> digit c \<or> c \<in> set ''.-'') 1, Exact ''.'', Greedy letter 2, Boundary] ''[redacted-email]'' None d)"

definition noSlash :: "char \<Rightarrow> bool" where
  "noSlash c \<longleftrightarrow> c \<noteq> CHR ''/''"

definition parameterizePath :: "string \<Rightarrow> string" where
  "parameterizePath pathname =
     (let a = replaceAll [Exact ''/rooms/''] [Greedy noSlash 1] ''[room]'' None pathname;
          b = replaceAll [Exact ''/recordings/''] [Greedy noSlash 1] ''[recording]'' None a
      in replaceAll [Exact ''/remote-control/''] [Greedy noSlash 1] ''[session]'' None b)"

text \<open>\<open>U value\<close> is the origin and the path of \<^verbatim>\<open>new URL(value, 'https://huddle.invalid')\<close>, or \<open>None\<close> if it throws.\<close>

type_synonym url_parser = "string \<Rightarrow> (string \<times> string) option"

definition absoluteUrl :: "string \<Rightarrow> bool" where
  "absoluteUrl value \<longleftrightarrow> matchThen [OneChar letter, Greedy (\<lambda>c. letter c \<or> digit c \<or> c \<in> set ''+.-'') 0, Exact ''://'']
     (\<lambda>_ _. Some ()) None value \<noteq> None"

definition sanitizeUrl :: "url_parser \<Rightarrow> string \<Rightarrow> string" where
  "sanitizeUrl U value =
     (case U value of
        Some (origin, pathname) \<Rightarrow>
          (let path = parameterizePath pathname in if absoluteUrl value then origin @ path else path)
      | None \<Rightarrow> redactText (takeWhile (\<lambda>c. c \<noteq> CHR ''?'' \<and> c \<noteq> CHR ''#'') value))"

section \<open>Reports\<close>

record breadcrumb =
  bc_category :: "string option"
  bc_message :: "json option"
  bc_data :: "(string \<times> json) list option"
  bc_rest :: "(string \<times> json) list"


record exception_value =
  xv_value :: "json option"
  xv_rest :: "(string \<times> json) list"


fun redactMessage :: "json option \<Rightarrow> json option" where
  "redactMessage (Some (JStr s)) = Some (JStr (redactText s))"
| "redactMessage m = m"

definition safeData :: "url_parser \<Rightarrow> (string \<times> json) list \<Rightarrow> (string \<times> json) list" where
  "safeData U fs =
     concat (map (\<lambda>key. case map_of fs key of None \<Rightarrow> [] | Some v \<Rightarrow> [(key, v)]) [''method'', ''status_code'', ''from'', ''to'']) @
     (case map_of fs ''url'' of Some (JStr u) \<Rightarrow> [(''url'', JStr (sanitizeUrl U u))] | _ \<Rightarrow> [])"

definition scrubSentryBreadcrumb :: "url_parser \<Rightarrow> breadcrumb \<Rightarrow> breadcrumb option" where
  "scrubSentryBreadcrumb U b =
     (if bc_category b = Some ''console'' then None
      else
        let safe = (case bc_data b of None \<Rightarrow> [] | Some fs \<Rightarrow> safeData U fs) in
        Some (b\<lparr>bc_message := redactMessage (bc_message b), bc_data := if length safe > 0 then Some safe else None\<rparr>))"



section \<open>Room codes do not get out with a path\<close>































text \<open>The two ends of a navigation are addresses too, and they are kept as they are.\<close>

lemma navigation_kept:
  "map_option bc_data (scrubSentryBreadcrumb U \<lparr>bc_category = Some ''navigation'', bc_message = None,
     bc_data = Some [(''from'', JStr a), (''to'', JStr b)], bc_rest = []\<rparr>) =
   Some (Some [(''from'', JStr a), (''to'', JStr b)])"
  by (simp add: scrubSentryBreadcrumb_def safeData_def)

section \<open>Origins and the environment\<close>

definition LOCAL_HTTP_HOSTS :: "string list" where
  "LOCAL_HTTP_HOSTS = [''localhost'', ''127.0.0.1'', ''[::1]'']"

fun splitComma :: "string \<Rightarrow> string list" where
  "splitComma [] = [[]]"
| "splitComma (c # cs) =
     (if c = CHR '','' then [] # splitComma cs
      else case splitComma cs of [] \<Rightarrow> [[c]] | x # xs \<Rightarrow> (c # x) # xs)"

text \<open>A JavaScript set keeps the order in which its members came.\<close>

definition setAdd :: "'a list \<Rightarrow> 'a \<Rightarrow> 'a list" where
  "setAdd xs x = (if x \<in> set xs then xs else xs @ [x])"

definition setOf :: "'a list \<Rightarrow> 'a list" where
  "setOf xs = foldl setAdd [] xs"

text \<open>
  \<open>L origin\<close>: the protocol and the host name of \<^verbatim>\<open>new URL(origin)\<close>, and its origin once the host name has been
  replaced; \<open>None\<close> if the constructor throws.
\<close>

type_synonym location_parser = "string \<Rightarrow> (string \<times> string \<times> (string \<Rightarrow> string)) option"

definition configuredOrigins :: "string option \<Rightarrow> string list" where
  "configuredOrigins configured =
     filter (\<lambda>x. x \<noteq> []) (map trim (splitComma (case configured of None \<Rightarrow> ''http://localhost:3000'' | Some x \<Rightarrow> x)))"

definition loopback :: "location_parser \<Rightarrow> string \<Rightarrow> string list" where
  "loopback L origin =
     (case L origin of
        None \<Rightarrow> []
      | Some (protocol, hostname, withHost) \<Rightarrow>
          if protocol \<noteq> ''http:'' \<or> hostname \<notin> set LOCAL_HTTP_HOSTS then [] else map withHost LOCAL_HTTP_HOSTS)"

definition getCorsOrigins :: "location_parser \<Rightarrow> string option \<Rightarrow> string option \<Rightarrow> string list" where
  "getCorsOrigins L configured nodeEnv =
     (let origins = configuredOrigins configured in
      if nodeEnv = Some ''production'' then setOf origins
      else foldl (\<lambda>expanded origin. foldl setAdd expanded (loopback L origin)) (setOf origins) origins)"

fun isUrl :: "(string \<Rightarrow> string option) \<Rightarrow> json option \<Rightarrow> string list \<Rightarrow> bool" where
  "isUrl protocolOf (Some (JStr value)) protocols =
     (if trim value = [] then False
      else case protocolOf value of None \<Rightarrow> False | Some p \<Rightarrow> p \<in> set protocols)"
| "isUrl protocolOf _ protocols = False"

definition validateEnvironment :: "(string \<Rightarrow> string option) \<Rightarrow> (string \<Rightarrow> json option) \<Rightarrow> exn + (string \<Rightarrow> json option)" where
  "validateEnvironment protocolOf env =
     (if env ''NODE_ENV'' \<noteq> Some (JStr ''production'') then Inr env
      else
        let errors = filter (\<lambda>(key, protocol). \<not> isUrl protocolOf (env key) [protocol])
          [(''WEB_ORIGIN'', ''https:''), (''BETTER_AUTH_URL'', ''https:''), (''GOOGLE_DRIVE_REDIRECT_URI'', ''https:''),
           (''LIVEKIT_URL'', ''ws:''), (''LIVEKIT_PUBLIC_URL'', ''wss:'')] in
        if length errors > 0 then Inl (JsError ''Error'') else Inr env)"

lemma setAdd_set [simp]: "set (setAdd xs x) = insert x (set xs)"
  by (auto simp: setAdd_def)

lemma foldl_setAdd: "set (foldl setAdd ys xs) = set ys \<union> set xs"
  by (induction xs arbitrary: ys) auto

lemma distinct_setAdd: "distinct ys \<Longrightarrow> distinct (foldl setAdd ys xs)"
  by (induction xs arbitrary: ys) (auto simp: setAdd_def)

lemma foldl_expand:
  "set (foldl (\<lambda>expanded origin. foldl setAdd expanded (F origin)) ys xs) = set ys \<union> (\<Union>x \<in> set xs. set (F x))"
  by (induction xs arbitrary: ys) (auto simp: foldl_setAdd)

text \<open>
  The allowlist: in production exactly the configured origins; elsewhere also, for each configured loopback origin over
  plain HTTP, the same origin under the three names of the loopback host, and nothing else.
\<close>

lemma cors_production: "set (getCorsOrigins L configured (Some ''production'')) = set (configuredOrigins configured)"
  "distinct (getCorsOrigins L configured (Some ''production''))"
  by (simp_all add: getCorsOrigins_def setOf_def foldl_setAdd distinct_setAdd)

lemma cors_development:
  assumes "x \<in> set (getCorsOrigins L configured nodeEnv)" and "x \<notin> set (configuredOrigins configured)"
  shows "nodeEnv \<noteq> Some ''production'' \<and> (\<exists>origin hostname withHost host. origin \<in> set (configuredOrigins configured) \<and>
    L origin = Some (''http:'', hostname, withHost) \<and> hostname \<in> set LOCAL_HTTP_HOSTS \<and> host \<in> set LOCAL_HTTP_HOSTS \<and> x = withHost host)"
proof -
  have p: "nodeEnv \<noteq> Some ''production''" using assms cors_production(1) by metis
  then obtain origin where o: "origin \<in> set (configuredOrigins configured)" "x \<in> set (loopback L origin)"
    using assms by (auto simp: getCorsOrigins_def setOf_def foldl_setAdd foldl_expand Let_def)
  then obtain hostname withHost where "L origin = Some (''http:'', hostname, withHost)" "hostname \<in> set LOCAL_HTTP_HOSTS"
      "x \<in> withHost ` set LOCAL_HTTP_HOSTS"
    by (cases "L origin") (auto simp: loopback_def split: prod.splits if_splits)
  with o(1) p show ?thesis by (auto simp: image_iff)
qed

lemma environment_checked:
  assumes "validateEnvironment protocolOf env = Inr env'" and "env ''NODE_ENV'' = Some (JStr ''production'')"
  shows "env' = env \<and> isUrl protocolOf (env ''WEB_ORIGIN'') [''https:''] \<and> isUrl protocolOf (env ''BETTER_AUTH_URL'') [''https:''] \<and>
    isUrl protocolOf (env ''LIVEKIT_URL'') [''ws:''] \<and> isUrl protocolOf (env ''LIVEKIT_PUBLIC_URL'') [''wss:'']"
  using assms by (simp add: validateEnvironment_def split: if_splits)

end
