(* ===== verification/Spec2Isabelle.thy ===== *)
theory Spec2Isabelle
  imports RcProperties RcCodes RcSweeps ProtocolProperties CallLayout CloudProperties ChatSweep InviteLimit ChatUpload
    DeletionProperties ClientProperties StopRetry PresentProperties RecordProperties CallKeys Privacy
begin

text \<open>
  Huddle is a self-hosted meeting service: an API (\<^verbatim>\<open>apps/api\<close>, NestJS over Postgres and Redis), a web application
  (\<^verbatim>\<open>apps/web\<close>, Next.js), native Control Agents, and LiveKit for the media. This development models the API
  almost completely and the state machines of the web application that take part in its protocols.

  \<^bold>\<open>How the code is read.\<close> An API service method is an operation (\<open>op\<close> of \<open>Prelude\<close>): it takes a world and returns a
  value or an exception with the world it leaves. The world (\<open>World\<close>) is the Postgres tables as lists of rows, the Redis store,
  the clock, the state of LiveKit (any type) and a list of faults to come: the next store command fails
  when the list says so, so every error path of the services is a branch. An operation runs to its end before the next one; where
  the code awaits, what others may do meanwhile comes in through the operations of the environment (LiveKit, mail,
  HTTP, object storage), which are parameters and act on the whole world. A hook of the browser is a machine of
  events (\<open>Machines\<close>): an asynchronous function is one event up to its await and another, with any outcome,
  after it; after each event the effects of React run.

  \<^bold>\<open>The theories, bottom up.\<close>
  \<open>Faults\<close>: \<^verbatim>\<open>common/faults.ts\<close>, \<^verbatim>\<open>fault.filter.ts\<close>. \<open>Redis\<close>, \<open>Keys\<close>: the commands
  (\<^verbatim>\<open>redis/fake-redis.ts\<close> describes them) and key families; \<open>Store\<close> is the reasoning about live entries. \<open>Json\<close>: JavaScript
  values, dates and number texts.
  \<open>Maintenance\<close>, \<open>RoomState\<close>, \<open>RoomsRepo\<close>, \<open>Livekit\<close>, \<open>Rooms\<close>, \<open>Guards\<close>: maintenance mode, the waiting room,
  room creation, the LiveKit wrapper, \<^verbatim>\<open>rooms.service.ts\<close> and the guards.
  \<open>RcState\<close>, \<open>RcRepo\<close>, \<open>RemoteControl\<close>: Remote Control, that is the owner lock, pending request, grant and bootstrap
  codes in Redis, the audit rows in Postgres, and every handler of \<^verbatim>\<open>remote-control.service.ts\<close>.
  \<open>Secrets\<close>, \<open>Cloud\<close>, \<open>Drive\<close>, \<open>Recordings\<close>, \<open>Delivery\<close>, \<open>DeliveryRun\<close>: recordings and their delivery to Google Drive.
  \<open>Events\<close>: the LiveKit webhook and the sweep. \<open>AccountDeletion\<close>, \<open>Accounts\<close>, \<open>ChatFiles\<close>: accounts, invitations and the files
  of the chat. \<open>Endpoints\<close>: every controller with its guards and bodies, and the order in which the framework runs them.
  \<open>Privacy\<close>: error reports, allowed origins, environment checks.
  In the browser: \<open>ControlProtocol\<close> (\<^verbatim>\<open>lib/controlProtocol.ts\<close>), \<open>CallSignals\<close> (the two smaller protocols), \<open>CallLayout\<close>,
  \<open>ChatUpload\<close> (\<^verbatim>\<open>chatFiles.ts\<close>), \<open>WebRuntime\<close> (\<^verbatim>\<open>lib/http.ts\<close>, \<^verbatim>\<open>faults.ts\<close> and what is around them), and the hooks
  \<open>ControlClient\<close> (\<^verbatim>\<open>useRemoteControl.ts\<close>), \<open>PresentClient\<close>, \<open>RecordClient\<close>, \<open>CallKeys\<close>, with \<open>StopRetry\<close> for the loops that insist on a stop.

  \<^bold>\<open>How the parts interact.\<close> A request reaches a service through \<open>Endpoints\<close> and \<open>Guards\<close>. Remote Control is decided in
  the API: the lock in Redis serialises a room, the audit row is written under a unique index, and the session is published
  in the room metadata, which the browsers read (\<open>parseRemoteControlSession\<close>) and \<open>ControlClient\<close> follows. Leaving a call (webhook),
  maintenance and the timers end sessions through \<open>endGrant\<close>. Recordings start in \<open>Recordings\<close>, end through webhook
  events, are queued for delivery and claimed by the worker under a lease. Account deletion writes a durable job, which the sweep works off.

  \<^bold>\<open>What the lemmas show.\<close>
  \<open>RcInvariants\<close> has the locale \<open>rc_invariant\<close>: what every primitive of the Remote Control service keeps, the service keeps. Its
  instances are the kinds of the stored values, the life cycle of the audit rows, a bootstrap code that is spent (\<open>RcCodes\<close>) and the durable
  deletion job (\<open>DeletionProperties\<close>). \<open>RcLock\<close> is the abstract lock (\<open>control_lock\<close>) that the Redis commands refine.
  \<open>Redis\<close> has \<open>expiring_store\<close>, \<open>Machines\<close> has \<open>event_machine\<close>. \<open>RcEffects\<close>, \<open>RcSteps\<close> and \<open>Calm\<close> give the exact effect of each
  step; \<open>RcProperties\<close>, \<open>RcSessions\<close>, \<open>RcCodes\<close>, \<open>RcSweeps\<close> the promises of the handlers, one by one and over runs (\<open>RcRuns\<close>); \<open>RoomProperties\<close>, \<open>PlatformProperties\<close>, \<open>CloudProperties\<close>, \<open>ChatProperties\<close>,
  \<open>ChatSweep\<close>, \<open>ApiProperties\<close>, \<open>InviteLimit\<close> those of the other services; \<open>ClientProperties\<close>, \<open>PresentProperties\<close>, \<open>RecordProperties\<close> those of
  the hooks, for all sequences of events. \<open>Demo\<close> holds the data of the examples in which each theorem is applied.

  \<^bold>\<open>Hypotheses about the environment.\<close> \<open>quiet\<close>: a LiveKit call changes the state of LiveKit only, whether it answers or fails. \<open>env_keeps I\<close>, \<open>cloud_keeps I\<close>, \<open>files_keep I\<close>:
  whatever else happens during an outside call keeps the invariant \<open>I\<close>. \<open>lookups_quiet\<close>: looking up a login session or a
  LiveKit identity changes nothing that is modelled. \<open>unrepeated\<close>: random codes drawn later do not have the digest of a given one. Not \<open>stalled\<close>:
  Google does not ask for more of an upload for ever, again and again with an offset that does not move on. \<open>steady\<close>, \<open>serene\<close>: the
  services the upload of a chat file talks to answer as documented and nothing fails. \<open>punctual\<close>: timers do not fire early and at most a given time late; how long a request takes is not limited. \<open>Demo\<close> and the
  witnesses instantiate them.

  \<^bold>\<open>Loops.\<close> Loops over a finite list, the cutover among them, are structural recursion; the retries of room creation are bounded by
  the five attempts the code has. Three loops may run for ever and are partial functions, with None for not returning: the chunks of an upload to Drive (\<open>uploadLoop\<close>), the parts of
  a chat file (\<open>uploadParts\<close>) and the stop loops (\<open>retryLoop\<close>); the first returns unless it is \<open>stalled\<close>, the second
  returns under \<open>steady\<close>, and the third unless one of its tries never comes back (\<open>stuck_try\<close>).

  \<^bold>\<open>What modelling showed.\<close> Each of these is a lemma here. Reading an approved request releases the lock of the active session
  (\<open>late_read_releases_lock\<close>); a recording of unknown size passes the size check (\<open>upload_unknown\<close>); a force-take is obeyed from anyone (\<open>anyone_force_takes\<close>); a stop that
  timed out blocks later stops (\<open>stop_gets_stuck\<close>); disabled shortcuts still act (\<open>disabled_still_talks\<close>), and a key released over
  the remote desktop leaves the microphone open (\<open>release_over_desktop\<close>); the ends of a navigation are reported as they are (\<open>navigation_kept\<close>); short
  durations are padded (\<open>short_duration_padded\<close>); a paste is sent after a stop (\<open>late_paste\<close>); an early approval loses its code (\<open>early_approval_loses_code\<close>); a stop loop
  outlasts its ten seconds when a try does not come back (\<open>stuck_first_try\<close>), and the upload of a recording goes on for ever if Google acknowledges nothing
  new (\<open>stalled_upload_hangs\<close>).

  \<^bold>\<open>Not modelled.\<close> The React components and the hooks that only render or play sounds; the configuration of the authentication
  library, its sessions and passwords; mail texts and message texts (no code branches on them); module wiring, process start and interval timers; the Control Agents, which are
  native programs in other languages; LiveKit, Google, the object storage, ciphers, image processing and URL parsing, which
  are parameters. Interleaving inside an API operation is only what the environment does during its outside calls: two requests of the same process are not
  interleaved between their store commands, except where a lock, a unique index or a lease is itself the subject.
\<close>

end
